(* ===== verification/Prelude.thy ===== *)
theory Prelude
  imports Main "HOL-Library.Word"
begin

text \<open>
  Shared vocabulary of the development.

  \<^item> Machine integers: the Rust integer types at their width.
  \<^item> Results: Rust's \<open>Result\<close> is \<open>'e + 'a\<close> with \<open>Inl\<close> the error; \<open>and_then\<close> is the
    \<open>?\<close> operator and \<open>ok_or\<close> turns an option into a result.
  \<^item> Strings: \<open>String\<close> and \<open>&str\<close> are \<open>string\<close>. The text this library handles (header
    values, hexadecimal and base64 text, decimal amounts, method names) is ASCII, so one
    \<open>char\<close> is both one byte and one Unicode scalar value; the character classes below are
    those of Rust on the ASCII range.
  \<^item> The functions of \<open>str\<close> the code uses: trimming, splitting, prefixes, joining,
    decimal parsing and printing, with the lemmas the components share.
\<close>

section \<open>Lemma collections\<close>

named_theorems res_simps "elimination of successful results"
named_theorems chr_simps "character classes"

section \<open>Machine integers\<close>

type_synonym u8 = "8 word"
type_synonym u16 = "16 word"
type_synonym u32 = "32 word"
type_synonym u64 = "64 word"
type_synonym bytes = "u8 list"

abbreviation (input) u64_max :: nat where
  "u64_max \<equiv> 2 ^ 64 - 1"

abbreviation (input) u128_max :: nat where
  "u128_max \<equiv> 2 ^ 128 - 1"

lemma unat_u64_lt: "unat (w :: u64) < 2 ^ 64"
proof -
  have "unat w < 2 ^ LENGTH(64)" by (rule unsigned_less)
  then show ?thesis by simp
qed

definition saturating_sub :: "u64 \<Rightarrow> u64 \<Rightarrow> u64" where
  "saturating_sub a b = (if a < b then 0 else a - b)"

lemma saturating_sub_le: "saturating_sub a b \<le> a"
  by (simp add: saturating_sub_def word_sub_le linorder_not_less)

lemma unat_saturating_sub: "unat (saturating_sub a b) = unat a - unat b"
  by (auto simp: saturating_sub_def linorder_not_less word_less_nat_alt unat_sub_if_size)

lemma add_within_saturating_sub:
  assumes "n \<le> saturating_sub a b" and "b \<le> a"
  shows "unat (b + n) = unat b + unat n" and "b + n \<le> a"
proof -
  from assms(1) have "unat n \<le> unat a - unat b"
    by (simp add: word_le_nat_alt unat_saturating_sub)
  moreover have "unat b \<le> unat a"
    using assms(2) by (simp add: word_le_nat_alt)
  ultimately have le: "unat b + unat n \<le> unat a" by arith
  have "unat b + unat n < 2 ^ 64"
    using le unat_u64_lt [of a] by simp
  then show sum: "unat (b + n) = unat b + unat n"
    by (simp add: unat_word_ariths)
  show "b + n \<le> a"
    using le by (simp add: word_le_nat_alt sum)
qed

section \<open>Results\<close>

fun and_then :: "'e + 'a \<Rightarrow> ('a \<Rightarrow> 'e + 'b) \<Rightarrow> 'e + 'b" where
  "and_then (Inl e) f = Inl e"
| "and_then (Inr x) f = f x"

fun ok_or :: "'e \<Rightarrow> 'a option \<Rightarrow> 'e + 'a" where
  "ok_or e None = Inl e"
| "ok_or e (Some x) = Inr x"

fun map_err :: "('e \<Rightarrow> 'f) \<Rightarrow> 'e + 'a \<Rightarrow> 'f + 'a" where
  "map_err g (Inl e) = Inl (g e)"
| "map_err g (Inr x) = Inr x"

fun ok_opt :: "'e + 'a \<Rightarrow> 'a option" where
  "ok_opt (Inl e) = None"
| "ok_opt (Inr x) = Some x"

definition ensure :: "bool \<Rightarrow> 'e \<Rightarrow> 'e + unit" where
  "ensure c e = (if c then Inr () else Inl e)"

fun is_ok :: "'e + 'a \<Rightarrow> bool" where
  "is_ok (Inl e) = False"
| "is_ok (Inr x) = True"

lemma and_then_Inr [res_simps]:
  "and_then r f = Inr y \<longleftrightarrow> (\<exists>x. r = Inr x \<and> f x = Inr y)"
  by (cases r) auto

lemma ok_or_Inr [res_simps]: "ok_or e v = Inr x \<longleftrightarrow> v = Some x"
  by (cases v) auto

lemma map_err_Inr [res_simps]: "map_err g r = Inr x \<longleftrightarrow> r = Inr x"
  by (cases r) auto

lemma ok_opt_Some [res_simps]: "ok_opt r = Some x \<longleftrightarrow> r = Inr x"
  by (cases r) auto

lemma ok_opt_map_err [simp]: "ok_opt (map_err g r) = ok_opt r"
  by (cases r) auto

lemma ensure_Inr [res_simps]: "ensure c e = Inr x \<longleftrightarrow> c"
  by (simp add: ensure_def)

lemma ensure_cases [simp]: "ensure True e = Inr ()" "ensure False e = Inl e"
  by (simp_all add: ensure_def)

lemma is_ok_iff [res_simps]: "is_ok r \<longleftrightarrow> (\<exists>x. r = Inr x)"
  by (cases r) auto

section \<open>Character classes\<close>

abbreviation code :: "char \<Rightarrow> nat" where
  "code c \<equiv> of_char c"

definition is_whitespace :: "char \<Rightarrow> bool" where
  "is_whitespace c \<longleftrightarrow> code c = 32 \<or> (9 \<le> code c \<and> code c \<le> 13)"

definition is_ascii_digit :: "char \<Rightarrow> bool" where
  "is_ascii_digit c \<longleftrightarrow> 48 \<le> code c \<and> code c \<le> 57"

definition is_ascii_lowercase :: "char \<Rightarrow> bool" where
  "is_ascii_lowercase c \<longleftrightarrow> 97 \<le> code c \<and> code c \<le> 122"

definition is_ascii_uppercase :: "char \<Rightarrow> bool" where
  "is_ascii_uppercase c \<longleftrightarrow> 65 \<le> code c \<and> code c \<le> 90"

definition is_alphanumeric :: "char \<Rightarrow> bool" where
  "is_alphanumeric c \<longleftrightarrow> is_ascii_digit c \<or> is_ascii_lowercase c \<or> is_ascii_uppercase c"

definition to_lower :: "char \<Rightarrow> char" where
  "to_lower c = (if is_ascii_uppercase c then char_of (code c + 32) else c)"

definition to_upper :: "char \<Rightarrow> char" where
  "to_upper c = (if is_ascii_lowercase c then char_of (code c - 32) else c)"

definition to_ascii_lowercase :: "string \<Rightarrow> string" where
  "to_ascii_lowercase s = map to_lower s"

definition to_uppercase :: "string \<Rightarrow> string" where
  "to_uppercase s = map to_upper s"

definition eq_ignore_ascii_case :: "string \<Rightarrow> string \<Rightarrow> bool" where
  "eq_ignore_ascii_case s t \<longleftrightarrow> to_ascii_lowercase s = to_ascii_lowercase t"

text \<open>Evaluates a character given by its code.\<close>

lemmas char_eval = char_of_def bit_Suc_0_iff

lemma code_inject: "code c = code d \<longleftrightarrow> c = d"
  by simp

lemma code_char_of: "n < 256 \<Longrightarrow> code (char_of n) = n"
  by simp

lemma code_lt: "code c < 256"
  by (metis char_of_char of_char_mod_256 mod_less_divisor zero_less_numeral)

lemma to_lower_upper [chr_simps]:
  "is_ascii_uppercase c \<Longrightarrow> code (to_lower c) = code c + 32"
  by (simp add: to_lower_def is_ascii_uppercase_def)

lemma to_lower_other [simp]: "\<not> is_ascii_uppercase c \<Longrightarrow> to_lower c = c"
  by (simp add: to_lower_def)

lemma to_lower_not_upper [simp]: "\<not> is_ascii_uppercase (to_lower c)"
  by (auto simp: to_lower_def is_ascii_uppercase_def)

lemma to_lower_idem [simp]: "to_lower (to_lower c) = to_lower c"
  by simp

lemma to_ascii_lowercase_idem [simp]:
  "to_ascii_lowercase (to_ascii_lowercase s) = to_ascii_lowercase s"
  by (simp add: to_ascii_lowercase_def)

lemma to_ascii_lowercase_append [simp]:
  "to_ascii_lowercase (s @ t) = to_ascii_lowercase s @ to_ascii_lowercase t"
  by (simp add: to_ascii_lowercase_def)

lemma length_to_ascii_lowercase [simp]: "length (to_ascii_lowercase s) = length s"
  by (simp add: to_ascii_lowercase_def)

lemma eq_ignore_ascii_case_refl [simp]: "eq_ignore_ascii_case s s"
  by (simp add: eq_ignore_ascii_case_def)

lemma lowercase_fixed:
  assumes "\<forall>c \<in> set s. \<not> is_ascii_uppercase c"
  shows "to_ascii_lowercase s = s"
  using assms by (simp add: to_ascii_lowercase_def map_idI)

lemma digit_not_upper: "is_ascii_digit c \<Longrightarrow> \<not> is_ascii_uppercase c"
  by (simp add: is_ascii_digit_def is_ascii_uppercase_def)

section \<open>Bytes of a string\<close>

definition as_bytes :: "string \<Rightarrow> bytes" where
  "as_bytes s = map of_char s"

lemma of_char_word_inject: "(of_char c :: u8) = of_char d \<longleftrightarrow> c = d"
proof
  assume "(of_char c :: u8) = of_char d"
  then have "unat (of_char c :: u8) = unat (of_char d :: u8)" by simp
  then have "unat (of_nat (code c) :: u8) = unat (of_nat (code d) :: u8)"
    by (simp add: of_nat_of_char)
  then have "code c = code d"
    using code_lt [of c] code_lt [of d] by (simp add: unat_of_nat)
  then show "c = d" by simp
qed simp

lemma as_bytes_inject [simp]: "as_bytes s = as_bytes t \<longleftrightarrow> s = t"
  by (simp add: as_bytes_def inj_map_eq_map inj_def of_char_word_inject)

end
