(* ===== verification/Json.thy ===== *)
theory Json
  imports Rust_Str
begin

text \<open>
  \<open>serde_json::Value\<close> as a datatype, with the accessors the code calls on it and the shape of
  derived deserialization. An object is an association list in insertion order (the crate is
  built with \<open>preserve_order\<close>). An integer is \<open>JInt\<close>; any other number is \<open>JFloat\<close> with its
  text. Derived deserializers are modelled on JSON objects: a required field must be present
  and of its type, an optional field may be missing or \<open>null\<close>, an unknown field is ignored.
  The text parser and printer belong to the \<open>serde_json\<close> crate and are parameters (theory
  Crates); documents that repeat a key inside one object are outside the model.
\<close>

datatype json =
    JNull
  | JBool bool
  | JInt int
  | JFloat string
  | JStr string
  | JArr "json list"
  | JObj "(string \<times> json) list"

fun json_get :: "string \<Rightarrow> json \<Rightarrow> json option" where
  "json_get k (JObj kvs) = map_of kvs k"
| "json_get k _ = None"

fun as_str :: "json \<Rightarrow> string option" where
  "as_str (JStr s) = Some s"
| "as_str _ = None"

fun as_bool :: "json \<Rightarrow> bool option" where
  "as_bool (JBool b) = Some b"
| "as_bool _ = None"

fun as_u64 :: "json \<Rightarrow> u64 option" where
  "as_u64 (JInt n) = (if 0 \<le> n \<and> n < 2 ^ 64 then Some (of_int n) else None)"
| "as_u64 _ = None"

fun as_i64 :: "json \<Rightarrow> int option" where
  "as_i64 (JInt n) = (if - (2 ^ 63) \<le> n \<and> n < 2 ^ 63 then Some n else None)"
| "as_i64 _ = None"

fun as_u16 :: "json \<Rightarrow> u16 option" where
  "as_u16 (JInt n) = (if 0 \<le> n \<and> n < 2 ^ 16 then Some (of_int n) else None)"
| "as_u16 _ = None"

fun as_array :: "json \<Rightarrow> json list option" where
  "as_array (JArr vs) = Some vs"
| "as_array _ = None"

fun as_object :: "json \<Rightarrow> (string \<times> json) list option" where
  "as_object (JObj kvs) = Some kvs"
| "as_object _ = None"

definition get_str :: "string \<Rightarrow> json \<Rightarrow> string option" where
  "get_str k j = Option.bind (json_get k j) as_str"

text \<open>\<open>Map::insert\<close>: a present key keeps its position.\<close>

fun obj_insert :: "string \<Rightarrow> json \<Rightarrow> (string \<times> json) list \<Rightarrow> (string \<times> json) list" where
  "obj_insert k v [] = [(k, v)]"
| "obj_insert k v ((k', v') # kvs) =
     (if k' = k then (k, v) # kvs else (k', v') # obj_insert k v kvs)"

lemma map_of_obj_insert: "map_of (obj_insert k v kvs) = (map_of kvs)(k \<mapsto> v)"
  by (induction kvs) auto

text \<open>Fields of a derived struct.\<close>

definition field_req :: "(json \<Rightarrow> 'a option) \<Rightarrow> string \<Rightarrow> json \<Rightarrow> 'a option" where
  "field_req d k j = Option.bind (json_get k j) d"

definition field_opt :: "(json \<Rightarrow> 'a option) \<Rightarrow> string \<Rightarrow> json \<Rightarrow> 'a option option" where
  "field_opt d k j =
     (case json_get k j of
        None \<Rightarrow> Some None
      | Some JNull \<Rightarrow> Some None
      | Some v \<Rightarrow> map_option Some (d v))"

definition is_object :: "json \<Rightarrow> bool" where
  "is_object j \<longleftrightarrow> as_object j \<noteq> None"

text \<open>\<open>skip_serializing_if = "Option::is_none"\<close>.\<close>

definition opt_field :: "string \<Rightarrow> ('a \<Rightarrow> json) \<Rightarrow> 'a option \<Rightarrow> (string \<times> json) list" where
  "opt_field k enc v = (case v of None \<Rightarrow> [] | Some x \<Rightarrow> [(k, enc x)])"

lemma json_get_JObj_Cons [simp]:
  "json_get k (JObj ((k', v) # kvs)) = (if k' = k then Some v else json_get k (JObj kvs))"
  "json_get k (JObj []) = None"
  by auto

lemma field_req_JObj [simp]:
  "field_req d k (JObj kvs) = Option.bind (map_of kvs k) d"
  by (simp add: field_req_def)

lemma map_of_opt_field [simp]:
  "map_of (opt_field k' enc v) k = (if k' = k then map_option enc v else None)"
  by (auto simp: opt_field_def split: option.splits)

lemma field_opt_present:
  "map_of kvs k = map_option enc v \<Longrightarrow> (\<And>x. v = Some x \<Longrightarrow> enc x \<noteq> JNull \<and> d (enc x) = Some x)
   \<Longrightarrow> field_opt d k (JObj kvs) = Some v"
  by (cases v) (auto simp: field_opt_def split: json.splits)

end
