(* ===== verification/Crates.thy ===== *)
theory Crates
  imports Json
begin

text \<open>
  The external crates the library links, as one record of functions: their code is not part of
  this repository, so every definition that calls them takes the record as an argument.
  \<open>hex\<close>, \<open>base64\<close> (URL-safe without padding, and standard), \<open>serde_json\<close> with its
  canonicalizer, HMAC-SHA256, SHA-256, SHA3-256, ed25519, and the \<open>time\<close> crate. An error of a
  crate is the text its \<open>Display\<close> prints. \<open>de_error\<close> is the text of a deserialization error
  for a target type, \<open>status_text\<close> the text of an HTTP status. An instant of the \<open>time\<close> crate
  is an integer number of nanoseconds, as in \<open>OffsetDateTime\<close> comparisons.

  What the development relies on is stated as named predicates over the record:
  \<open>hex_ok\<close> (decoding inverts encoding and the text is hexadecimal digits), \<open>b64url_ok\<close>
  (decoding inverts encoding and the text is over the URL-safe alphabet) and \<open>ed25519_ok\<close>
  (a signature made with a key verifies under its public key; fixed lengths).
\<close>

record crates =
  hex_encode :: "bytes \<Rightarrow> string"
  hex_decode :: "string \<Rightarrow> string + bytes"
  b64url_encode :: "bytes \<Rightarrow> string"
  b64url_decode :: "string \<Rightarrow> string + bytes"
  b64std_encode :: "bytes \<Rightarrow> string"
  json_from_slice :: "bytes \<Rightarrow> string + json"
  json_to_string :: "json \<Rightarrow> string + string"
  json_to_string_pretty :: "json \<Rightarrow> string + string"
  json_canonical :: "json \<Rightarrow> string + string"
  de_error :: "string \<Rightarrow> json \<Rightarrow> string"
  hmac_sha256 :: "bytes \<Rightarrow> bytes \<Rightarrow> bytes"
  sha256 :: "bytes \<Rightarrow> bytes"
  sha3_256 :: "bytes \<Rightarrow> bytes"
  ed_key_valid :: "bytes \<Rightarrow> bool"
  ed_verify :: "bytes \<Rightarrow> bytes \<Rightarrow> bytes \<Rightarrow> bool"
  ed_public :: "bytes \<Rightarrow> bytes"
  ed_sign :: "bytes \<Rightarrow> bytes \<Rightarrow> bytes"
  rfc3339_parse :: "string \<Rightarrow> int option"
  rfc3339_format :: "int \<Rightarrow> string + string"
  iso8601_format :: "int \<Rightarrow> string + string"
  status_text :: "nat \<Rightarrow> string"

definition is_hex_digit :: "char \<Rightarrow> bool" where
  "is_hex_digit c \<longleftrightarrow> is_ascii_digit c \<or> (97 \<le> code c \<and> code c \<le> 102)
     \<or> (65 \<le> code c \<and> code c \<le> 70)"

definition is_b64url_char :: "char \<Rightarrow> bool" where
  "is_b64url_char c \<longleftrightarrow> is_alphanumeric c \<or> c = CHR ''-'' \<or> c = CHR ''_''"

definition hex_ok :: "crates \<Rightarrow> bool" where
  "hex_ok X \<longleftrightarrow> (\<forall>bs. hex_decode X (hex_encode X bs) = Inr bs
     \<and> list_all is_hex_digit (hex_encode X bs))"

definition b64url_ok :: "crates \<Rightarrow> bool" where
  "b64url_ok X \<longleftrightarrow> (\<forall>bs. b64url_decode X (b64url_encode X bs) = Inr bs
     \<and> list_all is_b64url_char (b64url_encode X bs))"

definition ed25519_ok :: "crates \<Rightarrow> bool" where
  "ed25519_ok X \<longleftrightarrow> (\<forall>sk. length (ed_public X sk) = 32 \<and> ed_key_valid X (ed_public X sk)
     \<and> (\<forall>m. length (ed_sign X sk m) = 64 \<and> ed_verify X (ed_public X sk) m (ed_sign X sk m)))"

text \<open>\<open>serde_json::from_slice::<T>\<close> and \<open>from_value::<T>\<close> for a target type named \<open>ty\<close> with
  derived deserializer \<open>d\<close>.\<close>

definition from_value :: "crates \<Rightarrow> string \<Rightarrow> (json \<Rightarrow> 'a option) \<Rightarrow> json \<Rightarrow> string + 'a" where
  "from_value X ty d j = ok_or (de_error X ty j) (d j)"

definition from_slice :: "crates \<Rightarrow> string \<Rightarrow> (json \<Rightarrow> 'a option) \<Rightarrow> bytes \<Rightarrow> string + 'a" where
  "from_slice X ty d bs = and_then (json_from_slice X bs) (from_value X ty d)"

lemma b64url_ok_decode: "b64url_ok X \<Longrightarrow> b64url_decode X (b64url_encode X bs) = Inr bs"
  by (simp add: b64url_ok_def)

lemma b64url_char_plain:
  "is_b64url_char c \<Longrightarrow> \<not> is_whitespace c \<and> c \<noteq> CHR '','' \<and> c \<noteq> CHR 0x22 \<and> c \<noteq> CHR 0x5C
     \<and> c \<noteq> CHR 0x0A \<and> c \<noteq> CHR 0x0D \<and> c \<noteq> CHR ''|''"
  by (auto simp: is_b64url_char_def is_alphanumeric_def is_ascii_digit_def is_ascii_lowercase_def
      is_ascii_uppercase_def is_whitespace_def)

lemma hex_ok_decode: "hex_ok X \<Longrightarrow> hex_decode X (hex_encode X bs) = Inr bs"
  by (simp add: hex_ok_def)

lemma strip_0x_hex: "list_all is_hex_digit s \<Longrightarrow> strip_0x s = s"
  by (cases s rule: remdups_adj.cases)
    (auto simp: strip_0x_def strip_prefix_def starts_with_def is_hex_digit_def is_ascii_digit_def)

lemma hex_text_decodes:
  "hex_ok X \<Longrightarrow> hex_decode X (strip_0x (hex_encode X bs)) = Inr bs"
  "hex_ok X \<Longrightarrow> hex_decode X (strip_0x (''0x'' @ hex_encode X bs)) = Inr bs"
  by (simp_all add: hex_ok_def strip_0x_hex strip_0x_prefixed)

end
