(* ===== verification/Errors.thy ===== *)
theory Errors
  imports Rust_Str
begin

text \<open>
  The two error types of the library and the RFC 9457 problem documents made from them:
  \<open>ErrorCode\<close> and \<open>VerificationError\<close> of src/protocol/traits/mod.rs, \<open>MppError\<close>,
  \<open>PaymentErrorDetails\<close> and \<open>to_problem_details\<close> of src/error.rs. Constructors of
  \<open>MppError\<close> carry the prefix \<open>Mpp\<close>, since several share their name with an error code.
  The variants that wrap an error of another crate carry the text it displays. The two
  \<open>u128\<close> amounts of \<open>AmountExceedsMax\<close> are natural numbers: they are only printed.
\<close>

section \<open>Error codes of a failed verification\<close>

datatype error_code =
    Expired
  | InvalidAmount
  | InvalidRecipient
  | TransactionFailed
  | NotFound
  | InvalidCredential
  | NetworkError
  | ChainIdMismatch
  | CredentialMismatch
  | ChannelNotFound
  | ChannelClosed
  | InsufficientBalance
  | InvalidPayload
  | InvalidSignature
  | AmountExceedsDeposit
  | DeltaTooSmall

fun error_code_as_str :: "error_code \<Rightarrow> string" where
  "error_code_as_str Expired = ''expired''"
| "error_code_as_str InvalidAmount = ''invalid-amount''"
| "error_code_as_str InvalidRecipient = ''invalid-recipient''"
| "error_code_as_str TransactionFailed = ''transaction-failed''"
| "error_code_as_str NotFound = ''not-found''"
| "error_code_as_str InvalidCredential = ''invalid-credential''"
| "error_code_as_str NetworkError = ''network-error''"
| "error_code_as_str ChainIdMismatch = ''chain-id-mismatch''"
| "error_code_as_str CredentialMismatch = ''credential-mismatch''"
| "error_code_as_str ChannelNotFound = ''channel-not-found''"
| "error_code_as_str ChannelClosed = ''channel-closed''"
| "error_code_as_str InsufficientBalance = ''insufficient-balance''"
| "error_code_as_str InvalidPayload = ''invalid-payload''"
| "error_code_as_str InvalidSignature = ''invalid-signature''"
| "error_code_as_str AmountExceedsDeposit = ''amount-exceeds-deposit''"
| "error_code_as_str DeltaTooSmall = ''delta-too-small''"

fun spec_code :: "error_code \<Rightarrow> string" where
  "spec_code Expired = ''payment-expired''"
| "spec_code InvalidAmount = ''payment-insufficient''"
| "spec_code InvalidRecipient = ''verification-failed''"
| "spec_code TransactionFailed = ''verification-failed''"
| "spec_code NotFound = ''verification-failed''"
| "spec_code InvalidCredential = ''malformed-credential''"
| "spec_code NetworkError = ''verification-failed''"
| "spec_code ChainIdMismatch = ''method-unsupported''"
| "spec_code CredentialMismatch = ''malformed-credential''"
| "spec_code ChannelNotFound = ''verification-failed''"
| "spec_code ChannelClosed = ''verification-failed''"
| "spec_code InsufficientBalance = ''payment-insufficient''"
| "spec_code InvalidPayload = ''malformed-credential''"
| "spec_code InvalidSignature = ''verification-failed''"
| "spec_code AmountExceedsDeposit = ''verification-failed''"
| "spec_code DeltaTooSmall = ''verification-failed''"

record verification_error =
  ve_message :: string
  ve_code :: "error_code option"
  ve_retryable :: bool

definition verification_error_new :: "string \<Rightarrow> verification_error" where
  "verification_error_new m = \<lparr>ve_message = m, ve_code = None, ve_retryable = False\<rparr>"

definition with_code :: "string \<Rightarrow> error_code \<Rightarrow> verification_error" where
  "with_code m c = \<lparr>ve_message = m, ve_code = Some c, ve_retryable = False\<rparr>"

definition retryable :: "verification_error \<Rightarrow> verification_error" where
  "retryable e = e\<lparr>ve_retryable := True\<rparr>"

definition ve_expired :: "string \<Rightarrow> verification_error" where
  "ve_expired m = with_code m Expired"

definition ve_invalid_amount :: "string \<Rightarrow> verification_error" where
  "ve_invalid_amount m = with_code m InvalidAmount"

definition ve_invalid_recipient :: "string \<Rightarrow> verification_error" where
  "ve_invalid_recipient m = with_code m InvalidRecipient"

definition ve_transaction_failed :: "string \<Rightarrow> verification_error" where
  "ve_transaction_failed m = with_code m TransactionFailed"

definition ve_not_found :: "string \<Rightarrow> verification_error" where
  "ve_not_found m = with_code m NotFound"

definition ve_chain_id_mismatch :: "string \<Rightarrow> verification_error" where
  "ve_chain_id_mismatch m = with_code m ChainIdMismatch"

definition ve_credential_mismatch :: "string \<Rightarrow> verification_error" where
  "ve_credential_mismatch m = with_code m CredentialMismatch"

definition ve_network_error :: "string \<Rightarrow> verification_error" where
  "ve_network_error m = retryable (with_code m NetworkError)"

definition ve_pending :: "string \<Rightarrow> verification_error" where
  "ve_pending m = retryable (with_code m NotFound)"

definition ve_channel_not_found :: "string \<Rightarrow> verification_error" where
  "ve_channel_not_found m = with_code m ChannelNotFound"

definition ve_channel_closed :: "string \<Rightarrow> verification_error" where
  "ve_channel_closed m = with_code m ChannelClosed"

definition ve_insufficient_balance :: "string \<Rightarrow> verification_error" where
  "ve_insufficient_balance m = with_code m InsufficientBalance"

definition ve_invalid_payload :: "string \<Rightarrow> verification_error" where
  "ve_invalid_payload m = with_code m InvalidPayload"

definition ve_invalid_signature :: "string \<Rightarrow> verification_error" where
  "ve_invalid_signature m = with_code m InvalidSignature"

definition ve_amount_exceeds_deposit :: "string \<Rightarrow> verification_error" where
  "ve_amount_exceeds_deposit m = with_code m AmountExceedsDeposit"

definition ve_delta_too_small :: "string \<Rightarrow> verification_error" where
  "ve_delta_too_small m = with_code m DeltaTooSmall"

fun verification_error_display :: "verification_error \<Rightarrow> string" where
  "verification_error_display e =
     (case ve_code e of
        Some c \<Rightarrow> ''['' @ error_code_as_str c @ ''] '' @ ve_message e
      | None \<Rightarrow> ve_message e)"

lemmas ve_defs = verification_error_new_def with_code_def retryable_def
  ve_expired_def ve_invalid_amount_def ve_invalid_recipient_def ve_transaction_failed_def
  ve_not_found_def ve_chain_id_mismatch_def ve_credential_mismatch_def ve_network_error_def
  ve_pending_def ve_channel_not_found_def ve_channel_closed_def ve_insufficient_balance_def
  ve_invalid_payload_def ve_invalid_signature_def ve_amount_exceeds_deposit_def ve_delta_too_small_def

section \<open>The library error\<close>

datatype mpp_error =
    MppAmountExceedsMax nat nat
  | MppInvalidAmount string
  | MppInvalidConfig string
  | MppHttp string
  | MppChainIdMismatch u64 u64
  | MppJson string
  | MppHexDecode string
  | MppBase64Decode string
  | MppUnsupportedPaymentMethod string
  | MppMissingHeader string
  | MppInvalidBase64Url string
  | MppMalformedCredential "string option"
  | MppInvalidChallenge "string option" "string option"
  | MppVerificationFailed "string option"
  | MppPaymentExpired "string option"
  | MppPaymentRequired "string option" "string option"
  | MppInvalidPayload "string option"
  | MppBadRequest "string option"
  | MppInsufficientBalance "string option"
  | MppInvalidSignature "string option"
  | MppSignerMismatch "string option"
  | MppAmountExceedsDeposit "string option"
  | MppDeltaTooSmall "string option"
  | MppChannelNotFound "string option"
  | MppChannelClosed "string option"
  | MppIo string
  | MppInvalidUtf8 string
  | MppSystemTime string

abbreviation dquote :: string where
  "dquote \<equiv> [CHR 0x22]"

fun format_malformed_credential :: "string option \<Rightarrow> string" where
  "format_malformed_credential (Some r) = ''Credential is malformed: '' @ r @ ''.''"
| "format_malformed_credential None = ''Credential is malformed.''"

fun format_verification_failed :: "string option \<Rightarrow> string" where
  "format_verification_failed (Some r) = ''Payment verification failed: '' @ r @ ''.''"
| "format_verification_failed None = ''Payment verification failed.''"

fun format_payment_expired :: "string option \<Rightarrow> string" where
  "format_payment_expired (Some r) = ''Payment expired at '' @ r @ ''.''"
| "format_payment_expired None = ''Payment has expired.''"

fun format_invalid_payload :: "string option \<Rightarrow> string" where
  "format_invalid_payload (Some r) = ''Credential payload is invalid: '' @ r @ ''.''"
| "format_invalid_payload None = ''Credential payload is invalid.''"

fun format_bad_request :: "string option \<Rightarrow> string" where
  "format_bad_request (Some r) = ''Bad request: '' @ r @ ''.''"
| "format_bad_request None = ''Bad request.''"

fun format_insufficient_balance :: "string option \<Rightarrow> string" where
  "format_insufficient_balance (Some r) = ''Insufficient balance: '' @ r @ ''.''"
| "format_insufficient_balance None = ''Insufficient balance.''"

fun format_invalid_signature :: "string option \<Rightarrow> string" where
  "format_invalid_signature (Some r) = ''Invalid signature: '' @ r @ ''.''"
| "format_invalid_signature None = ''Invalid signature.''"

fun format_signer_mismatch :: "string option \<Rightarrow> string" where
  "format_signer_mismatch (Some r) = ''Signer mismatch: '' @ r @ ''.''"
| "format_signer_mismatch None = ''Signer is not authorized for this channel.''"

fun format_amount_exceeds_deposit :: "string option \<Rightarrow> string" where
  "format_amount_exceeds_deposit (Some r) = ''Amount exceeds deposit: '' @ r @ ''.''"
| "format_amount_exceeds_deposit None = ''Voucher amount exceeds channel deposit.''"

fun format_delta_too_small :: "string option \<Rightarrow> string" where
  "format_delta_too_small (Some r) = ''Delta too small: '' @ r @ ''.''"
| "format_delta_too_small None = ''Amount increase below minimum voucher delta.''"

fun format_channel_not_found :: "string option \<Rightarrow> string" where
  "format_channel_not_found (Some r) = ''Channel not found: '' @ r @ ''.''"
| "format_channel_not_found None = ''No channel with this ID exists.''"

fun format_channel_closed :: "string option \<Rightarrow> string" where
  "format_channel_closed (Some r) = ''Channel closed: '' @ r @ ''.''"
| "format_channel_closed None = ''Channel is closed.''"

fun format_invalid_challenge :: "string option \<Rightarrow> string option \<Rightarrow> string" where
  "format_invalid_challenge cid reason =
     ''Challenge'' @ (case cid of Some i \<Rightarrow> '' '' @ dquote @ i @ dquote | None \<Rightarrow> [])
     @ '' is invalid'' @ (case reason of Some r \<Rightarrow> '': '' @ r | None \<Rightarrow> []) @ ''.''"

fun format_payment_required :: "string option \<Rightarrow> string option \<Rightarrow> string" where
  "format_payment_required realm description =
     ''Payment is required''
     @ (case realm of Some r \<Rightarrow> '' for '' @ dquote @ r @ dquote | None \<Rightarrow> [])
     @ (case description of Some d \<Rightarrow> '' ('' @ d @ '')'' | None \<Rightarrow> []) @ ''.''"

fun mpp_error_display :: "mpp_error \<Rightarrow> string" where
  "mpp_error_display (MppAmountExceedsMax required mx) =
     ''Required amount ('' @ show_nat required @ '') exceeds maximum allowed ('' @ show_nat mx @ '')''"
| "mpp_error_display (MppInvalidAmount m) = ''Invalid amount: '' @ m"
| "mpp_error_display (MppInvalidConfig m) = ''Invalid configuration: '' @ m"
| "mpp_error_display (MppHttp m) = ''HTTP error: '' @ m"
| "mpp_error_display (MppChainIdMismatch expected got) =
     ''Chain ID mismatch: challenge requires '' @ show_u64 expected
     @ '', provider connected to '' @ show_u64 got"
| "mpp_error_display (MppJson m) = ''JSON error: '' @ m"
| "mpp_error_display (MppHexDecode m) = ''Hex decoding error: '' @ m"
| "mpp_error_display (MppBase64Decode m) = ''Base64 decoding error: '' @ m"
| "mpp_error_display (MppUnsupportedPaymentMethod m) = ''Unsupported payment method: '' @ m"
| "mpp_error_display (MppMissingHeader m) = ''Missing required header: '' @ m"
| "mpp_error_display (MppInvalidBase64Url m) = ''Invalid base64url: '' @ m"
| "mpp_error_display (MppMalformedCredential r) = format_malformed_credential r"
| "mpp_error_display (MppInvalidChallenge i r) = format_invalid_challenge i r"
| "mpp_error_display (MppVerificationFailed r) = format_verification_failed r"
| "mpp_error_display (MppPaymentExpired r) = format_payment_expired r"
| "mpp_error_display (MppPaymentRequired rl d) = format_payment_required rl d"
| "mpp_error_display (MppInvalidPayload r) = format_invalid_payload r"
| "mpp_error_display (MppBadRequest r) = format_bad_request r"
| "mpp_error_display (MppInsufficientBalance r) = format_insufficient_balance r"
| "mpp_error_display (MppInvalidSignature r) = format_invalid_signature r"
| "mpp_error_display (MppSignerMismatch r) = format_signer_mismatch r"
| "mpp_error_display (MppAmountExceedsDeposit r) = format_amount_exceeds_deposit r"
| "mpp_error_display (MppDeltaTooSmall r) = format_delta_too_small r"
| "mpp_error_display (MppChannelNotFound r) = format_channel_not_found r"
| "mpp_error_display (MppChannelClosed r) = format_channel_closed r"
| "mpp_error_display (MppIo m) = ''IO error: '' @ m"
| "mpp_error_display (MppInvalidUtf8 m) = ''Invalid UTF-8 in response body''"
| "mpp_error_display (MppSystemTime m) = ''System time error: '' @ m"

definition invalid_challenge_reason :: "string \<Rightarrow> mpp_error" where
  "invalid_challenge_reason r = MppInvalidChallenge None (Some r)"

definition mpp_invalid_payload :: "string \<Rightarrow> mpp_error" where
  "mpp_invalid_payload r = MppInvalidPayload (Some r)"

fun problem_type_suffix :: "mpp_error \<Rightarrow> string option" where
  "problem_type_suffix (MppMalformedCredential _) = Some ''malformed-credential''"
| "problem_type_suffix (MppInvalidChallenge _ _) = Some ''invalid-challenge''"
| "problem_type_suffix (MppVerificationFailed _) = Some ''verification-failed''"
| "problem_type_suffix (MppPaymentExpired _) = Some ''payment-expired''"
| "problem_type_suffix (MppPaymentRequired _ _) = Some ''payment-required''"
| "problem_type_suffix (MppInvalidPayload _) = Some ''invalid-payload''"
| "problem_type_suffix (MppBadRequest _) = Some ''bad-request''"
| "problem_type_suffix (MppInsufficientBalance _) = Some ''session/insufficient-balance''"
| "problem_type_suffix (MppInvalidSignature _) = Some ''session/invalid-signature''"
| "problem_type_suffix (MppSignerMismatch _) = Some ''session/signer-mismatch''"
| "problem_type_suffix (MppAmountExceedsDeposit _) = Some ''session/amount-exceeds-deposit''"
| "problem_type_suffix (MppDeltaTooSmall _) = Some ''session/delta-too-small''"
| "problem_type_suffix (MppChannelNotFound _) = Some ''session/channel-not-found''"
| "problem_type_suffix (MppChannelClosed _) = Some ''session/channel-finalized''"
| "problem_type_suffix _ = None"

definition is_payment_problem :: "mpp_error \<Rightarrow> bool" where
  "is_payment_problem e \<longleftrightarrow> problem_type_suffix e \<noteq> None"

section \<open>RFC 9457 problem documents\<close>

definition core_problem_type_base :: string where
  "core_problem_type_base = ''https://paymentauth.org/problems''"

definition session_problem_type_base :: string where
  "session_problem_type_base = ''https://paymentauth.org/problems/session''"

record payment_error_details =
  problem_type :: string
  problem_title :: string
  problem_status :: nat
  problem_detail :: string
  problem_challenge_id :: "string option"

definition payment_error_details_new :: "string \<Rightarrow> payment_error_details" where
  "payment_error_details_new uri = \<lparr>problem_type = uri, problem_title = [], problem_status = 402,
     problem_detail = [], problem_challenge_id = None\<rparr>"

definition details_core :: "string \<Rightarrow> payment_error_details" where
  "details_core suffix = payment_error_details_new (core_problem_type_base @ ''/'' @ suffix)"

definition details_session :: "string \<Rightarrow> payment_error_details" where
  "details_session suffix = payment_error_details_new (session_problem_type_base @ ''/'' @ suffix)"

definition problem_of :: "payment_error_details \<Rightarrow> string \<Rightarrow> nat \<Rightarrow> payment_error_details" where
  "problem_of d title status = d\<lparr>problem_title := title, problem_status := status\<rparr>"

fun problem_base :: "mpp_error \<Rightarrow> payment_error_details" where
  "problem_base (MppMalformedCredential _) =
     problem_of (details_core ''malformed-credential'') ''MalformedCredentialError'' 402"
| "problem_base (MppInvalidChallenge _ _) =
     problem_of (details_core ''invalid-challenge'') ''InvalidChallengeError'' 402"
| "problem_base (MppVerificationFailed _) =
     problem_of (details_core ''verification-failed'') ''VerificationFailedError'' 402"
| "problem_base (MppPaymentExpired _) =
     problem_of (details_core ''payment-expired'') ''PaymentExpiredError'' 402"
| "problem_base (MppPaymentRequired _ _) =
     problem_of (details_core ''payment-required'') ''PaymentRequiredError'' 402"
| "problem_base (MppInvalidPayload _) =
     problem_of (details_core ''invalid-payload'') ''InvalidPayloadError'' 402"
| "problem_base (MppBadRequest _) =
     problem_of (details_core ''bad-request'') ''BadRequestError'' 400"
| "problem_base (MppInsufficientBalance _) =
     problem_of (details_session ''insufficient-balance'') ''InsufficientBalanceError'' 402"
| "problem_base (MppInvalidSignature _) =
     problem_of (details_session ''invalid-signature'') ''InvalidSignatureError'' 402"
| "problem_base (MppSignerMismatch _) =
     problem_of (details_session ''signer-mismatch'') ''SignerMismatchError'' 402"
| "problem_base (MppAmountExceedsDeposit _) =
     problem_of (details_session ''amount-exceeds-deposit'') ''AmountExceedsDepositError'' 402"
| "problem_base (MppDeltaTooSmall _) =
     problem_of (details_session ''delta-too-small'') ''DeltaTooSmallError'' 402"
| "problem_base (MppChannelNotFound _) =
     problem_of (details_session ''channel-not-found'') ''ChannelNotFoundError'' 410"
| "problem_base (MppChannelClosed _) =
     problem_of (details_session ''channel-finalized'') ''ChannelClosedError'' 410"
| "problem_base _ =
     problem_of (details_core ''internal-error'') ''InternalError'' 402"

fun embedded_id :: "mpp_error \<Rightarrow> string option" where
  "embedded_id (MppInvalidChallenge i _) = i"
| "embedded_id _ = None"

definition to_problem_details :: "mpp_error \<Rightarrow> string option \<Rightarrow> payment_error_details" where
  "to_problem_details e challenge_id =
     (let problem = (problem_base e)\<lparr>problem_detail := mpp_error_display e\<rparr> in
      case (case challenge_id of Some i \<Rightarrow> Some i | None \<Rightarrow> embedded_id e) of
        Some i \<Rightarrow> problem\<lparr>problem_challenge_id := Some i\<rparr>
      | None \<Rightarrow> problem)"

section \<open>From a verification error to a library error\<close>

fun mpp_of_code :: "error_code option \<Rightarrow> string \<Rightarrow> mpp_error" where
  "mpp_of_code (Some Expired) _ = MppPaymentExpired None"
| "mpp_of_code (Some InvalidCredential) m = MppMalformedCredential (Some m)"
| "mpp_of_code (Some ChannelNotFound) m = MppChannelNotFound (Some m)"
| "mpp_of_code (Some ChannelClosed) m = MppChannelClosed (Some m)"
| "mpp_of_code (Some InsufficientBalance) m = MppInsufficientBalance (Some m)"
| "mpp_of_code (Some InvalidPayload) m = MppInvalidPayload (Some m)"
| "mpp_of_code (Some InvalidSignature) m = MppInvalidSignature (Some m)"
| "mpp_of_code (Some AmountExceedsDeposit) m = MppAmountExceedsDeposit (Some m)"
| "mpp_of_code (Some DeltaTooSmall) m = MppDeltaTooSmall (Some m)"
| "mpp_of_code _ m = MppVerificationFailed (Some m)"

definition mpp_error_from :: "verification_error \<Rightarrow> mpp_error" where
  "mpp_error_from e = mpp_of_code (ve_code e) (ve_message e)"

definition verification_to_problem :: "verification_error \<Rightarrow> string option \<Rightarrow> payment_error_details" where
  "verification_to_problem e challenge_id = to_problem_details (mpp_error_from e) challenge_id"

lemma problem_type_to_problem_details [simp]:
  "problem_type (to_problem_details e cid) = problem_type (problem_base e)"
  "problem_status (to_problem_details e cid) = problem_status (problem_base e)"
  "problem_detail (to_problem_details e cid) = mpp_error_display e"
  by (simp_all add: to_problem_details_def Let_def split: option.splits)

lemmas details_defs = details_core_def details_session_def payment_error_details_new_def
  problem_of_def core_problem_type_base_def session_problem_type_base_def

lemma error_code_as_str_inject: "error_code_as_str c = error_code_as_str d \<longleftrightarrow> c = d"
  by (cases c; cases d) simp_all

text \<open>
  The RFC 9457 type of every library error that is a payment problem is the core base URI,
  a slash and the suffix that \<open>problem_type_suffix\<close> reports; every other error has the
  internal-error type. The two tables of src/error.rs agree on all 28 variants.
\<close>

theorem problem_type_agrees_with_suffix:
  "problem_type (to_problem_details e cid) = core_problem_type_base @ ''/'' @
     (case problem_type_suffix e of Some s \<Rightarrow> s | None \<Rightarrow> ''internal-error'')"
  by (cases e) (simp_all add: details_defs)

text \<open>
  A failed verification is reported with status 410 exactly when its code says that the
  channel is missing or closed, and with status 402 otherwise; every verification error
  becomes a payment problem, never an internal error.
\<close>

theorem verification_problem_status:
  "problem_status (verification_to_problem e cid) =
     (if ve_code e = Some ChannelNotFound \<or> ve_code e = Some ChannelClosed then 410 else 402)
   \<and> is_payment_problem (mpp_error_from e)"
proof (cases "ve_code e")
  case None
  then show ?thesis
    by (simp add: verification_to_problem_def mpp_error_from_def is_payment_problem_def details_defs)
next
  case (Some c)
  then show ?thesis
    by (cases c) (simp_all add: verification_to_problem_def mpp_error_from_def
        is_payment_problem_def details_defs)
qed

end
