(* ===== verification/Core_Types.thy ===== *)
theory Core_Types
  imports Crates Errors
begin

text \<open>
  The protocol's core types, src/protocol/core/types.rs: method and intent names, JSON carried
  as base64url text, the detection of the payment protocol, payload types and receipt status.
  \<open>MethodName\<close> and \<open>IntentName\<close> are built in lower case by \<open>new\<close>; deserialization is
  transparent and keeps the text as it is.
\<close>

section \<open>Names\<close>

datatype method_name = MethodName (method_as_str: string)

definition method_name_new :: "string \<Rightarrow> method_name" where
  "method_name_new name = MethodName (to_ascii_lowercase name)"

definition method_eq_ignore_ascii_case :: "method_name \<Rightarrow> string \<Rightarrow> bool" where
  "method_eq_ignore_ascii_case m other = eq_ignore_ascii_case (method_as_str m) other"

definition method_is_valid :: "method_name \<Rightarrow> bool" where
  "method_is_valid m \<longleftrightarrow> method_as_str m \<noteq> [] \<and> list_all is_ascii_lowercase (method_as_str m)"

datatype intent_name = IntentName (intent_as_str: string)

definition intent_name_new :: "string \<Rightarrow> intent_name" where
  "intent_name_new name = IntentName (to_ascii_lowercase name)"

definition is_charge :: "intent_name \<Rightarrow> bool" where
  "is_charge i = eq_ignore_ascii_case (intent_as_str i) ''charge''"

definition is_session :: "intent_name \<Rightarrow> bool" where
  "is_session i = eq_ignore_ascii_case (intent_as_str i) ''session''"

lemma method_name_new_idem: "method_name_new (method_as_str (method_name_new s)) = method_name_new s"
  by (simp add: method_name_new_def)

lemma lowercase_not_upper: "is_ascii_lowercase c \<Longrightarrow> \<not> is_ascii_uppercase c"
  by (simp add: is_ascii_lowercase_def is_ascii_uppercase_def)

lemma method_name_new_lowercase:
  "list_all is_ascii_lowercase s \<Longrightarrow> method_name_new s = MethodName s"
  by (simp add: method_name_new_def lowercase_fixed list_all_iff lowercase_not_upper)

section \<open>JSON as base64url text\<close>

datatype base64url_json = Base64UrlJson (raw: string)

definition base64url_encode :: "crates \<Rightarrow> bytes \<Rightarrow> string" where
  "base64url_encode X data = b64url_encode X data"

definition base64url_decode :: "crates \<Rightarrow> string \<Rightarrow> mpp_error + bytes" where
  "base64url_decode X input =
     map_err (\<lambda>e. MppInvalidBase64Url (''Invalid base64url: '' @ e)) (b64url_decode X input)"

definition from_raw :: "string \<Rightarrow> base64url_json" where
  "from_raw s = Base64UrlJson s"

definition b64json_from_value :: "crates \<Rightarrow> json \<Rightarrow> mpp_error + base64url_json" where
  "b64json_from_value X v =
     and_then (map_err MppJson (json_canonical X v))
       (\<lambda>text. Inr (Base64UrlJson (base64url_encode X (as_bytes text))))"

text \<open>\<open>from_typed\<close> serializes the value first; \<open>enc\<close> is its derived serializer.\<close>

definition b64json_from_typed ::
  "crates \<Rightarrow> ('a \<Rightarrow> json) \<Rightarrow> 'a \<Rightarrow> mpp_error + base64url_json" where
  "b64json_from_typed X enc v =
     and_then (map_err MppJson (json_canonical X (enc v)))
       (\<lambda>text. Inr (Base64UrlJson (base64url_encode X (as_bytes text))))"

definition decode_value :: "crates \<Rightarrow> base64url_json \<Rightarrow> mpp_error + json" where
  "decode_value X b =
     and_then (base64url_decode X (raw b))
       (\<lambda>bs. map_err (\<lambda>e. invalid_challenge_reason (''Invalid JSON in base64url: '' @ e))
               (json_from_slice X bs))"

definition b64json_decode ::
  "crates \<Rightarrow> string \<Rightarrow> (json \<Rightarrow> 'a option) \<Rightarrow> base64url_json \<Rightarrow> mpp_error + 'a" where
  "b64json_decode X ty d b =
     and_then (base64url_decode X (raw b))
       (\<lambda>bs. map_err (\<lambda>e. invalid_challenge_reason (''Failed to decode base64url JSON: '' @ e))
               (from_slice X ty d bs))"

definition b64json_is_empty :: "base64url_json \<Rightarrow> bool" where
  "b64json_is_empty b \<longleftrightarrow> raw b = []"

text \<open>The canonical text of a document reads back as a document with the same content, maybe
  with the members of objects in another order: the derived deserializer \<open>d\<close> sees no
  difference. This is the law of the JSON crates that a value survives \<open>from_typed\<close> and
  \<open>decode\<close> under.\<close>

definition reads_back :: "crates \<Rightarrow> (json \<Rightarrow> 'a option) \<Rightarrow> json \<Rightarrow> bool" where
  "reads_back X d j \<longleftrightarrow>
     (case json_canonical X j of
        Inl _ \<Rightarrow> True
      | Inr text \<Rightarrow> (case json_from_slice X (as_bytes text) of Inl _ \<Rightarrow> False | Inr j' \<Rightarrow> d j' = d j))"

lemma b64json_from_typed_decode:
  assumes "b64json_from_typed X enc v = Inr b" and "b64url_ok X" and "reads_back X d (enc v)"
    and "d (enc v) = Some w"
  shows "b64json_decode X ty d b = Inr w"
  using assms by (auto simp: b64json_from_typed_def b64json_decode_def base64url_encode_def
      base64url_decode_def from_slice_def from_value_def res_simps b64url_ok_decode reads_back_def
      split: sum.splits)

section \<open>Payment protocol detection\<close>

datatype payment_protocol = WebPaymentAuth

text \<open>\<open>s.get(..n)\<close>: a prefix of \<open>n\<close> bytes, if the string is long enough.\<close>

definition get_to :: "nat \<Rightarrow> string \<Rightarrow> string option" where
  "get_to n s = (if n \<le> length s then Some (take n s) else None)"

definition is_some_and :: "'a option \<Rightarrow> ('a \<Rightarrow> bool) \<Rightarrow> bool" where
  "is_some_and v p = (case v of None \<Rightarrow> False | Some x \<Rightarrow> p x)"

definition detect :: "string option \<Rightarrow> payment_protocol option" where
  "detect www_authenticate =
     (case www_authenticate of
        Some header \<Rightarrow>
          if is_some_and (get_to 8 (trim_start header))
               (\<lambda>prefix. eq_ignore_ascii_case prefix ''payment '')
          then Some WebPaymentAuth else None
      | None \<Rightarrow> None)"

fun detect_any :: "string list \<Rightarrow> payment_protocol option" where
  "detect_any [] = None"
| "detect_any (h # hs) =
     (case detect (Some h) of Some p \<Rightarrow> Some p | None \<Rightarrow> detect_any hs)"

section \<open>Payload type and receipt status\<close>

datatype payload_type = PtTransaction | PtHash

fun payload_type_to_json :: "payload_type \<Rightarrow> json" where
  "payload_type_to_json PtTransaction = JStr ''transaction''"
| "payload_type_to_json PtHash = JStr ''hash''"

text \<open>A derived unit variant is its name as a string, or an object from the name to \<open>null\<close>.\<close>

definition unit_variant :: "string \<Rightarrow> json \<Rightarrow> bool" where
  "unit_variant name j \<longleftrightarrow> j = JStr name \<or> j = JObj [(name, JNull)]"

definition payload_type_of_json :: "json \<Rightarrow> payload_type option" where
  "payload_type_of_json j =
     (if unit_variant ''transaction'' j then Some PtTransaction
      else if unit_variant ''hash'' j then Some PtHash else None)"

datatype receipt_status = Success

definition receipt_status_of_json :: "json \<Rightarrow> receipt_status option" where
  "receipt_status_of_json j = (if unit_variant ''success'' j then Some Success else None)"

lemma payload_type_roundtrip [simp]: "payload_type_of_json (payload_type_to_json t) = Some t"
  by (cases t) (simp_all add: payload_type_of_json_def unit_variant_def)

lemma detect_any_iff: "detect_any hs \<noteq> None \<longleftrightarrow> (\<exists>h \<in> set hs. detect (Some h) \<noteq> None)"
  by (induction hs) (auto split: option.splits)

end
