(* ===== verification/Sample_Crates.thy ===== *)
theory Sample_Crates
  imports Crates
begin

text \<open>
  One concrete instance of the crates record, for the closed instances of the theorems that
  assume something of a crate. Hexadecimal coding is the real one and stands in for base64url
  as well, which shares its laws; the hash functions and signatures are transparent stand-ins
  that satisfy the laws of \<open>ed25519_ok\<close>; instants are printed and read in decimal. JSON text
  is set per instance by a record update.
\<close>

definition hex_digit_of :: "nat \<Rightarrow> char" where
  "hex_digit_of n = char_of (if n < 10 then 48 + n else 87 + n)"

definition hex_digit_val :: "char \<Rightarrow> nat" where
  "hex_digit_val c =
     (if is_ascii_digit c then code c - 48
      else if 97 \<le> code c then code c - 87 else code c - 55)"

fun sample_hex_encode :: "bytes \<Rightarrow> string" where
  "sample_hex_encode [] = []"
| "sample_hex_encode (b # bs) =
     hex_digit_of (unat b div 16) # hex_digit_of (unat b mod 16) # sample_hex_encode bs"

fun sample_hex_decode :: "string \<Rightarrow> string + bytes" where
  "sample_hex_decode [] = Inr []"
| "sample_hex_decode [c] = Inl ''Odd number of digits''"
| "sample_hex_decode (c # d # s) =
     (if is_hex_digit c \<and> is_hex_digit d
      then and_then (sample_hex_decode s)
             (\<lambda>bs. Inr (of_nat (16 * hex_digit_val c + hex_digit_val d) # bs))
      else Inl ''Invalid character'')"

definition sample_public :: "bytes \<Rightarrow> bytes" where
  "sample_public sk = take 32 (sk @ replicate 32 0)"

definition sample_mac :: "bytes \<Rightarrow> bytes \<Rightarrow> bytes" where
  "sample_mac pk m = take 64 (take 32 (rev m) @ pk @ replicate 64 0)"

definition sample_crates :: crates where
  "sample_crates = \<lparr>
     hex_encode = sample_hex_encode, hex_decode = sample_hex_decode,
     b64url_encode = sample_hex_encode, b64url_decode = sample_hex_decode,
     b64std_encode = sample_hex_encode,
     json_from_slice = (\<lambda>_. Inl ''no JSON''), json_to_string = (\<lambda>_. Inl ''no JSON''),
     json_to_string_pretty = (\<lambda>_. Inl ''no JSON''), json_canonical = (\<lambda>_. Inl ''no JSON''), de_error = (\<lambda>ty _. ''invalid '' @ ty),
     hmac_sha256 = (\<lambda>k m. k @ m), sha256 = (\<lambda>m. m), sha3_256 = (\<lambda>m. take 32 (m @ replicate 32 0)),
     ed_key_valid = (\<lambda>_. True), ed_verify = (\<lambda>pk m s. s = sample_mac pk m),
     ed_public = sample_public, ed_sign = (\<lambda>sk m. sample_mac (sample_public sk) m),
     rfc3339_parse = (\<lambda>s. map_option int (parse_uint u64_max s)),
     rfc3339_format = (\<lambda>n. Inr (show_nat (nat n))),
     iso8601_format = (\<lambda>n. Inr (show_nat (nat n))),
     status_text = show_nat\<rparr>"

lemma hex_digit_of_digit: "n < 16 \<Longrightarrow> is_hex_digit (hex_digit_of n)"
  by (auto simp: is_hex_digit_def hex_digit_of_def is_ascii_digit_def)

lemma hex_digit_val_of: "n < 16 \<Longrightarrow> hex_digit_val (hex_digit_of n) = n"
  by (auto simp: hex_digit_val_def hex_digit_of_def is_ascii_digit_def)

lemma u8_split: "of_nat (16 * (unat (b :: u8) div 16) + unat b mod 16) = b"
  by (simp add: mult.commute)

lemma u8_halves: "unat (b :: u8) div 16 < 16" "unat b mod 16 < 16"
proof -
  have "unat b < 2 ^ LENGTH(8)" by (rule unsigned_less)
  then show "unat b div 16 < 16" by simp
qed simp

lemma sample_hex_roundtrip:
  "sample_hex_decode (sample_hex_encode bs) = Inr bs"
  "list_all is_hex_digit (sample_hex_encode bs)"
  by (induction bs) (simp_all add: hex_digit_of_digit hex_digit_val_of u8_halves u8_split
      del: of_nat_add of_nat_mult)

lemma hex_digit_b64url: "is_hex_digit c \<Longrightarrow> is_b64url_char c"
  by (auto simp: is_hex_digit_def is_b64url_char_def is_alphanumeric_def is_ascii_lowercase_def
      is_ascii_uppercase_def)

lemma sample_hex_b64url: "list_all is_b64url_char (sample_hex_encode bs)"
  using sample_hex_roundtrip(2) by (rule list.pred_mono_strong) (rule hex_digit_b64url)

lemma length_sample_public: "length (sample_public sk) = 32"
  by (simp add: sample_public_def)

lemma length_sample_mac: "length (sample_mac pk m) = 64"
  by (simp add: sample_mac_def)

text \<open>Any instance that keeps the coding and signature functions satisfies the laws.\<close>

lemma sample_laws:
  "hex_encode X = sample_hex_encode \<Longrightarrow> hex_decode X = sample_hex_decode \<Longrightarrow> hex_ok X"
  "b64url_encode X = sample_hex_encode \<Longrightarrow> b64url_decode X = sample_hex_decode \<Longrightarrow> b64url_ok X"
  by (simp_all add: hex_ok_def b64url_ok_def sample_hex_roundtrip sample_hex_b64url)

lemma sample_crates_hex_ok [simp]: "hex_ok sample_crates"
  by (rule sample_laws) (simp_all add: sample_crates_def)

lemma sample_crates_b64url_ok [simp]: "b64url_ok sample_crates"
  by (rule sample_laws) (simp_all add: sample_crates_def)

lemma sample_crates_ed25519_ok [simp]: "ed25519_ok sample_crates"
  by (simp add: ed25519_ok_def sample_crates_def length_sample_public length_sample_mac)

end
