(* ===== verification/Challenge.thy ===== *)
theory Challenge
  imports Core_Types Sample_Crates
begin

text \<open>
  The protocol envelope, src/protocol/core/challenge.rs: \<open>PaymentChallenge\<close>, its echo in a
  credential, the HMAC-bound challenge identifier, \<open>PaymentPayload\<close>, \<open>PaymentCredential\<close> and
  \<open>Receipt\<close>, with their JSON forms. The current instant is the argument \<open>now\<close> and its text the
  argument \<open>now_text\<close>. The lemmas show that the identifier pins every field it covers, that the
  constant-time comparison is equality, and that the JSON forms round-trip.
\<close>

section \<open>Challenge and echo\<close>

record payment_challenge =
  ch_id :: string
  ch_realm :: string
  ch_method :: method_name
  ch_intent :: intent_name
  ch_request :: base64url_json
  ch_expires :: "string option"
  ch_description :: "string option"
  ch_digest :: "string option"
  ch_opaque :: "base64url_json option"

record challenge_echo =
  echo_id :: string
  echo_realm :: string
  echo_method :: method_name
  echo_intent :: intent_name
  echo_request :: base64url_json
  echo_expires :: "string option"
  echo_digest :: "string option"
  echo_opaque :: "base64url_json option"

fun unwrap_or :: "'a \<Rightarrow> 'a option \<Rightarrow> 'a" where
  "unwrap_or d None = d"
| "unwrap_or d (Some x) = x"

definition challenge_hmac_input ::
  "string \<Rightarrow> string \<Rightarrow> string \<Rightarrow> string \<Rightarrow> string option \<Rightarrow> string option \<Rightarrow> string option \<Rightarrow> string" where
  "challenge_hmac_input realm method intent request expires digest opaque =
     join ''|'' [realm, method, intent, request,
                 unwrap_or [] expires, unwrap_or [] digest, unwrap_or [] opaque]"

definition compute_challenge_id ::
  "crates \<Rightarrow> string \<Rightarrow> string \<Rightarrow> string \<Rightarrow> string \<Rightarrow> string \<Rightarrow> string option \<Rightarrow> string option
   \<Rightarrow> string option \<Rightarrow> string" where
  "compute_challenge_id X secret_key realm method intent request expires digest opaque =
     base64url_encode X (hmac_sha256 X (as_bytes secret_key)
       (as_bytes (challenge_hmac_input realm method intent request expires digest opaque)))"

definition challenge_new ::
  "string \<Rightarrow> string \<Rightarrow> method_name \<Rightarrow> intent_name \<Rightarrow> base64url_json \<Rightarrow> payment_challenge" where
  "challenge_new cid realm method intent request =
     \<lparr>ch_id = cid, ch_realm = realm, ch_method = method, ch_intent = intent,
      ch_request = request, ch_expires = None, ch_description = None, ch_digest = None,
      ch_opaque = None\<rparr>"

definition with_secret_key ::
  "crates \<Rightarrow> string \<Rightarrow> string \<Rightarrow> method_name \<Rightarrow> intent_name \<Rightarrow> base64url_json \<Rightarrow> payment_challenge" where
  "with_secret_key X secret_key realm method intent request =
     \<lparr>ch_id = compute_challenge_id X secret_key realm (method_as_str method) (intent_as_str intent)
                (raw request) None None None,
      ch_realm = realm, ch_method = method, ch_intent = intent,
      ch_request = request, ch_expires = None, ch_description = None, ch_digest = None,
      ch_opaque = None\<rparr>"

definition with_secret_key_full ::
  "crates \<Rightarrow> string \<Rightarrow> string \<Rightarrow> method_name \<Rightarrow> intent_name \<Rightarrow> base64url_json \<Rightarrow> string option
   \<Rightarrow> string option \<Rightarrow> string option \<Rightarrow> base64url_json option \<Rightarrow> payment_challenge" where
  "with_secret_key_full X secret_key realm method intent request expires digest description opaque =
     \<lparr>ch_id = compute_challenge_id X secret_key realm (method_as_str method) (intent_as_str intent)
                (raw request) expires digest (map_option raw opaque),
      ch_realm = realm, ch_method = method, ch_intent = intent,
      ch_request = request, ch_expires = expires, ch_description = description,
      ch_digest = digest, ch_opaque = opaque\<rparr>"

definition with_expires :: "string \<Rightarrow> payment_challenge \<Rightarrow> payment_challenge" where
  "with_expires e c = c\<lparr>ch_expires := Some e\<rparr>"

definition with_description :: "string \<Rightarrow> payment_challenge \<Rightarrow> payment_challenge" where
  "with_description d c = c\<lparr>ch_description := Some d\<rparr>"

definition with_digest :: "string \<Rightarrow> payment_challenge \<Rightarrow> payment_challenge" where
  "with_digest d c = c\<lparr>ch_digest := Some d\<rparr>"

definition with_opaque :: "base64url_json \<Rightarrow> payment_challenge \<Rightarrow> payment_challenge" where
  "with_opaque q c = c\<lparr>ch_opaque := Some q\<rparr>"

definition effective_expires :: "payment_challenge \<Rightarrow> string option" where
  "effective_expires c = ch_expires c"

definition to_echo :: "payment_challenge \<Rightarrow> challenge_echo" where
  "to_echo c = \<lparr>echo_id = ch_id c, echo_realm = ch_realm c, echo_method = ch_method c,
     echo_intent = ch_intent c, echo_request = ch_request c, echo_expires = ch_expires c,
     echo_digest = ch_digest c, echo_opaque = ch_opaque c\<rparr>"

text \<open>The loop over the zipped bytes, with \<open>result\<close> its accumulator.\<close>

fun xor_fold :: "u8 \<Rightarrow> bytes \<Rightarrow> bytes \<Rightarrow> u8" where
  "xor_fold result (x # xs) (y # ys) = xor_fold (or result (xor x y)) xs ys"
| "xor_fold result _ _ = result"

definition constant_time_eq :: "string \<Rightarrow> string \<Rightarrow> bool" where
  "constant_time_eq a b =
     (if length a \<noteq> length b then False else xor_fold 0 (as_bytes a) (as_bytes b) = 0)"

definition challenge_verify :: "crates \<Rightarrow> string \<Rightarrow> payment_challenge \<Rightarrow> bool" where
  "challenge_verify X secret_key c =
     constant_time_eq (ch_id c)
       (compute_challenge_id X secret_key (ch_realm c) (method_as_str (ch_method c))
          (intent_as_str (ch_intent c)) (raw (ch_request c)) (ch_expires c) (ch_digest c)
          (map_option raw (ch_opaque c)))"

section \<open>Expiry and validation\<close>

definition is_expired :: "crates \<Rightarrow> int \<Rightarrow> payment_challenge \<Rightarrow> bool" where
  "is_expired X now c =
     (case ch_expires c of
        None \<Rightarrow> False
      | Some s \<Rightarrow> (case rfc3339_parse X s of
                     Some expires \<Rightarrow> expires \<le> now
                   | None \<Rightarrow> True))"

definition expires_at :: "crates \<Rightarrow> payment_challenge \<Rightarrow> int option" where
  "expires_at X c = Option.bind (ch_expires c) (rfc3339_parse X)"

definition squote :: string where
  "squote = [CHR 0x27]"

definition validate_for_charge ::
  "crates \<Rightarrow> int \<Rightarrow> payment_challenge \<Rightarrow> string \<Rightarrow> mpp_error + unit" where
  "validate_for_charge X now c method =
     (if \<not> method_eq_ignore_ascii_case (ch_method c) method
      then Inl (MppUnsupportedPaymentMethod
             (''Payment method '' @ squote @ method_as_str (ch_method c) @ squote
              @ '' is not supported. Supported methods: '' @ method))
      else if \<not> is_charge (ch_intent c)
      then Inl (MppInvalidChallenge (Some (ch_id c))
             (Some (''Only '' @ squote @ ''charge'' @ squote @ '' intent is supported, got: ''
                @ intent_as_str (ch_intent c))))
      else if is_expired X now c then Inl (MppPaymentExpired (ch_expires c))
      else Inr ())"

definition validate_for_session ::
  "crates \<Rightarrow> int \<Rightarrow> payment_challenge \<Rightarrow> string \<Rightarrow> mpp_error + unit" where
  "validate_for_session X now c method =
     (if \<not> method_eq_ignore_ascii_case (ch_method c) method
      then Inl (MppUnsupportedPaymentMethod
             (''Payment method '' @ squote @ method_as_str (ch_method c) @ squote
              @ '' is not supported. Supported methods: '' @ method))
      else if \<not> is_session (ch_intent c)
      then Inl (MppInvalidChallenge (Some (ch_id c))
             (Some (''Expected '' @ squote @ ''session'' @ squote @ '' intent, got: ''
                @ intent_as_str (ch_intent c))))
      else if is_expired X now c then Inl (MppPaymentExpired (ch_expires c))
      else Inr ())"

section \<open>Payload of a charge\<close>

record payment_payload =
  payload_type :: payload_type
  payload_data :: string

definition payload_transaction :: "string \<Rightarrow> payment_payload" where
  "payload_transaction signature = \<lparr>payload_type = PtTransaction, payload_data = signature\<rparr>"

definition payload_hash :: "string \<Rightarrow> payment_payload" where
  "payload_hash h = \<lparr>payload_type = PtHash, payload_data = h\<rparr>"

definition tx_hash :: "payment_payload \<Rightarrow> string option" where
  "tx_hash p = (if payload_type p = PtHash then Some (payload_data p) else None)"

definition signed_tx :: "payment_payload \<Rightarrow> string option" where
  "signed_tx p = (if payload_type p = PtTransaction then Some (payload_data p) else None)"

definition is_transaction :: "payment_payload \<Rightarrow> bool" where
  "is_transaction p \<longleftrightarrow> payload_type p = PtTransaction"

definition is_hash :: "payment_payload \<Rightarrow> bool" where
  "is_hash p \<longleftrightarrow> payload_type p = PtHash"

definition payment_payload_to_json :: "payment_payload \<Rightarrow> json" where
  "payment_payload_to_json p =
     JObj [(''type'', payload_type_to_json (payload_type p)),
           (case payload_type p of
              PtTransaction \<Rightarrow> (''signature'', JStr (payload_data p))
            | PtHash \<Rightarrow> (''hash'', JStr (payload_data p)))]"

definition payment_payload_of_json :: "json \<Rightarrow> payment_payload option" where
  "payment_payload_of_json j =
     Option.bind (field_req payload_type_of_json ''type'' j) (\<lambda>t.
     Option.bind (field_opt as_str ''signature'' j) (\<lambda>signature.
     Option.bind (field_opt as_str ''hash'' j) (\<lambda>h.
     Option.bind (case t of PtTransaction \<Rightarrow> signature | PtHash \<Rightarrow> h) (\<lambda>data.
     Some \<lparr>payload_type = t, payload_data = data\<rparr>))))"

lemma payment_payload_roundtrip [simp]:
  "payment_payload_of_json (payment_payload_to_json p) = Some p"
  by (cases p; cases "payload_type p")
    (auto simp: payment_payload_of_json_def payment_payload_to_json_def field_opt_def
      payload_type_of_json_def unit_variant_def)

section \<open>Credential\<close>

record payment_credential =
  cred_challenge :: challenge_echo
  cred_source :: "string option"
  cred_payload :: json

text \<open>The payload argument is the serialized payload.\<close>

definition credential_new :: "challenge_echo \<Rightarrow> json \<Rightarrow> payment_credential" where
  "credential_new echo payload =
     \<lparr>cred_challenge = echo, cred_source = None, cred_payload = payload\<rparr>"

definition credential_with_source :: "challenge_echo \<Rightarrow> string \<Rightarrow> json \<Rightarrow> payment_credential" where
  "credential_with_source echo source payload =
     \<lparr>cred_challenge = echo, cred_source = Some source, cred_payload = payload\<rparr>"

definition charge_payload :: "crates \<Rightarrow> payment_credential \<Rightarrow> mpp_error + payment_payload" where
  "charge_payload X c =
     map_err (\<lambda>e. mpp_invalid_payload (''not a charge payload: '' @ e))
       (from_value X ''PaymentPayload'' payment_payload_of_json (cred_payload c))"

definition payload_as ::
  "crates \<Rightarrow> string \<Rightarrow> (json \<Rightarrow> 'a option) \<Rightarrow> payment_credential \<Rightarrow> mpp_error + 'a" where
  "payload_as X ty d c =
     map_err (\<lambda>e. mpp_invalid_payload (''payload deserialization failed: '' @ e))
       (from_value X ty d (cred_payload c))"

definition evm_did :: "u64 \<Rightarrow> string \<Rightarrow> string" where
  "evm_did chain_id address = ''did:pkh:eip155:'' @ show_u64 chain_id @ '':'' @ address"

section \<open>Receipt\<close>

record receipt =
  rc_status :: receipt_status
  rc_method :: method_name
  rc_timestamp :: string
  rc_reference :: string

text \<open>\<open>now_iso8601\<close>: the clock reading in ISO 8601, or the epoch if it can't be formatted.\<close>

definition now_iso8601 :: "crates \<Rightarrow> int \<Rightarrow> string" where
  "now_iso8601 X now =
     (case iso8601_format X now of Inr s \<Rightarrow> s | Inl _ \<Rightarrow> ''1970-01-01T00:00:00Z'')"

definition receipt_success :: "crates \<Rightarrow> int \<Rightarrow> string \<Rightarrow> string \<Rightarrow> receipt" where
  "receipt_success X now method reference =
     \<lparr>rc_status = Success, rc_method = method_name_new method,
      rc_timestamp = now_iso8601 X now, rc_reference = reference\<rparr>"

definition receipt_is_success :: "receipt \<Rightarrow> bool" where
  "receipt_is_success r \<longleftrightarrow> rc_status r = Success"

text \<open>\<open>extract_tx_hash\<close> of a receipt's base64url text.\<close>

definition extract_tx_hash :: "crates \<Rightarrow> string \<Rightarrow> string option" where
  "extract_tx_hash X receipt_b64 =
     Option.bind (ok_opt (b64url_decode X (str_trim receipt_b64))) (\<lambda>decoded.
     Option.bind (ok_opt (json_from_slice X decoded)) (\<lambda>j.
     Option.bind (get_str ''txHash'' j) (\<lambda>s. if s = [] then None else Some s)))"

section \<open>Constant-time comparison\<close>

lemma word_or_zero: "or (a :: u8) b = 0 \<longleftrightarrow> a = 0 \<and> b = 0"
  by (auto simp: bit_eq_iff bit_simps)

lemma word_xor_zero: "xor (a :: u8) b = 0 \<longleftrightarrow> a = b"
  by (auto simp: bit_eq_iff bit_simps)

lemma xor_fold_zero:
  "length xs = length ys \<Longrightarrow> xor_fold r xs ys = 0 \<longleftrightarrow> r = 0 \<and> xs = ys"
  by (induction r xs ys rule: xor_fold.induct) (auto simp: word_or_zero word_xor_zero)

lemma constant_time_eq_correct: "constant_time_eq a b \<longleftrightarrow> a = b"
proof (cases "length a = length b")
  case True
  then have "length (as_bytes a) = length (as_bytes b)" by (simp add: as_bytes_def)
  with True show ?thesis by (simp add: constant_time_eq_def xor_fold_zero)
next
  case False
  then show ?thesis by (auto simp: constant_time_eq_def)
qed

section \<open>The identifier pins the challenge\<close>

definition pipe_free :: "payment_challenge \<Rightarrow> bool" where
  "pipe_free c \<longleftrightarrow> (\<forall>s \<in> {ch_realm c, method_as_str (ch_method c), intent_as_str (ch_intent c),
      raw (ch_request c), unwrap_or [] (ch_expires c), unwrap_or [] (ch_digest c),
      unwrap_or [] (map_option raw (ch_opaque c))}. CHR ''|'' \<notin> set s)"

definition challenge_input :: "payment_challenge \<Rightarrow> string" where
  "challenge_input c = challenge_hmac_input (ch_realm c) (method_as_str (ch_method c))
     (intent_as_str (ch_intent c)) (raw (ch_request c)) (ch_expires c) (ch_digest c)
     (map_option raw (ch_opaque c))"

lemma count_join: "ws \<noteq> [] \<Longrightarrow>
  count_list (join [c] ws) c + 1 = sum_list (map (\<lambda>w. count_list w c) ws) + length ws"
  by (induction "[c]" ws rule: join.induct) auto

lemma join_inject_left:
  assumes "join [c] ws = join [c] vs" and "length ws = length vs"
    and "\<forall>w \<in> set ws. c \<notin> set w" and "ws \<noteq> []"
  shows "ws = vs"
proof -
  have vs: "vs \<noteq> []" using assms(2,4) by auto
  have "sum_list (map (\<lambda>w. count_list w c) ws) = 0"
    using assms(3) by (auto simp: sum_list_eq_0_iff count_list_0_iff)
  with count_join [OF assms(4), of c] count_join [OF vs, of c] assms(1,2)
  have "sum_list (map (\<lambda>w. count_list w c) vs) = 0" by simp
  then have "\<forall>w \<in> set vs. c \<notin> set w"
    by (auto simp: sum_list_eq_0_iff count_list_0_iff)
  with assms vs show ?thesis by (metis join_inject)
qed

lemma challenge_hmac_input_inject:
  assumes "challenge_hmac_input r m i q e d p = challenge_hmac_input r' m' i' q' e' d' p'"
    and "\<forall>s \<in> {r, m, i, q, unwrap_or [] e, unwrap_or [] d, unwrap_or [] p}. CHR ''|'' \<notin> set s"
  shows "r = r' \<and> m = m' \<and> i = i' \<and> q = q' \<and> unwrap_or [] e = unwrap_or [] e'
     \<and> unwrap_or [] d = unwrap_or [] d' \<and> unwrap_or [] p = unwrap_or [] p'"
proof -
  have "[r, m, i, q, unwrap_or [] e, unwrap_or [] d, unwrap_or [] p]
      = [r', m', i', q', unwrap_or [] e', unwrap_or [] d', unwrap_or [] p']"
    using assms(1) unfolding challenge_hmac_input_def
    by (rule join_inject_left) (use assms(2) in auto)
  then show ?thesis by simp
qed

lemma b64url_encode_inject:
  assumes "b64url_ok X" and "b64url_encode X a = b64url_encode X b"
  shows "a = b"
  by (metis assms b64url_ok_decode sum.inject(2))

lemma challenge_verify_iff:
  "challenge_verify X k c \<longleftrightarrow> ch_id c = base64url_encode X (hmac_sha256 X (as_bytes k)
     (as_bytes (challenge_input c)))"
  by (simp add: challenge_verify_def constant_time_eq_correct compute_challenge_id_def challenge_input_def)

text \<open>
  The comparison that folds the XOR of all byte pairs decides exactly string equality,
  for strings of any and of different lengths.
\<close>

theorem constant_time_eq_iff: "constant_time_eq a b \<longleftrightarrow> a = b"
  by (rule constant_time_eq_correct)

text \<open>
  A challenge made with all its optional fields verifies under the key it was made with,
  and setting the description afterwards, which the identifier does not cover, keeps it valid.
\<close>

theorem with_secret_key_full_verifies:
  "challenge_verify X k (with_secret_key_full X k realm m i q e d desc p)
   \<and> challenge_verify X k (with_description t (with_secret_key_full X k realm m i q e d desc p))"
  by (simp add: challenge_verify_def with_secret_key_full_def with_description_def
      constant_time_eq_correct)

text \<open>
  C26: the identifier pins every field it covers. If an issued challenge has no \<open>|\<close> in its
  fields, and HMAC-SHA256 does not collide on the two messages, then any challenge that
  verifies under the same key with the same identifier has the same realm, method, intent and
  request, and the same expiry, digest and opaque data up to absent against empty. The other
  challenge is arbitrary: no shifting of text across the separators gets past the check.
\<close>

theorem challenge_id_binds:
  assumes "challenge_verify X k c" and "challenge_verify X k c'" and "ch_id c = ch_id c'"
    and "pipe_free c" and "b64url_ok X"
    and "hmac_sha256 X (as_bytes k) (as_bytes (challenge_input c))
         = hmac_sha256 X (as_bytes k) (as_bytes (challenge_input c'))
       \<Longrightarrow> challenge_input c = challenge_input c'"
  shows "ch_realm c = ch_realm c' \<and> ch_method c = ch_method c' \<and> ch_intent c = ch_intent c'
    \<and> ch_request c = ch_request c' \<and> unwrap_or [] (ch_expires c) = unwrap_or [] (ch_expires c')
    \<and> unwrap_or [] (ch_digest c) = unwrap_or [] (ch_digest c')
    \<and> unwrap_or [] (map_option raw (ch_opaque c)) = unwrap_or [] (map_option raw (ch_opaque c'))"
proof -
  have "b64url_encode X (hmac_sha256 X (as_bytes k) (as_bytes (challenge_input c)))
      = b64url_encode X (hmac_sha256 X (as_bytes k) (as_bytes (challenge_input c')))"
    using assms(1-3) by (simp add: challenge_verify_iff base64url_encode_def)
  from assms(6) [OF b64url_encode_inject [OF assms(5) this]]
  have "challenge_input c = challenge_input c'" .
  from challenge_hmac_input_inject [OF this [unfolded challenge_input_def]] assms(4)
  show ?thesis
    by (auto simp: pipe_free_def method_name.expand intent_name.expand base64url_json.expand)
qed

theorem challenge_id_binds_witness:
  "\<exists>c c'. challenge_verify sample_crates ''k'' c \<and> pipe_free c \<and> c \<noteq> c'
     \<and> ch_id c = ch_id c' \<and> ch_request c = ch_request c'"
proof -
  let ?c = "with_secret_key_full sample_crates ''k'' ''api'' (method_name_new ''movement'')
      (intent_name_new ''charge'') (from_raw ''e30'') (Some ''9'') None (Some ''one'') None"
  let ?d = "with_description ''two'' ?c"
  have h: "challenge_verify sample_crates ''k'' ?c" "challenge_verify sample_crates ''k'' ?d"
    by (simp_all add: challenge_verify_def with_secret_key_full_def with_description_def
        constant_time_eq_correct)
  have p: "pipe_free ?c"
    by (simp add: pipe_free_def with_secret_key_full_def method_name_new_def intent_name_new_def
        to_ascii_lowercase_def to_lower_def is_ascii_uppercase_def from_raw_def)
  have i: "ch_id ?c = ch_id ?d" and ne: "?c \<noteq> ?d"
    by (simp_all add: with_description_def with_secret_key_full_def)
  have "ch_request ?c = ch_request ?d"
    using challenge_id_binds [OF h i p sample_crates_b64url_ok] by (simp add: sample_crates_def)
  with h p i ne show ?thesis by blast
qed

text \<open>
  Absent and empty are the same message. The identifier of a challenge without expiry,
  digest or opaque data is also the identifier of the challenge with those fields present and
  empty, under every key and every crate.
\<close>

theorem absent_and_empty_share_id:
  "compute_challenge_id X k realm m i q None None None
   = compute_challenge_id X k realm m i q (Some []) (Some []) (Some [])"
  by (simp add: compute_challenge_id_def challenge_hmac_input_def)

text \<open>
  A challenge is usable for a charge exactly when its method matches without regard to
  case, its intent is charge, and it is not expired; an expiry that can't be parsed counts as
  expired, and a challenge without expiry never expires. The session check is the same with
  the session intent, so no challenge passes both.
\<close>

theorem validate_for_charge_iff:
  "(validate_for_charge X now c method = Inr () \<longleftrightarrow>
     to_ascii_lowercase (method_as_str (ch_method c)) = to_ascii_lowercase method
     \<and> to_ascii_lowercase (intent_as_str (ch_intent c)) = ''charge''
     \<and> (\<forall>s. ch_expires c = Some s \<longrightarrow> (\<exists>t. rfc3339_parse X s = Some t \<and> now < t)))
   \<and> \<not> (validate_for_charge X now c method = Inr () \<and> validate_for_session X now c method = Inr ())"
proof -
  have low: "to_ascii_lowercase ''charge'' = ''charge''" "to_ascii_lowercase ''session'' = ''session''"
    by (simp_all add: to_ascii_lowercase_def to_lower_def is_ascii_uppercase_def)
  have exp: "\<not> is_expired X now c \<longleftrightarrow>
      (\<forall>s. ch_expires c = Some s \<longrightarrow> (\<exists>t. rfc3339_parse X s = Some t \<and> now < t))"
    by (cases "ch_expires c"; cases "rfc3339_parse X (the (ch_expires c))")
      (auto simp: is_expired_def)
  show ?thesis
    unfolding exp [symmetric]
    by (auto simp: validate_for_charge_def validate_for_session_def is_charge_def is_session_def
        method_eq_ignore_ascii_case_def eq_ignore_ascii_case_def low)
qed

theorem validate_for_charge_witness:
  "validate_for_charge sample_crates 5
     (with_expires ''9'' (challenge_new ''i'' ''r'' (method_name_new ''Movement'')
        (intent_name_new ''Charge'') (from_raw ''e30''))) ''MOVEMENT'' = Inr ()"
  by (rule validate_for_charge_iff [THEN conjunct1, THEN iffD2])
    (simp add: with_expires_def challenge_new_def method_name_new_def intent_name_new_def
      to_ascii_lowercase_def to_lower_def is_ascii_uppercase_def char_eval sample_crates_def parse_uint_def
      is_ascii_digit_def dec_val_def digit_val_def)

end
