(* ===== verification/Envelope_Json.thy ===== *)
theory Envelope_Json
  imports Challenge
begin

text \<open>
  The JSON forms that the derives of src/protocol/core/challenge.rs generate for the challenge,
  its echo, the credential and the receipt: field names and order, absent optional fields left
  out. Deserialization inverts serialization on every value.
\<close>

definition opt_str :: "string option \<Rightarrow> string \<Rightarrow> (string \<times> json) list" where
  "opt_str v k = opt_field k JStr v"

definition payment_challenge_to_json :: "payment_challenge \<Rightarrow> json" where
  "payment_challenge_to_json c = JObj (
     [(''id'', JStr (ch_id c)), (''realm'', JStr (ch_realm c)),
      (''method'', JStr (method_as_str (ch_method c))),
      (''intent'', JStr (intent_as_str (ch_intent c))),
      (''request'', JStr (raw (ch_request c)))]
     @ opt_str (ch_expires c) ''expires'' @ opt_str (ch_description c) ''description''
     @ opt_str (ch_digest c) ''digest'' @ opt_str (map_option raw (ch_opaque c)) ''opaque'')"

definition payment_challenge_of_json :: "json \<Rightarrow> payment_challenge option" where
  "payment_challenge_of_json j =
     Option.bind (field_req as_str ''id'' j) (\<lambda>i.
     Option.bind (field_req as_str ''realm'' j) (\<lambda>realm.
     Option.bind (field_req as_str ''method'' j) (\<lambda>method.
     Option.bind (field_req as_str ''intent'' j) (\<lambda>intent.
     Option.bind (field_req as_str ''request'' j) (\<lambda>request.
     Option.bind (field_opt as_str ''expires'' j) (\<lambda>expires.
     Option.bind (field_opt as_str ''description'' j) (\<lambda>description.
     Option.bind (field_opt as_str ''digest'' j) (\<lambda>digest.
     Option.bind (field_opt as_str ''opaque'' j) (\<lambda>opaque.
     Some \<lparr>ch_id = i, ch_realm = realm, ch_method = MethodName method,
       ch_intent = IntentName intent, ch_request = Base64UrlJson request, ch_expires = expires,
       ch_description = description, ch_digest = digest,
       ch_opaque = map_option from_raw opaque\<rparr>)))))))))"

definition challenge_echo_to_json :: "challenge_echo \<Rightarrow> json" where
  "challenge_echo_to_json e = JObj (
     [(''id'', JStr (echo_id e)), (''realm'', JStr (echo_realm e)),
      (''method'', JStr (method_as_str (echo_method e))),
      (''intent'', JStr (intent_as_str (echo_intent e))),
      (''request'', JStr (raw (echo_request e)))]
     @ opt_str (echo_expires e) ''expires'' @ opt_str (echo_digest e) ''digest''
     @ opt_str (map_option raw (echo_opaque e)) ''opaque'')"

definition challenge_echo_of_json :: "json \<Rightarrow> challenge_echo option" where
  "challenge_echo_of_json j =
     Option.bind (field_req as_str ''id'' j) (\<lambda>i.
     Option.bind (field_req as_str ''realm'' j) (\<lambda>realm.
     Option.bind (field_req as_str ''method'' j) (\<lambda>method.
     Option.bind (field_req as_str ''intent'' j) (\<lambda>intent.
     Option.bind (field_req as_str ''request'' j) (\<lambda>request.
     Option.bind (field_opt as_str ''expires'' j) (\<lambda>expires.
     Option.bind (field_opt as_str ''digest'' j) (\<lambda>digest.
     Option.bind (field_opt as_str ''opaque'' j) (\<lambda>opaque.
     Some \<lparr>echo_id = i, echo_realm = realm, echo_method = MethodName method,
       echo_intent = IntentName intent, echo_request = Base64UrlJson request,
       echo_expires = expires, echo_digest = digest,
       echo_opaque = map_option from_raw opaque\<rparr>))))))))"

definition payment_credential_to_json :: "payment_credential \<Rightarrow> json" where
  "payment_credential_to_json c = JObj (
     (''challenge'', challenge_echo_to_json (cred_challenge c))
     # opt_str (cred_source c) ''source'' @ [(''payload'', cred_payload c)])"

definition payment_credential_of_json :: "json \<Rightarrow> payment_credential option" where
  "payment_credential_of_json j =
     Option.bind (field_req challenge_echo_of_json ''challenge'' j) (\<lambda>echo.
     Option.bind (field_opt as_str ''source'' j) (\<lambda>source.
     Option.bind (field_req Some ''payload'' j) (\<lambda>payload.
     Some \<lparr>cred_challenge = echo, cred_source = source, cred_payload = payload\<rparr>)))"

definition receipt_to_json :: "receipt \<Rightarrow> json" where
  "receipt_to_json r = JObj
     [(''status'', JStr ''success''), (''method'', JStr (method_as_str (rc_method r))),
      (''timestamp'', JStr (rc_timestamp r)), (''reference'', JStr (rc_reference r))]"

definition receipt_of_json :: "json \<Rightarrow> receipt option" where
  "receipt_of_json j =
     Option.bind (field_req receipt_status_of_json ''status'' j) (\<lambda>status.
     Option.bind (field_req as_str ''method'' j) (\<lambda>method.
     Option.bind (field_req as_str ''timestamp'' j) (\<lambda>timestamp.
     Option.bind (field_req as_str ''reference'' j) (\<lambda>reference.
     Some \<lparr>rc_status = status, rc_method = MethodName method, rc_timestamp = timestamp,
       rc_reference = reference\<rparr>))))"

lemma map_option_raw_cancel [simp]: "map_option from_raw (map_option raw v) = v"
  by (cases v) (simp_all add: from_raw_def option.map_comp)

lemma bind_Some_JStr [simp]: "Option.bind (Some (JStr s)) as_str = Some s"
  by simp

lemma field_opt_str_present:
  "map_of kvs k = map_option JStr v \<Longrightarrow> field_opt as_str k (JObj kvs) = Some v"
  by (cases v) (simp_all add: field_opt_def)

lemmas envelope_defs = payment_challenge_to_json_def payment_challenge_of_json_def
  challenge_echo_to_json_def challenge_echo_of_json_def payment_credential_to_json_def
  payment_credential_of_json_def receipt_to_json_def receipt_of_json_def opt_str_def

lemma payment_challenge_json_roundtrip:
  "payment_challenge_of_json (payment_challenge_to_json c) = Some c"
proof -
  let ?j = "payment_challenge_to_json c"
  have opts: "field_opt as_str ''expires'' ?j = Some (ch_expires c)"
    "field_opt as_str ''description'' ?j = Some (ch_description c)"
    "field_opt as_str ''digest'' ?j = Some (ch_digest c)"
    "field_opt as_str ''opaque'' ?j = Some (map_option raw (ch_opaque c))"
    unfolding payment_challenge_to_json_def opt_str_def
    by (rule field_opt_str_present, simp add: map_add_def split: option.splits)+
  have reqs: "field_req as_str ''id'' ?j = Some (ch_id c)"
    "field_req as_str ''realm'' ?j = Some (ch_realm c)"
    "field_req as_str ''method'' ?j = Some (method_as_str (ch_method c))"
    "field_req as_str ''intent'' ?j = Some (intent_as_str (ch_intent c))"
    "field_req as_str ''request'' ?j = Some (raw (ch_request c))"
    by (simp_all add: payment_challenge_to_json_def opt_str_def map_add_def split: option.splits)
  show ?thesis
    by (simp add: payment_challenge_of_json_def opts reqs)
qed

lemma challenge_echo_json_roundtrip:
  "challenge_echo_of_json (challenge_echo_to_json e) = Some e"
proof -
  let ?j = "challenge_echo_to_json e"
  have opts: "field_opt as_str ''expires'' ?j = Some (echo_expires e)"
    "field_opt as_str ''digest'' ?j = Some (echo_digest e)"
    "field_opt as_str ''opaque'' ?j = Some (map_option raw (echo_opaque e))"
    unfolding challenge_echo_to_json_def opt_str_def
    by (rule field_opt_str_present, simp add: map_add_def split: option.splits)+
  have reqs: "field_req as_str ''id'' ?j = Some (echo_id e)"
    "field_req as_str ''realm'' ?j = Some (echo_realm e)"
    "field_req as_str ''method'' ?j = Some (method_as_str (echo_method e))"
    "field_req as_str ''intent'' ?j = Some (intent_as_str (echo_intent e))"
    "field_req as_str ''request'' ?j = Some (raw (echo_request e))"
    by (simp_all add: challenge_echo_to_json_def opt_str_def map_add_def split: option.splits)
  show ?thesis
    by (simp add: challenge_echo_of_json_def opts reqs)
qed

lemma payment_credential_json_roundtrip:
  "payment_credential_of_json (payment_credential_to_json c) = Some c"
proof -
  let ?j = "payment_credential_to_json c"
  have "field_opt as_str ''source'' ?j = Some (cred_source c)"
    unfolding payment_credential_to_json_def opt_str_def
    by (rule field_opt_str_present) (simp add: map_add_def split: option.splits)
  moreover have "field_req challenge_echo_of_json ''challenge'' ?j = Some (cred_challenge c)"
    "field_req Some ''payload'' ?j = Some (cred_payload c)"
    by (simp_all add: payment_credential_to_json_def opt_str_def challenge_echo_json_roundtrip map_add_def split: option.splits)
  ultimately show ?thesis by (simp add: payment_credential_of_json_def)
qed

lemma receipt_json_roundtrip: "receipt_of_json (receipt_to_json r) = Some r"
  by (cases "rc_status r")
    (simp add: receipt_of_json_def receipt_to_json_def receipt_status_of_json_def unit_variant_def)

end
