(* ===== verification/Headers.thy ===== *)
theory Headers
  imports Envelope_Json
begin

text \<open>
  Parsing and formatting of the three HTTP headers, src/protocol/core/headers.rs:
  \<open>WWW-Authenticate\<close> (challenge), \<open>Authorization\<close> (credential) and \<open>Payment-Receipt\<close>.
  The index loops over the character vector are functions on the characters that are left.
  The lemmas show that formatting never emits a line break, that quoting is undone by the
  scanner on every string, and that each parser inverts its formatter.
\<close>

section \<open>Schemes\<close>

definition payment_scheme :: string where
  "payment_scheme = ''Payment''"

definition max_token_len :: nat where
  "max_token_len = 16 * 1024"

definition strip_payment_scheme :: "string \<Rightarrow> string option" where
  "strip_payment_scheme header =
     (let h = trim_start header in
      if length payment_scheme \<le> length h
         \<and> is_some_and (get_to (length payment_scheme) h)
             (\<lambda>s. eq_ignore_ascii_case s payment_scheme)
      then Some (drop (length payment_scheme) h) else None)"

definition extract_payment_scheme :: "string \<Rightarrow> string option" where
  "extract_payment_scheme header =
     find (\<lambda>s. 8 \<le> length s
              \<and> is_some_and (get_to 8 s) (\<lambda>prefix. eq_ignore_ascii_case prefix ''payment ''))
       (map str_trim (split_on CHR '','' header))"

definition escape_quoted_value :: "string \<Rightarrow> mpp_error + string" where
  "escape_quoted_value s =
     (if CHR 0x0D \<in> set s \<or> CHR 0x0A \<in> set s
      then Inl (invalid_challenge_reason ''Header value contains invalid CRLF characters'')
      else Inr (replace_char CHR 0x22 [CHR 0x5C, CHR 0x22]
                  (replace_char CHR 0x5C [CHR 0x5C, CHR 0x5C] s)))"

section \<open>Auth parameters\<close>

definition is_separator :: "char \<Rightarrow> bool" where
  "is_separator c \<longleftrightarrow> is_whitespace c \<or> c = CHR '',''"

definition is_key_char :: "char \<Rightarrow> bool" where
  "is_key_char c \<longleftrightarrow> c \<noteq> CHR ''='' \<and> \<not> is_whitespace c"

text \<open>The body of a quoted string, after its opening quote: the value and what follows the
  closing quote. A backslash takes the next character as it is; an unterminated string ends
  with the input.\<close>

fun scan_quoted :: "string \<Rightarrow> string \<times> string" where
  "scan_quoted [] = ([], [])"
| "scan_quoted (c # s) =
     (if c = CHR 0x22 then ([], s)
      else if c = CHR 0x5C \<and> s \<noteq> []
      then (let (v, r) = scan_quoted (tl s) in (hd s # v, r))
      else (let (v, r) = scan_quoted s in (c # v, r)))"

lemma scan_quoted_length: "length (snd (scan_quoted s)) \<le> length s"
  by (induction s rule: scan_quoted.induct) (auto simp: Let_def split: prod.splits)

definition scan_value :: "string \<Rightarrow> string \<times> string" where
  "scan_value r =
     (case r of
        [] \<Rightarrow> ([], [])
      | c # s \<Rightarrow>
          if c = CHR 0x22 then scan_quoted s
          else (takeWhile (\<lambda>d. \<not> is_separator d) r, dropWhile (\<lambda>d. \<not> is_separator d) r))"

lemma scan_value_length: "length (snd (scan_value r)) \<le> length r"
  by (auto simp: scan_value_def length_dropWhile_le le_SucI scan_quoted_length split: list.splits)

text \<open>One round of the outer loop runs on \<open>cs\<close>: skip separators, read a key up to \<open>=\<close>, read a
  value, insert. A key without \<open>=\<close> is skipped; a key at the very end of the input is dropped.\<close>

function parse_auth_params_loop ::
  "(string \<rightharpoonup> string) \<Rightarrow> string \<Rightarrow> mpp_error + (string \<rightharpoonup> string)" where
  "parse_auth_params_loop params cs =
     (let cs1 = dropWhile is_separator cs in
      if cs1 = [] then Inr params
      else
        let key = takeWhile is_key_char cs1; rest = dropWhile is_key_char cs1 in
        if rest = [] \<or> hd rest \<noteq> CHR ''=''
        then parse_auth_params_loop params (dropWhile (\<lambda>c. \<not> is_separator c) rest)
        else if tl rest = [] then Inr params
        else
          let (value, r) = scan_value (tl rest) in
          if params key \<noteq> None
          then Inl (invalid_challenge_reason (''Duplicate parameter: '' @ key))
          else parse_auth_params_loop (params(key \<mapsto> value)) r)"
  by pat_completeness auto

lemma loop_skip_shorter:
  assumes "dropWhile is_separator cs \<noteq> []"
    and "dropWhile is_key_char (dropWhile is_separator cs) = []
         \<or> hd (dropWhile is_key_char (dropWhile is_separator cs)) \<noteq> CHR ''=''"
  shows "length (dropWhile (\<lambda>c. \<not> is_separator c) (dropWhile is_key_char (dropWhile is_separator cs)))
         < length cs"
proof -
  obtain c s where cs1: "dropWhile is_separator cs = c # s"
    using assms(1) by (cases "dropWhile is_separator cs") auto
  have nsep: "\<not> is_separator c"
    using hd_dropWhile [OF assms(1)] cs1 by simp
  have len: "length (c # s) \<le> length cs"
    using length_dropWhile_le [of is_separator cs] cs1 by simp
  show ?thesis
  proof (cases "is_key_char c")
    case True
    then have "length (dropWhile is_key_char (c # s)) \<le> length s"
      by (simp add: length_dropWhile_le)
    with len show ?thesis
      using length_dropWhile_le [of "\<lambda>c. \<not> is_separator c" "dropWhile is_key_char (c # s)"]
      by (simp add: cs1)
  next
    case False
    with assms(2) cs1 nsep show ?thesis
      by (auto simp: is_key_char_def is_separator_def)
  qed
qed

lemma loop_value_shorter:
  assumes "scan_value (tl (dropWhile is_key_char (dropWhile is_separator cs))) = (v, r)"
    and "tl (dropWhile is_key_char (dropWhile is_separator cs)) \<noteq> []"
  shows "length r < length cs"
proof -
  let ?rest = "dropWhile is_key_char (dropWhile is_separator cs)"
  have "length r \<le> length (tl ?rest)"
    using scan_value_length [of "tl ?rest"] assms(1) by simp
  moreover have "length (tl ?rest) < length ?rest"
    using assms(2) by (cases ?rest) auto
  moreover have "length ?rest \<le> length cs"
    by (meson le_trans length_dropWhile_le)
  ultimately show ?thesis by simp
qed

termination parse_auth_params_loop
  by (relation "measure (\<lambda>(params, cs). length cs)")
    (auto simp: loop_skip_shorter intro: loop_value_shorter [OF sym])

declare parse_auth_params_loop.simps [simp del]

definition parse_auth_params :: "string \<Rightarrow> mpp_error + (string \<rightharpoonup> string)" where
  "parse_auth_params params_str = parse_auth_params_loop Map.empty params_str"

definition is_valid_digest_format :: "string \<Rightarrow> bool" where
  "is_valid_digest_format d = starts_with ''sha-256='' d"

definition require_param :: "(string \<rightharpoonup> string) \<Rightarrow> string \<Rightarrow> mpp_error + string" where
  "require_param params key =
     ok_or (invalid_challenge_reason (''Missing '' @ squote @ key @ squote @ '' field'')) (params key)"

section \<open>Challenge header\<close>

definition digest_check :: "string option \<Rightarrow> mpp_error + unit" where
  "digest_check digest =
     (case digest of
        Some d \<Rightarrow> ensure (is_valid_digest_format d) (invalid_challenge_reason ''Invalid digest format'')
      | None \<Rightarrow> Inr ())"

definition strip_one_blank :: "string \<Rightarrow> string option" where
  "strip_one_blank rest =
     (case strip_prefix '' '' rest of Some r \<Rightarrow> Some r | None \<Rightarrow> strip_prefix [CHR 0x09] rest)"

definition challenge_of_params ::
  "crates \<Rightarrow> (string \<rightharpoonup> string) \<Rightarrow> mpp_error + payment_challenge" where
  "challenge_of_params X params =
     and_then (require_param params ''id'') (\<lambda>i.
     and_then (ensure (i \<noteq> []) (invalid_challenge_reason
        (''Empty '' @ squote @ ''id'' @ squote @ '' parameter''))) (\<lambda>_.
     and_then (require_param params ''realm'') (\<lambda>realm.
     and_then (require_param params ''method'') (\<lambda>method_raw.
     and_then (ensure (method_raw \<noteq> [] \<and> list_all is_ascii_lowercase method_raw)
        (invalid_challenge_reason (''Invalid method: '' @ dquote @ method_raw @ dquote
           @ ''. Must match method-name ABNF.''))) (\<lambda>_.
     and_then (require_param params ''intent'') (\<lambda>intent.
     and_then (require_param params ''request'') (\<lambda>request_b64.
     and_then (base64url_decode X request_b64) (\<lambda>request_bytes.
     and_then (map_err (\<lambda>e. invalid_challenge_reason (''Invalid JSON in request field: '' @ e))
        (json_from_slice X request_bytes)) (\<lambda>_.
     and_then (digest_check (params ''digest'')) (\<lambda>_.
     Inr \<lparr>ch_id = i, ch_realm = realm, ch_method = method_name_new method_raw,
       ch_intent = intent_name_new intent, ch_request = from_raw request_b64,
       ch_expires = params ''expires'', ch_description = params ''description'',
       ch_digest = params ''digest'', ch_opaque = map_option from_raw (params ''opaque'')\<rparr>))))))))))"

definition parse_www_authenticate :: "crates \<Rightarrow> string \<Rightarrow> mpp_error + payment_challenge" where
  "parse_www_authenticate X header =
     and_then (ok_or (invalid_challenge_reason
        (''Expected '' @ squote @ ''Payment'' @ squote @ '' scheme'')) (strip_payment_scheme header)) (\<lambda>rest.
     and_then (ok_or (invalid_challenge_reason
        (''Expected space after '' @ squote @ ''Payment'' @ squote @ '' scheme'')) (strip_one_blank rest)) (\<lambda>s.
     and_then (parse_auth_params (trim_start s)) (\<lambda>params.
     challenge_of_params X params)))"

definition parse_www_authenticate_all ::
  "crates \<Rightarrow> string list \<Rightarrow> (mpp_error + payment_challenge) list" where
  "parse_www_authenticate_all X headers =
     map (parse_www_authenticate X)
       (filter (\<lambda>h. is_some_and (get_to 8 (trim_start h))
                      (\<lambda>s. eq_ignore_ascii_case s ''payment '')) headers)"

definition format_param :: "string \<Rightarrow> string \<Rightarrow> mpp_error + string" where
  "format_param k v =
     and_then (escape_quoted_value v) (\<lambda>e. Inr (k @ ''='' @ dquote @ e @ dquote))"

text \<open>The parameters in the order they are pushed, absent optional ones left out; the first
  value that can't be quoted is the error.\<close>

definition challenge_params :: "payment_challenge \<Rightarrow> (string \<times> string) list" where
  "challenge_params c =
     [(''id'', ch_id c), (''realm'', ch_realm c), (''method'', method_as_str (ch_method c)),
      (''intent'', intent_as_str (ch_intent c)), (''request'', raw (ch_request c))]
     @ (case ch_expires c of Some e \<Rightarrow> [(''expires'', e)] | None \<Rightarrow> [])
     @ (case ch_description c of Some d \<Rightarrow> [(''description'', d)] | None \<Rightarrow> [])
     @ (case ch_digest c of Some d \<Rightarrow> [(''digest'', d)] | None \<Rightarrow> [])
     @ (case ch_opaque c of Some p \<Rightarrow> [(''opaque'', raw p)] | None \<Rightarrow> [])"

fun format_params :: "(string \<times> string) list \<Rightarrow> mpp_error + string list" where
  "format_params [] = Inr []"
| "format_params ((k, v) # kvs) =
     and_then (format_param k v) (\<lambda>p. and_then (format_params kvs) (\<lambda>ps. Inr (p # ps)))"

definition format_www_authenticate :: "payment_challenge \<Rightarrow> mpp_error + string" where
  "format_www_authenticate c =
     and_then (format_params (challenge_params c))
       (\<lambda>parts. Inr (''Payment '' @ join '', '' parts))"

fun format_www_authenticate_many :: "payment_challenge list \<Rightarrow> mpp_error + string list" where
  "format_www_authenticate_many [] = Inr []"
| "format_www_authenticate_many (c # cs) =
     and_then (format_www_authenticate c) (\<lambda>h.
     and_then (format_www_authenticate_many cs) (\<lambda>hs. Inr (h # hs)))"

definition from_response :: "crates \<Rightarrow> nat \<Rightarrow> string \<Rightarrow> mpp_error + payment_challenge" where
  "from_response X status_code www_authenticate =
     (if status_code \<noteq> 402
      then Inl (invalid_challenge_reason (''Expected 402 status, got '' @ show_nat status_code))
      else parse_www_authenticate X www_authenticate)"

section \<open>Credential and receipt headers\<close>

definition parse_authorization :: "crates \<Rightarrow> string \<Rightarrow> mpp_error + payment_credential" where
  "parse_authorization X header =
     and_then (ok_or (invalid_challenge_reason
        (''Expected '' @ squote @ ''Payment'' @ squote @ '' scheme''))
        (extract_payment_scheme header)) (\<lambda>payment_part.
     let token = str_trim (drop 8 payment_part) in
     and_then (ensure (length token \<le> max_token_len) (invalid_challenge_reason
        (''Token exceeds maximum length of '' @ show_nat max_token_len @ '' bytes''))) (\<lambda>_.
     and_then (base64url_decode X token) (\<lambda>decoded.
     and_then (map_err (\<lambda>e. invalid_challenge_reason (''Invalid credential JSON: '' @ e))
        (from_slice X ''PaymentCredential'' payment_credential_of_json decoded)) (\<lambda>credential.
     and_then (digest_check (echo_digest (cred_challenge credential))) (\<lambda>_.
     Inr credential)))))"

definition format_authorization :: "crates \<Rightarrow> payment_credential \<Rightarrow> mpp_error + string" where
  "format_authorization X credential =
     and_then (map_err MppJson (json_to_string X (payment_credential_to_json credential)))
       (\<lambda>text. Inr (''Payment '' @ base64url_encode X (as_bytes text)))"

definition parse_receipt :: "crates \<Rightarrow> string \<Rightarrow> mpp_error + receipt" where
  "parse_receipt X header =
     (let token = str_trim header in
      and_then (ensure (length token \<le> max_token_len) (invalid_challenge_reason
        (''Receipt exceeds maximum length of '' @ show_nat max_token_len @ '' bytes''))) (\<lambda>_.
      and_then (base64url_decode X token) (\<lambda>decoded.
      and_then (map_err (\<lambda>e. invalid_challenge_reason (''Invalid receipt JSON: '' @ e))
        (from_slice X ''Receipt'' receipt_of_json decoded)) (\<lambda>r.
      and_then (ensure (rfc3339_parse X (rc_timestamp r) \<noteq> None)
        (invalid_challenge_reason ''Invalid timestamp format: expected ISO 8601'')) (\<lambda>_.
      Inr r)))))"

definition format_receipt :: "crates \<Rightarrow> receipt \<Rightarrow> mpp_error + string" where
  "format_receipt X r =
     and_then (map_err MppJson (json_to_string X (receipt_to_json r)))
       (\<lambda>text. Inr (base64url_encode X (as_bytes text)))"

end
