(* ===== verification/Header_Roundtrip.thy ===== *)
theory Header_Roundtrip
  imports Headers
begin

text \<open>
  What the header functions guarantee: no formatted challenge holds a line break (response
  splitting is impossible), the scanner undoes the quoting on every string, and parsing
  inverts formatting for challenges, credentials and receipts.
\<close>

section \<open>Quoting\<close>

definition esc_char :: "char \<Rightarrow> string" where
  "esc_char c = (if c = CHR 0x5C then [CHR 0x5C, CHR 0x5C]
     else if c = CHR 0x22 then [CHR 0x5C, CHR 0x22] else [c])"

definition esc :: "string \<Rightarrow> string" where
  "esc s = concat (map esc_char s)"

lemma replace_char_append [simp]:
  "replace_char c r (s @ t) = replace_char c r s @ replace_char c r t"
  by (simp add: replace_char_def)

lemma escape_is_esc:
  "replace_char CHR 0x22 [CHR 0x5C, CHR 0x22] (replace_char CHR 0x5C [CHR 0x5C, CHR 0x5C] s) = esc s"
  by (induction s) (simp_all add: esc_def esc_char_def)

lemma escape_quoted_value_Inr [res_simps]:
  "escape_quoted_value s = Inr e \<longleftrightarrow> CHR 0x0D \<notin> set s \<and> CHR 0x0A \<notin> set s \<and> e = esc s"
  by (auto simp: escape_quoted_value_def escape_is_esc)

lemma set_esc: "set (esc s) \<subseteq> set s \<union> {CHR 0x5C, CHR 0x22}"
  by (auto simp: esc_def esc_char_def split: if_splits)

lemma scan_quoted_esc [simp]: "scan_quoted (esc v @ CHR 0x22 # s) = (v, s)"
  by (induction v) (simp_all add: esc_def esc_char_def)

definition quoted_param :: "string \<times> string \<Rightarrow> string" where
  "quoted_param kv = fst kv @ ''='' @ dquote @ esc (snd kv) @ dquote"

lemma format_param_Inr [res_simps]:
  "format_param k v = Inr p \<longleftrightarrow>
     CHR 0x0D \<notin> set v \<and> CHR 0x0A \<notin> set v \<and> p = quoted_param (k, v)"
  by (auto simp: format_param_def res_simps quoted_param_def)

lemma format_params_Inr [res_simps]:
  "format_params kvs = Inr ps \<longleftrightarrow>
     (\<forall>(k, v) \<in> set kvs. CHR 0x0D \<notin> set v \<and> CHR 0x0A \<notin> set v) \<and> ps = map quoted_param kvs"
  by (induction kvs arbitrary: ps rule: format_params.induct) (auto simp: res_simps)

section \<open>Scanning a formatted parameter list\<close>

definition plain_key :: "string \<Rightarrow> bool" where
  "plain_key k \<longleftrightarrow> k \<noteq> [] \<and> list_all is_ascii_lowercase k"

lemma lowercase_key_char: "is_ascii_lowercase c \<Longrightarrow> is_key_char c \<and> \<not> is_separator c"
  by (auto simp: is_ascii_lowercase_def is_key_char_def is_separator_def is_whitespace_def)

lemma takeWhile_key:
  assumes "plain_key k"
  shows "takeWhile is_key_char (k @ CHR ''='' # t) = k"
    and "dropWhile is_key_char (k @ CHR ''='' # t) = CHR ''='' # t"
    and "dropWhile is_separator (k @ CHR ''='' # t) = k @ CHR ''='' # t"
proof -
  have all: "\<forall>c \<in> set k. is_key_char c"
    using assms by (auto simp: plain_key_def list_all_iff lowercase_key_char)
  have eq: "\<not> is_key_char CHR ''=''" by (simp add: is_key_char_def)
  from all eq show "takeWhile is_key_char (k @ CHR ''='' # t) = k"
    and "dropWhile is_key_char (k @ CHR ''='' # t) = CHR ''='' # t"
    by (simp_all add: takeWhile_append dropWhile_append)
  show "dropWhile is_separator (k @ CHR ''='' # t) = k @ CHR ''='' # t"
    using assms by (cases k) (auto simp: plain_key_def lowercase_key_char)
qed

lemma loop_quoted_param:
  assumes "plain_key k" and "params k = None"
  shows "parse_auth_params_loop params (quoted_param (k, v) @ t)
         = parse_auth_params_loop (params(k \<mapsto> v)) t"
proof -
  have "quoted_param (k, v) @ t = k @ CHR ''='' # CHR 0x22 # esc v @ CHR 0x22 # t"
    by (simp add: quoted_param_def)
  moreover have "k @ CHR ''='' # u \<noteq> []" for u by simp
  ultimately show ?thesis
    using assms
    by (simp add: parse_auth_params_loop.simps [of params "k @ _"] takeWhile_key scan_value_def)
qed

lemma loop_skip_separator:
  "parse_auth_params_loop params ('', '' @ s) = parse_auth_params_loop params s"
proof -
  have "dropWhile is_separator ('', '' @ s) = dropWhile is_separator s"
    by (simp add: is_separator_def is_whitespace_def)
  then show ?thesis
    by (simp only: parse_auth_params_loop.simps [of params "'', '' @ s"]
        parse_auth_params_loop.simps [of params s])
qed

lemma loop_params:
  assumes "\<forall>kv \<in> set kvs. plain_key (fst kv)" and "distinct (map fst kvs)"
    and "\<forall>kv \<in> set kvs. params (fst kv) = None"
  shows "parse_auth_params_loop params (join '', '' (map quoted_param kvs))
         = Inr (params ++ map_of kvs)"
  using assms
proof (induction kvs arbitrary: params)
  case Nil
  show ?case by (simp add: parse_auth_params_loop.simps)
next
  case (Cons kv kvs)
  obtain k v where kv: "kv = (k, v)" by (cases kv)
  have disj: "\<forall>kv' \<in> set kvs. (params(k \<mapsto> v)) (fst kv') = None"
    using Cons.prems kv by auto
  have IH: "parse_auth_params_loop (params(k \<mapsto> v)) (join '', '' (map quoted_param kvs))
      = Inr (params(k \<mapsto> v) ++ map_of kvs)"
    using Cons.prems disj by (intro Cons.IH) auto
  have step: "parse_auth_params_loop params (quoted_param (k, v) @ t)
      = parse_auth_params_loop (params(k \<mapsto> v)) t" for t
    using Cons.prems kv by (intro loop_quoted_param) auto
  have merge: "params(k \<mapsto> v) ++ map_of kvs = params ++ map_of (kv # kvs)"
    using Cons.prems kv by (auto simp: fun_eq_iff map_add_def image_iff split: option.splits
        dest: map_of_SomeD)
  show ?case
  proof (cases kvs)
    case Nil
    with step [of "[]"] IH kv show ?thesis by (simp add: fun_eq_iff map_add_def)
  next
    case (Cons kv' kvs')
    then have "join '', '' (map quoted_param (kv # kvs))
        = quoted_param (k, v) @ '', '' @ join '', '' (map quoted_param kvs)"
      using kv by simp
    with step IH merge show ?thesis by (simp only: loop_skip_separator)
  qed
qed

lemma challenge_params_keys:
  "\<forall>kv \<in> set (challenge_params c). plain_key (fst kv)" "distinct (map fst (challenge_params c))"
  by (auto simp: challenge_params_def plain_key_def is_ascii_lowercase_def split: option.splits)

lemma challenge_params_lookup:
  "map_of (challenge_params c) ''id'' = Some (ch_id c)"
  "map_of (challenge_params c) ''realm'' = Some (ch_realm c)"
  "map_of (challenge_params c) ''method'' = Some (method_as_str (ch_method c))"
  "map_of (challenge_params c) ''intent'' = Some (intent_as_str (ch_intent c))"
  "map_of (challenge_params c) ''request'' = Some (raw (ch_request c))"
  "map_of (challenge_params c) ''expires'' = ch_expires c"
  "map_of (challenge_params c) ''description'' = ch_description c"
  "map_of (challenge_params c) ''digest'' = ch_digest c"
  "map_of (challenge_params c) ''opaque'' = map_option raw (ch_opaque c)"
  by (simp_all add: challenge_params_def map_add_def split: option.splits)

lemma parse_formatted_params:
  "parse_auth_params (join '', '' (map quoted_param (challenge_params c)))
   = Inr (map_of (challenge_params c))"
  using loop_params [of "challenge_params c" Map.empty] challenge_params_keys [of c]
  by (simp add: parse_auth_params_def)

section \<open>The challenge header\<close>

definition wire_challenge :: "payment_challenge \<Rightarrow> bool" where
  "wire_challenge c \<longleftrightarrow> ch_id c \<noteq> [] \<and> method_is_valid (ch_method c)
     \<and> to_ascii_lowercase (intent_as_str (ch_intent c)) = intent_as_str (ch_intent c)
     \<and> (\<forall>d. ch_digest c = Some d \<longrightarrow> is_valid_digest_format d)"

definition decodes_to_json :: "crates \<Rightarrow> base64url_json \<Rightarrow> bool" where
  "decodes_to_json X b \<longleftrightarrow> is_ok (decode_value X b)"

lemma challenge_of_formatted_params:
  assumes "wire_challenge c" and "decodes_to_json X (ch_request c)"
  shows "challenge_of_params X (map_of (challenge_params c)) = Inr c"
proof -
  obtain bs j where bs: "base64url_decode X (raw (ch_request c)) = Inr bs"
    and j: "json_from_slice X bs = Inr j"
    using assms(2) by (auto simp: decodes_to_json_def decode_value_def res_simps)
  have meth: "method_as_str (ch_method c) \<noteq> [] \<and> list_all is_ascii_lowercase (method_as_str (ch_method c))"
    and low: "to_ascii_lowercase (intent_as_str (ch_intent c)) = intent_as_str (ch_intent c)"
    and idn: "ch_id c \<noteq> []"
    using assms(1) by (auto simp: wire_challenge_def method_is_valid_def)
  have dig: "digest_check (ch_digest c) = Inr ()"
    using assms(1) by (auto simp: digest_check_def wire_challenge_def split: option.splits)
  from meth low idn dig bs j show ?thesis
    by (simp add: challenge_of_params_def require_param_def challenge_params_lookup
        method_name_new_lowercase intent_name_new_def from_raw_def [abs_def] option.map_comp
        o_def option.map_ident)
qed

lemma trim_start_params:
  "trim_start (join '', '' (map quoted_param (challenge_params c)))
   = join '', '' (map quoted_param (challenge_params c))"
  by (rule trim_start_id) (simp add: challenge_params_def quoted_param_def is_whitespace_def)

lemma formatted_challenge_parses:
  assumes "format_www_authenticate c = Inr h" and "wire_challenge c"
    and "decodes_to_json X (ch_request c)"
  shows "parse_www_authenticate X h = Inr c"
proof -
  let ?ps = "join '', '' (map quoted_param (challenge_params c))"
  have h: "h = ''Payment'' @ '' '' @ ?ps"
    using assms(1) by (auto simp: format_www_authenticate_def res_simps)
  have "strip_payment_scheme h = Some ('' '' @ ?ps)"
    unfolding h strip_payment_scheme_def
    by (simp add: trim_start_id is_whitespace_def payment_scheme_def get_to_def is_some_and_def
        Let_def)
  moreover have "strip_one_blank ('' '' @ ?ps) = Some ?ps"
    by (simp add: strip_one_blank_def del: append_Cons)
  ultimately show ?thesis
    by (simp add: parse_www_authenticate_def trim_start_params parse_formatted_params
        challenge_of_formatted_params [OF assms(2,3)])
qed

text \<open>
  C20: a challenge that formats to a header parses back to itself, with every field, optional
  ones included: whatever quotes, backslashes, commas, equal signs or blanks its values hold.
  The challenge must be one the wire can carry: non-empty identifier, lower-case method and
  intent, \<open>sha-256=\<close> digest, and a request that decodes to JSON.
\<close>

theorem www_authenticate_roundtrip:
  assumes "format_www_authenticate c = Inr h" and "wire_challenge c"
    and "decodes_to_json X (ch_request c)"
  shows "parse_www_authenticate X h = Inr c"
  using assms by (rule formatted_challenge_parses)

definition sample_challenge :: payment_challenge where
  "sample_challenge = \<lparr>ch_id = ''a1'', ch_realm = ''api, v=2'', ch_method = MethodName ''movement'',
     ch_intent = IntentName ''charge'', ch_request = Base64UrlJson ''7b7d'',
     ch_expires = None, ch_description = Some [CHR 0x22, CHR 0x5C], ch_digest = Some ''sha-256=x'',
     ch_opaque = None\<rparr>"

lemma sample_challenge_formats:
  "format_www_authenticate sample_challenge
   = Inr (''Payment '' @ join '', '' (map quoted_param (challenge_params sample_challenge)))"
  by (simp add: format_www_authenticate_def res_simps sample_challenge_def challenge_params_def)

lemma sample_challenge_on_wire:
  "wire_challenge sample_challenge"
  "decodes_to_json (sample_crates\<lparr>json_from_slice := (\<lambda>_. Inr (JObj []))\<rparr>) (ch_request sample_challenge)"
  by (simp_all add: wire_challenge_def method_is_valid_def sample_challenge_def is_ascii_lowercase_def
      to_ascii_lowercase_def to_lower_def is_ascii_uppercase_def is_valid_digest_format_def
      starts_with_def)
    (simp add: decodes_to_json_def decode_value_def base64url_decode_def sample_crates_def
      is_hex_digit_def is_ascii_digit_def)

lemma sample_challenge_parses:
  "\<exists>h. parse_www_authenticate (sample_crates\<lparr>json_from_slice := (\<lambda>_. Inr (JObj []))\<rparr>) h = Inr sample_challenge"
  using formatted_challenge_parses [OF sample_challenge_formats sample_challenge_on_wire] by blast

theorem www_authenticate_roundtrip_witness:
  "\<exists>h X. format_www_authenticate sample_challenge = Inr h
     \<and> parse_www_authenticate X h = Inr sample_challenge"
  using www_authenticate_roundtrip [OF sample_challenge_formats sample_challenge_on_wire]
    sample_challenge_formats by blast

lemma challenge_of_params_well_formed:
  "challenge_of_params X params = Inr c \<Longrightarrow> wire_challenge c \<and> decodes_to_json X (ch_request c)"
  by (auto simp: challenge_of_params_def res_simps digest_check_def wire_challenge_def
      decodes_to_json_def decode_value_def method_is_valid_def method_name_new_def
      intent_name_new_def from_raw_def list_all_iff to_ascii_lowercase_def split: option.splits)
    (auto simp: to_lower_def is_ascii_lowercase_def is_ascii_uppercase_def)

text \<open>
  C32: whatever text it is given, the parser of the challenge header yields well-formed challenges
  only: a non-empty identifier, a method and an intent in lower case, a \<open>sha-256=\<close> digest if
  any, a request that decodes to JSON. So a parsed challenge that formats at all formats to a
  header that parses to the same challenge: reading and writing again changes nothing.
\<close>

theorem parsed_challenge_well_formed:
  assumes "parse_www_authenticate X h = Inr c"
  shows "wire_challenge c \<and> decodes_to_json X (ch_request c)
    \<and> and_then (format_www_authenticate c) (parse_www_authenticate X)
       = and_then (format_www_authenticate c) (\<lambda>_. Inr c)"
proof -
  have ok: "wire_challenge c \<and> decodes_to_json X (ch_request c)"
    using assms by (auto simp: parse_www_authenticate_def res_simps dest: challenge_of_params_well_formed)
  moreover have "and_then (format_www_authenticate c) (parse_www_authenticate X)
      = and_then (format_www_authenticate c) (\<lambda>_. Inr c)"
    using ok by (cases "format_www_authenticate c") (simp_all add: formatted_challenge_parses)
  ultimately show ?thesis by blast
qed

theorem parsed_challenge_well_formed_witness:
  "\<exists>X h. parse_www_authenticate X h = Inr sample_challenge \<and> wire_challenge sample_challenge"
proof -
  let ?X = "sample_crates\<lparr>json_from_slice := (\<lambda>_. Inr (JObj []))\<rparr>"
  obtain h where h: "parse_www_authenticate ?X h = Inr sample_challenge"
    using sample_challenge_parses by blast
  from parsed_challenge_well_formed [OF h] h show ?thesis by blast
qed

lemma set_join: "set (join sep ws) \<subseteq> \<Union> (set ` set ws) \<union> set sep"
  by (induction sep ws rule: join.induct) auto

text \<open>
  No header injection. A formatted challenge never holds a carriage return or a line feed,
  whatever its fields hold; and formatting fails exactly when some parameter holds one.
\<close>

theorem format_no_line_break:
  "(format_www_authenticate c = Inr h \<longrightarrow> CHR 0x0D \<notin> set h \<and> CHR 0x0A \<notin> set h)
   \<and> (is_ok (format_www_authenticate c) \<longleftrightarrow>
      (\<forall>(k, v) \<in> set (challenge_params c). CHR 0x0D \<notin> set v \<and> CHR 0x0A \<notin> set v))"
proof
  show "format_www_authenticate c = Inr h \<longrightarrow> CHR 0x0D \<notin> set h \<and> CHR 0x0A \<notin> set h"
  proof
    assume "format_www_authenticate c = Inr h"
    then have h: "h = ''Payment '' @ join '', '' (map quoted_param (challenge_params c))"
      and ok: "\<forall>(k, v) \<in> set (challenge_params c). CHR 0x0D \<notin> set v \<and> CHR 0x0A \<notin> set v"
      by (auto simp: format_www_authenticate_def res_simps)
    have param: "b \<notin> set (quoted_param (k, v))"
      if "(k, v) \<in> set (challenge_params c)" "b = CHR 0x0D \<or> b = CHR 0x0A" for k v b
    proof -
      have "plain_key k" using challenge_params_keys(1) [of c] that(1) by force
      then have "b \<notin> set k"
        using that(2) by (auto simp: plain_key_def list_all_iff is_ascii_lowercase_def)
      moreover have "b \<notin> set (esc v)"
        using set_esc [of v] ok that by auto
      ultimately show ?thesis using that(2) by (auto simp: quoted_param_def)
    qed
    have "b \<notin> set (join '', '' (map quoted_param (challenge_params c)))"
      if "b = CHR 0x0D \<or> b = CHR 0x0A" for b
      using set_join [of "'', ''" "map quoted_param (challenge_params c)"] param that by fastforce
    then show "CHR 0x0D \<notin> set h \<and> CHR 0x0A \<notin> set h" by (simp add: h)
  qed
  show "is_ok (format_www_authenticate c) \<longleftrightarrow>
      (\<forall>(k, v) \<in> set (challenge_params c). CHR 0x0D \<notin> set v \<and> CHR 0x0A \<notin> set v)"
    by (simp add: format_www_authenticate_def res_simps)
qed

theorem format_no_line_break_witness:
  "\<exists>h. format_www_authenticate sample_challenge = Inr h \<and> CHR 0x0D \<notin> set h \<and> CHR 0x0A \<notin> set h"
proof -
  have "is_ok (format_www_authenticate sample_challenge)"
    by (rule format_no_line_break [THEN conjunct2, THEN iffD2])
      (simp add: sample_challenge_def challenge_params_def)
  then obtain h where "format_www_authenticate sample_challenge = Inr h"
    by (auto simp: res_simps)
  with format_no_line_break [of sample_challenge h] show ?thesis by blast
qed

section \<open>Credential and receipt headers\<close>

lemma str_trim_ends:
  assumes "s \<noteq> []" and "\<not> is_whitespace (hd s)" and "\<not> is_whitespace (last s)"
  shows "str_trim s = s"
proof -
  have "dropWhile is_whitespace s = s"
    using assms(1,2) by (cases s) auto
  moreover have "dropWhile is_whitespace (rev s) = rev s"
    using assms(1,3) by (cases s rule: rev_cases) auto
  ultimately show ?thesis by (simp add: str_trim_def trim_start_def trim_end_def)
qed

lemma token_plain:
  assumes "list_all is_b64url_char t"
  shows "str_trim t = t" and "CHR '','' \<notin> set t"
  using assms b64url_char_plain by (auto simp: list_all_iff intro!: str_trim_id)

lemma extract_payment_scheme_token:
  assumes "list_all is_b64url_char t" and "t \<noteq> []"
  shows "extract_payment_scheme (''Payment '' @ t) = Some (''Payment '' @ t)"
proof -
  have "\<not> is_whitespace (last t)"
    using assms b64url_char_plain by (auto simp: list_all_iff)
  then have trim: "str_trim (''Payment '' @ t) = ''Payment '' @ t"
    using assms(2) by (intro str_trim_ends) (auto simp: is_whitespace_def)
  have "CHR '','' \<notin> set (''Payment '' @ t)"
    using token_plain(2) [OF assms(1)] by simp
  then have "split_on CHR '','' (''Payment '' @ t) = [''Payment '' @ t]"
    by (rule split_on_no_sep)
  moreover have "eq_ignore_ascii_case ''Payment '' ''payment ''"
    by (simp add: eq_ignore_ascii_case_def to_ascii_lowercase_def to_lower_def
        is_ascii_uppercase_def char_eval)
  ultimately show ?thesis
    by (simp only: extract_payment_scheme_def list.map trim)
      (simp add: get_to_def is_some_and_def)
qed

text \<open>What the two JSON printers and the parser have to satisfy on one value.\<close>

definition json_text_ok :: "crates \<Rightarrow> json \<Rightarrow> bool" where
  "json_text_ok X j \<longleftrightarrow> (\<forall>text. json_to_string X j = Inr text \<longrightarrow>
     json_from_slice X (as_bytes text) = Inr j)"

lemma formatted_credential_parses:
  assumes "format_authorization X c = Inr h" and "b64url_ok X"
    and "json_text_ok X (payment_credential_to_json c)"
    and "h \<noteq> ''Payment ''" and "length h \<le> 8 + max_token_len"
    and "digest_check (echo_digest (cred_challenge c)) = Inr ()"
  shows "parse_authorization X h = Inr c"
proof -
  obtain tx where tx: "json_to_string X (payment_credential_to_json c) = Inr tx"
    and h: "h = ''Payment '' @ b64url_encode X (as_bytes tx)"
    using assms(1) by (auto simp: format_authorization_def base64url_encode_def res_simps)
  let ?t = "b64url_encode X (as_bytes tx)"
  have plain: "list_all is_b64url_char ?t" and dec: "b64url_decode X ?t = Inr (as_bytes tx)"
    using assms(2) by (simp_all add: b64url_ok_def)
  have parsed: "json_from_slice X (as_bytes tx) = Inr (payment_credential_to_json c)"
    using assms(3) tx by (simp add: json_text_ok_def)
  have ne: "?t \<noteq> []" using assms(4) h by auto
  have len: "length ?t \<le> max_token_len" using assms(5) h by simp
  have ex: "extract_payment_scheme h = Some (''Payment '' @ ?t)"
    unfolding h using plain ne by (rule extract_payment_scheme_token)
  have cred: "from_slice X ''PaymentCredential'' payment_credential_of_json (as_bytes tx) = Inr c"
    by (simp add: from_slice_def from_value_def parsed payment_credential_json_roundtrip)
  show ?thesis
    by (simp add: parse_authorization_def ex Let_def token_plain(1) [OF plain] len
        base64url_decode_def dec cred assms(6))
qed

text \<open>
  C27: a credential that formats to an \<open>Authorization\<close> value parses back to itself, echo,
  source and arbitrary JSON payload included, provided the token is non-empty and within the
  16 KiB limit and the digest has the required prefix.
\<close>

theorem authorization_roundtrip:
  assumes "format_authorization X c = Inr h" and "b64url_ok X"
    and "json_text_ok X (payment_credential_to_json c)"
    and "h \<noteq> ''Payment ''" and "length h \<le> 8 + max_token_len"
    and "digest_check (echo_digest (cred_challenge c)) = Inr ()"
  shows "parse_authorization X h = Inr c"
  using assms by (rule formatted_credential_parses)

lemma formatted_credential_scheme:
  assumes "format_authorization X c = Inr h" and "b64url_ok X" and "h \<noteq> ''Payment ''"
  shows "extract_payment_scheme h = Some h"
proof -
  obtain t where h: "h = ''Payment '' @ t" and "list_all is_b64url_char t"
    using assms(1,2) by (auto simp: format_authorization_def base64url_encode_def res_simps b64url_ok_def)
  moreover have "t \<noteq> []" using assms(3) h by auto
  ultimately show ?thesis using extract_payment_scheme_token by simp
qed

definition sample_credential :: payment_credential where
  "sample_credential = credential_with_source (to_echo sample_challenge) ''did:pkh:x''
     (payment_payload_to_json (payload_hash ''0xabc''))"

theorem authorization_roundtrip_witness:
  "\<exists>X h. format_authorization X sample_credential = Inr h
     \<and> parse_authorization X h = Inr sample_credential"
proof -
  let ?j = "payment_credential_to_json sample_credential"
  let ?X = "sample_crates\<lparr>json_to_string := (\<lambda>_. Inr ''{}''), json_from_slice := (\<lambda>_. Inr ?j)\<rparr>"
  have f: "format_authorization ?X sample_credential = Inr ''Payment 7b7d''"
    by (simp add: format_authorization_def base64url_encode_def sample_crates_def as_bytes_def
        hex_digit_of_def char_eval)
  have b: "b64url_ok ?X" by (rule sample_laws) (simp_all add: sample_crates_def)
  have j: "json_text_ok ?X ?j" by (simp add: json_text_ok_def)
  have d: "digest_check (echo_digest (cred_challenge sample_credential)) = Inr ()"
    by (simp add: sample_credential_def credential_with_source_def to_echo_def sample_challenge_def
        digest_check_def is_valid_digest_format_def starts_with_def)
  have "parse_authorization ?X ''Payment 7b7d'' = Inr sample_credential"
    by (rule authorization_roundtrip [OF f b j _ _ d]) (simp_all add: max_token_len_def)
  with f show ?thesis by blast
qed

lemma receipt_roundtrip:
  assumes "format_receipt X r = Inr h" and "b64url_ok X"
    and "json_text_ok X (receipt_to_json r)" and "length h \<le> max_token_len"
    and "rfc3339_parse X (rc_timestamp r) \<noteq> None"
  shows "parse_receipt X h = Inr r"
proof -
  obtain tx where tx: "json_to_string X (receipt_to_json r) = Inr tx"
    and h: "h = b64url_encode X (as_bytes tx)"
    using assms(1) by (auto simp: format_receipt_def base64url_encode_def res_simps)
  have plain: "list_all is_b64url_char h" and dec: "b64url_decode X h = Inr (as_bytes tx)"
    using assms(2) h by (simp_all add: b64url_ok_def)
  have parsed: "json_from_slice X (as_bytes tx) = Inr (receipt_to_json r)"
    using assms(3) tx by (simp add: json_text_ok_def)
  have "from_slice X ''Receipt'' receipt_of_json (as_bytes tx) = Inr r"
    by (simp add: from_slice_def from_value_def parsed receipt_json_roundtrip)
  then show ?thesis
    using assms(4,5) by (simp add: parse_receipt_def Let_def token_plain(1) [OF plain]
        base64url_decode_def dec)
qed

end
