(* ===== verification/Voucher.thy ===== *)
theory Voucher
  imports Crates Sample_Crates
begin

text \<open>
  Vouchers of a payment channel (src/protocol/methods/movement/voucher.rs): the BCS encoding of
  a voucher, the channel identifier, signing and verification. A \<open>&[u8; 32]\<close> or \<open>&[u8; 64]\<close> is
  a byte list whose length the callers have checked. \<open>read_uleb128\<close> and \<open>read_voucher\<close> are the
  reference readers of the BCS format, against which the writers are proved.
\<close>

unbundle bit_operations_syntax

section \<open>BCS encoding\<close>

text \<open>The loop of \<open>bcs::serialize_uleb128\<close>: seven bits per byte, least significant first, the
  high bit set on every byte but the last.\<close>

lemma unat_drop_bit: "unat (drop_bit n (v :: 'a :: len word)) = unat v div 2 ^ n"
proof -
  have "take_bit LENGTH('a) (unat v) = unat v"
    by (simp add: take_bit_nat_eq_self_iff)
  then show ?thesis
    by (simp only: unsigned_drop_bit_eq) (simp add: drop_bit_eq_div)
qed

lemma drop_bit_7_less: "drop_bit 7 (v :: u64) \<noteq> 0 \<Longrightarrow> unat (drop_bit 7 v) < unat v"
proof -
  assume "drop_bit 7 v \<noteq> 0"
  then have "unat (drop_bit 7 v) \<noteq> 0" by (simp only: unat_eq_0 not_False_eq_True)
  then show ?thesis by (cases "unat v") (auto simp: unat_drop_bit)
qed

function serialize_uleb128 :: "u64 \<Rightarrow> bytes" where
  "serialize_uleb128 v =
     (let byte = (ucast (v AND 0x7F) :: u8); rest = drop_bit 7 v in
      if rest = 0 then [byte] else (byte OR 0x80) # serialize_uleb128 rest)"
  by pat_completeness auto

termination serialize_uleb128
  by (relation "measure unat") (simp_all add: drop_bit_7_less)

declare serialize_uleb128.simps [simp del]

fun le_bytes :: "nat \<Rightarrow> u64 \<Rightarrow> bytes" where
  "le_bytes 0 w = []"
| "le_bytes (Suc k) w = ucast w # le_bytes k (drop_bit 8 w)"

definition to_le_bytes :: "u64 \<Rightarrow> bytes" where
  "to_le_bytes w = le_bytes 8 w"

definition serialize_voucher :: "bytes \<Rightarrow> u64 \<Rightarrow> bytes" where
  "serialize_voucher channel_id cumulative_amount =
     serialize_uleb128 (of_nat (length channel_id)) @ channel_id @ to_le_bytes cumulative_amount"

section \<open>Channel identifiers and signatures\<close>

definition compute_channel_id ::
  "crates \<Rightarrow> bytes \<Rightarrow> bytes \<Rightarrow> bytes \<Rightarrow> bytes \<Rightarrow> bytes \<Rightarrow> bytes" where
  "compute_channel_id X payer payee token salt authorized_signer_pubkey =
     sha3_256 X (payer @ payee @ token @ salt @ authorized_signer_pubkey)"

definition sign_voucher :: "crates \<Rightarrow> bytes \<Rightarrow> bytes \<Rightarrow> u64 \<Rightarrow> bytes" where
  "sign_voucher X signing_key channel_id cumulative_amount =
     ed_sign X signing_key (serialize_voucher channel_id cumulative_amount)"

definition verify_voucher :: "crates \<Rightarrow> bytes \<Rightarrow> u64 \<Rightarrow> bytes \<Rightarrow> bytes \<Rightarrow> bytes \<Rightarrow> bool" where
  "verify_voucher X channel_id cumulative_amount sig public_key authorized_pubkey =
     (if authorized_pubkey \<noteq> [] \<and> public_key \<noteq> authorized_pubkey then False
      else if \<not> ed_key_valid X public_key then False
      else ed_verify X public_key (serialize_voucher channel_id cumulative_amount) sig)"

section \<open>Reference readers\<close>

fun read_uleb128 :: "bytes \<Rightarrow> (nat \<times> bytes) option" where
  "read_uleb128 [] = None"
| "read_uleb128 (b # bs) =
     (if unat b < 128 then Some (unat b, bs)
      else map_option (\<lambda>(n, r). (unat b - 128 + 128 * n, r)) (read_uleb128 bs))"

fun le_val :: "bytes \<Rightarrow> nat" where
  "le_val [] = 0"
| "le_val (b # bs) = unat b + 256 * le_val bs"

definition read_voucher :: "bytes \<Rightarrow> (bytes \<times> u64) option" where
  "read_voucher bs = Option.bind (read_uleb128 bs) (\<lambda>(n, r).
     if length r = n + 8 then Some (take n r, of_nat (le_val (drop n r))) else None)"

section \<open>Round trip\<close>

lemma unat_ucast_u8: "unat (ucast (v :: u64) :: u8) = unat v mod 256"
  by (simp add: unsigned_ucast_eq take_bit_eq_mod)

lemma length_le_bytes [simp]: "length (le_bytes k w) = k"
  by (induction k arbitrary: w) simp_all

lemma le_val_le_bytes: "le_val (le_bytes k w) = unat w mod 256 ^ k"
proof (induction k arbitrary: w)
  case (Suc k)
  have "le_val (le_bytes (Suc k) w) = unat w mod 256 + 256 * (unat w div 256 mod 256 ^ k)"
    by (simp add: Suc unat_ucast_u8 unat_drop_bit)
  also have "\<dots> = unat w mod (256 * 256 ^ k)"
    by (simp add: mod_mult2_eq)
  finally show ?case by simp
qed simp

lemma length_to_le_bytes: "length (to_le_bytes w) = 8"
  by (simp add: to_le_bytes_def)

lemma le_val_to_le_bytes: "of_nat (le_val (to_le_bytes w)) = w"
  using unat_u64_lt [of w] by (simp add: to_le_bytes_def le_val_le_bytes)

lemma low_seven_bits: "unat (ucast (v AND 0x7F :: u64) :: u8) = unat v mod 128"
proof -
  have "v AND 0x7F = take_bit 7 v"
    by (simp add: take_bit_eq_mask mask_eq_exp_minus_1)
  then have "unat (v AND 0x7F) = unat v mod 128"
    by (simp only: unsigned_take_bit_eq) (simp add: take_bit_eq_mod)
  then show ?thesis
    by (simp add: unat_ucast_u8 mod_mod_cancel)
qed

lemma set_high_bit: "unat (b :: u8) < 128 \<Longrightarrow> unat (b OR 0x80) = unat b + 128"
proof -
  assume lt: "unat b < 128"
  then have "\<not> bit (unat b) 7" by (simp add: bit_iff_odd)
  then have "\<not> bit b 7" by (simp add: bit_unsigned_iff)
  then have "b AND 0x80 = 0"
    using and_exp_eq_0_iff_not_bit [of b 7] by simp
  then have "b OR 0x80 = b + 0x80"
    by (rule disjunctive_add_eq_or [symmetric])
  with lt show ?thesis by (simp add: unat_word_ariths)
qed

lemma read_serialize_uleb128: "read_uleb128 (serialize_uleb128 v @ r) = Some (unat v, r)"
proof (induction v rule: serialize_uleb128.induct)
  case (1 v)
  show ?case
  proof (cases "drop_bit 7 v = 0")
    case True
    then have "unat v div 128 = 0" using unat_drop_bit [of 7 v] by simp
    then have "unat v < 128" by (simp add: div_eq_0_iff)
    then have "unat v < 128 \<and> unat v mod 128 = unat v" by simp
    then show ?thesis
      using True by (subst serialize_uleb128.simps) (simp add: Let_def low_seven_bits)
  next
    case False
    with 1 show ?thesis
      by (subst serialize_uleb128.simps)
        (simp add: Let_def low_seven_bits set_high_bit unat_drop_bit)
  qed
qed

lemma length_le_64_bits: "length cid < 2 ^ 64 \<Longrightarrow> unat (of_nat (length cid) :: u64) = length cid"
  by (simp add: unat_of_nat)

lemma read_serialize_voucher:
  assumes "length cid < 2 ^ 64"
  shows "read_voucher (serialize_voucher cid amt) = Some (cid, amt)"
proof -
  have "read_uleb128 (serialize_voucher cid amt) = Some (length cid, cid @ to_le_bytes amt)"
    unfolding serialize_voucher_def read_serialize_uleb128 length_le_64_bits [OF assms] ..
  then show ?thesis
    by (simp add: read_voucher_def le_val_to_le_bytes length_to_le_bytes)
qed

text \<open>
  The BCS bytes of a voucher determine it. A reader of the format (ULEB128 length, bytes,
  eight bytes little-endian) gets back the channel identifier and the amount that were
  written, for every identifier a Rust slice can hold; so two vouchers with the same signed
  message are the same voucher.
\<close>

theorem serialize_voucher_roundtrip:
  assumes "length cid < 2 ^ 64" and "length cid' < 2 ^ 64"
  shows "read_voucher (serialize_voucher cid amt) = Some (cid, amt)
    \<and> (serialize_voucher cid amt = serialize_voucher cid' amt' \<longleftrightarrow> cid = cid' \<and> amt = amt')"
  using read_serialize_voucher [OF assms(1), of amt] read_serialize_voucher [OF assms(2), of amt']
  by (metis option.inject prod.inject)

theorem serialize_voucher_roundtrip_witness:
  "serialize_voucher [1, 2] 7 \<noteq> serialize_voucher [1, 2] 8
   \<and> serialize_voucher [1, 2] 7 \<noteq> serialize_voucher [1] 7"
  using serialize_voucher_roundtrip [of "[1, 2]" "[1, 2]" 7 8]
    serialize_voucher_roundtrip [of "[1, 2]" "[1]" 7 7]
  by simp

lemma sign_then_verify:
  assumes "ed25519_ok X"
  shows "verify_voucher X cid amt (sign_voucher X sk cid amt) (ed_public X sk) auth
    \<longleftrightarrow> auth = [] \<or> auth = ed_public X sk"
  using assms by (auto simp: verify_voucher_def sign_voucher_def ed25519_ok_def)

lemma length_sign_voucher: "ed25519_ok X \<Longrightarrow> length (sign_voucher X sk cid amt) = 64"
  by (simp add: sign_voucher_def ed25519_ok_def)

lemma length_ed_public: "ed25519_ok X \<Longrightarrow> length (ed_public X sk) = 32"
  by (simp add: ed25519_ok_def)

text \<open>
  A voucher signed with a key verifies under its public key exactly when the channel has
  no authorized signer or that key is the authorized one.
\<close>

theorem signed_voucher_verifies:
  "ed25519_ok X \<Longrightarrow>
   verify_voucher X cid amt (sign_voucher X sk cid amt) (ed_public X sk) auth
     \<longleftrightarrow> auth = [] \<or> auth = ed_public X sk"
  by (rule sign_then_verify)

theorem signed_voucher_verifies_witness:
  "verify_voucher sample_crates [1] 5 (sign_voucher sample_crates [3] [1] 5)
     (ed_public sample_crates [3]) []
   \<and> \<not> verify_voucher sample_crates [1] 5 (sign_voucher sample_crates [3] [1] 5)
     (ed_public sample_crates [3]) [0]"
proof -
  have "length (ed_public sample_crates [3]) \<noteq> length [0 :: u8]"
    by (simp add: length_ed_public [OF sample_crates_ed25519_ok])
  then have "ed_public sample_crates [3] \<noteq> [0]"
    by (rule contrapos_nn) (rule arg_cong)
  then show ?thesis
    using signed_voucher_verifies [OF sample_crates_ed25519_ok, of "[1]" 5 "[3]" "[]"]
      signed_voucher_verifies [OF sample_crates_ed25519_ok, of "[1]" 5 "[3]" "[0]"]
    by (intro conjI) simp_all
qed

lemma channel_id_shift:
  "compute_channel_id X payer payee token (salt @ a) b
   = compute_channel_id X payer payee token salt (a @ b)"
  by (simp add: compute_channel_id_def)

text \<open>
  A channel identifier pins the channel's parameters. With 32-byte addresses and 32-byte
  signer keys, and SHA3-256 not colliding on the two messages, equal identifiers come from the
  same payer, payee, token, salt and signer. The key length is needed: salt and key are hashed
  without a separator, and moving bytes from one to the other keeps the identifier.
\<close>

theorem channel_id_binds:
  assumes "length payer = 32" "length payee = 32" "length token = 32" "length pk = 32"
    and "length payer' = 32" "length payee' = 32" "length token' = 32" "length pk' = 32"
    and "compute_channel_id X payer payee token salt pk
         = compute_channel_id X payer' payee' token' salt' pk'"
    and "sha3_256 X (payer @ payee @ token @ salt @ pk)
         = sha3_256 X (payer' @ payee' @ token' @ salt' @ pk')
       \<Longrightarrow> payer @ payee @ token @ salt @ pk = payer' @ payee' @ token' @ salt' @ pk'"
  shows "payer = payer' \<and> payee = payee' \<and> token = token' \<and> salt = salt' \<and> pk = pk'"
  using assms by (simp add: compute_channel_id_def)

theorem channel_id_binds_witness:
  "compute_channel_id (sample_crates\<lparr>sha3_256 := id\<rparr>) (replicate 32 1) (replicate 32 2)
     (replicate 32 3) [7] (replicate 32 4)
   \<noteq> compute_channel_id (sample_crates\<lparr>sha3_256 := id\<rparr>) (replicate 32 1) (replicate 32 2)
     (replicate 32 3) [8] (replicate 32 4)"
proof
  assume eq: "compute_channel_id (sample_crates\<lparr>sha3_256 := id\<rparr>) (replicate 32 1) (replicate 32 2)
     (replicate 32 3) [7] (replicate 32 4)
   = compute_channel_id (sample_crates\<lparr>sha3_256 := id\<rparr>) (replicate 32 1) (replicate 32 2)
     (replicate 32 3) [8] (replicate 32 4)"
  have "[7] = [8 :: u8]"
    using channel_id_binds [OF _ _ _ _ _ _ _ _ eq] by simp
  then show False by simp
qed

end
