(* ===== verification/Channel_Store.thy ===== *)
theory Channel_Store
  imports Errors Rust_Str
begin

text \<open>
  Payment channels and their store (src/protocol/methods/movement/session_method.rs): the
  channel state, the \<open>ChannelStore\<close> trait object as a record of operations over the state of
  the store, the in-memory store, and the deduction of a price from a channel's balance.

  The locale \<open>channel_store\<close> states what the trait promises its clients: reads return the entry
  of the key, and an update runs the updater on the current entry and replaces exactly that
  entry, or leaves the store alone when the updater fails. The lemmas about deductions, and
  those about the session handlers in \<open>Session_Method\<close>, are proved once under these laws;
  \<open>mem\<close> interprets it on the in-memory store. Sums of \<open>u64\<close> are those of a release build.
\<close>

section \<open>State\<close>

record channel_state =
  cs_channel_id :: string
  cs_module_address :: string
  cs_registry_address :: string
  cs_payer :: string
  cs_payee :: string
  cs_token :: string
  cs_authorized_signer_pubkey :: bytes
  cs_deposit :: u64
  cs_settled_on_chain :: u64
  cs_highest_voucher_amount :: u64
  cs_highest_voucher_signature :: "bytes option"
  cs_spent :: u64
  cs_units :: u64
  cs_finalized :: bool
  cs_created_at :: string

type_synonym updater = "channel_state option \<Rightarrow> verification_error + channel_state option"

record 's channel_store_ops =
  get_channel :: "'s \<Rightarrow> string \<Rightarrow> verification_error + channel_state option"
  update_channel :: "'s \<Rightarrow> string \<Rightarrow> updater \<Rightarrow> (verification_error + channel_state option) \<times> 's"

section \<open>Deductions\<close>

definition deduct_updater :: "u64 \<Rightarrow> updater" where
  "deduct_updater amount current =
     and_then (ok_or (ve_channel_not_found ''channel not found'') current) (\<lambda>state.
       let available = saturating_sub (cs_highest_voucher_amount state) (cs_spent state) in
       if amount \<le> available
       then Inr (Some (state\<lparr>cs_spent := cs_spent state + amount, cs_units := cs_units state + 1\<rparr>))
       else Inl (ve_insufficient_balance
         (''requested '' @ show_u64 amount @ '', available '' @ show_u64 available)))"

definition deduct_from_channel ::
  "'s channel_store_ops \<Rightarrow> string \<Rightarrow> u64 \<Rightarrow> 's \<Rightarrow> (verification_error + channel_state) \<times> 's" where
  "deduct_from_channel S channel_id amount st =
     (case update_channel S st channel_id (deduct_updater amount) of (result, st') \<Rightarrow>
       (and_then result (ok_or (ve_channel_not_found ''channel not found'')), st'))"

text \<open>A client that deducts a list of prices one after the other, and what it got in total.\<close>

fun run_deductions :: "'s channel_store_ops \<Rightarrow> string \<Rightarrow> u64 list \<Rightarrow> 's \<Rightarrow> nat \<times> 's" where
  "run_deductions S k [] st = (0, st)"
| "run_deductions S k (n # ns) st =
     (case deduct_from_channel S k n st of
        (Inl e, st') \<Rightarrow> run_deductions S k ns st'
      | (Inr c, st') \<Rightarrow> (let (t, st'') = run_deductions S k ns st' in (unat n + t, st'')))"

section \<open>In-memory store\<close>

type_synonym mem_store = "string \<rightharpoonup> channel_state"

definition mem_store_new :: mem_store where
  "mem_store_new = Map.empty"

definition get_channel_sync :: "mem_store \<Rightarrow> string \<Rightarrow> channel_state option" where
  "get_channel_sync channels channel_id = channels channel_id"

definition mem_insert :: "mem_store \<Rightarrow> string \<Rightarrow> channel_state \<Rightarrow> mem_store" where
  "mem_insert channels channel_id state = channels(channel_id \<mapsto> state)"

definition mem_get_channel :: "mem_store \<Rightarrow> string \<Rightarrow> verification_error + channel_state option" where
  "mem_get_channel channels channel_id = Inr (channels channel_id)"

definition mem_update_channel ::
  "mem_store \<Rightarrow> string \<Rightarrow> updater \<Rightarrow> (verification_error + channel_state option) \<times> mem_store" where
  "mem_update_channel channels channel_id updater =
     (case updater (channels channel_id) of
        Inr (Some state) \<Rightarrow> (Inr (Some state), channels(channel_id \<mapsto> state))
      | Inr None \<Rightarrow> (Inr None, channels(channel_id := None))
      | Inl e \<Rightarrow> (Inl e, channels))"

definition mem_channels :: "mem_store channel_store_ops" where
  "mem_channels = \<lparr>get_channel = mem_get_channel, update_channel = mem_update_channel\<rparr>"

section \<open>The contract of a store\<close>

locale channel_store =
  fixes S :: "'s channel_store_ops"
    and lookup :: "'s \<Rightarrow> string \<Rightarrow> channel_state option"
  assumes get: "get_channel S st k = Inr (lookup st k)"
    and update_err: "u (lookup st k) = Inl e \<Longrightarrow> update_channel S st k u = (Inl e, st)"
    and update_ok: "u (lookup st k) = Inr r \<Longrightarrow>
      fst (update_channel S st k u) = Inr r \<and> lookup (snd (update_channel S st k u)) = (lookup st)(k := r)"
begin

lemma update_okE:
  assumes "u (lookup st k) = Inr r"
  obtains st' where "update_channel S st k u = (Inr r, st')" and "lookup st' = (lookup st)(k := r)"
  using update_ok [of u st k r, OF assms] by (cases "update_channel S st k u") auto

lemma deduct_missing:
  "lookup st k = None \<Longrightarrow>
   deduct_from_channel S k n st = (Inl (ve_channel_not_found ''channel not found''), st)"
  by (simp add: deduct_from_channel_def deduct_updater_def update_err)

lemma deduct_refused:
  assumes "lookup st k = Some c" and "saturating_sub (cs_highest_voucher_amount c) (cs_spent c) < n"
  obtains e where "ve_code e = Some InsufficientBalance"
    and "deduct_from_channel S k n st = (Inl e, st)"
proof -
  let ?e = "ve_insufficient_balance (''requested '' @ show_u64 n @ '', available '' @
    show_u64 (saturating_sub (cs_highest_voucher_amount c) (cs_spent c)))"
  have "deduct_updater n (lookup st k) = Inl ?e"
    using assms by (simp add: deduct_updater_def Let_def)
  then have "deduct_from_channel S k n st = (Inl ?e, st)"
    by (simp add: deduct_from_channel_def update_err)
  then show thesis by (intro that [of ?e]) (simp_all add: ve_defs)
qed

lemma deduct_accepted:
  assumes "lookup st k = Some c" and "n \<le> saturating_sub (cs_highest_voucher_amount c) (cs_spent c)"
  obtains st' where "deduct_from_channel S k n st =
      (Inr (c\<lparr>cs_spent := cs_spent c + n, cs_units := cs_units c + 1\<rparr>), st')"
    and "lookup st' = (lookup st)(k \<mapsto> c\<lparr>cs_spent := cs_spent c + n, cs_units := cs_units c + 1\<rparr>)"
proof -
  let ?c = "c\<lparr>cs_spent := cs_spent c + n, cs_units := cs_units c + 1\<rparr>"
  have "deduct_updater n (lookup st k) = Inr (Some ?c)"
    using assms by (simp add: deduct_updater_def Let_def)
  then obtain st' where "update_channel S st k (deduct_updater n) = (Inr (Some ?c), st')"
    and "lookup st' = (lookup st)(k \<mapsto> ?c)"
    by (rule update_okE)
  then show thesis by (intro that [of st']) (simp_all add: deduct_from_channel_def)
qed

lemma run_deductions_sound:
  assumes "lookup st k = Some c" and "cs_spent c \<le> cs_highest_voucher_amount c"
    and "run_deductions S k ns st = (t, st')"
  shows "\<exists>c'. lookup st' = (lookup st)(k \<mapsto> c')
    \<and> c' = c\<lparr>cs_spent := cs_spent c', cs_units := cs_units c'\<rparr>
    \<and> unat (cs_spent c') = unat (cs_spent c) + t
    \<and> cs_spent c' \<le> cs_highest_voucher_amount c"
  using assms
proof (induction ns arbitrary: st c t)
  case Nil
  then show ?case by (auto intro!: exI [of _ c])
next
  case (Cons n ns)
  let ?av = "saturating_sub (cs_highest_voucher_amount c) (cs_spent c)"
  show ?case
  proof (cases "n \<le> ?av")
    case False
    then obtain e where "deduct_from_channel S k n st = (Inl e, st)"
      using deduct_refused [OF Cons.prems(1), of n] by (metis linorder_not_le)
    with Cons show ?thesis by simp
  next
    case True
    let ?c = "c\<lparr>cs_spent := cs_spent c + n, cs_units := cs_units c + 1\<rparr>"
    obtain st1 where ded: "deduct_from_channel S k n st = (Inr ?c, st1)"
      and l1: "lookup st1 = (lookup st)(k \<mapsto> ?c)"
      by (rule deduct_accepted [OF Cons.prems(1) True])
    obtain t1 where run: "run_deductions S k ns st1 = (t1, st')" and t: "t = unat n + t1"
      using Cons.prems(3) ded by (auto split: prod.splits)
    note add = add_within_saturating_sub [OF True Cons.prems(2)]
    have "lookup st1 k = Some ?c" "cs_spent ?c \<le> cs_highest_voucher_amount ?c"
      using l1 add(2) by simp_all
    from Cons.IH [OF this run] obtain c' where
      "lookup st' = (lookup st1)(k \<mapsto> c')" "c' = ?c\<lparr>cs_spent := cs_spent c', cs_units := cs_units c'\<rparr>"
      "unat (cs_spent c') = unat (cs_spent ?c) + t1" "cs_spent c' \<le> cs_highest_voucher_amount ?c"
      by blast
    with l1 t add(1) show ?thesis by (intro exI [of _ c']) simp
  qed
qed

end

interpretation mem: channel_store mem_channels get_channel_sync
  by unfold_locales
    (auto simp: mem_channels_def mem_get_channel_def mem_update_channel_def get_channel_sync_def
      fun_eq_iff split: option.splits)

lemma get_channel_sync_eq [simp]: "get_channel_sync channels = channels"
  by (simp add: get_channel_sync_def fun_eq_iff)

text \<open>
  A deduction succeeds exactly when the channel exists and the price is within the accepted
  vouchers not yet spent; it then adds the price to \<open>spent\<close> and one to \<open>units\<close> of that channel
  and nothing else, and a refused deduction leaves the store as it was.
\<close>

theorem deduct_iff:
  "(is_ok (fst (deduct_from_channel mem_channels k n channels)) \<longleftrightarrow>
     (\<exists>c. channels k = Some c \<and>
       unat n \<le> unat (cs_highest_voucher_amount c) - unat (cs_spent c)))
   \<and> snd (deduct_from_channel mem_channels k n channels) =
     (case channels k of None \<Rightarrow> channels
      | Some c \<Rightarrow> if unat n \<le> unat (cs_highest_voucher_amount c) - unat (cs_spent c)
          then channels(k \<mapsto> c\<lparr>cs_spent := cs_spent c + n, cs_units := cs_units c + 1\<rparr>)
          else channels)"
proof (cases "channels k")
  case None
  then show ?thesis using mem.deduct_missing [of channels k n] by simp
next
  case (Some c)
  have le: "unat n \<le> unat (cs_highest_voucher_amount c) - unat (cs_spent c)
    \<longleftrightarrow> n \<le> saturating_sub (cs_highest_voucher_amount c) (cs_spent c)"
    by (simp add: word_le_nat_alt unat_saturating_sub)
  show ?thesis
  proof (cases "n \<le> saturating_sub (cs_highest_voucher_amount c) (cs_spent c)")
    case True
    obtain ch' where "deduct_from_channel mem_channels k n channels =
        (Inr (c\<lparr>cs_spent := cs_spent c + n, cs_units := cs_units c + 1\<rparr>), ch')"
      "ch' = channels(k \<mapsto> c\<lparr>cs_spent := cs_spent c + n, cs_units := cs_units c + 1\<rparr>)"
      using mem.deduct_accepted [of channels k c n thesis] Some True by auto
    then show ?thesis using Some True le by simp
  next
    case False
    then obtain e where "deduct_from_channel mem_channels k n channels = (Inl e, channels)"
      using mem.deduct_refused [of channels k c n thesis] Some by (auto simp: linorder_not_le)
    then show ?thesis using Some False le by simp
  qed
qed

text \<open>
  No overspending. Whatever prices are deducted from a channel in whatever order, what was
  handed out in total is exactly the growth of \<open>spent\<close>, with no wrap-around, it stays within
  the highest accepted voucher, and no other field and no other channel changes.
\<close>

theorem deductions_conserve:
  assumes "channels k = Some c" and "cs_spent c \<le> cs_highest_voucher_amount c"
    and "run_deductions mem_channels k ns channels = (t, channels')"
  shows "\<exists>c'. channels' = channels(k \<mapsto> c')
    \<and> c' = c\<lparr>cs_spent := cs_spent c', cs_units := cs_units c'\<rparr>
    \<and> unat (cs_spent c') = unat (cs_spent c) + t
    \<and> cs_spent c' \<le> cs_highest_voucher_amount c"
  using mem.run_deductions_sound [of channels k c ns t channels'] assms by simp

definition sample_channel :: channel_state where
  "sample_channel = \<lparr>cs_channel_id = ''0a'', cs_module_address = ''0x1'',
     cs_registry_address = ''0x1'', cs_payer = ''0x2'', cs_payee = ''0x3'', cs_token = ''0xa'',
     cs_authorized_signer_pubkey = [], cs_deposit = 100, cs_settled_on_chain = 0,
     cs_highest_voucher_amount = 50, cs_highest_voucher_signature = None, cs_spent = 10,
     cs_units = 1, cs_finalized = False, cs_created_at = ''now''\<rparr>"

theorem deductions_conserve_witness:
  "\<exists>c'. snd (run_deductions mem_channels ''k'' [30, 20, 5] [''k'' \<mapsto> sample_channel])
       = [''k'' \<mapsto> c']
     \<and> unat (cs_spent c') = 10 + fst (run_deductions mem_channels ''k'' [30, 20, 5] [''k'' \<mapsto> sample_channel])"
  using deductions_conserve [of "[''k'' \<mapsto> sample_channel]" "''k''" sample_channel "[30, 20, 5]"
      "fst (run_deductions mem_channels ''k'' [30, 20, 5] [''k'' \<mapsto> sample_channel])"
      "snd (run_deductions mem_channels ''k'' [30, 20, 5] [''k'' \<mapsto> sample_channel])"]
  by (auto simp: sample_channel_def)

end
