(* ===== verification/Amounts.thy ===== *)
theory Amounts
  imports Errors
begin

text \<open>
  The two conversions from human-readable amounts to base units: \<open>parse_dollar_amount\<close>
  (src/server/amount.rs, checked \<open>u128\<close> arithmetic) and \<open>parse_units\<close>
  (src/protocol/intents/mod.rs, by string surgery). The lemmas give the exact value of both on
  every decimal numeral and show that they agree wherever the first one succeeds; the second
  validates nothing, which is stated as well. \<open>decimals\<close> is a natural number.
\<close>

section \<open>Checked conversion\<close>

datatype amount_error =
    AeEmpty
  | AeInvalidFormat string
  | AeTooManyDecimals nat nat
  | AeZeroOrNegative
  | AeOverflow

fun amount_error_display :: "amount_error \<Rightarrow> string" where
  "amount_error_display AeEmpty = ''amount cannot be empty''"
| "amount_error_display (AeInvalidFormat s) = ''invalid amount format: '' @ s"
| "amount_error_display (AeTooManyDecimals given mx) =
     ''too many decimal places: '' @ show_nat given @ '' given, max '' @ show_nat mx
     @ '' for this token''"
| "amount_error_display AeZeroOrNegative = ''amount must be greater than zero''"
| "amount_error_display AeOverflow = ''amount too large''"

definition mpp_of_amount_error :: "amount_error \<Rightarrow> mpp_error" where
  "mpp_of_amount_error e = MppInvalidAmount (amount_error_display e)"

definition checked_mul_u128 :: "nat \<Rightarrow> nat \<Rightarrow> nat option" where
  "checked_mul_u128 a b = (if a * b \<le> u128_max then Some (a * b) else None)"

definition checked_add_u128 :: "nat \<Rightarrow> nat \<Rightarrow> nat option" where
  "checked_add_u128 a b = (if a + b \<le> u128_max then Some (a + b) else None)"

definition parse_part :: "string \<Rightarrow> string \<Rightarrow> amount_error + nat" where
  "parse_part amount part =
     (if part = [] then Inr 0 else ok_or (AeInvalidFormat amount) (parse_uint u128_max part))"

definition parse_dollar_amount :: "string \<Rightarrow> nat \<Rightarrow> amount_error + string" where
  "parse_dollar_amount input decimals =
     (let amount = str_trim input in
      if amount = [] then Inl AeEmpty
      else if starts_with ''-'' amount then Inl AeZeroOrNegative
      else
        let (integer_part, frac_part) =
          (case split_once CHR ''.'' amount of Some (i, f) \<Rightarrow> (i, f) | None \<Rightarrow> (amount, [])) in
        if integer_part = [] \<and> frac_part = [] then Inl (AeInvalidFormat amount)
        else if integer_part \<noteq> [] \<and> \<not> list_all is_ascii_digit integer_part
        then Inl (AeInvalidFormat amount)
        else if frac_part \<noteq> [] \<and> \<not> list_all is_ascii_digit frac_part
        then Inl (AeInvalidFormat amount)
        else if decimals < length frac_part
        then Inl (AeTooManyDecimals (length frac_part) decimals)
        else
          and_then (parse_part amount integer_part) (\<lambda>int_val.
          and_then (parse_part amount frac_part) (\<lambda>frac_val.
          if 38 < decimals then Inl AeOverflow
          else
            let scale = 10 ^ decimals; frac_scale = 10 ^ (decimals - length frac_part) in
            case Option.bind (checked_mul_u128 int_val scale) (\<lambda>v.
                 Option.bind (checked_mul_u128 frac_val frac_scale) (checked_add_u128 v)) of
              None \<Rightarrow> Inl AeOverflow
            | Some base_units \<Rightarrow>
                if base_units = 0 then Inl AeZeroOrNegative else Inr (show_nat base_units))))"

section \<open>Conversion by string surgery\<close>

definition parse_units :: "string \<Rightarrow> nat \<Rightarrow> mpp_error + string" where
  "parse_units amount decimals =
     (if amount = [] then Inl (MppInvalidAmount ''Amount cannot be empty'')
      else
        let parts = split_on CHR ''.'' amount in
        if 2 < length parts then Inl (MppInvalidAmount (''Invalid amount format: '' @ amount))
        else
          let integer_part = hd parts;
              fraction_part = (if length parts = 2 then parts ! 1 else []) in
          if decimals < length fraction_part
          then Inl (MppInvalidAmount (''Amount '' @ amount @ '' has more than ''
                 @ show_nat decimals @ '' decimal places''))
          else
            let padded = fraction_part @ replicate (decimals - length fraction_part) CHR ''0'';
                result = trim_start_matches CHR ''0'' (integer_part @ padded) in
            Inr (if result = [] then ''0'' else result))"

section \<open>Decimal numerals\<close>

lemma digit_val_lt: "is_ascii_digit c \<Longrightarrow> digit_val c < 10"
  unfolding is_ascii_digit_def digit_val_def by arith

lemma digit_char_val: "is_ascii_digit c \<Longrightarrow> digit_char (digit_val c) = c"
  by (simp add: is_ascii_digit_def digit_val_def digit_char_def)

lemma dec_val_Nil [simp]: "dec_val [] = 0"
  by (simp add: dec_val_def)

lemma dec_val_append: "dec_val (s @ t) = dec_val s * 10 ^ length t + dec_val t"
proof (induction t rule: rev_induct)
  case (snoc c t)
  have "dec_val (s @ t @ [c]) = 10 * dec_val (s @ t) + digit_val c"
    using dec_val_snoc [of "s @ t" c] by simp
  with snoc show ?case by (simp add: algebra_simps)
qed simp

lemma dec_val_zeros [simp]: "dec_val (replicate n CHR ''0'') = 0"
  by (induction n) (simp_all add: replicate_append_same [symmetric] digit_val_def
      del: replicate_append_same)

lemma dec_val_lt: "list_all is_ascii_digit s \<Longrightarrow> dec_val s < 10 ^ length s"
proof (induction s rule: rev_induct)
  case (snoc c s)
  then have "dec_val s < 10 ^ length s" and "digit_val c < 10"
    by (simp_all add: digit_val_lt)
  then show ?case by simp
qed simp

lemma dec_val_trim: "dec_val (trim_start_matches CHR ''0'' s) = dec_val s"
proof -
  have "dec_val s = dec_val (takeWhile (\<lambda>d. d = CHR ''0'') s @ dropWhile (\<lambda>d. d = CHR ''0'') s)"
    by simp
  also have "takeWhile (\<lambda>d. d = CHR ''0'') s = replicate (length (takeWhile (\<lambda>d. d = CHR ''0'') s)) CHR ''0''"
    by (rule replicate_eqI [symmetric, THEN sym]) (auto dest: set_takeWhileD)
  finally show ?thesis
    by (simp add: trim_start_matches_def dec_val_append)
qed

lemma show_nat_dec_val:
  "list_all is_ascii_digit s \<Longrightarrow> s \<noteq> [] \<Longrightarrow> hd s \<noteq> CHR ''0'' \<Longrightarrow> show_nat (dec_val s) = s \<and> 0 < dec_val s"
proof (induction s rule: rev_induct)
  case (snoc c t)
  have c: "is_ascii_digit c" and dc: "digit_val c < 10"
    using snoc.prems by (auto intro: digit_val_lt)
  show ?case
  proof (cases "t = []")
    case True
    have d0: "digit_char 0 = CHR ''0''" by (simp add: digit_char_def char_eval)
    have "c \<noteq> CHR ''0''" using snoc.prems True by simp
    then have "digit_val c \<noteq> 0"
      using digit_char_val [OF c] d0 by metis
    with True c dc show ?thesis
      by (simp add: show_nat.simps dec_val_def digit_char_val)
  next
    case False
    with snoc have IH: "show_nat (dec_val t) = t" "0 < dec_val t" by auto
    have "\<not> dec_val (t @ [c]) < 10" using IH(2) by simp
    moreover have "dec_val (t @ [c]) div 10 = dec_val t" "dec_val (t @ [c]) mod 10 = digit_val c"
      using dc by simp_all
    ultimately have "show_nat (dec_val (t @ [c])) = show_nat (dec_val t) @ [digit_char (digit_val c)]"
      by (simp only: show_nat.simps [of "dec_val (t @ [c])"] if_False)
    with IH c show ?thesis by (simp add: digit_char_val)
  qed
qed simp

lemma trim_zeros_show_nat:
  assumes "list_all is_ascii_digit s"
  shows "(let r = trim_start_matches CHR ''0'' s in if r = [] then ''0'' else r) = show_nat (dec_val s)"
proof (cases "trim_start_matches CHR ''0'' s = []")
  case True
  then have "dec_val s = 0" using dec_val_trim [of s] by simp
  with True show ?thesis by (simp add: show_nat.simps digit_char_def char_eval)
next
  case False
  let ?r = "trim_start_matches CHR ''0'' s"
  have "list_all is_ascii_digit ?r"
    using assms by (auto simp: trim_start_matches_def list_all_iff dest: set_dropWhileD)
  moreover have "hd ?r \<noteq> CHR ''0''"
    using hd_dropWhile [of "\<lambda>d. d = CHR ''0''" s] False by (simp add: trim_start_matches_def)
  ultimately have "show_nat (dec_val ?r) = ?r"
    using show_nat_dec_val False by blast
  with False show ?thesis by (simp add: dec_val_trim)
qed

section \<open>The value of a decimal amount\<close>

lemma split_once_at: "c \<notin> set s \<Longrightarrow> split_once c (s @ c # t) = Some (s, t)"
  by (induction s) auto

lemma split_once_none: "c \<notin> set s \<Longrightarrow> split_once c s = None"
  by (induction s) auto

lemma digits_plain:
  assumes "list_all is_ascii_digit s"
  shows "CHR ''.'' \<notin> set s" and "\<forall>c \<in> set s. \<not> is_whitespace c" and "CHR ''-'' \<notin> set s"
  using assms by (auto simp: list_all_iff is_ascii_digit_def is_whitespace_def)

lemma parse_part_digits:
  assumes "list_all is_ascii_digit s"
  shows "parse_part a s = (if dec_val s \<le> u128_max then Inr (dec_val s) else Inl (AeInvalidFormat a))"
  using assms by (cases "s = []") (simp_all add: parse_part_def parse_uint_digits del: One_nat_def)

definition base_units_value :: "string \<Rightarrow> string \<Rightarrow> nat \<Rightarrow> nat" where
  "base_units_value i f d = dec_val i * 10 ^ d + dec_val f * 10 ^ (d - length f)"

lemma frac_bound:
  assumes "list_all is_ascii_digit f" and "length f \<le> d" and "d \<le> 38"
  shows "dec_val f * 10 ^ (d - length f) < 10 ^ 38" and "dec_val f \<le> u128_max"
proof -
  have "dec_val f * 10 ^ (d - length f) < 10 ^ length f * 10 ^ (d - length f)"
    using dec_val_lt [OF assms(1)] by simp
  also have "\<dots> = 10 ^ d" using assms(2) by (simp add: power_add [symmetric])
  also have "(10::nat) ^ d \<le> 10 ^ 38" using assms(3) by (intro power_increasing) simp_all
  finally show lt: "dec_val f * 10 ^ (d - length f) < 10 ^ 38" .
  have "dec_val f * 1 \<le> dec_val f * 10 ^ (d - length f)"
    by (intro mult_le_mono2) simp
  with lt have "dec_val f < 10 ^ 38" by linarith
  then show "dec_val f \<le> u128_max" by simp
qed

text \<open>A decimal numeral, \<open>12.50\<close>, \<open>.5\<close>, \<open>3.\<close> or \<open>7\<close>, with its integer and fraction digits.\<close>

definition is_numeral :: "string \<Rightarrow> string \<Rightarrow> string \<Rightarrow> bool" where
  "is_numeral a i f \<longleftrightarrow> set (i @ f) \<subseteq> set ''0123456789'' \<and> (i \<noteq> [] \<or> f \<noteq> [])
     \<and> (a = i @ ''.'' @ f \<or> a = i \<and> f = [])"

lemma digit_range: "c \<in> set ''0123456789'' \<Longrightarrow> is_ascii_digit c"
  by (auto simp: is_ascii_digit_def)

lemma is_numeralD:
  assumes "is_numeral a i f"
  shows "list_all is_ascii_digit i" and "list_all is_ascii_digit f"
    and "i \<noteq> [] \<or> f \<noteq> []" and "a = i @ ''.'' @ f \<or> a = i \<and> f = []"
  using assms digit_range by (auto simp: is_numeral_def list_all_iff subset_iff simp del: set_simps)

lemma numeral_shape:
  assumes "is_numeral a i f"
  shows "a \<noteq> []" and "\<not> starts_with ''-'' a" and "str_trim a = a"
    and "(case split_once CHR ''.'' a of Some (i, f) \<Rightarrow> (i, f) | None \<Rightarrow> (a, [])) = (i, f)"
proof -
  note n = is_numeralD [OF assms]
  show "a \<noteq> []" using n(3,4) by auto
  show "\<not> starts_with ''-'' a"
    using n(3,4) digits_plain(3) [OF n(1)] by (cases i) (auto simp: starts_with_def)
  show "str_trim a = a"
    using n(4) digits_plain(2) [OF n(1)] digits_plain(2) [OF n(2)]
    by (intro str_trim_id) (auto simp: is_whitespace_def)
  show "(case split_once CHR ''.'' a of Some (i, f) \<Rightarrow> (i, f) | None \<Rightarrow> (a, [])) = (i, f)"
    using n(4) split_once_at [OF digits_plain(1) [OF n(1)], of f] split_once_none [OF digits_plain(1) [OF n(1)]]
    by auto
qed

lemma parse_dollar_amount_numeral:
  assumes "is_numeral a i f" and "str_trim input = a"
  shows "parse_dollar_amount input d =
    (if d < length f then Inl (AeTooManyDecimals (length f) d)
     else and_then (parse_part a i) (\<lambda>int_val.
       and_then (parse_part a f) (\<lambda>frac_val.
       if 38 < d then Inl AeOverflow
       else case Option.bind (checked_mul_u128 int_val (10 ^ d)) (\<lambda>v.
              Option.bind (checked_mul_u128 frac_val (10 ^ (d - length f))) (checked_add_u128 v)) of
              None \<Rightarrow> Inl AeOverflow
            | Some base_units \<Rightarrow>
                if base_units = 0 then Inl AeZeroOrNegative else Inr (show_nat base_units))))"
proof -
  note n = is_numeralD [OF assms(1)] and s = numeral_shape [OF assms(1)]
  have "\<not> (i = [] \<and> f = [])" using n(3) by simp
  then show ?thesis
    unfolding parse_dollar_amount_def Let_def assms(2) s(4) prod.case
    using s(1,2) n(1,2) by (simp only: if_False simp_thms)
qed

lemma dollar_amount_value:
  assumes "is_numeral a i f" and "str_trim input = a" and "d \<le> 38"
  shows "parse_dollar_amount input d =
    (if d < length f then Inl (AeTooManyDecimals (length f) d)
     else if u128_max < dec_val i then Inl (AeInvalidFormat a)
     else if u128_max < base_units_value i f d then Inl AeOverflow
     else if base_units_value i f d = 0 then Inl AeZeroOrNegative
     else Inr (show_nat (base_units_value i f d)))"
proof (cases "d < length f")
  case True
  then show ?thesis by (simp add: parse_dollar_amount_numeral [OF assms(1,2)])
next
  case False
  note n = is_numeralD [OF assms(1)]
  have mono: "dec_val i * 10 ^ d \<le> base_units_value i f d"
    by (simp add: base_units_value_def)
  have fb: "dec_val f * 10 ^ (d - length f) < 10 ^ 38" "dec_val f \<le> u128_max"
    using frac_bound [OF n(2) _ assms(3)] False by simp_all
  have checked: "Option.bind (checked_mul_u128 (dec_val i) (10 ^ d)) (\<lambda>v.
      Option.bind (checked_mul_u128 (dec_val f) (10 ^ (d - length f))) (checked_add_u128 v))
      = (if u128_max < base_units_value i f d then None else Some (base_units_value i f d))"
    using fb(1) mono by (auto simp: checked_mul_u128_def checked_add_u128_def base_units_value_def)
  show ?thesis
    unfolding parse_dollar_amount_numeral [OF assms(1,2)]
    using False assms(3) fb(2)
    by (simp add: parse_part_digits n(1,2) checked Let_def del: One_nat_def)
qed

text \<open>
  C31: the exact result of \<open>parse_dollar_amount\<close> on every decimal numeral, with or without a
  point, with blanks around it or not, for up to 38 decimals. More fraction digits than
  \<open>decimals\<close> are refused; otherwise the base units are the numeral scaled by a power of ten,
  printed without leading zeros; zero is refused, and a value that does not fit \<open>u128\<close> is an
  error, never a wrapped amount.
\<close>

theorem parse_dollar_amount_value:
  assumes "is_numeral a i f" and "str_trim input = a" and "d \<le> 38"
  shows "parse_dollar_amount input d =
    (if d < length f then Inl (AeTooManyDecimals (length f) d)
     else if u128_max < dec_val i then Inl (AeInvalidFormat a)
     else if u128_max < base_units_value i f d then Inl AeOverflow
     else if base_units_value i f d = 0 then Inl AeZeroOrNegative
     else Inr (show_nat (base_units_value i f d)))"
  using assms by (rule dollar_amount_value)

lemma sample_numerals:
  "is_numeral ''0.10'' ''0'' ''10''" "is_numeral ''0.00'' ''0'' ''00''" "is_numeral ''1'' ''1'' []"
  "is_numeral ''1.5'' ''1'' ''5''"
  by (simp_all add: is_numeral_def)

lemma sample_values:
  "base_units_value ''0'' ''10'' 6 = 100000" "base_units_value ''0'' ''00'' 6 = 0"
  "base_units_value ''1'' [] 6 = 1000000" "base_units_value ''1'' ''5'' 6 = 1500000"
  "dec_val ''0'' = 0" "dec_val ''1'' = 1"
  by (simp_all add: base_units_value_def dec_val_def digit_val_def)

lemma sample_shown:
  "show_nat 100000 = ''100000''" "show_nat 1000000 = ''1000000''" "show_nat 1500000 = ''1500000''"
  by (simp_all add: show_nat.simps digit_char_def char_eval)

theorem parse_dollar_amount_value_witness:
  "parse_dollar_amount ''0.10'' 6 = Inr ''100000'' \<and> parse_dollar_amount '' 1'' 6 = Inr ''1000000''
   \<and> parse_dollar_amount ''0.00'' 6 = Inl AeZeroOrNegative
   \<and> parse_dollar_amount ''0.10'' 1 = Inl (AeTooManyDecimals 2 1)"
proof -
  have "str_trim '' 1'' = ''1''"
    by (simp add: str_trim_def trim_start_def trim_end_def is_whitespace_def)
  note one = parse_dollar_amount_value [OF sample_numerals(3) this, of 6]
  note ten = parse_dollar_amount_value [OF sample_numerals(1) numeral_shape(3) [OF sample_numerals(1)]]
  note zero = parse_dollar_amount_value [OF sample_numerals(2) numeral_shape(3) [OF sample_numerals(2)], of 6]
  show ?thesis
    using one ten [of 6] ten [of 1] zero by (simp add: sample_values sample_shown)
qed

lemma parse_units_digits:
  assumes "is_numeral a i f" and "length f \<le> d"
  shows "parse_units a d = Inr (show_nat (base_units_value i f d))"
proof -
  note n = is_numeralD [OF assms(1)]
  let ?parts = "split_on CHR ''.'' a"
  have parts: "?parts = [i, f] \<or> ?parts = [i] \<and> f = []"
    using n(4) digits_plain(1) [OF n(1)] digits_plain(1) [OF n(2)]
    by (auto simp: split_on_sep split_on_no_sep)
  let ?s = "i @ f @ replicate (d - length f) CHR ''0''"
  have digits: "list_all is_ascii_digit ?s"
    using n(1,2) by (auto simp: list_all_iff is_ascii_digit_def)
  have val: "dec_val ?s = base_units_value i f d"
    using assms(2) by (simp add: dec_val_append base_units_value_def)
  show ?thesis
    unfolding parse_units_def Let_def
    using parts trim_zeros_show_nat [OF digits] assms(2) numeral_shape(1) [OF assms(1)]
    by (auto simp: Let_def val split: if_splits)
qed

text \<open>
  The two conversions agree. Whenever the checked one accepts a numeral without
  surrounding blanks, the string surgery gives the same text for the same number of decimals.
\<close>

theorem parse_units_agrees:
  assumes "is_numeral a i f" and "d \<le> 38" and "parse_dollar_amount a d = Inr s"
  shows "parse_units a d = Inr s"
proof -
  have val: "parse_dollar_amount a d =
    (if d < length f then Inl (AeTooManyDecimals (length f) d)
     else if u128_max < dec_val i then Inl (AeInvalidFormat a)
     else if u128_max < base_units_value i f d then Inl AeOverflow
     else if base_units_value i f d = 0 then Inl AeZeroOrNegative
     else Inr (show_nat (base_units_value i f d)))"
    using numeral_shape(3) [OF assms(1)] assms(2) by (rule dollar_amount_value [OF assms(1)])
  with assms(3) have "s = show_nat (base_units_value i f d)" and "length f \<le> d"
    by (simp_all split: if_splits del: One_nat_def)
  with parse_units_digits [OF assms(1)] show ?thesis by simp
qed

theorem parse_units_agrees_witness: "parse_units ''1.5'' 6 = Inr ''1500000''"
proof -
  have "parse_dollar_amount ''1.5'' 6 = Inr ''1500000''"
    using dollar_amount_value [OF sample_numerals(4) numeral_shape(3) [OF sample_numerals(4)], of 6]
    by (simp add: sample_values sample_shown)
  from parse_units_agrees [OF sample_numerals(4) _ this] show ?thesis by simp
qed

text \<open>
  \<open>parse_units\<close> checks no digits. Any non-empty text without a point is accepted, signs and
  letters included, and its leading zeros are cut: a negative or alphabetic amount passes this
  step and is padded with zeros like a number.
\<close>

theorem parse_units_accepts_any_text:
  "CHR ''.'' \<notin> set s \<Longrightarrow> s \<noteq> [] \<Longrightarrow> hd s \<noteq> CHR ''0'' \<Longrightarrow>
   parse_units s d = Inr (s @ replicate d CHR ''0'')"
  by (cases s) (simp_all add: parse_units_def split_on_no_sep trim_start_matches_def Let_def
      del: split_on.simps)

theorem parse_units_accepts_any_text_witness:
  "parse_units ''-1'' 2 = Inr ''-100'' \<and> parse_units ''abc'' 0 = Inr ''abc''"
  using parse_units_accepts_any_text [of "''-1''" 2] parse_units_accepts_any_text [of "''abc''" 0]
  by (simp add: numeral_2_eq_2)

end
