(* ===== verification/Intents.thy ===== *)
theory Intents
  imports Core_Types Amounts Sample_Crates
begin

text \<open>
  The request schemas of the two intents: \<open>ChargeRequest\<close> (src/protocol/intents/charge.rs) and
  \<open>SessionRequest\<close> (src/protocol/intents/session.rs) with their JSON forms, the base-unit
  transform, and the limit on the amount. \<open>decimals\<close> is never on the wire.
\<close>

section \<open>Charge request\<close>

record charge_request =
  cr_amount :: string
  cr_currency :: string
  cr_decimals :: "nat option"
  cr_recipient :: "string option"
  cr_description :: "string option"
  cr_external_id :: "string option"
  cr_method_details :: "json option"

definition charge_request_default :: charge_request where
  "charge_request_default = \<lparr>cr_amount = [], cr_currency = [], cr_decimals = None,
     cr_recipient = None, cr_description = None, cr_external_id = None, cr_method_details = None\<rparr>"

definition charge_request_to_json :: "charge_request \<Rightarrow> json" where
  "charge_request_to_json r = JObj (
     [(''amount'', JStr (cr_amount r)), (''currency'', JStr (cr_currency r))]
     @ opt_field ''recipient'' JStr (cr_recipient r)
     @ opt_field ''description'' JStr (cr_description r)
     @ opt_field ''externalId'' JStr (cr_external_id r)
     @ opt_field ''methodDetails'' (\<lambda>j. j) (cr_method_details r))"

definition charge_request_of_json :: "json \<Rightarrow> charge_request option" where
  "charge_request_of_json j =
     Option.bind (field_req as_str ''amount'' j) (\<lambda>amount.
     Option.bind (field_req as_str ''currency'' j) (\<lambda>currency.
     Option.bind (field_opt as_str ''recipient'' j) (\<lambda>recipient.
     Option.bind (field_opt as_str ''description'' j) (\<lambda>description.
     Option.bind (field_opt as_str ''externalId'' j) (\<lambda>external_id.
     Option.bind (field_opt Some ''methodDetails'' j) (\<lambda>method_details.
     Some \<lparr>cr_amount = amount, cr_currency = currency, cr_decimals = None,
       cr_recipient = recipient, cr_description = description, cr_external_id = external_id,
       cr_method_details = method_details\<rparr>))))))"

definition charge_with_base_units :: "charge_request \<Rightarrow> mpp_error + charge_request" where
  "charge_with_base_units r =
     (case cr_decimals r of
        Some decimals \<Rightarrow>
          and_then (parse_units (cr_amount r) decimals)
            (\<lambda>a. Inr (r\<lparr>cr_amount := a, cr_decimals := None\<rparr>))
      | None \<Rightarrow> Inr r)"

definition parse_amount :: "string \<Rightarrow> mpp_error + nat" where
  "parse_amount amount =
     ok_or (MppInvalidAmount (''Invalid amount: '' @ amount)) (parse_uint u128_max amount)"

definition validate_max :: "string \<Rightarrow> string \<Rightarrow> mpp_error + unit" where
  "validate_max amount max_amount =
     and_then (parse_amount amount) (\<lambda>a.
     and_then (ok_or (MppInvalidAmount (''Invalid max amount: '' @ max_amount))
                 (parse_uint u128_max max_amount)) (\<lambda>m.
     if m < a then Inl (MppAmountExceedsMax a m) else Inr ()))"

definition charge_validate_max_amount :: "charge_request \<Rightarrow> string \<Rightarrow> mpp_error + unit" where
  "charge_validate_max_amount r max_amount = validate_max (cr_amount r) max_amount"

section \<open>Session request\<close>

record session_request =
  sr_amount :: string
  sr_unit_type :: "string option"
  sr_currency :: string
  sr_decimals :: "nat option"
  sr_recipient :: "string option"
  sr_suggested_deposit :: "string option"
  sr_method_details :: "json option"

definition session_request_to_json :: "session_request \<Rightarrow> json" where
  "session_request_to_json r = JObj (
     [(''amount'', JStr (sr_amount r))]
     @ opt_field ''unitType'' JStr (sr_unit_type r)
     @ [(''currency'', JStr (sr_currency r))]
     @ opt_field ''recipient'' JStr (sr_recipient r)
     @ opt_field ''suggestedDeposit'' JStr (sr_suggested_deposit r)
     @ opt_field ''methodDetails'' (\<lambda>j. j) (sr_method_details r))"

definition session_request_of_json :: "json \<Rightarrow> session_request option" where
  "session_request_of_json j =
     Option.bind (field_req as_str ''amount'' j) (\<lambda>amount.
     Option.bind (field_opt as_str ''unitType'' j) (\<lambda>unit_type.
     Option.bind (field_req as_str ''currency'' j) (\<lambda>currency.
     Option.bind (field_opt as_str ''recipient'' j) (\<lambda>recipient.
     Option.bind (field_opt as_str ''suggestedDeposit'' j) (\<lambda>suggested_deposit.
     Option.bind (field_opt Some ''methodDetails'' j) (\<lambda>method_details.
     Some \<lparr>sr_amount = amount, sr_unit_type = unit_type, sr_currency = currency,
       sr_decimals = None, sr_recipient = recipient, sr_suggested_deposit = suggested_deposit,
       sr_method_details = method_details\<rparr>))))))"

definition session_with_base_units :: "session_request \<Rightarrow> mpp_error + session_request" where
  "session_with_base_units r =
     (case sr_decimals r of
        Some decimals \<Rightarrow>
          and_then (parse_units (sr_amount r) decimals) (\<lambda>a.
          and_then (case sr_suggested_deposit r of
                      Some deposit \<Rightarrow> and_then (parse_units deposit decimals) (\<lambda>d. Inr (Some d))
                    | None \<Rightarrow> Inr None) (\<lambda>dep.
          Inr (r\<lparr>sr_amount := a, sr_suggested_deposit := dep, sr_decimals := None\<rparr>)))
      | None \<Rightarrow> Inr r)"

definition session_validate_max_amount :: "session_request \<Rightarrow> string \<Rightarrow> mpp_error + unit" where
  "session_validate_max_amount r max_amount = validate_max (sr_amount r) max_amount"

section \<open>The wire form\<close>

lemma charge_request_json_roundtrip:
  assumes "cr_method_details r \<noteq> Some JNull"
  shows "charge_request_of_json (charge_request_to_json r) = Some (r\<lparr>cr_decimals := None\<rparr>)"
proof -
  let ?j = "charge_request_to_json r"
  have "field_opt as_str ''recipient'' ?j = Some (cr_recipient r)"
    "field_opt as_str ''description'' ?j = Some (cr_description r)"
    "field_opt as_str ''externalId'' ?j = Some (cr_external_id r)"
    unfolding charge_request_to_json_def
    by (rule field_opt_present [where enc = JStr],
        simp_all add: map_add_def split: option.splits)+
  moreover have "field_opt Some ''methodDetails'' ?j = Some (cr_method_details r)"
    unfolding charge_request_to_json_def
    by (rule field_opt_present [where enc = "\<lambda>j. j"])
      (use assms in \<open>auto simp: map_add_def split: option.splits\<close>)
  moreover have "field_req as_str ''amount'' ?j = Some (cr_amount r)"
    "field_req as_str ''currency'' ?j = Some (cr_currency r)"
    by (simp_all add: charge_request_to_json_def map_add_def split: option.splits)
  ultimately show ?thesis by (simp add: charge_request_of_json_def)
qed

lemma session_request_json_roundtrip:
  assumes "sr_method_details r \<noteq> Some JNull"
  shows "session_request_of_json (session_request_to_json r) = Some (r\<lparr>sr_decimals := None\<rparr>)"
proof -
  let ?j = "session_request_to_json r"
  have "field_opt as_str ''unitType'' ?j = Some (sr_unit_type r)"
    "field_opt as_str ''recipient'' ?j = Some (sr_recipient r)"
    "field_opt as_str ''suggestedDeposit'' ?j = Some (sr_suggested_deposit r)"
    unfolding session_request_to_json_def
    by (rule field_opt_present [where enc = JStr],
        simp_all add: map_add_def split: option.splits)+
  moreover have "field_opt Some ''methodDetails'' ?j = Some (sr_method_details r)"
    unfolding session_request_to_json_def
    by (rule field_opt_present [where enc = "\<lambda>j. j"])
      (use assms in \<open>auto simp: map_add_def split: option.splits\<close>)
  moreover have "field_req as_str ''amount'' ?j = Some (sr_amount r)"
    "field_req as_str ''currency'' ?j = Some (sr_currency r)"
    by (simp_all add: session_request_to_json_def map_add_def split: option.splits)
  ultimately show ?thesis by (simp add: session_request_of_json_def)
qed

text \<open>
  The amount limit. The check of a charge against a maximum succeeds exactly when both
  texts are \<open>u128\<close> numerals and the amount is at most the maximum, and the error reports the
  two numbers; a missing or negative number is refused, never treated as zero.
\<close>

theorem validate_max_amount_iff:
  "(charge_validate_max_amount r m = Inr () \<longleftrightarrow>
     (\<exists>a b. parse_uint u128_max (cr_amount r) = Some a \<and> parse_uint u128_max m = Some b \<and> a \<le> b))
   \<and> (charge_validate_max_amount r m = Inl (MppAmountExceedsMax a b) \<longleftrightarrow>
     parse_uint u128_max (cr_amount r) = Some a \<and> parse_uint u128_max m = Some b \<and> b < a)"
  by (cases "parse_uint u128_max (cr_amount r)"; cases "parse_uint u128_max m")
    (auto simp: charge_validate_max_amount_def validate_max_def parse_amount_def
      simp del: One_nat_def)

end
