(* ===== verification/Movement_Types.thy ===== *)
theory Movement_Types
  imports Intents Challenge
begin

text \<open>
  The Movement-specific types of src/protocol/methods/movement: networks (network.rs), the
  accessors of a charge request (charge.rs, types.rs), the session details and the session
  credential payload discriminated on \<open>action\<close> (session.rs), and the construction of a charge
  challenge (mod.rs).
\<close>

section \<open>Constants and networks\<close>

definition METHOD_NAME :: string where "METHOD_NAME = ''movement''"
definition INTENT_CHARGE :: string where "INTENT_CHARGE = ''charge''"
definition INTENT_SESSION :: string where "INTENT_SESSION = ''session''"
definition DEFAULT_REST_URL_MAINNET :: string where
  "DEFAULT_REST_URL_MAINNET = ''https://mainnet.movementnetwork.xyz/v1''"
definition DEFAULT_REST_URL_TESTNET :: string where
  "DEFAULT_REST_URL_TESTNET = ''https://testnet.movementnetwork.xyz/v1''"
definition DEFAULT_FAUCET_URL_TESTNET :: string where
  "DEFAULT_FAUCET_URL_TESTNET = ''https://faucet.testnet.movementnetwork.xyz''"
definition MOVE_TOKEN_METADATA :: string where "MOVE_TOKEN_METADATA = ''0xa''"
definition DEFAULT_MODULE_ADDRESS_TESTNET :: string where
  "DEFAULT_MODULE_ADDRESS_TESTNET =
     ''0x74f1060add0c641a0c10bb5bab2bf5fd05f94d7c25055f2419fa82d7bbf2b1e8''"
definition DEFAULT_MODULE_ADDRESS_MAINNET :: string where
  "DEFAULT_MODULE_ADDRESS_MAINNET =
     ''0x74f1060add0c641a0c10bb5bab2bf5fd05f94d7c25055f2419fa82d7bbf2b1e8''"
definition DEFAULT_MODULE_ADDRESS :: string where
  "DEFAULT_MODULE_ADDRESS = DEFAULT_MODULE_ADDRESS_TESTNET"
definition DEFAULT_EXPIRES_MINUTES :: nat where "DEFAULT_EXPIRES_MINUTES = 5"

datatype movement_network = Mainnet | Testnet

fun default_rest_url :: "movement_network \<Rightarrow> string" where
  "default_rest_url Mainnet = DEFAULT_REST_URL_MAINNET"
| "default_rest_url Testnet = DEFAULT_REST_URL_TESTNET"

fun default_faucet_url :: "movement_network \<Rightarrow> string option" where
  "default_faucet_url Mainnet = None"
| "default_faucet_url Testnet = Some DEFAULT_FAUCET_URL_TESTNET"

definition default_currency :: "movement_network \<Rightarrow> string" where
  "default_currency n = MOVE_TOKEN_METADATA"

fun default_module_address :: "movement_network \<Rightarrow> string" where
  "default_module_address Mainnet = DEFAULT_MODULE_ADDRESS_MAINNET"
| "default_module_address Testnet = DEFAULT_MODULE_ADDRESS_TESTNET"

fun network_as_str :: "movement_network \<Rightarrow> string" where
  "network_as_str Mainnet = ''movement''"
| "network_as_str Testnet = ''movement-testnet''"

section \<open>Accessors of a charge request\<close>

record movement_method_details =
  md_network :: "string option"
  md_module_address :: "string option"
  md_registry_address :: "string option"

definition movement_method_details_default :: movement_method_details where
  "movement_method_details_default =
     \<lparr>md_network = None, md_module_address = None, md_registry_address = None\<rparr>"

definition movement_method_details_of_json :: "json \<Rightarrow> movement_method_details option" where
  "movement_method_details_of_json j =
     (if \<not> is_object j then None
      else Option.bind (field_opt as_str ''network'' j) (\<lambda>n.
        Option.bind (field_opt as_str ''moduleAddress'' j) (\<lambda>m.
        Option.bind (field_opt as_str ''registryAddress'' j) (\<lambda>r.
        Some \<lparr>md_network = n, md_module_address = m, md_registry_address = r\<rparr>))))"

definition md_is_testnet :: "movement_method_details \<Rightarrow> bool" where
  "md_is_testnet d \<longleftrightarrow> md_network d = Some ''testnet''"

definition module_address_or_default :: "movement_method_details \<Rightarrow> string" where
  "module_address_or_default d = unwrap_or DEFAULT_MODULE_ADDRESS (md_module_address d)"

definition registry_address_or_default :: "movement_method_details \<Rightarrow> string" where
  "registry_address_or_default d =
     unwrap_or DEFAULT_MODULE_ADDRESS
       (case md_registry_address d of Some r \<Rightarrow> Some r | None \<Rightarrow> md_module_address d)"

definition amount_u64 :: "charge_request \<Rightarrow> mpp_error + u64" where
  "amount_u64 r =
     ok_or (MppInvalidAmount (''Failed to parse amount '' @ squote @ cr_amount r @ squote))
       (parse_u64 (cr_amount r))"

definition recipient_str :: "charge_request \<Rightarrow> mpp_error + string" where
  "recipient_str r = ok_or (invalid_challenge_reason ''No recipient specified'') (cr_recipient r)"

definition network_name :: "charge_request \<Rightarrow> string option" where
  "network_name r = Option.bind (cr_method_details r) (get_str ''network'')"

definition charge_method_details ::
  "crates \<Rightarrow> charge_request \<Rightarrow> mpp_error + movement_method_details" where
  "charge_method_details X r =
     (case cr_method_details r of
        Some value \<Rightarrow>
          map_err (\<lambda>e. invalid_challenge_reason (''Invalid Movement method details: '' @ e))
            (from_value X ''MovementMethodDetails'' movement_method_details_of_json value)
      | None \<Rightarrow> Inr movement_method_details_default)"

definition is_testnet :: "charge_request \<Rightarrow> bool" where
  "is_testnet r \<longleftrightarrow> network_name r = Some ''testnet''"

definition charge_network :: "charge_request \<Rightarrow> movement_network option" where
  "charge_network r =
     (if network_name r = Some ''testnet'' then Some Testnet
      else if network_name r = Some ''mainnet'' \<or> network_name r = Some ''movement''
      then Some Mainnet else None)"

section \<open>Session details and payload\<close>

record session_method_details =
  sd_module_address :: string
  sd_registry_address :: "string option"
  sd_token_metadata :: "string option"
  sd_channel_id :: "string option"
  sd_min_voucher_delta :: "string option"
  sd_network :: "string option"

definition session_method_details_to_json :: "session_method_details \<Rightarrow> json" where
  "session_method_details_to_json d = JObj (
     [(''moduleAddress'', JStr (sd_module_address d))]
     @ opt_field ''registryAddress'' JStr (sd_registry_address d)
     @ opt_field ''tokenMetadata'' JStr (sd_token_metadata d)
     @ opt_field ''channelId'' JStr (sd_channel_id d)
     @ opt_field ''minVoucherDelta'' JStr (sd_min_voucher_delta d)
     @ opt_field ''network'' JStr (sd_network d))"

definition session_method_details_of_json :: "json \<Rightarrow> session_method_details option" where
  "session_method_details_of_json j =
     Option.bind (field_req as_str ''moduleAddress'' j) (\<lambda>m.
     Option.bind (field_opt as_str ''registryAddress'' j) (\<lambda>r.
     Option.bind (field_opt as_str ''tokenMetadata'' j) (\<lambda>t.
     Option.bind (field_opt as_str ''channelId'' j) (\<lambda>c.
     Option.bind (field_opt as_str ''minVoucherDelta'' j) (\<lambda>v.
     Option.bind (field_opt as_str ''network'' j) (\<lambda>n.
     Some \<lparr>sd_module_address = m, sd_registry_address = r, sd_token_metadata = t,
       sd_channel_id = c, sd_min_voucher_delta = v, sd_network = n\<rparr>))))))"

datatype session_credential_payload =
    Open (open_tx_hash: string) (open_channel_id: string) (open_authorized_signer: "string option")
      (open_cumulative_amount: string) (open_signature: string)
  | TopUp (top_up_tx_hash: string) (top_up_channel_id: string) (top_up_additional_deposit: string)
  | Voucher (voucher_channel_id: string) (voucher_cumulative_amount: string)
      (voucher_signature: string)
  | Close (close_channel_id: string) (close_cumulative_amount: string) (close_signature: string)

fun session_payload_to_json :: "session_credential_payload \<Rightarrow> json" where
  "session_payload_to_json (Open tx cid signer amt sig) = JObj (
     [(''action'', JStr ''open''), (''txHash'', JStr tx), (''channelId'', JStr cid)]
     @ opt_field ''authorizedSigner'' JStr signer
     @ [(''cumulativeAmount'', JStr amt), (''signature'', JStr sig)])"
| "session_payload_to_json (TopUp tx cid dep) = JObj
     [(''action'', JStr ''topUp''), (''txHash'', JStr tx), (''channelId'', JStr cid),
      (''additionalDeposit'', JStr dep)]"
| "session_payload_to_json (Voucher cid amt sig) = JObj
     [(''action'', JStr ''voucher''), (''channelId'', JStr cid),
      (''cumulativeAmount'', JStr amt), (''signature'', JStr sig)]"
| "session_payload_to_json (Close cid amt sig) = JObj
     [(''action'', JStr ''close''), (''channelId'', JStr cid),
      (''cumulativeAmount'', JStr amt), (''signature'', JStr sig)]"

definition voucher_fields ::
  "(string \<Rightarrow> string \<Rightarrow> string \<Rightarrow> session_credential_payload) \<Rightarrow> json
   \<Rightarrow> session_credential_payload option" where
  "voucher_fields mk j =
     Option.bind (field_req as_str ''channelId'' j) (\<lambda>cid.
     Option.bind (field_req as_str ''cumulativeAmount'' j) (\<lambda>amt.
     Option.bind (field_req as_str ''signature'' j) (\<lambda>sig. Some (mk cid amt sig))))"

definition session_payload_of_json :: "json \<Rightarrow> session_credential_payload option" where
  "session_payload_of_json j =
     (case get_str ''action'' j of
        None \<Rightarrow> None
      | Some action \<Rightarrow>
          if action = ''open'' then
            Option.bind (field_req as_str ''txHash'' j) (\<lambda>tx.
            Option.bind (field_req as_str ''channelId'' j) (\<lambda>cid.
            Option.bind (field_opt as_str ''authorizedSigner'' j) (\<lambda>signer.
            Option.bind (field_req as_str ''cumulativeAmount'' j) (\<lambda>amt.
            Option.bind (field_req as_str ''signature'' j) (\<lambda>sig.
            Some (Open tx cid signer amt sig))))))
          else if action = ''topUp'' then
            Option.bind (field_req as_str ''txHash'' j) (\<lambda>tx.
            Option.bind (field_req as_str ''channelId'' j) (\<lambda>cid.
            Option.bind (field_req as_str ''additionalDeposit'' j) (\<lambda>dep.
            Some (TopUp tx cid dep))))
          else if action = ''voucher'' then voucher_fields Voucher j
          else if action = ''close'' then voucher_fields Close j
          else None)"

text \<open>Accessors of a session request.\<close>

definition session_detail :: "string \<Rightarrow> session_request \<Rightarrow> string option" where
  "session_detail k r = Option.bind (sr_method_details r) (get_str k)"

definition module_address :: "session_request \<Rightarrow> mpp_error + string" where
  "module_address r =
     ok_or (invalid_challenge_reason ''Missing moduleAddress in methodDetails'')
       (session_detail ''moduleAddress'' r)"

definition registry_address :: "session_request \<Rightarrow> string option" where
  "registry_address r = session_detail ''registryAddress'' r"

definition token_metadata :: "session_request \<Rightarrow> string option" where
  "token_metadata r = session_detail ''tokenMetadata'' r"

definition movement_session_details ::
  "crates \<Rightarrow> session_request \<Rightarrow> mpp_error + session_method_details" where
  "movement_session_details X r =
     (case sr_method_details r of
        Some value \<Rightarrow>
          map_err (\<lambda>e. invalid_challenge_reason (''Invalid Movement session method details: '' @ e))
            (from_value X ''MovementSessionMethodDetails'' session_method_details_of_json value)
      | None \<Rightarrow> Inl (invalid_challenge_reason ''Missing methodDetails for session intent''))"

section \<open>Building a charge challenge\<close>

text \<open>Five minutes from now in RFC 3339, when the caller gives no expiry.\<close>

definition default_expires :: "crates \<Rightarrow> int \<Rightarrow> mpp_error + string" where
  "default_expires X now =
     map_err (\<lambda>e. MppInvalidConfig (''failed to format expires: '' @ e))
       (rfc3339_format X (now + int DEFAULT_EXPIRES_MINUTES * 60 * 10 ^ 9))"

definition resolve_expires :: "crates \<Rightarrow> int \<Rightarrow> string option \<Rightarrow> mpp_error + string" where
  "resolve_expires X now expires =
     (case expires of Some e \<Rightarrow> Inr e | None \<Rightarrow> default_expires X now)"

definition charge_challenge_with_options ::
  "crates \<Rightarrow> int \<Rightarrow> string \<Rightarrow> string \<Rightarrow> charge_request \<Rightarrow> string option \<Rightarrow> string option
   \<Rightarrow> mpp_error + payment_challenge" where
  "charge_challenge_with_options X now secret_key realm req expires description =
     and_then (charge_with_base_units req) (\<lambda>request.
     and_then (b64json_from_typed X charge_request_to_json request) (\<lambda>encoded.
     and_then (resolve_expires X now expires) (\<lambda>exp.
     Inr \<lparr>ch_id = compute_challenge_id X secret_key realm METHOD_NAME INTENT_CHARGE (raw encoded)
              (Some exp) None None,
       ch_realm = realm, ch_method = method_name_new METHOD_NAME,
       ch_intent = intent_name_new INTENT_CHARGE, ch_request = encoded, ch_expires = Some exp,
       ch_description = description, ch_digest = None, ch_opaque = None\<rparr>)))"

definition charge_challenge ::
  "crates \<Rightarrow> int \<Rightarrow> string \<Rightarrow> string \<Rightarrow> string \<Rightarrow> string \<Rightarrow> string
   \<Rightarrow> mpp_error + payment_challenge" where
  "charge_challenge X now secret_key realm amount currency recipient =
     charge_challenge_with_options X now secret_key realm
       (charge_request_default\<lparr>cr_amount := amount, cr_currency := currency,
          cr_recipient := Some recipient\<rparr>) None None"

lemma names_normal:
  "method_as_str (method_name_new METHOD_NAME) = METHOD_NAME"
  "intent_as_str (intent_name_new INTENT_CHARGE) = INTENT_CHARGE"
  "intent_as_str (intent_name_new INTENT_SESSION) = INTENT_SESSION"
  by (simp_all add: method_name_new_def intent_name_new_def METHOD_NAME_def INTENT_CHARGE_def
      INTENT_SESSION_def to_ascii_lowercase_def to_lower_def is_ascii_uppercase_def)

text \<open>
  The session payload survives its JSON form: every action, with or without an
  authorized signer, reads back as the payload that was written.
\<close>

theorem session_payload_roundtrip: "session_payload_of_json (session_payload_to_json p) = Some p"
proof (cases p)
  case (Open tx cid signer amt sig)
  have "field_opt as_str ''authorizedSigner'' (session_payload_to_json p) = Some signer"
    unfolding Open session_payload_to_json.simps
    by (rule field_opt_present [where enc = JStr])
      (simp_all add: map_add_def split: option.splits)
  moreover have "get_str ''action'' (session_payload_to_json p) = Some ''open''"
    "field_req as_str ''txHash'' (session_payload_to_json p) = Some tx"
    "field_req as_str ''channelId'' (session_payload_to_json p) = Some cid"
    "field_req as_str ''cumulativeAmount'' (session_payload_to_json p) = Some amt"
    "field_req as_str ''signature'' (session_payload_to_json p) = Some sig"
    by (simp_all add: Open get_str_def map_add_def split: option.splits)
  ultimately show ?thesis by (simp add: session_payload_of_json_def Open)
qed (simp_all add: session_payload_of_json_def voucher_fields_def get_str_def)

lemma charge_challenge_verifies:
  "charge_challenge_with_options X now k realm r e d = Inr c \<Longrightarrow> challenge_verify X k c"
  by (auto simp: charge_challenge_with_options_def res_simps challenge_verify_def
      constant_time_eq_correct names_normal)

end
