(* ===== verification/Http.thy ===== *)
theory Http
  imports Crates Rust_Str
begin

text \<open>
  HTTP as the crate uses it through \<open>reqwest\<close>: a request either fails in transport, with an
  error text, or gives a response with a status and a body. The answers of the network are a
  parameter: a function from requests to results, fixed while one handler runs.
\<close>

datatype http_result = Transport_Error string | Response (resp_status: nat) (resp_body: string)

record network =
  http_get :: "string \<Rightarrow> http_result"
  http_post :: "string \<Rightarrow> json \<Rightarrow> http_result"

definition is_success_status :: "nat \<Rightarrow> bool" where
  "is_success_status status \<longleftrightarrow> 200 \<le> status \<and> status < 300"

text \<open>\<open>Response::json::<T>\<close>: the body read as JSON and decoded.\<close>

definition response_json :: "crates \<Rightarrow> string \<Rightarrow> (json \<Rightarrow> 'a option) \<Rightarrow> string \<Rightarrow> string + 'a" where
  "response_json X ty d body = from_slice X ty d (as_bytes body)"

end
