(* ===== verification/Session_Method.thy ===== *)
theory Session_Method
  imports Voucher Channel_Store Movement_Types Http
begin

text \<open>
  Server-side session payments (src/protocol/methods/movement/session_method.rs): reading the
  chain through the REST API, the configuration, the four channel actions and their dispatch.

  A handler reads the store, checks, and then commits one update. The code awaits the network
  and the store between those, so the read-and-check part of each handler is a definition of
  its own (\<open>..._plan\<close>), whose result is an error, an immediate receipt, or a commit: the key, the
  closure passed to \<open>update_channel\<close>, and what to answer from the closure's result. A handler
  runs its plan and commits at once; \<open>Session_Races\<close> lets other requests run in between. The
  payload fields are the handler's arguments, so the \<open>unreachable!\<close> branch of its match has no
  counterpart; observability macros are no-ops; the \<open>client\<close> feature is on.
\<close>

section \<open>Reading the chain\<close>

record on_chain_channel =
  oc_payer :: string
  oc_payee :: string
  oc_token :: string
  oc_deposit :: u64
  oc_settled :: u64
  oc_close_requested_at :: u64
  oc_finalized :: bool

record on_chain_transaction =
  ot_hash :: string
  ot_success :: bool
  ot_vm_status :: string

definition status_error :: "crates \<Rightarrow> string \<Rightarrow> nat \<Rightarrow> string \<Rightarrow> verification_error" where
  "status_error X what status body =
     ve_network_error (what @ '' ('' @ status_text X status @ ''): '' @ body)"

definition verify_transaction_on_chain ::
  "crates \<Rightarrow> network \<Rightarrow> string \<Rightarrow> string \<Rightarrow> verification_error + on_chain_transaction" where
  "verify_transaction_on_chain X net rest_url tx =
     (let url = trim_end_matches CHR ''/'' rest_url @ ''/transactions/by_hash/0x'' @ strip_0x tx in
      case http_get net url of
        Transport_Error e \<Rightarrow> Inl (ve_network_error (''transaction lookup failed: '' @ e))
      | Response status body \<Rightarrow>
          if status = 404 then Inl (ve_pending ''transaction not yet confirmed on-chain'')
          else if \<not> is_success_status status
          then Inl (status_error X ''transaction lookup failed'' status body)
          else and_then (map_err (\<lambda>e. ve_network_error (''failed to parse transaction info: '' @ e))
                 (response_json X ''Value'' Some body)) (\<lambda>v.
            let success = unwrap_or False (Option.bind (json_get ''success'' v) as_bool);
                vm_status = unwrap_or [] (get_str ''vm_status'' v);
                hash = unwrap_or tx (get_str ''hash'' v) in
            if unwrap_or [] (get_str ''type'' v) = ''pending_transaction''
            then Inl (ve_pending ''transaction is pending confirmation'')
            else if \<not> success
            then Inl (ve_transaction_failed (''transaction failed on-chain: '' @ vm_status))
            else Inr \<lparr>ot_hash = hash, ot_success = success, ot_vm_status = vm_status\<rparr>))"

definition json_str_or_empty :: "json \<Rightarrow> string" where
  "json_str_or_empty j = unwrap_or [] (as_str j)"

definition json_u64_or_zero :: "json \<Rightarrow> u64" where
  "json_u64_or_zero j = unwrap_or 0 (Option.bind (as_str j) parse_u64)"

definition on_chain_of_view :: "json list \<Rightarrow> verification_error + on_chain_channel" where
  "on_chain_of_view result =
     (if length result < 7 then Inl (ve_network_error ''unexpected get_channel response format'')
      else Inr
        \<lparr>oc_payer = json_str_or_empty (result ! 0), oc_payee = json_str_or_empty (result ! 1),
         oc_token = json_str_or_empty (result ! 2), oc_deposit = json_u64_or_zero (result ! 3),
         oc_settled = json_u64_or_zero (result ! 4),
         oc_close_requested_at = json_u64_or_zero (result ! 5),
         oc_finalized = unwrap_or False (as_bool (result ! 6))\<rparr>)"

definition get_on_chain_channel ::
  "crates \<Rightarrow> network \<Rightarrow> string \<Rightarrow> string \<Rightarrow> string \<Rightarrow> string \<Rightarrow> verification_error + on_chain_channel" where
  "get_on_chain_channel X net rest_url module_addr registry_addr channel_id_hex =
     (let url = trim_end_matches CHR ''/'' rest_url @ ''/view'' in
      and_then (map_err (\<lambda>e. ve_invalid_payload (''invalid channel ID hex: '' @ e))
        (hex_decode X (strip_0x channel_id_hex))) (\<lambda>channel_id_bytes.
      let body = JObj [(''function'', JStr (module_addr @ ''::channel::get_channel'')),
            (''type_arguments'', JArr []),
            (''arguments'', JArr [JStr registry_addr, JStr (''0x'' @ hex_encode X channel_id_bytes)])] in
      case http_post net url body of
        Transport_Error e \<Rightarrow> Inl (ve_network_error (''REST request failed: '' @ e))
      | Response status text \<Rightarrow>
          if \<not> is_success_status status
          then Inl (status_error X ''get_channel failed'' status text)
          else and_then (map_err (\<lambda>e. ve_network_error (''failed to parse response: '' @ e))
                 (response_json X ''Vec'' as_array text)) on_chain_of_view))"

section \<open>Configuration\<close>

record session_method_config =
  cfg_module_address :: string
  cfg_registry_address :: string
  cfg_rest_url :: string
  cfg_token_metadata :: string
  cfg_min_voucher_delta :: u64

definition config_default :: session_method_config where
  "config_default =
     \<lparr>cfg_module_address = DEFAULT_MODULE_ADDRESS, cfg_registry_address = DEFAULT_MODULE_ADDRESS,
      cfg_rest_url = DEFAULT_REST_URL_TESTNET, cfg_token_metadata = MOVE_TOKEN_METADATA,
      cfg_min_voucher_delta = 0\<rparr>"

text \<open>The environment is a parameter: the value of each variable that is set.\<close>

definition config_from_env :: "(string \<Rightarrow> string option) \<Rightarrow> session_method_config" where
  "config_from_env env =
     (let module_addr = unwrap_or DEFAULT_MODULE_ADDRESS (env ''MOVEMENT_MODULE_ADDRESS'') in
      config_default\<lparr>cfg_module_address := module_addr, cfg_registry_address := module_addr,
        cfg_rest_url := unwrap_or DEFAULT_REST_URL_TESTNET (env ''MOVEMENT_REST_URL'')\<rparr>)"

definition config_for_network :: "movement_network \<Rightarrow> session_method_config" where
  "config_for_network n =
     \<lparr>cfg_module_address = default_module_address n, cfg_registry_address = default_module_address n,
      cfg_rest_url = default_rest_url n, cfg_token_metadata = default_currency n,
      cfg_min_voucher_delta = 0\<rparr>"

definition parse_hex_bytes :: "crates \<Rightarrow> string \<Rightarrow> verification_error + bytes" where
  "parse_hex_bytes X s =
     map_err (\<lambda>e. ve_invalid_payload (''invalid hex: '' @ e)) (hex_decode X (strip_0x s))"

definition resolve_details ::
  "crates \<Rightarrow> session_method_config \<Rightarrow> session_request \<Rightarrow> session_method_details" where
  "resolve_details X cfg req =
     (case movement_session_details X req of
        Inr d \<Rightarrow> d
      | Inl _ \<Rightarrow> \<lparr>sd_module_address = cfg_module_address cfg,
          sd_registry_address = Some (cfg_registry_address cfg),
          sd_token_metadata = Some (cfg_token_metadata cfg), sd_channel_id = None,
          sd_min_voucher_delta = None, sd_network = None\<rparr>)"

definition resolve_min_delta :: "session_method_config \<Rightarrow> session_method_details \<Rightarrow> u64" where
  "resolve_min_delta cfg details =
     unwrap_or (cfg_min_voucher_delta cfg) (Option.bind (sd_min_voucher_delta details) parse_u64)"

definition details_registry :: "session_method_details \<Rightarrow> string" where
  "details_registry details = unwrap_or (sd_module_address details) (sd_registry_address details)"

section \<open>Plans\<close>

datatype plan =
    Reply receipt
  | Commit string updater "channel_state option \<Rightarrow> verification_error + receipt"

fun run_plan ::
  "'s channel_store_ops \<Rightarrow> verification_error + plan \<Rightarrow> 's \<Rightarrow> (verification_error + receipt) \<times> 's" where
  "run_plan S (Inl e) st = (Inl e, st)"
| "run_plan S (Inr (Reply r)) st = (Inr r, st)"
| "run_plan S (Inr (Commit k u answer)) st =
     (case update_channel S st k u of
        (Inl e, st') \<Rightarrow> (Inl e, st')
      | (Inr updated, st') \<Rightarrow> (answer updated, st'))"

definition channel_or_not_found :: "channel_state option \<Rightarrow> verification_error + channel_state" where
  "channel_or_not_found current =
     ok_or (ve_channel_not_found ''channel not found'') current"

section \<open>Signature checks\<close>

definition byte_array :: "nat \<Rightarrow> string \<Rightarrow> bytes \<Rightarrow> verification_error + bytes" where
  "byte_array n message bs = (if length bs = n then Inr bs else Inl (ve_invalid_payload message))"

text \<open>The check of a voucher against a stored channel: 64-byte signature, 32-byte stored key,
  valid signature. The result is the signature.\<close>

definition check_signature ::
  "crates \<Rightarrow> channel_state \<Rightarrow> bytes \<Rightarrow> u64 \<Rightarrow> bytes \<Rightarrow> verification_error + bytes" where
  "check_signature X channel channel_id_bytes cumulative_amount sig_bytes =
     and_then (byte_array 64 ''signature must be 64 bytes'' sig_bytes) (\<lambda>sig_array.
     and_then (byte_array 32 ''stored pubkey not 32 bytes'' (cs_authorized_signer_pubkey channel)) (\<lambda>pubkey.
     if verify_voucher X channel_id_bytes cumulative_amount sig_array pubkey
          (cs_authorized_signer_pubkey channel)
     then Inr sig_array
     else Inl (ve_invalid_signature ''invalid voucher signature'')))"

definition parse_cumulative_amount :: "string \<Rightarrow> verification_error + u64" where
  "parse_cumulative_amount s = ok_or (ve_invalid_payload ''invalid cumulativeAmount'') (parse_u64 s)"

definition exceeds_deposit_error :: "u64 \<Rightarrow> u64 \<Rightarrow> verification_error" where
  "exceeds_deposit_error cumulative_amount deposit =
     ve_amount_exceeds_deposit (''voucher amount '' @ show_u64 cumulative_amount
       @ '' exceeds deposit '' @ show_u64 deposit)"

section \<open>Open\<close>

definition open_updater :: "channel_state \<Rightarrow> updater" where
  "open_updater state existing = Inr (Some state)"

definition opened_channel ::
  "crates \<Rightarrow> int \<Rightarrow> session_method_details \<Rightarrow> string \<Rightarrow> on_chain_channel \<Rightarrow> bytes \<Rightarrow> u64 \<Rightarrow> bytes
   \<Rightarrow> channel_state" where
  "opened_channel X now details channel_id_str on_chain authorized_pubkey cumulative_amount sig_array =
     \<lparr>cs_channel_id = channel_id_str, cs_module_address = sd_module_address details,
      cs_registry_address = details_registry details, cs_payer = oc_payer on_chain,
      cs_payee = oc_payee on_chain, cs_token = oc_token on_chain,
      cs_authorized_signer_pubkey = authorized_pubkey, cs_deposit = oc_deposit on_chain,
      cs_settled_on_chain = 0, cs_highest_voucher_amount = cumulative_amount,
      cs_highest_voucher_signature = Some sig_array, cs_spent = 0, cs_units = 0,
      cs_finalized = False, cs_created_at = now_iso8601 X now\<rparr>"

definition open_plan ::
  "crates \<Rightarrow> network \<Rightarrow> int \<Rightarrow> session_method_config \<Rightarrow> session_method_details
   \<Rightarrow> string \<Rightarrow> string \<Rightarrow> string option \<Rightarrow> string \<Rightarrow> string \<Rightarrow> verification_error + plan" where
  "open_plan X net now cfg details tx channel_id_str authorized_signer_str cumulative_amount_str
     signature_str =
     and_then (verify_transaction_on_chain X net (cfg_rest_url cfg) tx) (\<lambda>_.
     and_then (get_on_chain_channel X net (cfg_rest_url cfg) (sd_module_address details)
       (details_registry details) channel_id_str) (\<lambda>on_chain.
     if oc_deposit on_chain = 0 then Inl (ve_channel_not_found ''channel not funded on-chain'')
     else if oc_finalized on_chain then Inl (ve_channel_closed ''channel is finalized'')
     else
       and_then (parse_cumulative_amount cumulative_amount_str) (\<lambda>cumulative_amount.
       if oc_deposit on_chain < cumulative_amount
       then Inl (exceeds_deposit_error cumulative_amount (oc_deposit on_chain))
       else
         and_then (parse_hex_bytes X signature_str) (\<lambda>sig_bytes.
         and_then (byte_array 64 ''signature must be 64 bytes'' sig_bytes) (\<lambda>sig_array.
         and_then (case authorized_signer_str of Some s \<Rightarrow> parse_hex_bytes X s | None \<Rightarrow> Inr [])
           (\<lambda>authorized_pubkey.
         and_then (byte_array 32 ''authorized signer public key must be 32 bytes'' authorized_pubkey)
           (\<lambda>pubkey.
         and_then (parse_hex_bytes X channel_id_str) (\<lambda>channel_id_bytes.
         if \<not> verify_voucher X channel_id_bytes cumulative_amount sig_array pubkey authorized_pubkey
         then Inl (ve_invalid_signature ''invalid voucher signature'')
         else Inr (Commit channel_id_str
           (open_updater
             (opened_channel X now details channel_id_str on_chain authorized_pubkey
               cumulative_amount sig_array))
           (\<lambda>_. Inr (receipt_success X now METHOD_NAME tx)))))))))))"

definition handle_open ::
  "crates \<Rightarrow> network \<Rightarrow> int \<Rightarrow> session_method_config \<Rightarrow> 's channel_store_ops \<Rightarrow> session_method_details
   \<Rightarrow> string \<Rightarrow> string \<Rightarrow> string option \<Rightarrow> string \<Rightarrow> string \<Rightarrow> 's \<Rightarrow> (verification_error + receipt) \<times> 's" where
  "handle_open X net now cfg S details tx channel_id_str authorized_signer_str
     cumulative_amount_str signature_str st =
     run_plan S (open_plan X net now cfg details tx channel_id_str authorized_signer_str
       cumulative_amount_str signature_str) st"

section \<open>Top-up\<close>

definition top_up_updater :: "u64 \<Rightarrow> updater" where
  "top_up_updater new_deposit current =
     and_then (channel_or_not_found current) (\<lambda>state. Inr (Some (state\<lparr>cs_deposit := new_deposit\<rparr>)))"

definition top_up_plan ::
  "crates \<Rightarrow> network \<Rightarrow> int \<Rightarrow> session_method_config \<Rightarrow> session_method_details
   \<Rightarrow> string \<Rightarrow> string \<Rightarrow> verification_error + channel_state option \<Rightarrow> verification_error + plan" where
  "top_up_plan X net now cfg details tx channel_id_str stored =
     and_then (and_then stored channel_or_not_found) (\<lambda>channel.
     and_then (verify_transaction_on_chain X net (cfg_rest_url cfg) tx) (\<lambda>_.
     and_then (get_on_chain_channel X net (cfg_rest_url cfg) (sd_module_address details)
       (details_registry details) channel_id_str) (\<lambda>on_chain.
     if oc_deposit on_chain \<le> cs_deposit channel
     then Inl (verification_error_new (''channel deposit did not increase after topUp (on-chain: ''
       @ show_u64 (oc_deposit on_chain) @ '', stored: '' @ show_u64 (cs_deposit channel) @ '')''))
     else Inr (Commit channel_id_str (top_up_updater (oc_deposit on_chain))
       (\<lambda>_. Inr (receipt_success X now METHOD_NAME tx))))))"

definition handle_top_up ::
  "crates \<Rightarrow> network \<Rightarrow> int \<Rightarrow> session_method_config \<Rightarrow> 's channel_store_ops \<Rightarrow> session_method_details
   \<Rightarrow> string \<Rightarrow> string \<Rightarrow> 's \<Rightarrow> (verification_error + receipt) \<times> 's" where
  "handle_top_up X net now cfg S details tx channel_id_str st =
     run_plan S (top_up_plan X net now cfg details tx channel_id_str
       (get_channel S st channel_id_str)) st"

section \<open>Voucher\<close>

definition voucher_updater :: "u64 \<Rightarrow> bytes \<Rightarrow> updater" where
  "voucher_updater cumulative_amount sig_vec current =
     and_then (channel_or_not_found current) (\<lambda>state.
       if cs_highest_voucher_amount state < cumulative_amount
       then Inr (Some (state\<lparr>cs_highest_voucher_amount := cumulative_amount,
              cs_highest_voucher_signature := Some sig_vec\<rparr>))
       else Inr (Some state))"

definition accept_plan ::
  "crates \<Rightarrow> int \<Rightarrow> string \<Rightarrow> channel_state \<Rightarrow> u64 \<Rightarrow> string \<Rightarrow> u64 \<Rightarrow> verification_error + plan" where
  "accept_plan X now channel_id_str channel cumulative_amount signature_str min_delta =
     (if cs_deposit channel < cumulative_amount
      then Inl (exceeds_deposit_error cumulative_amount (cs_deposit channel))
      else if cumulative_amount \<le> cs_highest_voucher_amount channel
      then
        and_then (parse_hex_bytes X signature_str) (\<lambda>sig_bytes.
        if cs_highest_voucher_signature channel = Some sig_bytes
           \<and> cumulative_amount = cs_highest_voucher_amount channel
        then Inr (Reply (receipt_success X now METHOD_NAME (cs_channel_id channel)))
        else
          and_then (parse_hex_bytes X channel_id_str) (\<lambda>channel_id_bytes.
          and_then (check_signature X channel channel_id_bytes cumulative_amount sig_bytes) (\<lambda>_.
          Inr (Reply (receipt_success X now METHOD_NAME (cs_channel_id channel))))))
      else if cumulative_amount - cs_highest_voucher_amount channel < min_delta
      then Inl (ve_delta_too_small (''voucher delta ''
        @ show_u64 (cumulative_amount - cs_highest_voucher_amount channel)
        @ '' below minimum '' @ show_u64 min_delta))
      else
        and_then (parse_hex_bytes X channel_id_str) (\<lambda>channel_id_bytes.
        and_then (parse_hex_bytes X signature_str) (\<lambda>sig_bytes.
        and_then (check_signature X channel channel_id_bytes cumulative_amount sig_bytes) (\<lambda>_.
        Inr (Commit channel_id_str (voucher_updater cumulative_amount sig_bytes)
          (\<lambda>updated. and_then (channel_or_not_found updated) (\<lambda>state.
             Inr (receipt_success X now METHOD_NAME (cs_channel_id state)))))))))"

definition verify_and_accept_voucher ::
  "crates \<Rightarrow> int \<Rightarrow> 's channel_store_ops \<Rightarrow> string \<Rightarrow> channel_state \<Rightarrow> u64 \<Rightarrow> string \<Rightarrow> u64
   \<Rightarrow> 's \<Rightarrow> (verification_error + receipt) \<times> 's" where
  "verify_and_accept_voucher X now S channel_id_str channel cumulative_amount signature_str
     min_delta st =
     run_plan S (accept_plan X now channel_id_str channel cumulative_amount signature_str min_delta) st"

definition voucher_plan ::
  "crates \<Rightarrow> int \<Rightarrow> session_method_config \<Rightarrow> session_method_details \<Rightarrow> string \<Rightarrow> string \<Rightarrow> string
   \<Rightarrow> verification_error + channel_state option \<Rightarrow> verification_error + plan" where
  "voucher_plan X now cfg details channel_id_str cumulative_amount_str signature_str stored =
     and_then (and_then stored channel_or_not_found) (\<lambda>channel.
     if cs_finalized channel then Inl (ve_channel_closed ''channel is finalized'')
     else
       and_then (parse_cumulative_amount cumulative_amount_str) (\<lambda>cumulative_amount.
       accept_plan X now channel_id_str channel cumulative_amount signature_str
         (resolve_min_delta cfg details)))"

definition handle_voucher ::
  "crates \<Rightarrow> int \<Rightarrow> session_method_config \<Rightarrow> 's channel_store_ops \<Rightarrow> session_method_details
   \<Rightarrow> string \<Rightarrow> string \<Rightarrow> string \<Rightarrow> 's \<Rightarrow> (verification_error + receipt) \<times> 's" where
  "handle_voucher X now cfg S details channel_id_str cumulative_amount_str signature_str st =
     run_plan S (voucher_plan X now cfg details channel_id_str cumulative_amount_str signature_str
       (get_channel S st channel_id_str)) st"

section \<open>Close\<close>

definition close_updater :: "u64 \<Rightarrow> bytes \<Rightarrow> updater" where
  "close_updater cumulative_amount sig_vec current =
     (case current of
        None \<Rightarrow> Inr None
      | Some state \<Rightarrow> Inr (Some (state\<lparr>cs_highest_voucher_amount := cumulative_amount,
          cs_highest_voucher_signature := Some sig_vec, cs_finalized := True\<rparr>)))"

definition close_plan ::
  "crates \<Rightarrow> int \<Rightarrow> string \<Rightarrow> string \<Rightarrow> string
   \<Rightarrow> verification_error + channel_state option \<Rightarrow> verification_error + plan" where
  "close_plan X now channel_id_str cumulative_amount_str signature_str stored =
     and_then (and_then stored channel_or_not_found) (\<lambda>channel.
     if cs_finalized channel then Inl (ve_channel_closed ''channel is already finalized'')
     else
       and_then (parse_cumulative_amount cumulative_amount_str) (\<lambda>cumulative_amount.
       if cumulative_amount < cs_highest_voucher_amount channel
       then Inl (verification_error_new (''close voucher amount '' @ show_u64 cumulative_amount
         @ '' must be >= highest accepted voucher '' @ show_u64 (cs_highest_voucher_amount channel)))
       else
         and_then (parse_hex_bytes X channel_id_str) (\<lambda>channel_id_bytes.
         and_then (parse_hex_bytes X signature_str) (\<lambda>sig_bytes.
         and_then (check_signature X channel channel_id_bytes cumulative_amount sig_bytes) (\<lambda>sig_array.
         Inr (Commit channel_id_str (close_updater cumulative_amount sig_array)
           (\<lambda>_. Inr (receipt_success X now METHOD_NAME channel_id_str))))))))"

definition handle_close ::
  "crates \<Rightarrow> int \<Rightarrow> 's channel_store_ops \<Rightarrow> string \<Rightarrow> string \<Rightarrow> string
   \<Rightarrow> 's \<Rightarrow> (verification_error + receipt) \<times> 's" where
  "handle_close X now S channel_id_str cumulative_amount_str signature_str st =
     run_plan S (close_plan X now channel_id_str cumulative_amount_str signature_str
       (get_channel S st channel_id_str)) st"

section \<open>The session method\<close>

definition challenge_method_details :: "session_method_config \<Rightarrow> json option" where
  "challenge_method_details cfg = Some (session_method_details_to_json
     \<lparr>sd_module_address = cfg_module_address cfg, sd_registry_address = Some (cfg_registry_address cfg),
      sd_token_metadata = Some (cfg_token_metadata cfg), sd_channel_id = None,
      sd_min_voucher_delta =
        (if 0 < cfg_min_voucher_delta cfg then Some (show_u64 (cfg_min_voucher_delta cfg)) else None),
      sd_network = None\<rparr>)"

definition session_payload_of ::
  "crates \<Rightarrow> payment_credential \<Rightarrow> mpp_error + session_credential_payload" where
  "session_payload_of X credential =
     payload_as X ''SessionCredentialPayload'' session_payload_of_json credential"

definition session_respond :: "crates \<Rightarrow> payment_credential \<Rightarrow> receipt \<Rightarrow> json option" where
  "session_respond X credential rc =
     (case session_payload_of X credential of
        Inl _ \<Rightarrow> None
      | Inr (Voucher _ _ _) \<Rightarrow> None
      | Inr _ \<Rightarrow> Some (JObj [(''status'', JStr ''ok'')]))"

fun session_plan ::
  "crates \<Rightarrow> network \<Rightarrow> int \<Rightarrow> session_method_config \<Rightarrow> session_method_details
   \<Rightarrow> session_credential_payload \<Rightarrow> (string \<Rightarrow> verification_error + channel_state option)
   \<Rightarrow> verification_error + plan" where
  "session_plan X net now cfg details (Open tx cid signer amt sig) get =
     open_plan X net now cfg details tx cid signer amt sig"
| "session_plan X net now cfg details (TopUp tx cid dep) get =
     top_up_plan X net now cfg details tx cid (get cid)"
| "session_plan X net now cfg details (Voucher cid amt sig) get =
     voucher_plan X now cfg details cid amt sig (get cid)"
| "session_plan X net now cfg details (Close cid amt sig) get =
     close_plan X now cid amt sig (get cid)"

definition session_action ::
  "crates \<Rightarrow> network \<Rightarrow> int \<Rightarrow> session_method_config \<Rightarrow> 's channel_store_ops \<Rightarrow> session_method_details
   \<Rightarrow> session_credential_payload \<Rightarrow> 's \<Rightarrow> (verification_error + receipt) \<times> 's" where
  "session_action X net now cfg S details payload st =
     (case payload of
        Open tx cid signer amt sig \<Rightarrow> handle_open X net now cfg S details tx cid signer amt sig st
      | TopUp tx cid dep \<Rightarrow> handle_top_up X net now cfg S details tx cid st
      | Voucher cid amt sig \<Rightarrow> handle_voucher X now cfg S details cid amt sig st
      | Close cid amt sig \<Rightarrow> handle_close X now S cid amt sig st)"

text \<open>The checks of \<open>verify_session\<close> before the dispatch: method, intent, payload.\<close>

definition session_credential_check ::
  "crates \<Rightarrow> payment_credential \<Rightarrow> verification_error + session_credential_payload" where
  "session_credential_check X credential =
     (let m = method_as_str (echo_method (cred_challenge credential));
          i = intent_as_str (echo_intent (cred_challenge credential)) in
      if m \<noteq> METHOD_NAME
      then Inl (ve_credential_mismatch (''Method mismatch: expected '' @ METHOD_NAME @ '', got '' @ m))
      else if i \<noteq> INTENT_SESSION
      then Inl (ve_credential_mismatch (''Intent mismatch: expected '' @ INTENT_SESSION @ '', got '' @ i))
      else map_err (\<lambda>e. ve_invalid_payload (''Expected session payload: '' @ mpp_error_display e))
        (session_payload_of X credential))"

definition method_verify_session ::
  "crates \<Rightarrow> network \<Rightarrow> int \<Rightarrow> session_method_config \<Rightarrow> 's channel_store_ops
   \<Rightarrow> payment_credential \<Rightarrow> session_request \<Rightarrow> 's \<Rightarrow> (verification_error + receipt) \<times> 's" where
  "method_verify_session X net now cfg S credential req st =
     (case session_credential_check X credential of
        Inl e \<Rightarrow> (Inl e, st)
      | Inr payload \<Rightarrow> session_action X net now cfg S (resolve_details X cfg req) payload st)"

lemma session_action_plan:
  "session_action X net now cfg S details payload st =
     run_plan S (session_plan X net now cfg details payload (get_channel S st)) st"
  by (cases payload) (simp_all add: session_action_def handle_open_def handle_top_up_def
      handle_voucher_def handle_close_def)

lemmas handler_defs = handle_open_def handle_top_up_def handle_voucher_def handle_close_def
  verify_and_accept_voucher_def

lemmas plan_defs = open_plan_def top_up_plan_def voucher_plan_def close_plan_def accept_plan_def

lemmas updater_defs = open_updater_def top_up_updater_def voucher_updater_def close_updater_def
  deduct_updater_def channel_or_not_found_def

end
