(* ===== verification/Session_Safety.thy ===== *)
theory Session_Safety
  imports Session_Method Sample_Crates
begin

text \<open>
  What the session method keeps true of its channel store. \<open>channel_ok\<close> is the invariant of one
  entry: what was handed out is covered by the highest accepted voucher, an open channel's
  voucher is covered by the deposit, and the voucher is signed by the authorized key. It is
  proved for every action on any store that obeys the \<open>channel_store\<close> contract, and then for
  every store reachable from the empty in-memory store. The second half states what one action
  does and does not check.
\<close>

section \<open>The invariant\<close>

definition signed_by_authorized :: "crates \<Rightarrow> channel_state \<Rightarrow> bool" where
  "signed_by_authorized X c \<longleftrightarrow>
     (case hex_decode X (strip_0x (cs_channel_id c)) of
        Inl _ \<Rightarrow> False
      | Inr channel_id_bytes \<Rightarrow>
          (case cs_highest_voucher_signature c of
             None \<Rightarrow> False
           | Some sig \<Rightarrow> length sig = 64 \<and> length (cs_authorized_signer_pubkey c) = 32
               \<and> verify_voucher X channel_id_bytes (cs_highest_voucher_amount c) sig
                   (cs_authorized_signer_pubkey c) (cs_authorized_signer_pubkey c)))"

lemma signed_by_authorized_update [simp]:
  "signed_by_authorized X (c\<lparr>cs_deposit := n\<rparr>) = signed_by_authorized X c"
  "signed_by_authorized X (c\<lparr>cs_spent := n\<rparr>) = signed_by_authorized X c"
  "signed_by_authorized X (c\<lparr>cs_units := n\<rparr>) = signed_by_authorized X c"
  "signed_by_authorized X (c\<lparr>cs_finalized := b\<rparr>) = signed_by_authorized X c"
  by (simp_all add: signed_by_authorized_def cong: sum.case_cong option.case_cong)

definition channel_ok :: "crates \<Rightarrow> string \<Rightarrow> channel_state \<Rightarrow> bool" where
  "channel_ok X k c \<longleftrightarrow> cs_channel_id c = k
     \<and> cs_spent c \<le> cs_highest_voucher_amount c
     \<and> (cs_finalized c \<or> cs_highest_voucher_amount c \<le> cs_deposit c)
     \<and> signed_by_authorized X c"

definition store_ok :: "crates \<Rightarrow> (string \<Rightarrow> channel_state option) \<Rightarrow> bool" where
  "store_ok X channels \<longleftrightarrow> (\<forall>k c. channels k = Some c \<longrightarrow> channel_ok X k c)"

lemma store_ok_update:
  "store_ok X channels \<Longrightarrow> (\<And>c. r = Some c \<Longrightarrow> channel_ok X k c) \<Longrightarrow> store_ok X (channels(k := r))"
  by (simp add: store_ok_def)

lemma channel_ok_opened:
  assumes "n \<le> oc_deposit oc" and "hex_decode X (strip_0x cid) = Inr cidb" and "length bs = 64"
    and "length pk = 32" and "verify_voucher X cidb n bs pk pk"
  shows "channel_ok X cid (opened_channel X now d cid oc pk n bs)"
    and "cs_spent (opened_channel X now d cid oc pk n bs) = 0"
    and "\<not> cs_finalized (opened_channel X now d cid oc pk n bs)"
    and "cs_highest_voucher_amount (opened_channel X now d cid oc pk n bs) = n"
  using assms by (simp_all add: channel_ok_def signed_by_authorized_def opened_channel_def)

section \<open>What a commit rests on\<close>

lemma byte_array_Inr [res_simps]: "byte_array n m bs = Inr r \<longleftrightarrow> r = bs \<and> length bs = n"
  by (auto simp: byte_array_def)

lemma channel_or_not_found_Inr [res_simps]: "channel_or_not_found o' = Inr c \<longleftrightarrow> o' = Some c"
  by (simp add: channel_or_not_found_def res_simps)

lemma check_signature_Inr [res_simps]:
  "check_signature X c cid amt sig = Inr r \<longleftrightarrow> r = sig \<and> length sig = 64
     \<and> length (cs_authorized_signer_pubkey c) = 32
     \<and> verify_voucher X cid amt sig (cs_authorized_signer_pubkey c) (cs_authorized_signer_pubkey c)"
  by (auto simp: check_signature_def res_simps split: if_splits)

lemma parse_hex_bytes_Inr [res_simps]:
  "parse_hex_bytes X s = Inr bs \<longleftrightarrow> hex_decode X (strip_0x s) = Inr bs"
  by (simp add: parse_hex_bytes_def res_simps)

lemma open_plan_Inr:
  assumes "open_plan X net now cfg d tx cid signer amt sig = Inr p"
  obtains oc pk n bs cidb where
    "p = Commit cid (open_updater (opened_channel X now d cid oc pk n bs))
       (\<lambda>_. Inr (receipt_success X now METHOD_NAME tx))"
    and "verify_transaction_on_chain X net (cfg_rest_url cfg) tx \<in> range Inr"
    and "get_on_chain_channel X net (cfg_rest_url cfg) (sd_module_address d) (details_registry d) cid
       = Inr oc"
    and "oc_deposit oc \<noteq> 0" and "\<not> oc_finalized oc" and "n \<le> oc_deposit oc"
    and "parse_u64 amt = Some n" and "hex_decode X (strip_0x cid) = Inr cidb"
    and "hex_decode X (strip_0x sig) = Inr bs" and "length bs = 64" and "length pk = 32"
    and "\<exists>s. signer = Some s \<and> hex_decode X (strip_0x s) = Inr pk"
    and "verify_voucher X cidb n bs pk pk"
  using assms
  by (auto simp: open_plan_def res_simps parse_cumulative_amount_def linorder_not_less
      split: if_splits option.splits)

lemma open_commit:
  assumes "open_plan X net now cfg d tx cid signer amt sig = Inr p"
  obtains c where "p = Commit cid (open_updater c) (\<lambda>_. Inr (receipt_success X now METHOD_NAME tx))"
    and "channel_ok X cid c" and "cs_spent c = 0" and "\<not> cs_finalized c"
    and "parse_u64 amt = Some (cs_highest_voucher_amount c)"
  using open_plan_Inr [OF assms]
  by (metis (no_types, lifting) channel_ok_opened)

lemma top_up_commit:
  assumes "top_up_plan X net now cfg d tx cid stored = Inr p"
  obtains c dep where "p = Commit cid (top_up_updater dep) (\<lambda>_. Inr (receipt_success X now METHOD_NAME tx))"
    and "stored = Inr (Some c)" and "cs_deposit c < dep"
  using assms by (auto simp: top_up_plan_def res_simps linorder_not_le split: if_splits)

lemma voucher_commit:
  assumes "voucher_plan X now cfg d cid amt sig stored = Inr (Commit k u ans)"
  obtains c n bs cidb where "stored = Inr (Some c)" and "k = cid" and "u = voucher_updater n bs"
    and "\<not> cs_finalized c" and "parse_u64 amt = Some n"
    and "cs_highest_voucher_amount c < n" and "n \<le> cs_deposit c"
    and "resolve_min_delta cfg d \<le> n - cs_highest_voucher_amount c"
    and "hex_decode X (strip_0x cid) = Inr cidb" and "hex_decode X (strip_0x sig) = Inr bs"
    and "length bs = 64" and "length (cs_authorized_signer_pubkey c) = 32"
    and "verify_voucher X cidb n bs (cs_authorized_signer_pubkey c) (cs_authorized_signer_pubkey c)"
    and "ans = (\<lambda>updated. and_then (channel_or_not_found updated) (\<lambda>state.
             Inr (receipt_success X now METHOD_NAME (cs_channel_id state))))"
  using assms
  by (auto simp: voucher_plan_def accept_plan_def res_simps parse_cumulative_amount_def
      linorder_not_less split: if_splits)

lemma close_commit:
  assumes "close_plan X now cid amt sig stored = Inr p"
  obtains c n bs cidb where "stored = Inr (Some c)"
    and "p = Commit cid (close_updater n bs) (\<lambda>_. Inr (receipt_success X now METHOD_NAME cid))"
    and "\<not> cs_finalized c" and "parse_u64 amt = Some n" and "cs_highest_voucher_amount c \<le> n"
    and "hex_decode X (strip_0x cid) = Inr cidb" and "hex_decode X (strip_0x sig) = Inr bs"
    and "length bs = 64" and "length (cs_authorized_signer_pubkey c) = 32"
    and "verify_voucher X cidb n bs (cs_authorized_signer_pubkey c) (cs_authorized_signer_pubkey c)"
  using assms
  by (auto simp: close_plan_def res_simps parse_cumulative_amount_def linorder_not_less
      split: if_splits)

section \<open>Preservation\<close>

text \<open>Each commit of a plan made on the current entry keeps the invariant of that entry.\<close>

lemma open_updater_ok:
  "channel_ok X k new \<Longrightarrow> open_updater new cur = Inr r \<Longrightarrow> r = Some c \<Longrightarrow> channel_ok X k c"
  by (simp add: open_updater_def)

lemma top_up_updater_ok:
  assumes "channel_ok X k c0" and "cs_deposit c0 < dep" and "top_up_updater dep (Some c0) = Inr (Some c)"
  shows "channel_ok X k c"
proof -
  have "c = c0\<lparr>cs_deposit := dep\<rparr>"
    using assms(3) by (auto simp: top_up_updater_def res_simps)
  with assms(1,2) show ?thesis
    by (auto simp: channel_ok_def)
qed

lemma voucher_updater_ok:
  assumes "channel_ok X k c0" and "\<not> cs_finalized c0" and "n \<le> cs_deposit c0"
    and "hex_decode X (strip_0x k) = Inr cidb" and "length bs = 64"
    and "length (cs_authorized_signer_pubkey c0) = 32"
    and "verify_voucher X cidb n bs (cs_authorized_signer_pubkey c0) (cs_authorized_signer_pubkey c0)"
    and "voucher_updater n bs (Some c0) = Inr (Some c)"
  shows "channel_ok X k c"
proof (cases "cs_highest_voucher_amount c0 < n")
  case True
  then have "c = c0\<lparr>cs_highest_voucher_amount := n, cs_highest_voucher_signature := Some bs\<rparr>"
    using assms(8) by (auto simp: voucher_updater_def res_simps)
  moreover have "cs_channel_id c0 = k" "cs_spent c0 \<le> n"
    using assms(1) True by (auto simp: channel_ok_def)
  ultimately show ?thesis
    using assms by (simp add: channel_ok_def signed_by_authorized_def)
next
  case False
  then show ?thesis using assms(1,8) by (auto simp: voucher_updater_def res_simps)
qed

lemma close_updater_ok:
  assumes "channel_ok X k c0" and "cs_highest_voucher_amount c0 \<le> n"
    and "hex_decode X (strip_0x k) = Inr cidb" and "length bs = 64"
    and "length (cs_authorized_signer_pubkey c0) = 32"
    and "verify_voucher X cidb n bs (cs_authorized_signer_pubkey c0) (cs_authorized_signer_pubkey c0)"
    and "close_updater n bs (Some c0) = Inr (Some c)"
  shows "channel_ok X k c"
proof -
  have "c = c0\<lparr>cs_highest_voucher_amount := n, cs_highest_voucher_signature := Some bs, cs_finalized := True\<rparr>"
    using assms(7) by (simp add: close_updater_def)
  moreover have "cs_channel_id c0 = k" "cs_spent c0 \<le> n"
    using assms(1,2) by (auto simp: channel_ok_def)
  ultimately show ?thesis
    using assms by (simp add: channel_ok_def signed_by_authorized_def)
qed

lemma plan_commit_ok:
  assumes "session_plan X net now cfg d payload (\<lambda>k. Inr (channels k)) = Inr (Commit k u ans)"
    and "store_ok X channels" and "u (channels k) = Inr (Some c)"
  shows "channel_ok X k c"
proof -
  have ok: "channel_ok X k c0" if "channels k = Some c0" for k c0
    using assms(2) that by (simp add: store_ok_def)
  show ?thesis
  proof (cases payload)
    case (Open tx cid signer amt sig)
    with assms(1) have "open_plan X net now cfg d tx cid signer amt sig = Inr (Commit k u ans)" by simp
    then show ?thesis
      by (rule open_commit) (use assms(3) in \<open>auto intro: open_updater_ok\<close>)
  next
    case (TopUp tx cid dep)
    with assms(1) have "top_up_plan X net now cfg d tx cid (Inr (channels cid)) = Inr (Commit k u ans)"
      by simp
    then show ?thesis
      by (rule top_up_commit) (use assms(3) ok in \<open>auto intro: top_up_updater_ok\<close>)
  next
    case (Voucher cid amt sig)
    with assms(1) have "voucher_plan X now cfg d cid amt sig (Inr (channels cid)) = Inr (Commit k u ans)"
      by simp
    then show ?thesis
      by (rule voucher_commit) (use assms(3) ok in \<open>auto intro: voucher_updater_ok\<close>)
  next
    case (Close cid amt sig)
    with assms(1) have "close_plan X now cid amt sig (Inr (channels cid)) = Inr (Commit k u ans)" by simp
    then show ?thesis
      by (rule close_commit) (use assms(3) ok in \<open>auto intro: close_updater_ok\<close>)
  qed
qed

text \<open>Once its update goes through, a plan answers with a receipt.\<close>

lemma plan_answer_ok:
  assumes "session_plan X net now cfg d payload get = Inr (Commit k u ans)" and "u cur = Inr r"
  shows "is_ok (ans r)"
proof (cases payload)
  case (Open tx cid signer amt sig)
  with assms(1) have "open_plan X net now cfg d tx cid signer amt sig = Inr (Commit k u ans)" by simp
  then show ?thesis by (rule open_commit) auto
next
  case (TopUp tx cid dep)
  with assms(1) have "top_up_plan X net now cfg d tx cid (get cid) = Inr (Commit k u ans)" by simp
  then show ?thesis by (rule top_up_commit) auto
next
  case (Voucher cid amt sig)
  with assms(1) have "voucher_plan X now cfg d cid amt sig (get cid) = Inr (Commit k u ans)" by simp
  then show ?thesis
    by (rule voucher_commit)
      (use assms(2) in \<open>auto simp: voucher_updater_def channel_or_not_found_def res_simps split: if_splits\<close>)
next
  case (Close cid amt sig)
  with assms(1) have "close_plan X now cid amt sig (get cid) = Inr (Commit k u ans)" by simp
  then show ?thesis by (rule close_commit) auto
qed

lemma deduct_updater_ok:
  assumes "channel_ok X k c0" and "deduct_updater n (Some c0) = Inr (Some c)"
  shows "channel_ok X k c"
proof -
  have le: "n \<le> saturating_sub (cs_highest_voucher_amount c0) (cs_spent c0)"
    and c: "c = c0\<lparr>cs_spent := cs_spent c0 + n, cs_units := cs_units c0 + 1\<rparr>"
    using assms(2) by (auto simp: deduct_updater_def Let_def split: if_splits)
  have "cs_spent c0 \<le> cs_highest_voucher_amount c0"
    using assms(1) by (simp add: channel_ok_def)
  from add_within_saturating_sub(2) [OF le this] assms(1) c show ?thesis
    by (simp add: channel_ok_def)
qed

lemma run_plan_no_commit:
  assumes "\<nexists>k u ans. p = Inr (Commit k u ans)"
  shows "snd (run_plan S p st) = st"
proof (cases p)
  case (Inr q)
  with assms show ?thesis by (cases q) auto
qed simp

context channel_store begin

lemma session_action_ok:
  assumes "store_ok X (lookup st)"
  shows "store_ok X (lookup (snd (session_action X net now cfg S d payload st)))"
proof -
  have get_eq: "get_channel S st = (\<lambda>k. Inr (lookup st k))" by (simp add: get fun_eq_iff)
  let ?p = "session_plan X net now cfg d payload (\<lambda>k. Inr (lookup st k))"
  show ?thesis
  proof (cases "\<exists>k u ans. ?p = Inr (Commit k u ans)")
    case False
    then have "snd (run_plan S ?p st) = st"
      by (rule run_plan_no_commit)
    with assms show ?thesis by (simp add: session_action_plan get_eq)
  next
    case True
    then obtain k u ans where p: "?p = Inr (Commit k u ans)" by blast
    show ?thesis
    proof (cases "u (lookup st k)")
      case (Inl e)
      then have "update_channel S st k u = (Inl e, st)" by (rule update_err)
      with assms p show ?thesis by (simp add: session_action_plan get_eq)
    next
      case (Inr r)
      then obtain st' where "update_channel S st k u = (Inr r, st')"
        and "lookup st' = (lookup st)(k := r)"
        by (rule update_okE)
      moreover have "channel_ok X k c" if "r = Some c" for c
        using plan_commit_ok [OF p assms] Inr that by simp
      ultimately show ?thesis
        using p assms by (simp add: session_action_plan get_eq store_ok_update)
    qed
  qed
qed

lemma deduct_ok:
  assumes "store_ok X (lookup st)"
  shows "store_ok X (lookup (snd (deduct_from_channel S k n st)))"
proof (cases "deduct_updater n (lookup st k)")
  case (Inl e)
  then have "update_channel S st k (deduct_updater n) = (Inl e, st)" by (rule update_err)
  with assms show ?thesis by (simp add: deduct_from_channel_def)
next
  case (Inr r)
  then obtain st' where up: "update_channel S st k (deduct_updater n) = (Inr r, st')"
    and l: "lookup st' = (lookup st)(k := r)"
    by (rule update_okE)
  have "channel_ok X k c" if "r = Some c" for c
  proof (cases "lookup st k")
    case (Some c0)
    then have "channel_ok X k c0" using assms by (simp add: store_ok_def)
    then show ?thesis using deduct_updater_ok [of X k c0 n c] Inr Some that by simp
  qed (use Inr in \<open>simp add: deduct_updater_def\<close>)
  with up l assms show ?thesis
    by (simp add: deduct_from_channel_def store_ok_update)
qed

end

section \<open>Reachable stores\<close>

text \<open>Requests served one at a time: any payload, at any time, with any answers of the network
  and any request details, and any deduction.\<close>

inductive session_step :: "crates \<Rightarrow> session_method_config \<Rightarrow> mem_store \<Rightarrow> mem_store \<Rightarrow> bool"
  for X cfg where
  action: "session_step X cfg st (snd (session_action X net now cfg mem_channels d payload st))"
| deduct: "session_step X cfg st (snd (deduct_from_channel mem_channels k n st))"

inductive session_reachable :: "crates \<Rightarrow> session_method_config \<Rightarrow> mem_store \<Rightarrow> bool"
  for X cfg where
  start: "session_reachable X cfg mem_store_new"
| step: "session_reachable X cfg st \<Longrightarrow> session_step X cfg st st' \<Longrightarrow> session_reachable X cfg st'"

inductive_cases session_stepE: "session_step X cfg st st'"

lemma session_step_ok: "session_step X cfg st st' \<Longrightarrow> store_ok X st \<Longrightarrow> store_ok X st'"
  by (erule session_stepE)
    (use mem.session_action_ok mem.deduct_ok in \<open>simp_all add: get_channel_sync_eq\<close>)

lemma reachable_ok: "session_reachable X cfg st \<Longrightarrow> store_ok X st"
proof (induction rule: session_reachable.induct)
  case start
  show ?case by (simp add: store_ok_def mem_store_new_def)
qed (rule session_step_ok)

section \<open>An honest opening\<close>

lemma open_honest:
  assumes "ed25519_ok X" and "verify_transaction_on_chain X net (cfg_rest_url cfg) tx = Inr t"
    and "get_on_chain_channel X net (cfg_rest_url cfg) (sd_module_address d) (details_registry d) cid
       = Inr oc"
    and "oc_deposit oc \<noteq> 0" and "\<not> oc_finalized oc" and "n \<le> oc_deposit oc"
    and "hex_decode X (strip_0x cid) = Inr cidb" and "hex_decode X (strip_0x signer) = Inr (ed_public X sk)"
    and "hex_decode X (strip_0x sig) = Inr (sign_voucher X sk cidb n)"
  shows "open_plan X net now cfg d tx cid (Some signer) (show_u64 n) sig =
    Inr (Commit cid (open_updater (opened_channel X now d cid oc (ed_public X sk) n
           (sign_voucher X sk cidb n)))
         (\<lambda>_. Inr (receipt_success X now METHOD_NAME tx)))"
  using assms
  by (simp add: open_plan_def parse_cumulative_amount_def parse_u64_show_u64 parse_hex_bytes_def
      byte_array_def length_sign_voucher length_ed_public sign_then_verify linorder_not_less)

lemma handle_open_eq:
  assumes "open_plan X net now cfg d tx cid signer amt sig = Inr (Commit cid (open_updater c) ans)"
  shows "handle_open X net now cfg mem_channels d tx cid signer amt sig st
    = (ans (Some c), st(cid \<mapsto> c))"
  using assms
  by (simp add: handle_open_def mem_channels_def mem_update_channel_def open_updater_def)

section \<open>Sample world\<close>

text \<open>A chain that reports one funded channel with deposit 100, for the concrete runs.\<close>

definition sample_world :: crates where
  "sample_world = sample_crates\<lparr>json_from_slice := (\<lambda>bs.
     if bs = as_bytes ''tx'' then Inr (JObj [(''success'', JBool True)])
     else Inr (JArr [JStr ''0x2'', JStr ''0x3'', JStr ''0xa'', JStr ''100'', JStr ''0'', JStr ''0'',
       JBool False]))\<rparr>"

definition sample_net :: network where
  "sample_net = \<lparr>http_get = (\<lambda>_. Response 200 ''tx''), http_post = (\<lambda>_ _. Response 200 ''channel'')\<rparr>"

definition sample_cid :: string where
  "sample_cid = hex_encode sample_world [1, 2]"

definition sample_signer :: string where
  "sample_signer = hex_encode sample_world (ed_public sample_world [3])"

definition sample_sig :: "u64 \<Rightarrow> string" where
  "sample_sig n = hex_encode sample_world (sign_voucher sample_world [3] [1, 2] n)"

definition sample_details :: session_method_details where
  "sample_details = \<lparr>sd_module_address = ''0x1'', sd_registry_address = None,
     sd_token_metadata = None, sd_channel_id = None, sd_min_voucher_delta = None, sd_network = None\<rparr>"

definition sample_on_chain :: on_chain_channel where
  "sample_on_chain = \<lparr>oc_payer = ''0x2'', oc_payee = ''0x3'', oc_token = ''0xa'', oc_deposit = 100,
     oc_settled = 0, oc_close_requested_at = 0, oc_finalized = False\<rparr>"

lemma sample_world_laws [simp]: "hex_ok sample_world" "ed25519_ok sample_world"
  using sample_crates_hex_ok sample_crates_ed25519_ok
  by (simp_all add: sample_world_def hex_ok_def ed25519_ok_def)

lemma parse_100: "parse_u64 ''100'' = Some 100" "parse_u64 ''0'' = Some 0"
  by (simp_all add: parse_u64_def parse_uint_def dec_val_def digit_val_def is_ascii_digit_def
      del: One_nat_def)

lemma sample_transaction:
  "\<exists>t. verify_transaction_on_chain sample_world sample_net url tx = Inr t"
  by (simp add: verify_transaction_on_chain_def sample_net_def response_json_def from_slice_def
      from_value_def sample_world_def is_success_status_def get_str_def)

lemma sample_view:
  "on_chain_of_view [JStr ''0x2'', JStr ''0x3'', JStr ''0xa'', JStr ''100'', JStr ''0'', JStr ''0'',
     JBool False] = Inr sample_on_chain"
  by (simp add: on_chain_of_view_def json_str_or_empty_def json_u64_or_zero_def parse_100
      sample_on_chain_def)

lemma sample_body:
  "response_json sample_world ty as_array ''channel'' = Inr [JStr ''0x2'', JStr ''0x3'', JStr ''0xa'',
     JStr ''100'', JStr ''0'', JStr ''0'', JBool False]"
  by (simp add: response_json_def from_slice_def from_value_def sample_world_def)

lemma sample_get_channel:
  "hex_decode sample_world (strip_0x cid) = Inr bs \<Longrightarrow>
   get_on_chain_channel sample_world sample_net url m r cid = Inr sample_on_chain"
  by (simp add: get_on_chain_channel_def sample_net_def is_success_status_def sample_body
      sample_view Let_def)

lemma sample_open:
  assumes "n \<le> 100" and "hex_decode sample_world (strip_0x cid) = Inr [1, 2]"
  shows "open_plan sample_world sample_net now cfg sample_details tx cid (Some sample_signer)
      (show_u64 n) (sample_sig n) =
    Inr (Commit cid (open_updater (opened_channel sample_world now sample_details cid sample_on_chain
           (ed_public sample_world [3]) n (sign_voucher sample_world [3] [1, 2] n)))
         (\<lambda>_. Inr (receipt_success sample_world now METHOD_NAME tx)))"
proof -
  obtain t where t: "verify_transaction_on_chain sample_world sample_net (cfg_rest_url cfg) tx = Inr t"
    using sample_transaction by blast
  show ?thesis
    by (rule open_honest [OF _ t sample_get_channel [OF assms(2)] _ _ _ assms(2)])
      (use assms(1) in \<open>simp_all add: sample_on_chain_def sample_signer_def sample_sig_def
        hex_text_decodes\<close>)
qed

end
