(* ===== verification/Session_Claims.thy ===== *)
theory Session_Claims
  imports Session_Safety
begin

text \<open>
  The properties of the session method on the in-memory store: the invariant of every reachable
  store, the exact acceptance condition of a voucher and of a close, atomicity of failures,
  monotonicity, and three things the handlers do not prevent: a replayed opening, a channel
  stored under two spellings of its identifier, and a channel that pays somebody else.
\<close>

lemma sample_cid_decodes:
  "hex_decode sample_world (strip_0x sample_cid) = Inr [1, 2]"
  "hex_decode sample_world (strip_0x (''0x'' @ sample_cid)) = Inr [1, 2]"
  by (simp_all only: sample_cid_def hex_text_decodes sample_world_laws)

definition sample_opened :: "string \<Rightarrow> channel_state" where
  "sample_opened cid = opened_channel sample_world 0 sample_details cid sample_on_chain
     (ed_public sample_world [3]) 50 (sign_voucher sample_world [3] [1, 2] 50)"

lemma sample_handle_open:
  assumes "hex_decode sample_world (strip_0x cid) = Inr [1, 2]"
  shows "handle_open sample_world sample_net 0 config_default mem_channels sample_details ''0x1'' cid
     (Some sample_signer) (show_u64 50) (sample_sig 50) st
   = (Inr (receipt_success sample_world 0 METHOD_NAME ''0x1''), st(cid \<mapsto> sample_opened cid))"
  unfolding sample_opened_def
  by (subst handle_open_eq [OF sample_open [OF _ assms]]) simp_all

lemma sample_reachable:
  "session_reachable sample_world config_default [sample_cid \<mapsto> sample_opened sample_cid]"
proof -
  have "session_step sample_world config_default mem_store_new
      (snd (session_action sample_world sample_net 0 config_default mem_channels sample_details
        (Open ''0x1'' sample_cid (Some sample_signer) (show_u64 50) (sample_sig 50)) mem_store_new))"
    by (rule session_step.action)
  then have "session_step sample_world config_default mem_store_new
      [sample_cid \<mapsto> sample_opened sample_cid]"
    by (simp add: session_action_def sample_handle_open sample_cid_decodes mem_store_new_def)
  with session_reachable.start show ?thesis by (rule session_reachable.step)
qed

lemma sample_opened_fields [simp]:
  "cs_highest_voucher_amount (sample_opened cid) = 50" "cs_spent (sample_opened cid) = 0"
  "cs_deposit (sample_opened cid) = 100" "\<not> cs_finalized (sample_opened cid)"
  "cs_channel_id (sample_opened cid) = cid"
  by (simp_all add: sample_opened_def opened_channel_def sample_on_chain_def)

text \<open>
  C1: what the server has handed out is always backed. In every store that requests, served one
  at a time, can produce from the empty one, whatever the payloads, the clock and the chain's
  answers, every channel has spent at most its highest voucher, that voucher is at most the
  deposit while the channel is open, and the server holds a 64-byte signature of the 32-byte
  authorized key over exactly that amount and channel.
\<close>

theorem reachable_channels_backed:
  assumes "session_reachable X cfg st" and "st k = Some c"
  shows "cs_channel_id c = k \<and> cs_spent c \<le> cs_highest_voucher_amount c
    \<and> (cs_finalized c \<or> cs_highest_voucher_amount c \<le> cs_deposit c)
    \<and> signed_by_authorized X c"
  using reachable_ok [OF assms(1)] assms(2) by (simp add: store_ok_def channel_ok_def)

theorem reachable_channels_backed_witness:
  "signed_by_authorized sample_world (sample_opened sample_cid)
   \<and> cs_spent (sample_opened sample_cid) \<le> 50"
  using reachable_channels_backed [OF sample_reachable, of sample_cid "sample_opened sample_cid"]
  by simp

text \<open>
  C25: failures are atomic. A session request either succeeds or leaves the channel store exactly
  as it was, whatever failed: credential, network, chain state, bounds or signature.
\<close>

theorem session_failure_keeps_store:
  "is_ok (fst (method_verify_session X net now cfg mem_channels credential req st))
   \<or> snd (method_verify_session X net now cfg mem_channels credential req st) = st"
proof (cases "session_credential_check X credential")
  case (Inr payload)
  let ?p = "session_plan X net now cfg (resolve_details X cfg req) payload (get_channel mem_channels st)"
  have "is_ok (fst (run_plan mem_channels ?p st)) \<or> snd (run_plan mem_channels ?p st) = st"
  proof (cases "\<exists>k u ans. ?p = Inr (Commit k u ans)")
    case True
    then obtain k u ans where p: "?p = Inr (Commit k u ans)" by blast
    show ?thesis
    proof (cases "u (st k)")
      case (Inl e)
      then show ?thesis unfolding p by (simp add: mem_channels_def mem_update_channel_def)
    next
      case (Inr r)
      with plan_answer_ok [OF p Inr] show ?thesis unfolding p
        by (cases r) (simp_all add: mem_channels_def mem_update_channel_def)
    qed
  qed (simp add: run_plan_no_commit)
  with Inr show ?thesis by (simp add: method_verify_session_def session_action_plan)
qed (simp add: method_verify_session_def)

text \<open>The voucher and close conditions, as the code checks them on the stored channel.\<close>

definition valid_for :: "crates \<Rightarrow> string \<Rightarrow> channel_state \<Rightarrow> u64 \<Rightarrow> bytes \<Rightarrow> bool" where
  "valid_for X cid c n sb \<longleftrightarrow>
     length sb = 64 \<and> length (cs_authorized_signer_pubkey c) = 32
     \<and> (case hex_decode X (strip_0x cid) of
          Inl _ \<Rightarrow> False
        | Inr cidb \<Rightarrow> verify_voucher X cidb n sb (cs_authorized_signer_pubkey c)
            (cs_authorized_signer_pubkey c))"

definition voucher_acceptable ::
  "crates \<Rightarrow> u64 \<Rightarrow> string \<Rightarrow> channel_state \<Rightarrow> u64 \<Rightarrow> bytes \<Rightarrow> bool" where
  "voucher_acceptable X min_delta cid c n sb \<longleftrightarrow>
     \<not> cs_finalized c \<and> n \<le> cs_deposit c
     \<and> (n = cs_highest_voucher_amount c \<and> cs_highest_voucher_signature c = Some sb
        \<or> valid_for X cid c n sb
          \<and> (n \<le> cs_highest_voucher_amount c \<or> min_delta \<le> n - cs_highest_voucher_amount c))"

lemma check_signature_valid_for:
  "and_then (parse_hex_bytes X cid) (\<lambda>b. and_then (check_signature X c b n sb) f) = Inr r
   \<longleftrightarrow> valid_for X cid c n sb \<and> f sb = Inr r"
  by (auto simp: res_simps valid_for_def split: sum.splits)

lemma voucher_plan_reply:
  "voucher_plan X now cfg d cid amt sig (Inr (Some c)) = Inr p \<longleftrightarrow>
   (\<exists>n sb. parse_u64 amt = Some n \<and> hex_decode X (strip_0x sig) = Inr sb
     \<and> voucher_acceptable X (resolve_min_delta cfg d) cid c n sb
     \<and> p = (if n \<le> cs_highest_voucher_amount c
            then Reply (receipt_success X now METHOD_NAME (cs_channel_id c))
            else Commit cid (voucher_updater n sb) (\<lambda>updated. and_then (channel_or_not_found updated)
              (\<lambda>state. Inr (receipt_success X now METHOD_NAME (cs_channel_id state))))))"
proof (cases "cs_finalized c \<or> parse_u64 amt = None")
  case True
  then show ?thesis
    by (auto simp: voucher_plan_def channel_or_not_found_def voucher_acceptable_def
        parse_cumulative_amount_def)
next
  case False
  then obtain n where n: "parse_u64 amt = Some n" and "\<not> cs_finalized c" by auto
  then have eq: "voucher_plan X now cfg d cid amt sig (Inr (Some c)) =
      accept_plan X now cid c n sig (resolve_min_delta cfg d)"
    by (simp add: voucher_plan_def channel_or_not_found_def parse_cumulative_amount_def)
  show ?thesis
  proof (cases "hex_decode X (strip_0x sig)")
    case (Inl e)
    then show ?thesis
      unfolding eq by (auto simp: accept_plan_def parse_hex_bytes_def res_simps split: if_splits)
  next
    case (Inr sb)
    then show ?thesis
      unfolding eq using n \<open>\<not> cs_finalized c\<close>
      by (auto simp: accept_plan_def parse_hex_bytes_Inr res_simps voucher_acceptable_def valid_for_def
          linorder_not_less linorder_not_le split: if_splits sum.splits)
  qed
qed

lemma mem_ops:
  "get_channel mem_channels st k = Inr (st k)"
  "update_channel mem_channels st k u = mem_update_channel st k u"
  by (simp_all add: mem_channels_def mem_get_channel_def)

definition raise_voucher :: "channel_state \<Rightarrow> u64 \<Rightarrow> bytes \<Rightarrow> channel_state" where
  "raise_voucher c n sb =
     c\<lparr>cs_highest_voucher_amount := n, cs_highest_voucher_signature := Some sb\<rparr>"

lemma run_voucher_commit:
  assumes "st cid = Some c" and "cs_highest_voucher_amount c < n"
  shows "run_plan mem_channels (Inr (Commit cid (voucher_updater n sb)
      (\<lambda>updated. and_then (channel_or_not_found updated)
        (\<lambda>state. Inr (receipt_success X now METHOD_NAME (cs_channel_id state)))))) st
    = (Inr (receipt_success X now METHOD_NAME (cs_channel_id c)), st(cid \<mapsto> raise_voucher c n sb))"
  using assms
  by (simp add: mem_ops mem_update_channel_def voucher_updater_def channel_or_not_found_def
      raise_voucher_def)

lemma handle_voucher_iff:
  "handle_voucher X now cfg mem_channels d cid amt sig st = (Inr r, st') \<longleftrightarrow>
   (\<exists>c n sb. st cid = Some c \<and> parse_u64 amt = Some n \<and> hex_decode X (strip_0x sig) = Inr sb
     \<and> voucher_acceptable X (resolve_min_delta cfg d) cid c n sb
     \<and> r = receipt_success X now METHOD_NAME (cs_channel_id c)
     \<and> st' = (if cs_highest_voucher_amount c < n then st(cid \<mapsto> raise_voucher c n sb) else st))"
proof (cases "st cid")
  case None
  then show ?thesis
    by (simp add: handle_voucher_def mem_ops voucher_plan_def channel_or_not_found_def)
next
  case (Some c)
  let ?p = "voucher_plan X now cfg d cid amt sig (Inr (Some c))"
  have run: "handle_voucher X now cfg mem_channels d cid amt sig st = run_plan mem_channels ?p st"
    by (simp add: handle_voucher_def mem_ops Some)
  show ?thesis
  proof (cases ?p)
    case (Inl e)
    have "\<not> (parse_u64 amt = Some n \<and> hex_decode X (strip_0x sig) = Inr sb
        \<and> voucher_acceptable X (resolve_min_delta cfg d) cid c n sb)" for n sb
      using voucher_plan_reply [of X now cfg d cid amt sig c] Inl by (metis sum.distinct(1))
    then show ?thesis using Some by (auto simp: run Inl)
  next
    case (Inr p)
    then obtain n sb where facts: "parse_u64 amt = Some n" "hex_decode X (strip_0x sig) = Inr sb"
        "voucher_acceptable X (resolve_min_delta cfg d) cid c n sb"
      and p: "p = (if n \<le> cs_highest_voucher_amount c
            then Reply (receipt_success X now METHOD_NAME (cs_channel_id c))
            else Commit cid (voucher_updater n sb) (\<lambda>updated. and_then (channel_or_not_found updated)
              (\<lambda>state. Inr (receipt_success X now METHOD_NAME (cs_channel_id state)))))"
      unfolding voucher_plan_reply by blast
    have "run_plan mem_channels (Inr p) st = (Inr (receipt_success X now METHOD_NAME (cs_channel_id c)),
        if cs_highest_voucher_amount c < n then st(cid \<mapsto> raise_voucher c n sb) else st)"
    proof (cases "n \<le> cs_highest_voucher_amount c")
      case True
      then show ?thesis by (simp add: p linorder_not_less [symmetric])
    next
      case False
      then have "cs_highest_voucher_amount c < n" by (simp only: linorder_not_le)
      with run_voucher_commit [of st cid c n sb X now, OF Some this] show ?thesis
        unfolding p if_not_P [OF False] by (simp only: if_True)
    qed
    then show ?thesis unfolding run Inr using Some facts by auto
  qed
qed

text \<open>
  C3: the exact behaviour of a voucher. It is accepted precisely when the channel is stored and
  open, the amount is a \<open>u64\<close> within the deposit, and either it replays the stored voucher byte
  for byte, or its signature verifies under the authorized key and it does not rise or rises by
  at least the minimum. The receipt names the stored channel, and the stored voucher is raised
  exactly when the amount is above it; no other field and no other channel changes.
\<close>

theorem voucher_accepts_iff:
  "handle_voucher X now cfg mem_channels d cid amt sig st = (Inr r, st') \<longleftrightarrow>
   (\<exists>c n sb. st cid = Some c \<and> parse_u64 amt = Some n \<and> hex_decode X (strip_0x sig) = Inr sb
     \<and> voucher_acceptable X (resolve_min_delta cfg d) cid c n sb
     \<and> r = receipt_success X now METHOD_NAME (cs_channel_id c)
     \<and> st' = (if cs_highest_voucher_amount c < n then st(cid \<mapsto> raise_voucher c n sb) else st))"
  by (rule handle_voucher_iff)

lemma close_plan_iff:
  "close_plan X now cid amt sig (Inr (Some c)) = Inr p \<longleftrightarrow>
   (\<exists>n sb. parse_u64 amt = Some n \<and> hex_decode X (strip_0x sig) = Inr sb
     \<and> \<not> cs_finalized c \<and> cs_highest_voucher_amount c \<le> n \<and> valid_for X cid c n sb
     \<and> p = Commit cid (close_updater n sb) (\<lambda>_. Inr (receipt_success X now METHOD_NAME cid)))"
  by (cases "hex_decode X (strip_0x cid)")
    (auto simp: close_plan_def channel_or_not_found_Inr parse_cumulative_amount_def res_simps
      valid_for_def linorder_not_less split: if_splits)

lemma handle_close_iff:
  "handle_close X now mem_channels cid amt sig st = (Inr r, st') \<longleftrightarrow>
   (\<exists>c n sb. st cid = Some c \<and> parse_u64 amt = Some n \<and> hex_decode X (strip_0x sig) = Inr sb
     \<and> \<not> cs_finalized c \<and> cs_highest_voucher_amount c \<le> n \<and> valid_for X cid c n sb
     \<and> r = receipt_success X now METHOD_NAME cid
     \<and> st' = st(cid \<mapsto> (raise_voucher c n sb)\<lparr>cs_finalized := True\<rparr>))"
proof (cases "st cid")
  case None
  then show ?thesis
    by (simp add: handle_close_def mem_ops close_plan_def channel_or_not_found_def)
next
  case (Some c)
  let ?p = "close_plan X now cid amt sig (Inr (Some c))"
  have run: "handle_close X now mem_channels cid amt sig st = run_plan mem_channels ?p st"
    by (simp add: handle_close_def mem_ops Some)
  show ?thesis
  proof (cases ?p)
    case (Inl e)
    have "\<not> (parse_u64 amt = Some n \<and> hex_decode X (strip_0x sig) = Inr sb
        \<and> \<not> cs_finalized c \<and> cs_highest_voucher_amount c \<le> n \<and> valid_for X cid c n sb)" for n sb
      using close_plan_iff [of X now cid amt sig c] Inl by (metis sum.distinct(1))
    then show ?thesis using Some by (auto simp: run Inl)
  next
    case (Inr p)
    then obtain n sb where facts: "parse_u64 amt = Some n" "hex_decode X (strip_0x sig) = Inr sb"
        "\<not> cs_finalized c" "cs_highest_voucher_amount c \<le> n" "valid_for X cid c n sb"
      and p: "p = Commit cid (close_updater n sb) (\<lambda>_. Inr (receipt_success X now METHOD_NAME cid))"
      unfolding close_plan_iff by blast
    have "run_plan mem_channels (Inr p) st = (Inr (receipt_success X now METHOD_NAME cid),
        st(cid \<mapsto> (raise_voucher c n sb)\<lparr>cs_finalized := True\<rparr>))"
      using Some by (simp add: p mem_ops mem_update_channel_def close_updater_def raise_voucher_def)
    then show ?thesis unfolding run Inr using Some facts by auto
  qed
qed

text \<open>
  C4: the exact behaviour of a close. It succeeds precisely when the channel is stored and open,
  the amount is a \<open>u64\<close> that is at least the stored voucher, and its signature verifies under
  the authorized key; the channel is then finalized at that amount, for good as far as vouchers
  and closes go. The deposit is not part of the condition.
\<close>

theorem close_accepts_iff:
  "handle_close X now mem_channels cid amt sig st = (Inr r, st') \<longleftrightarrow>
   (\<exists>c n sb. st cid = Some c \<and> parse_u64 amt = Some n \<and> hex_decode X (strip_0x sig) = Inr sb
     \<and> \<not> cs_finalized c \<and> cs_highest_voucher_amount c \<le> n \<and> valid_for X cid c n sb
     \<and> r = receipt_success X now METHOD_NAME cid
     \<and> st' = st(cid \<mapsto> (raise_voucher c n sb)\<lparr>cs_finalized := True\<rparr>))"
  by (rule handle_close_iff)

text \<open>How a request may change an entry: never down, and the voucher of a finalized channel
  never again.\<close>

definition entry_grows :: "channel_state \<Rightarrow> channel_state \<Rightarrow> bool" where
  "entry_grows c c' \<longleftrightarrow>
     cs_highest_voucher_amount c \<le> cs_highest_voucher_amount c' \<and> cs_deposit c \<le> cs_deposit c'
     \<and> (cs_finalized c' \<or> \<not> cs_finalized c)
     \<and> cs_spent c' = cs_spent c \<and> cs_units c' = cs_units c
     \<and> cs_authorized_signer_pubkey c' = cs_authorized_signer_pubkey c
     \<and> (\<not> cs_finalized c \<or> cs_highest_voucher_amount c' = cs_highest_voucher_amount c
         \<and> cs_highest_voucher_signature c' = cs_highest_voucher_signature c)"

fun is_open_payload :: "session_credential_payload \<Rightarrow> bool" where
  "is_open_payload (Open _ _ _ _ _) = True"
| "is_open_payload _ = False"

lemma plan_grows:
  assumes "session_plan X net now cfg d payload (get_channel mem_channels st) = Inr (Commit k u ans)"
    and "\<not> is_open_payload payload" and "st k = Some c"
  obtains c' where "u (st k) = Inr (Some c')" and "entry_grows c c'"
proof (cases payload)
  case (TopUp tx cid dep)
  with assms(1) have "top_up_plan X net now cfg d tx cid (Inr (st cid)) = Inr (Commit k u ans)"
    by (simp add: mem_ops)
  then show thesis
    by (rule top_up_commit)
      (use assms(3) in \<open>auto intro!: that simp: top_up_updater_def channel_or_not_found_def entry_grows_def\<close>)
next
  case (Voucher cid amt sig)
  with assms(1) have "voucher_plan X now cfg d cid amt sig (Inr (st cid)) = Inr (Commit k u ans)"
    by (simp add: mem_ops)
  then show thesis
    by (rule voucher_commit)
      (use assms(3) in \<open>auto intro!: that simp: voucher_updater_def channel_or_not_found_def entry_grows_def\<close>)
next
  case (Close cid amt sig)
  with assms(1) have "close_plan X now cid amt sig (Inr (st cid)) = Inr (Commit k u ans)"
    by (simp add: mem_ops)
  then show thesis
    by (rule close_commit)
      (use assms(3) in \<open>auto intro!: that simp: close_updater_def entry_grows_def\<close>)
qed (use assms(2) in simp)

lemma entry_grows_refl: "entry_grows c c"
  by (simp add: entry_grows_def)

text \<open>
  Nothing goes backwards. A top-up, voucher or close request, successful or not, keeps every
  stored channel, lowers neither its deposit nor its voucher, touches neither the amount spent
  nor the signer, never reopens a finalized channel, and leaves the final voucher of a finalized
  channel as it is. Only an opening is not covered.
\<close>

theorem session_action_monotone:
  assumes "\<not> is_open_payload payload" and "st k = Some c"
  shows "\<exists>c'. snd (session_action X net now cfg mem_channels d payload st) k = Some c'
    \<and> entry_grows c c'"
proof -
  let ?p = "session_plan X net now cfg d payload (get_channel mem_channels st)"
  show ?thesis
  proof (cases "\<exists>j u ans. ?p = Inr (Commit j u ans)")
    case False
    then have "snd (session_action X net now cfg mem_channels d payload st) = st"
      by (simp add: session_action_plan run_plan_no_commit)
    with assms(2) entry_grows_refl show ?thesis by auto
  next
    case True
    then obtain j u ans where p: "?p = Inr (Commit j u ans)" by blast
    have st': "snd (session_action X net now cfg mem_channels d payload st)
        = snd (mem_update_channel st j u)"
      unfolding session_action_plan p by (simp add: mem_ops split: prod.splits sum.splits)
    show ?thesis
    proof (cases "k = j")
      case True
      obtain c' where "u (st k) = Inr (Some c')" "entry_grows c c'"
        using plan_grows [OF p [folded True] assms] by blast
      then show ?thesis using True by (simp add: st' mem_update_channel_def)
    next
      case False
      then show ?thesis using assms(2) entry_grows_refl
        by (simp add: st' mem_update_channel_def split: sum.splits option.splits)
    qed
  qed
qed

theorem session_action_monotone_witness:
  "\<exists>c'. snd (session_action sample_world sample_net 0 config_default mem_channels sample_details
     (Close sample_cid (show_u64 90) (sample_sig 90)) [sample_cid \<mapsto> sample_opened sample_cid]) sample_cid
     = Some c' \<and> entry_grows (sample_opened sample_cid) c'"
  using session_action_monotone [of "Close sample_cid (show_u64 90) (sample_sig 90)"
      "[sample_cid \<mapsto> sample_opened sample_cid]" sample_cid "sample_opened sample_cid"]
  by simp

section \<open>What is not prevented\<close>

lemma handle_open_Inr:
  assumes "handle_open X net now cfg mem_channels d tx cid signer amt sig st = (Inr r, st')"
  obtains c where "open_plan X net now cfg d tx cid signer amt sig
      = Inr (Commit cid (open_updater c) (\<lambda>_. Inr (receipt_success X now METHOD_NAME tx)))"
    and "r = receipt_success X now METHOD_NAME tx" and "st' = st(cid \<mapsto> c)"
    and "cs_spent c = 0" and "\<not> cs_finalized c"
    and "parse_u64 amt = Some (cs_highest_voucher_amount c)"
proof -
  obtain p where p: "open_plan X net now cfg d tx cid signer amt sig = Inr p"
    using assms by (cases "open_plan X net now cfg d tx cid signer amt sig") (auto simp: handle_open_def)
  then show thesis
    by (rule open_commit) (use assms p in \<open>auto intro!: that simp: handle_open_def mem_ops
        mem_update_channel_def open_updater_def\<close>)
qed

lemma deduct_all_of_fresh:
  assumes "st cid = Some c" and "cs_spent c = 0"
  shows "is_ok (fst (deduct_from_channel mem_channels cid (cs_highest_voucher_amount c) st))"
  using assms by (simp add: deduct_from_channel_def mem_ops mem_update_channel_def
      deduct_updater_def saturating_sub_def)

text \<open>
  C39: an opening can be replayed. Once an open request with a voucher of \<open>n\<close> has been accepted,
  the whole amount can be deducted, the same request, answered the same by the chain, is
  accepted again and sets the account back, and the whole amount can be deducted again: one
  signed voucher of \<open>n\<close> pays for any multiple of \<open>n\<close>.
\<close>

theorem open_replay_resets:
  assumes "handle_open X net now cfg mem_channels d tx cid signer amt sig st = (Inr r, st1)"
    and "parse_u64 amt = Some n"
  shows "is_ok (fst (deduct_from_channel mem_channels cid n st1))
    \<and> fst (handle_open X net now cfg mem_channels d tx cid signer amt sig
        (snd (deduct_from_channel mem_channels cid n st1))) = Inr r
    \<and> is_ok (fst (deduct_from_channel mem_channels cid n
        (snd (handle_open X net now cfg mem_channels d tx cid signer amt sig
          (snd (deduct_from_channel mem_channels cid n st1))))))"
proof -
  obtain c where p: "open_plan X net now cfg d tx cid signer amt sig
      = Inr (Commit cid (open_updater c) (\<lambda>_. Inr (receipt_success X now METHOD_NAME tx)))"
    and r: "r = receipt_success X now METHOD_NAME tx" and st1: "st1 = st(cid \<mapsto> c)"
    and c: "cs_spent c = 0" "parse_u64 amt = Some (cs_highest_voucher_amount c)"
    using handle_open_Inr [OF assms(1)] by metis
  have n: "n = cs_highest_voucher_amount c" using assms(2) c(2) by simp
  have again: "handle_open X net now cfg mem_channels d tx cid signer amt sig st2
      = (Inr r, st2(cid \<mapsto> c))" for st2
    by (simp add: handle_open_eq [OF p] r)
  show ?thesis
    unfolding again st1 n by (simp add: deduct_all_of_fresh c(1))
qed

theorem open_replay_resets_witness:
  "is_ok (fst (deduct_from_channel mem_channels sample_cid 50 [sample_cid \<mapsto> sample_opened sample_cid]))"
proof -
  have "handle_open sample_world sample_net 0 config_default mem_channels sample_details ''0x1''
      sample_cid (Some sample_signer) (show_u64 50) (sample_sig 50) Map.empty
    = (Inr (receipt_success sample_world 0 METHOD_NAME ''0x1''),
       [sample_cid \<mapsto> sample_opened sample_cid])"
    by (rule sample_handle_open) (rule sample_cid_decodes)
  from open_replay_resets [OF this parse_u64_show_u64] show ?thesis by simp
qed

lemma open_plan_intro:
  assumes "verify_transaction_on_chain X net (cfg_rest_url cfg) tx = Inr t"
    and "get_on_chain_channel X net (cfg_rest_url cfg) (sd_module_address d) (details_registry d) cid
       = Inr oc"
    and "oc_deposit oc \<noteq> 0" and "\<not> oc_finalized oc" and "n \<le> oc_deposit oc"
    and "parse_u64 amt = Some n" and "hex_decode X (strip_0x cid) = Inr cidb"
    and "hex_decode X (strip_0x sig) = Inr bs" and "length bs = 64" and "length pk = 32"
    and "hex_decode X (strip_0x signer) = Inr pk" and "verify_voucher X cidb n bs pk pk"
  shows "open_plan X net now cfg d tx cid (Some signer) amt sig =
    Inr (Commit cid (open_updater (opened_channel X now d cid oc pk n bs))
      (\<lambda>_. Inr (receipt_success X now METHOD_NAME tx)))"
  using assms
  by (simp add: open_plan_def parse_cumulative_amount_def parse_hex_bytes_def byte_array_def
      linorder_not_less)

text \<open>
  One channel, two accounts. The store is keyed by the text of the channel identifier, and
  the chain and the signature check read the bytes: after an opening under an identifier
  without prefix, the same request under the same identifier with \<open>0x\<close> in front is accepted
  too and makes a second entry, fresh and with the same balance, for the same deposit.
\<close>

theorem channel_under_two_names:
  assumes "handle_open X net now cfg mem_channels d tx cid signer amt sig st = (Inr r, st1)"
    and "strip_0x cid = cid"
  shows "\<exists>c c'. handle_open X net now cfg mem_channels d tx (''0x'' @ cid) signer amt sig st1
        = (Inr r, st(cid \<mapsto> c, ''0x'' @ cid \<mapsto> c')) \<and> cid \<noteq> ''0x'' @ cid
      \<and> cs_spent c = 0 \<and> cs_spent c' = 0
      \<and> parse_u64 amt = Some (cs_highest_voucher_amount c)
      \<and> cs_highest_voucher_amount c' = cs_highest_voucher_amount c \<and> cs_deposit c' = cs_deposit c"
proof -
  obtain p where p: "open_plan X net now cfg d tx cid signer amt sig = Inr p"
    using assms(1) by (cases "open_plan X net now cfg d tx cid signer amt sig") (auto simp: handle_open_def)
  then obtain oc pk n bs cidb s t where
    pc: "p = Commit cid (open_updater (opened_channel X now d cid oc pk n bs))
       (\<lambda>_. Inr (receipt_success X now METHOD_NAME tx))"
    and t: "verify_transaction_on_chain X net (cfg_rest_url cfg) tx = Inr t"
    and oc: "get_on_chain_channel X net (cfg_rest_url cfg) (sd_module_address d)
       (details_registry d) cid = Inr oc"
    and rest: "oc_deposit oc \<noteq> 0" "\<not> oc_finalized oc" "n \<le> oc_deposit oc"
       "parse_u64 amt = Some n" "hex_decode X (strip_0x cid) = Inr cidb"
       "hex_decode X (strip_0x sig) = Inr bs" "length bs = 64" "length pk = 32"
       "hex_decode X (strip_0x s) = Inr pk" "verify_voucher X cidb n bs pk pk"
    and s: "signer = Some s"
    by (rule open_plan_Inr) blast
  have same_bytes: "strip_0x (''0x'' @ cid) = strip_0x cid" using assms(2) by simp
  have oc': "get_on_chain_channel X net (cfg_rest_url cfg) (sd_module_address d)
       (details_registry d) (''0x'' @ cid) = Inr oc"
    using oc unfolding get_on_chain_channel_def same_bytes .
  have p': "open_plan X net now cfg d tx (''0x'' @ cid) (Some s) amt sig =
    Inr (Commit (''0x'' @ cid) (open_updater (opened_channel X now d (''0x'' @ cid) oc pk n bs))
      (\<lambda>_. Inr (receipt_success X now METHOD_NAME tx)))"
    by (rule open_plan_intro [OF t oc' rest(1-4) _ rest(6-10)]) (simp only: same_bytes rest(5))
  have st1: "st1 = st(cid \<mapsto> opened_channel X now d cid oc pk n bs)"
    and r: "r = receipt_success X now METHOD_NAME tx"
    using assms(1) handle_open_eq [OF p [unfolded pc], of st] by simp_all
  have "length cid \<noteq> length (''0x'' @ cid)" by simp
  then have "cid \<noteq> ''0x'' @ cid" by (rule contrapos_nn) (rule arg_cong)
  moreover have "handle_open X net now cfg mem_channels d tx (''0x'' @ cid) signer amt sig st1
    = (Inr r, st1(''0x'' @ cid \<mapsto> opened_channel X now d (''0x'' @ cid) oc pk n bs))"
    unfolding s r by (rule handle_open_eq [OF p'])
  ultimately show ?thesis
    unfolding st1 by (intro exI conjI) (assumption | simp add: opened_channel_def rest(4))+
qed

theorem channel_under_two_names_witness:
  "\<exists>c'. snd (handle_open sample_world sample_net 0 config_default mem_channels sample_details ''0x1''
        (''0x'' @ sample_cid) (Some sample_signer) (show_u64 50) (sample_sig 50)
        [sample_cid \<mapsto> sample_opened sample_cid]) (''0x'' @ sample_cid) = Some c'
     \<and> cs_highest_voucher_amount c' = 50"
proof -
  have o: "handle_open sample_world sample_net 0 config_default mem_channels sample_details ''0x1''
      sample_cid (Some sample_signer) (show_u64 50) (sample_sig 50) Map.empty
    = (Inr (receipt_success sample_world 0 METHOD_NAME ''0x1''),
       [sample_cid \<mapsto> sample_opened sample_cid])"
    by (rule sample_handle_open) (rule sample_cid_decodes)
  have "strip_0x sample_cid = sample_cid"
    unfolding sample_cid_def
    by (rule strip_0x_hex) (use sample_world_laws in \<open>simp add: hex_ok_def\<close>)
  from channel_under_two_names [OF o this] show ?thesis
    by auto
qed

text \<open>
  The session method does not look at the terms of the request. Changing the recipient, the
  currency, the amount, the unit or the suggested deposit of the session request changes
  nothing of what is accepted or stored: a channel whose on-chain payee or token is another
  than the one asked for opens all the same.
\<close>

theorem session_ignores_request_terms:
  "method_verify_session X net now cfg mem_channels credential
     (req\<lparr>sr_recipient := r, sr_currency := cur, sr_amount := a, sr_unit_type := u,
       sr_suggested_deposit := dep\<rparr>) st
   = method_verify_session X net now cfg mem_channels credential req st"
proof -
  have "resolve_details X cfg (req\<lparr>sr_recipient := r, sr_currency := cur, sr_amount := a,
      sr_unit_type := u, sr_suggested_deposit := dep\<rparr>) = resolve_details X cfg req"
    by (simp add: resolve_details_def movement_session_details_def)
  then show ?thesis by (simp add: method_verify_session_def cong: sum.case_cong)
qed

end
