(* ===== verification/Session_Races.thy ===== *)
theory Session_Races
  imports Session_Claims
begin

text \<open>
  Concurrent session requests. A handler of src/protocol/methods/movement/session_method.rs
  awaits between its reads and its update, so other requests run in between; the update itself
  is atomic (the store holds its lock while the updater runs). The system state is the store
  and the commits in flight; a step starts a request (its plan is made on the store as it is
  now), lets one of the commits in flight take effect, in any order, or deducts a price.
  \<open>allow\<close> restricts which payloads are sent.
\<close>

record race_system =
  rs_channels :: mem_store
  rs_in_flight :: "(string \<times> updater) list"

inductive race_step ::
  "crates \<Rightarrow> session_method_config \<Rightarrow> (session_credential_payload \<Rightarrow> bool)
   \<Rightarrow> race_system \<Rightarrow> race_system \<Rightarrow> bool"
  for X cfg allow where
  begin_request: "allow payload \<Longrightarrow>
    session_plan X net now cfg d payload (get_channel mem_channels (rs_channels s))
      = Inr (Commit k u ans) \<Longrightarrow>
    race_step X cfg allow s (s\<lparr>rs_in_flight := (k, u) # rs_in_flight s\<rparr>)"
| commit_request: "rs_in_flight s = ps @ (k, u) # qs \<Longrightarrow>
    race_step X cfg allow s
      \<lparr>rs_channels = snd (update_channel mem_channels (rs_channels s) k u), rs_in_flight = ps @ qs\<rparr>"
| deduct_request: "race_step X cfg allow s
    (s\<lparr>rs_channels := snd (deduct_from_channel mem_channels k n (rs_channels s))\<rparr>)"

inductive race_reachable ::
  "crates \<Rightarrow> session_method_config \<Rightarrow> (session_credential_payload \<Rightarrow> bool) \<Rightarrow> race_system \<Rightarrow> bool"
  for X cfg allow where
  race_start: "race_reachable X cfg allow \<lparr>rs_channels = mem_store_new, rs_in_flight = []\<rparr>"
| race_next: "race_reachable X cfg allow s \<Longrightarrow> race_step X cfg allow s s' \<Longrightarrow> race_reachable X cfg allow s'"

inductive_cases race_stepE: "race_step X cfg allow s s'"

section \<open>Commits that keep the account covered in any order\<close>

definition covered :: "channel_state \<Rightarrow> bool" where
  "covered c \<longleftrightarrow> cs_spent c \<le> cs_highest_voucher_amount c"

definition keeps_cover :: "updater \<Rightarrow> bool" where
  "keeps_cover u \<longleftrightarrow> (\<forall>cur c. (\<forall>c0. cur = Some c0 \<longrightarrow> covered c0) \<longrightarrow> u cur = Inr (Some c) \<longrightarrow> covered c)"

fun is_close_payload :: "session_credential_payload \<Rightarrow> bool" where
  "is_close_payload (Close _ _ _) = True"
| "is_close_payload _ = False"

lemma keeps_cover_open: "cs_spent c = 0 \<Longrightarrow> keeps_cover (open_updater c)"
  by (simp add: keeps_cover_def open_updater_def covered_def)

lemma keeps_cover_top_up: "keeps_cover (top_up_updater n)"
  by (auto simp: keeps_cover_def top_up_updater_def covered_def res_simps channel_or_not_found_Inr)

lemma keeps_cover_voucher: "keeps_cover (voucher_updater n bs)"
  by (auto simp: keeps_cover_def voucher_updater_def covered_def res_simps channel_or_not_found_Inr
      split: if_splits)

lemma keeps_cover_deduct: "keeps_cover (deduct_updater n)"
  by (auto simp: keeps_cover_def deduct_updater_def covered_def res_simps Let_def
      intro: add_within_saturating_sub(2) split: if_splits)

lemma plan_keeps_cover:
  assumes "session_plan X net now cfg d payload get = Inr (Commit k u ans)"
    and "\<not> is_close_payload payload"
  shows "keeps_cover u"
proof (cases payload)
  case (Open tx cid signer amt sig)
  with assms(1) have "open_plan X net now cfg d tx cid signer amt sig = Inr (Commit k u ans)" by simp
  then show ?thesis by (rule open_commit) (simp add: keeps_cover_open)
next
  case (TopUp tx cid dep)
  with assms(1) have "top_up_plan X net now cfg d tx cid (get cid) = Inr (Commit k u ans)" by simp
  then show ?thesis by (rule top_up_commit) (simp add: keeps_cover_top_up)
next
  case (Voucher cid amt sig)
  with assms(1) have "voucher_plan X now cfg d cid amt sig (get cid) = Inr (Commit k u ans)" by simp
  then show ?thesis by (rule voucher_commit) (simp add: keeps_cover_voucher)
qed (use assms(2) in simp)

definition race_ok :: "race_system \<Rightarrow> bool" where
  "race_ok s \<longleftrightarrow> (\<forall>k c. rs_channels s k = Some c \<longrightarrow> covered c)
     \<and> (\<forall>k u. (k, u) \<in> set (rs_in_flight s) \<longrightarrow> keeps_cover u)"

lemma update_keeps_cover:
  assumes "keeps_cover u" and "\<And>k c. channels k = Some c \<Longrightarrow> covered c"
    and "snd (update_channel mem_channels channels k u) j = Some c"
  shows "covered c"
proof (cases "j = k")
  case True
  with assms show ?thesis
    by (auto simp: mem_ops mem_update_channel_def keeps_cover_def split: sum.splits option.splits)
next
  case False
  with assms(2) [of j] assms(3) show ?thesis
    by (simp add: mem_ops mem_update_channel_def split: sum.splits option.splits)
qed

lemma deduct_is_update:
  "snd (deduct_from_channel mem_channels k n channels)
   = snd (update_channel mem_channels channels k (deduct_updater n))"
  by (simp add: deduct_from_channel_def split: prod.splits)

lemma race_step_ok:
  assumes "race_step X cfg (\<lambda>p. \<not> is_close_payload p) s s'" and "race_ok s"
  shows "race_ok s'"
  using assms(1)
proof (cases rule: race_step.cases)
  case (begin_request payload net now d k u ans)
  then have "keeps_cover u" using plan_keeps_cover by blast
  with begin_request(1) assms(2) show ?thesis by (auto simp: race_ok_def)
next
  case (commit_request ps k u qs)
  have "covered c" if "rs_channels s' j = Some c" for j c
    by (rule update_keeps_cover [of u "rs_channels s" k j])
      (use assms(2) commit_request that in \<open>auto simp: race_ok_def\<close>)
  then show ?thesis using assms(2) commit_request by (auto simp: race_ok_def)
next
  case (deduct_request k n)
  have "covered c" if "rs_channels s' j = Some c" for j c
    by (rule update_keeps_cover [OF keeps_cover_deduct, of "rs_channels s" k n j])
      (use assms(2) deduct_request that in \<open>auto simp: race_ok_def deduct_is_update\<close>)
  then show ?thesis using assms(2) deduct_request by (auto simp: race_ok_def)
qed

lemma race_reachable_ok:
  "race_reachable X cfg (\<lambda>p. \<not> is_close_payload p) s \<Longrightarrow> race_ok s"
  by (induction rule: race_reachable.induct) (auto simp: race_ok_def mem_store_new_def dest: race_step_ok)

section \<open>A concrete run\<close>

definition sample_store :: mem_store where
  "sample_store = [sample_cid \<mapsto> sample_opened sample_cid]"

abbreviation sample_signature :: "u64 \<Rightarrow> bytes" where
  "sample_signature n \<equiv> sign_voucher sample_world [3] [1, 2] n"

lemma sample_sig_decodes: "hex_decode sample_world (strip_0x (sample_sig n)) = Inr (sample_signature n)"
  by (simp add: sample_sig_def hex_text_decodes)

lemma sample_valid: "valid_for sample_world sample_cid (sample_opened sample_cid) n (sample_signature n)"
  by (simp add: valid_for_def sample_cid_decodes sample_opened_def opened_channel_def
      length_sign_voucher length_ed_public sign_then_verify)

lemma sample_close_plan:
  assumes "50 \<le> n"
  shows "session_plan sample_world sample_net 0 config_default sample_details
     (Close sample_cid (show_u64 n) (sample_sig n)) (get_channel mem_channels sample_store)
   = Inr (Commit sample_cid (close_updater n (sample_signature n))
       (\<lambda>_. Inr (receipt_success sample_world 0 METHOD_NAME sample_cid)))"
proof -
  have "close_plan sample_world 0 sample_cid (show_u64 n) (sample_sig n)
      (Inr (Some (sample_opened sample_cid)))
    = Inr (Commit sample_cid (close_updater n (sample_signature n))
       (\<lambda>_. Inr (receipt_success sample_world 0 METHOD_NAME sample_cid)))"
    unfolding close_plan_iff
    by (intro exI [of _ n] exI [of _ "sample_signature n"])
      (use assms in \<open>simp add: sample_sig_decodes sample_valid\<close>)
  then show ?thesis by (simp add: mem_ops sample_store_def)
qed

lemma sample_voucher_plan:
  assumes "50 < n" and "n \<le> 100"
  obtains ans where "session_plan sample_world sample_net 0 config_default sample_details
     (Voucher sample_cid (show_u64 n) (sample_sig n)) (get_channel mem_channels sample_store)
   = Inr (Commit sample_cid (voucher_updater n (sample_signature n)) ans)"
proof -
  have "voucher_acceptable sample_world (resolve_min_delta config_default sample_details) sample_cid
      (sample_opened sample_cid) n (sample_signature n)"
    using assms by (simp add: voucher_acceptable_def sample_valid resolve_min_delta_def
        sample_details_def config_default_def)
  then have "\<exists>ans. voucher_plan sample_world 0 config_default sample_details sample_cid (show_u64 n)
      (sample_sig n) (Inr (Some (sample_opened sample_cid)))
    = Inr (Commit sample_cid (voucher_updater n (sample_signature n)) ans)"
    unfolding voucher_plan_reply using assms(1)
    by (auto simp: sample_sig_decodes linorder_not_le)
  then show thesis using that by (auto simp: mem_ops sample_store_def)
qed

text \<open>The steps on a system given by its two components.\<close>

lemma begin_at:
  assumes "race_reachable X cfg allow \<lparr>rs_channels = ch, rs_in_flight = fl\<rparr>" and "allow payload"
    and "session_plan X net now cfg d payload (get_channel mem_channels ch) = Inr (Commit k u ans)"
  shows "race_reachable X cfg allow \<lparr>rs_channels = ch, rs_in_flight = (k, u) # fl\<rparr>"
  using race_next [OF assms(1) begin_request [of allow payload, OF assms(2)]] assms(3) by simp

lemma commit_at:
  assumes "race_reachable X cfg allow \<lparr>rs_channels = ch, rs_in_flight = (k, u) # fl\<rparr>"
    and "u (ch k) = Inr (Some c)"
  shows "race_reachable X cfg allow \<lparr>rs_channels = ch(k \<mapsto> c), rs_in_flight = fl\<rparr>"
proof -
  have "race_step X cfg allow \<lparr>rs_channels = ch, rs_in_flight = (k, u) # fl\<rparr>
      \<lparr>rs_channels = snd (update_channel mem_channels ch k u), rs_in_flight = [] @ fl\<rparr>"
    using commit_request [where s = "\<lparr>rs_channels = ch, rs_in_flight = (k, u) # fl\<rparr>" and ps = "[]"]
    by simp
  from race_next [OF assms(1) this] assms(2) show ?thesis
    by (simp add: mem_ops mem_update_channel_def)
qed

lemma deduct_at:
  assumes "race_reachable X cfg allow \<lparr>rs_channels = ch, rs_in_flight = fl\<rparr>"
    and "deduct_updater n (ch k) = Inr (Some c)"
  shows "race_reachable X cfg allow \<lparr>rs_channels = ch(k \<mapsto> c), rs_in_flight = fl\<rparr>"
  using race_next [OF assms(1) deduct_request, of k n] assms(2)
  by (simp add: deduct_is_update mem_ops mem_update_channel_def)

lemma sample_race_opened:
  assumes "allow (Open ''0x1'' sample_cid (Some sample_signer) (show_u64 50) (sample_sig 50))"
  shows "race_reachable sample_world config_default allow
    \<lparr>rs_channels = sample_store, rs_in_flight = []\<rparr>"
proof -
  have plan: "session_plan sample_world sample_net 0 config_default sample_details
      (Open ''0x1'' sample_cid (Some sample_signer) (show_u64 50) (sample_sig 50))
      (get_channel mem_channels mem_store_new)
    = Inr (Commit sample_cid (open_updater (sample_opened sample_cid))
        (\<lambda>_. Inr (receipt_success sample_world 0 METHOD_NAME ''0x1'')))"
    using sample_open [of 50 sample_cid 0 config_default "''0x1''"]
    by (simp add: sample_cid_decodes sample_opened_def)
  show ?thesis
    using commit_at [OF begin_at [of _ _ allow, OF race_start assms plan] open_updater_def]
    by (simp add: mem_store_new_def sample_store_def)
qed

text \<open>
  C22: interleaving is safe without closes. Whatever opens, top-ups, vouchers and deductions run
  concurrently on any channels, with their commits taking effect in any order, no channel ever
  has more spent than its highest voucher: the voucher commit checks again that it raises the
  amount, and the deduction computes the balance inside its update.
\<close>

theorem races_keep_spent_covered:
  assumes "race_reachable X cfg (\<lambda>p. \<not> is_close_payload p) s" and "rs_channels s k = Some c"
  shows "cs_spent c \<le> cs_highest_voucher_amount c"
  using race_reachable_ok [OF assms(1)] assms(2) by (simp add: race_ok_def covered_def)

theorem races_keep_spent_covered_witness:
  "cs_spent (sample_opened sample_cid) \<le> cs_highest_voucher_amount (sample_opened sample_cid)"
  by (rule races_keep_spent_covered [OF sample_race_opened, where k = sample_cid])
    (simp_all add: sample_store_def)

text \<open>
  C40: a close can race with a voucher. The commit of a close writes the amount it checked
  against an older state without looking again: a close for 50 checked before and committed
  after a voucher for 90 that has been spent leaves a finalized channel with 90 spent and a
  final voucher of 50.
\<close>

theorem close_race_loses_voucher:
  "\<exists>s c. race_reachable sample_world config_default (\<lambda>_. True) s
     \<and> rs_channels s sample_cid = Some c \<and> cs_finalized c
     \<and> cs_highest_voucher_amount c = 50 \<and> cs_spent c = 90"
proof -
  let ?R = "race_reachable sample_world config_default (\<lambda>_. True)"
  let ?cu = "close_updater 50 (sample_signature 50)"
  let ?vu = "voucher_updater 90 (sample_signature 90)"
  obtain ans where vp: "session_plan sample_world sample_net 0 config_default sample_details
     (Voucher sample_cid (show_u64 90) (sample_sig 90)) (get_channel mem_channels sample_store)
   = Inr (Commit sample_cid ?vu ans)"
    by (rule sample_voucher_plan [of 90]) simp_all
  have started: "?R \<lparr>rs_channels = sample_store, rs_in_flight = [(sample_cid, ?vu), (sample_cid, ?cu)]\<rparr>"
    by (rule begin_at [OF begin_at [OF sample_race_opened _ sample_close_plan] _ vp]) simp_all
  let ?c1 = "raise_voucher (sample_opened sample_cid) 90 (sample_signature 90)"
  let ?c2 = "?c1\<lparr>cs_spent := 90, cs_units := cs_units ?c1 + 1\<rparr>"
  let ?c3 = "(raise_voucher ?c2 50 (sample_signature 50))\<lparr>cs_finalized := True\<rparr>"
  have "?R \<lparr>rs_channels = sample_store(sample_cid \<mapsto> ?c1), rs_in_flight = [(sample_cid, ?cu)]\<rparr>"
    by (rule commit_at [OF started])
      (simp add: sample_store_def voucher_updater_def channel_or_not_found_def raise_voucher_def)
  then have "?R \<lparr>rs_channels = sample_store(sample_cid \<mapsto> ?c1, sample_cid \<mapsto> ?c2),
      rs_in_flight = [(sample_cid, ?cu)]\<rparr>"
    by (rule deduct_at [where n = 90])
      (simp add: deduct_updater_def raise_voucher_def saturating_sub_def)
  then have "?R \<lparr>rs_channels = sample_store(sample_cid \<mapsto> ?c1, sample_cid \<mapsto> ?c2, sample_cid \<mapsto> ?c3),
      rs_in_flight = []\<rparr>"
    by (rule commit_at) (simp add: close_updater_def raise_voucher_def)
  then show ?thesis
    by (intro exI conjI) (assumption | simp add: raise_voucher_def)+
qed

end
