(* ===== verification/Charge_Method.thy ===== *)
theory Charge_Method
  imports Movement_Types Http Sample_Crates
begin

text \<open>
  Server-side charge verification (src/protocol/methods/movement/method.rs): the transaction is
  looked up by hash, and its events or its payload must show a transfer of the requested amount
  to the requested recipient. A JSON document is a \<open>json\<close> value; a missing field, or one of
  another type, is what \<open>get\<close>, \<open>as_str\<close> and \<open>as_array\<close> return for it.
\<close>

section \<open>Addresses\<close>

text \<open>\<open>format!("{:0>64}", s)\<close>\<close>

definition pad_left_64 :: "string \<Rightarrow> string" where
  "pad_left_64 s = replicate (64 - length s) CHR ''0'' @ s"

definition normalize_address :: "string \<Rightarrow> string" where
  "normalize_address addr = to_ascii_lowercase (pad_left_64 (strip_0x addr))"

definition is_native_move :: "string \<Rightarrow> bool" where
  "is_native_move currency =
     eq_ignore_ascii_case (trim_start_matches CHR ''0'' (strip_0x currency)) ''a''"

section \<open>Events\<close>

definition parse_event_amount :: "json \<Rightarrow> u64 option" where
  "parse_event_amount data =
     (case Option.bind (json_get ''amount'' data) as_u64 of
        Some n \<Rightarrow> Some n
      | None \<Rightarrow> Option.bind (get_str ''amount'' data) parse_u64)"

definition names_address :: "string option \<Rightarrow> string \<Rightarrow> bool" where
  "names_address addr normalized =
     (case addr of Some a \<Rightarrow> normalize_address a = normalized | None \<Rightarrow> False)"

definition event_type :: "json \<Rightarrow> string" where
  "event_type event = unwrap_or [] (get_str ''type'' event)"

definition is_deposit_event :: "json \<Rightarrow> bool" where
  "is_deposit_event event \<longleftrightarrow> str_contains ''::coin::DepositEvent'' (event_type event)
     \<or> str_contains ''::fungible_asset::Deposit'' (event_type event)"

definition is_fa_transfer_event :: "json \<Rightarrow> bool" where
  "is_fa_transfer_event event \<longleftrightarrow> str_contains ''::fungible_asset::Transfer'' (event_type event)"

definition event_matches :: "string \<Rightarrow> u64 \<Rightarrow> json \<Rightarrow> bool" where
  "event_matches recipient_normalized expected_amount event =
     (if \<not> is_deposit_event event \<and> \<not> is_fa_transfer_event event then False
      else case json_get ''data'' event of
        None \<Rightarrow> False
      | Some data \<Rightarrow>
          if parse_event_amount data \<noteq> Some expected_amount then False
          else if is_fa_transfer_event event
          then names_address (get_str ''to'' data) recipient_normalized
          else names_address (Option.bind (json_get ''guid'' event) (get_str ''account_address''))
                 recipient_normalized
               \<or> names_address (get_str ''key'' event) recipient_normalized)"

definition verify_transfer_events :: "json list \<Rightarrow> string \<Rightarrow> u64 \<Rightarrow> bool" where
  "verify_transfer_events events expected_recipient expected_amount =
     list_ex (event_matches (normalize_address expected_recipient) expected_amount) events"

section \<open>Payload\<close>

definition payload_function :: "json \<Rightarrow> string" where
  "payload_function payload = unwrap_or [] (get_str ''function'' payload)"

definition first_str :: "json list \<Rightarrow> string option" where
  "first_str vs = (case vs of [] \<Rightarrow> None | v # _ \<Rightarrow> as_str v)"

definition verify_payload_currency :: "json \<Rightarrow> string \<Rightarrow> verification_error + unit" where
  "verify_payload_currency tx expected_currency =
     (case json_get ''payload'' tx of
        None \<Rightarrow> Inr ()
      | Some payload \<Rightarrow>
          let function = payload_function payload in
          if function = ''0x1::primary_fungible_store::transfer'' then
            (case Option.bind (Option.bind (json_get ''arguments'' payload) as_array) first_str of
               Some metadata \<Rightarrow>
                 if normalize_address metadata \<noteq> normalize_address expected_currency
                 then Inl (verification_error_new (''token mismatch: transaction transfers FA ''
                        @ metadata @ '' but expected '' @ expected_currency))
                 else Inr ()
             | None \<Rightarrow> Inr ())
          else if function = ''0x1::aptos_account::transfer'' then
            (if \<not> is_native_move expected_currency
             then Inl (verification_error_new (''token mismatch: transaction uses aptos_account::transfer (native MOVE) but expected FA token ''
                    @ expected_currency))
             else Inr ())
          else if function = ''0x1::aptos_account::transfer_coins''
                  \<or> function = ''0x1::coin::transfer'' then
            (if is_native_move expected_currency then
               (case Option.bind (json_get ''type_arguments'' payload) as_array of
                  Some args \<Rightarrow>
                    let has_aptos_coin = list_ex (\<lambda>a. unwrap_or False
                          (map_option (str_contains ''aptos_coin::AptosCoin'') (as_str a))) args in
                    if \<not> has_aptos_coin \<and> args \<noteq> []
                    then Inl (verification_error_new
                           ''token mismatch: expected native MOVE but coin type is different'')
                    else Inr ()
                | None \<Rightarrow> Inr ())
             else Inr ())
          else Inr ())"

definition transfer_indices :: "string \<Rightarrow> json list \<Rightarrow> string \<Rightarrow> verification_error + nat \<times> nat" where
  "transfer_indices function arguments expected_currency =
     (if function = ''0x1::aptos_account::transfer'' \<or> function = ''0x1::aptos_account::transfer_coins''
         \<or> function = ''0x1::coin::transfer'' then Inr (0, 1)
      else if function = ''0x1::primary_fungible_store::transfer'' then
        (case first_str arguments of
           Some metadata \<Rightarrow>
             if normalize_address metadata \<noteq> normalize_address expected_currency
             then Inl (verification_error_new (''token mismatch: FA metadata '' @ metadata
                    @ '' does not match expected '' @ expected_currency))
             else Inr (1, 2)
         | None \<Rightarrow> Inr (1, 2))
      else Inl (verification_error_new (''unexpected transaction function: '' @ function)))"

definition verify_payload_fallback ::
  "json \<Rightarrow> string \<Rightarrow> string \<Rightarrow> u64 \<Rightarrow> verification_error + unit" where
  "verify_payload_fallback tx expected_currency expected_recipient expected_amount =
     and_then (ok_or (verification_error_new ''transaction has no payload'') (json_get ''payload'' tx))
       (\<lambda>payload.
     and_then (ok_or (verification_error_new ''missing arguments in payload'')
       (Option.bind (json_get ''arguments'' payload) as_array)) (\<lambda>arguments.
     and_then (transfer_indices (payload_function payload) arguments expected_currency)
       (\<lambda>(recipient_idx, amount_idx).
     if length arguments \<le> amount_idx
     then Inl (verification_error_new ''insufficient arguments in transfer'')
     else
       let recipient = unwrap_or [] (as_str (arguments ! recipient_idx)) in
       if normalize_address recipient \<noteq> normalize_address expected_recipient
       then Inl (ve_invalid_recipient (''transfer recipient '' @ recipient
              @ '' does not match expected '' @ expected_recipient))
       else
         let amount = unwrap_or 0 (parse_u64 (unwrap_or ''0'' (as_str (arguments ! amount_idx)))) in
         if amount \<noteq> expected_amount
         then Inl (ve_invalid_amount (''transfer amount '' @ show_u64 amount
                @ '' does not match expected '' @ show_u64 expected_amount))
         else Inr ())))"

section \<open>The charge method\<close>

definition charge_method_new :: "string \<Rightarrow> string" where
  "charge_method_new rest_url = trim_end_matches CHR ''/'' rest_url"

definition lookup_transaction ::
  "crates \<Rightarrow> network \<Rightarrow> string \<Rightarrow> string \<Rightarrow> verification_error + json" where
  "lookup_transaction X net rest_url hash_str =
     (case http_get net (rest_url @ ''/transactions/by_hash/0x'' @ strip_0x hash_str) of
        Transport_Error e \<Rightarrow> Inl (ve_network_error (''transaction lookup failed: '' @ e))
      | Response status text \<Rightarrow>
          if status = 404 then Inl (ve_pending ''transaction not yet confirmed on-chain'')
          else if \<not> is_success_status status
          then Inl (ve_network_error (''transaction lookup failed ('' @ status_text X status
                 @ ''): '' @ text))
          else map_err (\<lambda>e. ve_network_error (''failed to parse transaction: '' @ e))
                 (response_json X ''Value'' Some text))"

definition check_transfer :: "json \<Rightarrow> charge_request \<Rightarrow> verification_error + unit" where
  "check_transfer body req =
     and_then (map_err (\<lambda>e. ve_invalid_amount (''invalid amount: '' @ mpp_error_display e))
       (amount_u64 req)) (\<lambda>expected_amount.
     and_then (map_err (\<lambda>e. ve_invalid_recipient (''invalid recipient: '' @ mpp_error_display e))
       (recipient_str req)) (\<lambda>expected_recipient.
     and_then (verify_payload_currency body (cr_currency req)) (\<lambda>_.
     case Option.bind (json_get ''events'' body) as_array of
       Some events \<Rightarrow>
         if \<not> verify_transfer_events events expected_recipient expected_amount
         then verify_payload_fallback body (cr_currency req) expected_recipient expected_amount
         else Inr ()
     | None \<Rightarrow> verify_payload_fallback body (cr_currency req) expected_recipient expected_amount)))"

definition verify_tx_hash ::
  "crates \<Rightarrow> network \<Rightarrow> int \<Rightarrow> string \<Rightarrow> string \<Rightarrow> charge_request \<Rightarrow> verification_error + receipt" where
  "verify_tx_hash X net now rest_url hash_str req =
     and_then (lookup_transaction X net rest_url hash_str) (\<lambda>body.
     if unwrap_or [] (get_str ''type'' body) = ''pending_transaction''
     then Inl (ve_pending ''transaction is pending confirmation'')
     else if \<not> unwrap_or False (Option.bind (json_get ''success'' body) as_bool)
     then Inl (ve_transaction_failed (''transaction failed: ''
            @ unwrap_or ''unknown'' (get_str ''vm_status'' body)))
     else and_then (check_transfer body req) (\<lambda>_.
       Inr (receipt_success X now METHOD_NAME hash_str)))"

text \<open>The transaction hash a credential names: a hash payload, or a \<open>hash\<close> or \<open>txHash\<close> field.\<close>

definition credential_tx_hash :: "crates \<Rightarrow> payment_credential \<Rightarrow> verification_error + string" where
  "credential_tx_hash X credential =
     (case charge_payload X credential of
        Inr p \<Rightarrow>
          if is_hash p then Inr (payload_data p)
          else Inl (ve_invalid_payload ''Movement only supports hash payloads (submit tx client-side first)'')
      | Inl _ \<Rightarrow>
          ok_or (ve_invalid_payload ''payload must contain a transaction hash'')
            (Option.bind
              (case json_get ''hash'' (cred_payload credential) of
                 Some v \<Rightarrow> Some v
               | None \<Rightarrow> json_get ''txHash'' (cred_payload credential)) as_str))"

definition charge_method_verify ::
  "crates \<Rightarrow> network \<Rightarrow> int \<Rightarrow> string \<Rightarrow> payment_credential \<Rightarrow> charge_request
   \<Rightarrow> verification_error + receipt" where
  "charge_method_verify X net now rest_url credential req =
     and_then (credential_tx_hash X credential) (\<lambda>hash_str.
       verify_tx_hash X net now rest_url hash_str req)"

end
