(* ===== verification/Charge_Spec.thy ===== *)
theory Charge_Spec
  imports Charge_Method
begin

text \<open>
  What counts as payment of a charge, stated apart from the code of Charge_Method: on the texts
  and fields of the node's answer, with accounts compared as numerals. The lemmas show that the
  checks of the code decide these predicates.
\<close>

section \<open>Texts\<close>

lemma str_contains_iff: "str_contains p s \<longleftrightarrow> (\<exists>pre post. s = pre @ p @ post)"
proof (induction s)
  case (Cons c s)
  show ?case
  proof
    assume "str_contains p (c # s)"
    then consider "starts_with p (c # s)" | "str_contains p s" by auto
    then show "\<exists>pre post. c # s = pre @ p @ post"
    proof cases
      case 1
      then show ?thesis by (auto simp: starts_with_iff intro: exI [of _ "[]"])
    next
      case 2
      with Cons obtain pre post where "s = pre @ p @ post" by blast
      then show ?thesis by (intro exI [of _ "c # pre"] exI [of _ post]) simp
    qed
  next
    assume "\<exists>pre post. c # s = pre @ p @ post"
    then obtain pre post where s: "c # s = pre @ p @ post" by blast
    show "str_contains p (c # s)"
    proof (cases pre)
      case Nil
      then have "starts_with p (c # s)" using s by (auto simp: starts_with_iff)
      then show ?thesis by simp
    next
      case (Cons d pre')
      with s have "s = pre' @ p @ post" by simp
      with Cons.IH show ?thesis by auto
    qed
  qed
qed simp

definition mentions :: "json \<Rightarrow> string \<Rightarrow> string \<Rightarrow> bool" where
  "mentions j k name \<longleftrightarrow> (\<exists>pre post. json_get k j = Some (JStr (pre @ name @ post)))"

lemma get_str_Some: "get_str k j = Some s \<longleftrightarrow> json_get k j = Some (JStr s)"
  by (cases "json_get k j"; simp add: get_str_def) (cases "the (json_get k j)"; auto)

lemma mentions_iff:
  assumes "name \<noteq> []"
  shows "str_contains name (unwrap_or [] (get_str k j)) \<longleftrightarrow> mentions j k name"
proof (cases "get_str k j")
  case None
  then have "json_get k j \<noteq> Some (JStr s)" for s using get_str_Some [of k j s] by simp
  with None assms show ?thesis by (simp add: mentions_def)
next
  case (Some s)
  then have "json_get k j = Some (JStr s)" by (simp add: get_str_Some)
  with Some show ?thesis by (auto simp: mentions_def str_contains_iff)
qed

section \<open>Accounts\<close>

text \<open>Two account texts name the same account: without \<open>0x\<close> and in lower case they are equal, up to
  leading zeros if they have at most 64 places. The native token is account \<open>a\<close>.\<close>

definition same_account :: "string \<Rightarrow> string \<Rightarrow> bool" where
  "same_account a b \<longleftrightarrow>
     (let x = to_ascii_lowercase (strip_0x a); y = to_ascii_lowercase (strip_0x b) in
      x = y \<or> length x \<le> 64 \<and> length y \<le> 64
        \<and> (\<exists>m n z. x = replicate m CHR ''0'' @ z \<and> y = replicate n CHR ''0'' @ z))"

definition native_token :: "string \<Rightarrow> bool" where
  "native_token currency \<longleftrightarrow>
     (\<exists>n. to_ascii_lowercase (strip_0x currency) = replicate n CHR ''0'' @ ''a'')"

lemma zeros_back: "\<exists>m. s = replicate m c @ dropWhile (\<lambda>d. d = c) s"
proof (induction s)
  case (Cons d s)
  then obtain m where "s = replicate m c @ dropWhile (\<lambda>d. d = c) s" by blast
  then show ?case
    by (cases "d = c") (force intro: exI [of _ "Suc m"] exI [of _ 0])+
qed simp

lemma dropWhile_zeros: "dropWhile (\<lambda>d. d = c) (replicate n c @ s) = dropWhile (\<lambda>d. d = c) s"
  by (induction n) simp_all

lemma pad_left_64_length: "length (pad_left_64 s) = max 64 (length s)"
  by (simp add: pad_left_64_def)

lemma pad_left_64_eq:
  "pad_left_64 x = pad_left_64 y \<longleftrightarrow> x = y \<or> length x \<le> 64 \<and> length y \<le> 64
     \<and> (\<exists>m n z. x = replicate m CHR ''0'' @ z \<and> y = replicate n CHR ''0'' @ z)"
  (is "?l \<longleftrightarrow> ?r")
proof
  assume ?l
  then have len: "max 64 (length x) = max 64 (length y)"
    using pad_left_64_length by metis
  show ?r
  proof (cases "length x \<le> 64")
    case True
    with len have "length y \<le> 64" by simp
    moreover have "dropWhile (\<lambda>d. d = CHR ''0'') x = dropWhile (\<lambda>d. d = CHR ''0'') y"
      using arg_cong [OF \<open>?l\<close>, of "dropWhile (\<lambda>d. d = CHR ''0'')"]
      by (simp add: pad_left_64_def dropWhile_zeros)
    ultimately show ?thesis using True zeros_back [of x "CHR ''0''"] zeros_back [of y "CHR ''0''"] by metis
  next
    case False
    with len have "64 < length y" by simp
    with False \<open>?l\<close> show ?thesis by (simp add: pad_left_64_def)
  qed
next
  assume ?r
  then show ?l
  proof
    assume "length x \<le> 64 \<and> length y \<le> 64 \<and> (\<exists>m n z. x = replicate m CHR ''0'' @ z \<and> y = replicate n CHR ''0'' @ z)"
    then obtain m n z where "x = replicate m CHR ''0'' @ z" "y = replicate n CHR ''0'' @ z"
      "m + length z \<le> 64" "n + length z \<le> 64" by auto
    then show ?l by (simp add: pad_left_64_def append_assoc [symmetric] replicate_add [symmetric])
  qed simp
qed

lemma normalize_pad: "normalize_address a = pad_left_64 (to_ascii_lowercase (strip_0x a))"
  by (simp add: normalize_address_def pad_left_64_def to_ascii_lowercase_def to_lower_def
      is_ascii_uppercase_def)

lemma same_account_iff: "normalize_address a = normalize_address b \<longleftrightarrow> same_account a b"
  by (simp add: normalize_pad pad_left_64_eq same_account_def Let_def)

lemma lower_zero: "to_lower c = CHR ''0'' \<longleftrightarrow> c = CHR ''0''"
proof
  assume "to_lower c = CHR ''0''"
  then show "c = CHR ''0''"
    by (cases "is_ascii_uppercase c") (auto simp: to_lower_def is_ascii_uppercase_def dest: arg_cong [of _ _ code])
qed (simp add: to_lower_def is_ascii_uppercase_def)

lemma lower_trim:
  "to_ascii_lowercase (trim_start_matches CHR ''0'' s) = dropWhile (\<lambda>d. d = CHR ''0'') (to_ascii_lowercase s)"
  by (induction s) (simp_all add: trim_start_matches_def to_ascii_lowercase_def lower_zero)

lemma native_token_iff: "is_native_move currency \<longleftrightarrow> native_token currency"
proof -
  let ?x = "to_ascii_lowercase (strip_0x currency)"
  have "to_ascii_lowercase ''a'' = ''a''"
    by (simp add: to_ascii_lowercase_def to_lower_def is_ascii_uppercase_def)
  then have "is_native_move currency \<longleftrightarrow> dropWhile (\<lambda>d. d = CHR ''0'') ?x = ''a''"
    by (simp add: is_native_move_def eq_ignore_ascii_case_def lower_trim)
  also have "\<dots> \<longleftrightarrow> (\<exists>n. ?x = replicate n CHR ''0'' @ ''a'')"
  proof
    assume "dropWhile (\<lambda>d. d = CHR ''0'') ?x = ''a''"
    then show "\<exists>n. ?x = replicate n CHR ''0'' @ ''a''" using zeros_back [of ?x "CHR ''0''"] by simp
  qed (auto simp: dropWhile_zeros)
  finally show ?thesis by (simp add: native_token_def)
qed

section \<open>Events\<close>

text \<open>An amount is a number or a numeral.\<close>

definition shows_amount :: "json \<Rightarrow> u64 \<Rightarrow> bool" where
  "shows_amount data n \<longleftrightarrow> json_get ''amount'' data = Some (JInt (uint n))
     \<or> (\<exists>s. json_get ''amount'' data = Some (JStr s) \<and> parse_u64 s = Some n)"

definition names_account :: "json \<Rightarrow> string \<Rightarrow> string \<Rightarrow> bool" where
  "names_account j k recipient \<longleftrightarrow> (\<exists>a. json_get k j = Some (JStr a) \<and> same_account a recipient)"

text \<open>A transfer names its receiver in its data; a deposit in its \<open>guid\<close> or its \<open>key\<close>.\<close>

definition event_shows :: "string \<Rightarrow> u64 \<Rightarrow> json \<Rightarrow> bool" where
  "event_shows recipient n event \<longleftrightarrow>
     (\<exists>data. json_get ''data'' event = Some data \<and> shows_amount data n
       \<and> (if mentions event ''type'' ''::fungible_asset::Transfer'' then names_account data ''to'' recipient
          else (mentions event ''type'' ''::coin::DepositEvent''
                \<or> mentions event ''type'' ''::fungible_asset::Deposit'')
            \<and> ((\<exists>guid. json_get ''guid'' event = Some guid \<and> names_account guid ''account_address'' recipient)
               \<or> names_account event ''key'' recipient)))"

lemma as_u64_Some: "as_u64 j = Some n \<longleftrightarrow> j = JInt (uint n)"
proof (cases j)
  case (JInt i)
  have "uint n < 2 ^ 64" using uint_lt2p [of n] by simp
  then show ?thesis
    using JInt by (auto simp: uint_word_of_int take_bit_int_eq_self)
qed simp_all

lemma parse_event_amount_iff: "parse_event_amount data = Some n \<longleftrightarrow> shows_amount data n"
proof (cases "json_get ''amount'' data")
  case None
  then show ?thesis by (simp add: parse_event_amount_def shows_amount_def get_str_def)
next
  case (Some j)
  have "parse_event_amount data = Some n \<longleftrightarrow> as_u64 j = Some n \<or> (\<exists>s. j = JStr s \<and> parse_u64 s = Some n)"
    using Some by (cases j) (simp_all add: parse_event_amount_def get_str_def)
  then show ?thesis by (simp add: shows_amount_def as_u64_Some Some)
qed

lemma names_address_None [simp]: "\<not> names_address None a"
  by (simp add: names_address_def)

lemma names_address_iff:
  "names_address (get_str k j) (normalize_address recipient) \<longleftrightarrow> names_account j k recipient"
  unfolding names_account_def get_str_Some [symmetric]
  by (cases "get_str k j") (simp_all add: names_address_def same_account_iff)

lemma event_matches_iff:
  "event_matches (normalize_address recipient) n event \<longleftrightarrow> event_shows recipient n event"
proof -
  have guid: "names_address (Option.bind (json_get ''guid'' event) (get_str ''account_address''))
      (normalize_address recipient)
    \<longleftrightarrow> (\<exists>guid. json_get ''guid'' event = Some guid \<and> names_account guid ''account_address'' recipient)"
    by (cases "json_get ''guid'' event") (simp_all add: names_address_iff)
  show ?thesis
    by (cases "json_get ''data'' event")
      (auto simp: event_matches_def event_shows_def is_deposit_event_def is_fa_transfer_event_def
        event_type_def mentions_iff parse_event_amount_iff names_address_iff guid)
qed

text \<open>The events of a transaction show the payment.\<close>

definition event_pays :: "json \<Rightarrow> string \<Rightarrow> u64 \<Rightarrow> bool" where
  "event_pays body recipient n \<longleftrightarrow>
     (\<exists>events. json_get ''events'' body = Some (JArr events) \<and> (\<exists>e \<in> set events. event_shows recipient n e))"

lemma as_array_J: "as_array j = Some vs \<longleftrightarrow> j = JArr vs"
  by (cases j) auto

lemma as_array_Some: "Option.bind v as_array = Some vs \<longleftrightarrow> v = Some (JArr vs)"
  by (auto simp: bind_eq_Some_conv as_array_J)

lemma verify_transfer_events_iff:
  "(case Option.bind (json_get ''events'' body) as_array of
      None \<Rightarrow> False | Some events \<Rightarrow> verify_transfer_events events recipient n)
   \<longleftrightarrow> event_pays body recipient n"
  by (cases "Option.bind (json_get ''events'' body) as_array")
    (auto simp: verify_transfer_events_def event_pays_def event_matches_iff list_ex_iff
      as_array_Some [symmetric])

section \<open>The payload\<close>

definition plain_transfers :: "string list" where
  "plain_transfers = [''0x1::aptos_account::transfer'', ''0x1::aptos_account::transfer_coins'',
     ''0x1::coin::transfer'']"

text \<open>The payload does not transfer another token than the requested one, as far as it says: the
  transfer of a fungible asset names it first; \<open>aptos_account::transfer\<close> moves the native token;
  a coin transfer that should move the native token has its type, or none, among its arguments.\<close>

definition token_agrees :: "json \<Rightarrow> string \<Rightarrow> bool" where
  "token_agrees body currency \<longleftrightarrow>
     (\<forall>payload f. json_get ''payload'' body = Some payload \<and> json_get ''function'' payload = Some (JStr f) \<longrightarrow>
       (f = ''0x1::primary_fungible_store::transfer'' \<longrightarrow>
          (\<forall>token args. json_get ''arguments'' payload = Some (JArr (JStr token # args)) \<longrightarrow>
             same_account token currency))
       \<and> (f = ''0x1::aptos_account::transfer'' \<longrightarrow> native_token currency)
       \<and> (f \<in> {''0x1::aptos_account::transfer_coins'', ''0x1::coin::transfer''} \<and> native_token currency \<longrightarrow>
          (\<forall>types. json_get ''type_arguments'' payload = Some (JArr types) \<longrightarrow> types = []
             \<or> (\<exists>pre post. JStr (pre @ ''aptos_coin::AptosCoin'' @ post) \<in> set types))))"

lemma payload_function_iff:
  "f \<noteq> [] \<Longrightarrow> payload_function payload = f \<longleftrightarrow> json_get ''function'' payload = Some (JStr f)"
  by (cases "get_str ''function'' payload") (auto simp: payload_function_def get_str_Some [symmetric])

lemma as_str_Some: "as_str j = Some s \<longleftrightarrow> j = JStr s"
  by (cases j) auto

lemma first_str_Some: "first_str vs = Some s \<longleftrightarrow> (\<exists>rest. vs = JStr s # rest)"
  by (cases vs) (simp_all add: first_str_def as_str_Some)

lemma first_argument_Some:
  "Option.bind (Option.bind v as_array) first_str = Some s \<longleftrightarrow> (\<exists>rest. v = Some (JArr (JStr s # rest)))"
  by (auto simp: bind_eq_Some_conv first_str_Some as_array_J)

lemma coin_type_iff:
  "list_ex (\<lambda>a. unwrap_or False (map_option (str_contains name) (as_str a))) types
   \<longleftrightarrow> (\<exists>pre post. JStr (pre @ name @ post) \<in> set types)"
proof -
  have "unwrap_or False (map_option (str_contains name) (as_str a))
      \<longleftrightarrow> (\<exists>pre post. a = JStr (pre @ name @ post))" for a
    by (cases a) (auto simp: str_contains_iff)
  then show ?thesis by (auto simp: list_ex_iff)
qed

lemma verify_payload_currency_iff:
  "verify_payload_currency body currency = Inr () \<longleftrightarrow> token_agrees body currency"
proof (cases "json_get ''payload'' body")
  case (Some payload)
  note fn = payload_function_iff [of _ payload]
  consider (fa) "payload_function payload = ''0x1::primary_fungible_store::transfer''"
    | (account) "payload_function payload = ''0x1::aptos_account::transfer''"
    | (coins) "payload_function payload \<in> {''0x1::aptos_account::transfer_coins'', ''0x1::coin::transfer''}"
    | (other) "payload_function payload \<notin> {''0x1::primary_fungible_store::transfer'',
        ''0x1::aptos_account::transfer'', ''0x1::aptos_account::transfer_coins'', ''0x1::coin::transfer''}"
    by blast
  then show ?thesis
  proof cases
    case fa
    then have f: "json_get ''function'' payload = Some (JStr ''0x1::primary_fungible_store::transfer'')"
      by (simp add: fn)
    have first: "(\<forall>token args. json_get ''arguments'' payload = Some (JArr (JStr token # args))
          \<longrightarrow> same_account token currency)
        \<longleftrightarrow> (\<forall>token. Option.bind (Option.bind (json_get ''arguments'' payload) as_array) first_str = Some token
          \<longrightarrow> same_account token currency)"
      unfolding first_argument_Some by blast
    have "token_agrees body currency \<longleftrightarrow>
        (\<forall>token args. json_get ''arguments'' payload = Some (JArr (JStr token # args))
          \<longrightarrow> same_account token currency)"
      using Some f by (simp add: token_agrees_def)
    then show ?thesis
      unfolding first using Some fa
      by (cases "Option.bind (Option.bind (json_get ''arguments'' payload) as_array) first_str")
        (simp_all add: verify_payload_currency_def same_account_iff Let_def)
  next
    case account
    then have "json_get ''function'' payload = Some (JStr ''0x1::aptos_account::transfer'')"
      by (simp add: fn)
    then show ?thesis
      using Some account by (simp add: verify_payload_currency_def token_agrees_def native_token_iff)
  next
    case coins
    then have "\<exists>f. json_get ''function'' payload = Some (JStr f)
        \<and> f \<in> {''0x1::aptos_account::transfer_coins'', ''0x1::coin::transfer''}"
      using fn by auto
    then obtain f where f: "json_get ''function'' payload = Some (JStr f)" "payload_function payload = f"
      and "f \<in> {''0x1::aptos_account::transfer_coins'', ''0x1::coin::transfer''}"
      using fn by fastforce
    have types: "(\<forall>types. json_get ''type_arguments'' payload = Some (JArr types) \<longrightarrow> P types)
        \<longleftrightarrow> (\<forall>types. Option.bind (json_get ''type_arguments'' payload) as_array = Some types \<longrightarrow> P types)" for P
      by (simp add: as_array_Some)
    show ?thesis
      using Some f coins
      by (auto simp: verify_payload_currency_def token_agrees_def native_token_iff coin_type_iff types Let_def
          split: option.splits)
  next
    case other
    then show ?thesis
      using Some fn by (auto simp: verify_payload_currency_def token_agrees_def Let_def)
  qed
qed (simp add: verify_payload_currency_def token_agrees_def)

text \<open>The recipient and the amount stand at two places of the arguments. A recipient that is not a
  text counts as the empty text, and an amount that is not a numeral as zero.\<close>

definition args_pay :: "json list \<Rightarrow> nat \<Rightarrow> nat \<Rightarrow> string \<Rightarrow> u64 \<Rightarrow> bool" where
  "args_pay args i j recipient n \<longleftrightarrow> j < length args
     \<and> same_account (case args ! i of JStr a \<Rightarrow> a | _ \<Rightarrow> []) recipient
     \<and> (case args ! j of JStr s \<Rightarrow> (case parse_u64 s of Some m \<Rightarrow> m | None \<Rightarrow> 0) | _ \<Rightarrow> 0) = n"

definition payload_pays :: "json \<Rightarrow> string \<Rightarrow> string \<Rightarrow> u64 \<Rightarrow> bool" where
  "payload_pays body currency recipient n \<longleftrightarrow>
     (\<exists>payload args. json_get ''payload'' body = Some payload
       \<and> json_get ''arguments'' payload = Some (JArr args)
       \<and> (\<exists>f. json_get ''function'' payload = Some (JStr f)
         \<and> (f \<in> set plain_transfers \<and> args_pay args 0 1 recipient n
           \<or> f = ''0x1::primary_fungible_store::transfer''
             \<and> (\<forall>token rest. args = JStr token # rest \<longrightarrow> same_account token currency)
             \<and> args_pay args 1 2 recipient n)))"

lemma transfer_indices_iff:
  "transfer_indices f args currency = Inr (i, j) \<longleftrightarrow>
     f \<in> set plain_transfers \<and> i = 0 \<and> j = 1
     \<or> f = ''0x1::primary_fungible_store::transfer'' \<and> i = 1 \<and> j = 2
       \<and> (\<forall>token rest. args = JStr token # rest \<longrightarrow> same_account token currency)"
proof -
  have "(\<forall>token rest. args = JStr token # rest \<longrightarrow> same_account token currency)
      \<longleftrightarrow> (\<forall>token. first_str args = Some token \<longrightarrow> same_account token currency)"
    by (auto simp: first_str_Some)
  then show ?thesis
    by (auto simp: transfer_indices_def plain_transfers_def same_account_iff simp del: One_nat_def
        split: option.splits)
qed

lemma arg_values:
  "unwrap_or [] (as_str v) = (case v of JStr a \<Rightarrow> a | _ \<Rightarrow> [])"
  "parse_u64 ''0'' = Some 0 \<Longrightarrow> unwrap_or 0 (parse_u64 (unwrap_or ''0'' (as_str v)))
     = (case v of JStr s \<Rightarrow> (case parse_u64 s of Some m \<Rightarrow> m | None \<Rightarrow> 0) | _ \<Rightarrow> 0)"
  by (cases v; simp split: option.splits)+

lemma parse_zero: "parse_u64 ''0'' = Some 0"
  by (simp add: parse_u64_def parse_uint_def dec_val_def digit_val_def is_ascii_digit_def)

lemma fallback_args:
  "verify_payload_fallback body currency recipient n = Inr () \<longleftrightarrow>
   (\<exists>payload args. json_get ''payload'' body = Some payload
     \<and> json_get ''arguments'' payload = Some (JArr args)
     \<and> (\<exists>i j. transfer_indices (payload_function payload) args currency = Inr (i, j)
       \<and> args_pay args i j recipient n))"
  by (auto simp: verify_payload_fallback_def res_simps args_pay_def Let_def linorder_not_le as_array_Some
      arg_values parse_zero same_account_iff split: if_splits prod.splits)

lemma fallback_iff:
  "verify_payload_fallback body currency recipient n = Inr () \<longleftrightarrow> payload_pays body currency recipient n"
proof -
  have known: "payload_function payload = f \<longleftrightarrow> json_get ''function'' payload = Some (JStr f)"
    if "f \<in> set plain_transfers \<or> f = ''0x1::primary_fungible_store::transfer''" for f payload
    using that by (intro payload_function_iff) (auto simp: plain_transfers_def)
  have places: "(\<exists>i j. (payload_function payload \<in> set plain_transfers \<and> i = 0 \<and> j = 1
          \<or> payload_function payload = ''0x1::primary_fungible_store::transfer'' \<and> i = 1 \<and> j = 2 \<and> T)
        \<and> args_pay args i j recipient n)
      \<longleftrightarrow> (\<exists>f. json_get ''function'' payload = Some (JStr f)
        \<and> (f \<in> set plain_transfers \<and> args_pay args 0 1 recipient n
          \<or> f = ''0x1::primary_fungible_store::transfer'' \<and> T \<and> args_pay args 1 2 recipient n))"
    (is "?l \<longleftrightarrow> ?r") for payload args T
  proof
    assume ?l
    then have f: "payload_function payload \<in> set plain_transfers \<and> args_pay args 0 1 recipient n
        \<or> payload_function payload = ''0x1::primary_fungible_store::transfer'' \<and> T \<and> args_pay args 1 2 recipient n"
      by (elim exE conjE disjE) simp_all
    then have "json_get ''function'' payload = Some (JStr (payload_function payload))"
      using known [of "payload_function payload" payload] by blast
    with f show ?r by blast
  next
    assume ?r
    then obtain f where j: "json_get ''function'' payload = Some (JStr f)"
      and f: "f \<in> set plain_transfers \<and> args_pay args 0 1 recipient n
          \<or> f = ''0x1::primary_fungible_store::transfer'' \<and> T \<and> args_pay args 1 2 recipient n" by blast
    have "payload_function payload = f" using j by (simp add: payload_function_def get_str_def)
    with f show ?l by blast
  qed
  show ?thesis
    unfolding fallback_args transfer_indices_iff payload_pays_def
    by (simp only: places)
qed

section \<open>The transaction\<close>

definition succeeded :: "json \<Rightarrow> bool" where
  "succeeded body \<longleftrightarrow> json_get ''type'' body \<noteq> Some (JStr ''pending_transaction'')
     \<and> json_get ''success'' body = Some (JBool True)"

text \<open>The node's answer to the lookup of a hash.\<close>

definition reports :: "crates \<Rightarrow> network \<Rightarrow> string \<Rightarrow> string \<Rightarrow> json \<Rightarrow> bool" where
  "reports X net rest_url h body \<longleftrightarrow>
     (\<exists>status text. http_get net (rest_url @ ''/transactions/by_hash/0x'' @ strip_0x h) = Response status text
       \<and> 200 \<le> status \<and> status < 300 \<and> json_from_slice X (as_bytes text) = Inr body)"

lemma reports_iff: "lookup_transaction X net rest_url h = Inr body \<longleftrightarrow> reports X net rest_url h body"
  by (auto simp: lookup_transaction_def reports_def is_success_status_def response_json_def from_slice_def
      from_value_def res_simps split: http_result.splits)

lemma succeeded_iff:
  "unwrap_or [] (get_str ''type'' body) \<noteq> ''pending_transaction''
     \<and> unwrap_or False (Option.bind (json_get ''success'' body) as_bool) \<longleftrightarrow> succeeded body"
proof -
  have "unwrap_or False (Option.bind (json_get ''success'' body) as_bool)
      \<longleftrightarrow> json_get ''success'' body = Some (JBool True)"
    by (cases "json_get ''success'' body"; simp) (cases "the (json_get ''success'' body)"; simp)
  moreover have "unwrap_or [] (get_str ''type'' body) = ''pending_transaction''
      \<longleftrightarrow> json_get ''type'' body = Some (JStr ''pending_transaction'')"
    by (cases "get_str ''type'' body") (auto simp: get_str_Some [symmetric])
  ultimately show ?thesis by (simp add: succeeded_def)
qed

text \<open>The document is a payment of the request.\<close>

definition pays :: "json \<Rightarrow> charge_request \<Rightarrow> bool" where
  "pays body req \<longleftrightarrow>
     (\<exists>n recipient. parse_u64 (cr_amount req) = Some n \<and> cr_recipient req = Some recipient
       \<and> token_agrees body (cr_currency req)
       \<and> (event_pays body recipient n \<or> payload_pays body (cr_currency req) recipient n))"

lemma check_transfer_iff: "check_transfer body req = Inr () \<longleftrightarrow> pays body req"
proof -
  have "(case Option.bind (json_get ''events'' body) as_array of
        Some events \<Rightarrow>
          if \<not> verify_transfer_events events recipient n
          then verify_payload_fallback body (cr_currency req) recipient n else Inr ()
      | None \<Rightarrow> verify_payload_fallback body (cr_currency req) recipient n) = Inr ()
    \<longleftrightarrow> event_pays body recipient n \<or> payload_pays body (cr_currency req) recipient n" for recipient n
    unfolding verify_transfer_events_iff [symmetric] fallback_iff [symmetric] by (auto split: option.splits)
  then show ?thesis
    by (auto simp: check_transfer_def amount_u64_def recipient_str_def res_simps pays_def
        verify_payload_currency_iff)
qed

lemma verify_tx_hash_iff:
  "verify_tx_hash X net now rest_url h req = Inr r \<longleftrightarrow>
   r = receipt_success X now METHOD_NAME h
   \<and> (\<exists>body. reports X net rest_url h body \<and> succeeded body \<and> pays body req)"
  unfolding succeeded_iff [symmetric] reports_iff [symmetric] check_transfer_iff [symmetric]
  by (auto simp: verify_tx_hash_def res_simps split: if_splits)

text \<open>The hash a credential names: that of a payload of type \<open>hash\<close>, or, for a document that is no
  payload, its field \<open>hash\<close>, or \<open>txHash\<close> if there is none.\<close>

definition names_hash :: "json \<Rightarrow> string \<Rightarrow> bool" where
  "names_hash j h \<longleftrightarrow>
     (case payment_payload_of_json j of
        Some p \<Rightarrow> payload_type p = PtHash \<and> payload_data p = h
      | None \<Rightarrow> json_get ''hash'' j = Some (JStr h)
          \<or> json_get ''hash'' j = None \<and> json_get ''txHash'' j = Some (JStr h))"

lemma names_hash_iff:
  "credential_tx_hash X credential = Inr h \<longleftrightarrow> names_hash (cred_payload credential) h"
proof -
  have str: "Option.bind v as_str = Some h \<longleftrightarrow> v = Some (JStr h)" for v
    by (cases v) (simp_all add: as_str_Some)
  show ?thesis
    by (auto simp: credential_tx_hash_def names_hash_def charge_payload_def from_value_def is_hash_def str
        res_simps split: option.splits)
qed

lemma charge_verify_iff:
  "charge_method_verify X net now rest_url credential req = Inr r \<longleftrightarrow>
   (\<exists>h body. names_hash (cred_payload credential) h \<and> reports X net rest_url h body
     \<and> succeeded body \<and> pays body req \<and> r = receipt_success X now METHOD_NAME h)"
  unfolding names_hash_iff [of X, symmetric]
  by (auto simp: charge_method_verify_def res_simps verify_tx_hash_iff)

end
