(* ===== verification/Charge_Claims.thy ===== *)
theory Charge_Claims
  imports Charge_Spec
begin

text \<open>
  The properties of charge verification: what the address comparisons decide, exactly when a
  transaction hash is accepted as payment, and which transactions are accepted without paying
  the requested token.
\<close>

section \<open>Addresses as numbers\<close>

definition hex_digit_value :: "char \<Rightarrow> nat" where
  "hex_digit_value c =
     (if is_ascii_digit c then code c - 48 else if 97 \<le> code c then code c - 87 else code c - 55)"

definition hex_value :: "string \<Rightarrow> nat" where
  "hex_value s = foldl (\<lambda>a c. 16 * a + hex_digit_value c) 0 s"

lemma hex_value_snoc [simp]: "hex_value (s @ [c]) = 16 * hex_value s + hex_digit_value c"
  by (simp add: hex_value_def)

lemma hex_value_Nil [simp]: "hex_value [] = 0"
  by (simp add: hex_value_def)

lemma hex_value_zero: "hex_value (CHR ''0'' # s) = hex_value s"
  by (simp add: hex_value_def hex_digit_value_def is_ascii_digit_def)

lemma hex_value_zeros: "hex_value (replicate n CHR ''0'' @ s) = hex_value s"
  by (induction n) (simp_all add: hex_value_zero)

lemma hex_digit_value_lt: "is_hex_digit c \<Longrightarrow> hex_digit_value c < 16"
  by (auto simp: is_hex_digit_def hex_digit_value_def is_ascii_digit_def)

lemma to_lower_code:
  "code (to_lower c) = (if 65 \<le> code c \<and> code c \<le> 90 then code c + 32 else code c)"
  by (auto simp: to_lower_def is_ascii_uppercase_def)

lemma hex_digit_value_lower: "is_hex_digit c \<Longrightarrow> hex_digit_value (to_lower c) = hex_digit_value c"
  by (auto simp: is_hex_digit_def hex_digit_value_def is_ascii_digit_def to_lower_code)

lemma lower_hex_code:
  "is_hex_digit c \<Longrightarrow> code (to_lower c)
   = (if hex_digit_value c < 10 then 48 + hex_digit_value c else 87 + hex_digit_value c)"
  by (auto simp: is_hex_digit_def hex_digit_value_def is_ascii_digit_def to_lower_code)

lemma hex_digit_value_inject:
  "is_hex_digit c \<Longrightarrow> is_hex_digit d \<Longrightarrow> hex_digit_value c = hex_digit_value d \<Longrightarrow> to_lower c = to_lower d"
  by (subst code_inject [symmetric]) (simp only: lower_hex_code)

lemma hex_digit_zero:
  assumes "is_hex_digit c" and "hex_digit_value c = 0"
  shows "c = CHR ''0''"
proof -
  have "code (to_lower c) = 48"
    using lower_hex_code [OF assms(1)] assms(2) by simp
  then have "code c = code CHR ''0''" by (simp add: to_lower_code split: if_splits)
  then show ?thesis by (simp only: code_inject)
qed

lemma hex_value_lower:
  "list_all is_hex_digit s \<Longrightarrow> hex_value (to_ascii_lowercase s) = hex_value s"
  by (induction s rule: rev_induct)
    (simp_all add: to_ascii_lowercase_def hex_digit_value_lower)

lemma hex_value_inject:
  "length s = length t \<Longrightarrow> list_all is_hex_digit s \<Longrightarrow> list_all is_hex_digit t \<Longrightarrow>
   hex_value s = hex_value t \<Longrightarrow> to_ascii_lowercase s = to_ascii_lowercase t"
proof (induction s arbitrary: t rule: rev_induct)
  case (snoc c s)
  then obtain d u where t: "t = u @ [d]" by (cases t rule: rev_cases) auto
  have c: "hex_digit_value c < 16" "hex_digit_value d < 16"
    using snoc.prems t by (simp_all add: hex_digit_value_lt)
  have eq: "16 * hex_value s + hex_digit_value c = 16 * hex_value u + hex_digit_value d"
    using snoc.prems(4) t by simp
  then have v: "hex_value s = hex_value u" and d: "hex_digit_value c = hex_digit_value d"
    using c by presburger+
  from snoc.IH [of u] snoc.prems t v have "to_ascii_lowercase s = to_ascii_lowercase u" by simp
  moreover have "to_lower c = to_lower d"
    using hex_digit_value_inject d snoc.prems t by simp
  ultimately show ?case by (simp add: t to_ascii_lowercase_def)
qed simp

lemma hex_digits_padded:
  "list_all is_hex_digit s \<Longrightarrow> list_all is_hex_digit (pad_left_64 s)"
  by (auto simp: pad_left_64_def is_hex_digit_def is_ascii_digit_def list_all_iff)

lemma normalize_eq_iff:
  assumes "list_all is_hex_digit (strip_0x a)" and "length (strip_0x a) \<le> 64"
    and "list_all is_hex_digit (strip_0x b)" and "length (strip_0x b) \<le> 64"
  shows "normalize_address a = normalize_address b
    \<longleftrightarrow> hex_value (strip_0x a) = hex_value (strip_0x b)"
proof
  assume "normalize_address a = normalize_address b"
  then have "hex_value (normalize_address a) = hex_value (normalize_address b)" by simp
  with assms show "hex_value (strip_0x a) = hex_value (strip_0x b)"
    by (simp add: normalize_address_def hex_value_lower hex_digits_padded)
      (simp add: pad_left_64_def hex_value_zeros)
next
  assume "hex_value (strip_0x a) = hex_value (strip_0x b)"
  then have "hex_value (pad_left_64 (strip_0x a)) = hex_value (pad_left_64 (strip_0x b))"
    by (simp add: pad_left_64_def hex_value_zeros)
  moreover have "length (pad_left_64 (strip_0x a)) = length (pad_left_64 (strip_0x b))"
    using assms by (simp add: pad_left_64_def)
  ultimately show "normalize_address a = normalize_address b"
    unfolding normalize_address_def
    using hex_value_inject hex_digits_padded assms(1,3) by blast
qed

lemma hex_value_trim: "hex_value (trim_start_matches CHR ''0'' s) = hex_value s"
proof (induction s)
  case (Cons c s)
  then show ?case
    by (cases "c = CHR ''0''") (simp_all add: trim_start_matches_def hex_value_zero)
qed (simp add: trim_start_matches_def)

lemma hex_value_lower_bound: "hex_value (c # s) \<ge> hex_digit_value c * 16 ^ length s"
proof (induction s rule: rev_induct)
  case Nil
  show ?case using hex_value_snoc [of "[]" c] by simp
next
  case (snoc d s)
  have "hex_value (c # s @ [d]) = 16 * hex_value (c # s) + hex_digit_value d"
    using hex_value_snoc [of "c # s" d] by simp
  then show ?case using snoc by simp
qed

lemma native_move_iff:
  assumes "list_all is_hex_digit (strip_0x a)"
  shows "is_native_move a \<longleftrightarrow> hex_value (strip_0x a) = 10"
proof -
  let ?t = "trim_start_matches CHR ''0'' (strip_0x a)"
  have hex: "list_all is_hex_digit ?t"
    using assms by (auto simp: trim_start_matches_def list_all_iff dest: set_dropWhileD)
  have "to_ascii_lowercase ?t = ''a'' \<longleftrightarrow> hex_value ?t = 10"
  proof
    assume "to_ascii_lowercase ?t = ''a''"
    then have "hex_value (to_ascii_lowercase ?t) = 10"
      by (simp add: hex_value_def hex_digit_value_def is_ascii_digit_def)
    with hex show "hex_value ?t = 10" by (simp add: hex_value_lower)
  next
    assume ten: "hex_value ?t = 10"
    then obtain c s where t: "?t = c # s" by (cases ?t) auto
    have "c \<noteq> CHR ''0''"
      using t hd_dropWhile [of "\<lambda>d. d = CHR ''0''" "strip_0x a"]
      by (auto simp: trim_start_matches_def)
    moreover have "is_hex_digit c" using hex t by simp
    ultimately have "hex_digit_value c \<noteq> 0" using hex_digit_zero by blast
    then have "16 ^ length s \<le> hex_digit_value c * 16 ^ length s" by simp
    also have "\<dots> \<le> 10" using hex_value_lower_bound [of c s] ten t by simp
    finally have "16 ^ length s \<le> (10 :: nat)" .
    moreover have "16 ^ 1 \<le> (16 :: nat) ^ length s" if "s \<noteq> []"
      using that by (intro power_increasing) (auto simp: Suc_le_eq)
    ultimately have "s = []" by force
    with ten t hex have "hex_value [c] = hex_value ''a''" "list_all is_hex_digit [c]"
      by (simp_all add: hex_value_def hex_digit_value_def is_ascii_digit_def)
    then have "to_ascii_lowercase [c] = to_ascii_lowercase ''a''"
      by (intro hex_value_inject) (simp_all add: is_hex_digit_def)
    with t \<open>s = []\<close> show "to_ascii_lowercase ?t = ''a''"
      by (simp add: to_ascii_lowercase_def to_lower_def is_ascii_uppercase_def)
  qed
  then show ?thesis
    by (simp add: is_native_move_def eq_ignore_ascii_case_def hex_value_trim
        to_ascii_lowercase_def to_lower_def is_ascii_uppercase_def)
qed

text \<open>
  Address comparison is comparison of numbers. For addresses of at most 64 hexadecimal
  digits, with or without \<open>0x\<close>, in any case and with any leading zeros, the normal forms are
  equal exactly when the addresses denote the same number, and an address counts as the native
  token exactly when it denotes ten.
\<close>

theorem address_comparison_numeric:
  assumes "list_all is_hex_digit (strip_0x a)" and "length (strip_0x a) \<le> 64"
    and "list_all is_hex_digit (strip_0x b)" and "length (strip_0x b) \<le> 64"
  shows "(normalize_address a = normalize_address b
      \<longleftrightarrow> hex_value (strip_0x a) = hex_value (strip_0x b))
    \<and> (is_native_move a \<longleftrightarrow> hex_value (strip_0x a) = 10)"
  using normalize_eq_iff [OF assms] native_move_iff [OF assms(1)] by blast

theorem address_comparison_numeric_witness:
  "normalize_address ''0x0A'' = normalize_address ''a'' \<and> is_native_move ''0x0A''"
  using address_comparison_numeric [of "''0x0A''" "''a''"]
  by (simp add: is_hex_digit_def is_ascii_digit_def strip_0x_def strip_prefix_def starts_with_def
      hex_value_def hex_digit_value_def)

section \<open>What is accepted as payment\<close>

text \<open>
  C8: exactly when a charge credential is accepted. It must name a transaction hash; the node must
  answer the lookup of the hash with a successful, non-pending transaction; the requested amount
  must be a \<open>u64\<close> and the recipient named; the payload must not say that another token moved; and
  either an event shows the amount arriving at the recipient, or the payload calls a known
  transfer with that recipient, amount and token. The receipt names the hash as given. The
  predicates on the right are those of Charge_Spec.
\<close>

theorem charge_accepts_iff:
  "charge_method_verify X net now rest_url credential req = Inr r \<longleftrightarrow>
   (\<exists>h body n recipient. names_hash (cred_payload credential) h
     \<and> r = receipt_success X now METHOD_NAME h
     \<and> reports X net rest_url h body \<and> succeeded body
     \<and> parse_u64 (cr_amount req) = Some n \<and> cr_recipient req = Some recipient
     \<and> token_agrees body (cr_currency req)
     \<and> (event_pays body recipient n \<or> payload_pays body (cr_currency req) recipient n))"
  by (auto simp: charge_verify_iff pays_def)

section \<open>A transaction that pays nothing\<close>

text \<open>A call of some module \<open>m\<close> of the payer's own that emits an event with the name of a coin
  deposit and the payee's address.\<close>

definition forged_transaction :: "string \<Rightarrow> string \<Rightarrow> string \<Rightarrow> json" where
  "forged_transaction m amount recipient = JObj
     [(''type'', JStr ''user_transaction''), (''success'', JBool True),
      (''payload'', JObj [(''function'', JStr (m @ ''::coin::mint''))]),
      (''events'', JArr [JObj [(''type'', JStr (m @ ''::coin::DepositEvent'')),
         (''key'', JStr recipient), (''data'', JObj [(''amount'', JStr amount)])]])]"

lemma str_contains_skip:
  "c \<notin> set m \<Longrightarrow> str_contains (c # p) (m @ s) = str_contains (c # p) s"
  by (induction m) (auto simp: starts_with_def)

lemma forged_function_last: "m @ ''::coin::mint'' = f \<Longrightarrow> last f = CHR ''t''"
  by auto

lemma forged_payload_ok:
  "verify_payload_currency (forged_transaction m amount recipient) currency = Inr ()"
proof -
  have "m @ ''::coin::mint'' \<noteq> ''0x1::primary_fungible_store::transfer''"
    "m @ ''::coin::mint'' \<noteq> ''0x1::aptos_account::transfer''"
    "m @ ''::coin::mint'' \<noteq> ''0x1::aptos_account::transfer_coins''"
    "m @ ''::coin::mint'' \<noteq> ''0x1::coin::transfer''"
    by (auto dest: forged_function_last)
  then show ?thesis
    by (simp add: verify_payload_currency_def forged_transaction_def payload_function_def get_str_def
        Let_def)
qed

lemma forged_event_pays:
  assumes "CHR '':'' \<notin> set m" and "parse_u64 amount = Some n"
  shows "event_pays (forged_transaction m amount recipient) recipient n"
  unfolding verify_transfer_events_iff [symmetric]
  using assms
  by (simp add: verify_transfer_events_def forged_transaction_def event_matches_def is_deposit_event_def
      is_fa_transfer_event_def event_type_def get_str_def str_contains_skip starts_with_def
      parse_event_amount_def names_address_def)

text \<open>
  The event check trusts any module. A successful transaction that calls a function of any
  module \<open>m\<close> which emits an event named \<open>m::coin::DepositEvent\<close> with the payee's address and the
  amount is accepted as payment, whatever currency was requested and though nothing was
  transferred: the token check passes unknown functions, expecting the payload check to refuse
  them, and a matching event skips the payload check.
\<close>

theorem forged_event_accepted:
  assumes "lookup_transaction X net rest_url h = Inr (forged_transaction m (cr_amount req) recipient)"
    and "CHR '':'' \<notin> set m" and "parse_u64 (cr_amount req) = Some n"
    and "cr_recipient req = Some recipient"
  shows "verify_tx_hash X net now rest_url h (req\<lparr>cr_currency := currency\<rparr>)
    = Inr (receipt_success X now METHOD_NAME h)"
proof -
  have "succeeded (forged_transaction m (cr_amount req) recipient)"
    by (simp add: succeeded_def forged_transaction_def get_str_def)
  moreover have "check_transfer (forged_transaction m (cr_amount req) recipient)
      (req\<lparr>cr_currency := currency\<rparr>) = Inr ()"
    unfolding check_transfer_iff pays_def
    using assms forged_payload_ok [THEN verify_payload_currency_iff [THEN iffD1]] forged_event_pays by simp
  ultimately show ?thesis
    using assms(1) by (simp add: verify_tx_hash_iff reports_iff [symmetric] check_transfer_iff)
qed

theorem forged_event_accepted_witness:
  "verify_tx_hash (sample_crates\<lparr>json_from_slice := \<lambda>_. Inr (forged_transaction ''0xbad'' ''7'' ''0xb0b'')\<rparr>)
     \<lparr>http_get = \<lambda>_. Response 200 [], http_post = \<lambda>_ _. Transport_Error []\<rparr> 0 [] ''0x1''
     ((charge_request_default\<lparr>cr_amount := ''7'', cr_recipient := Some ''0xb0b''\<rparr>)\<lparr>cr_currency := ''usdc''\<rparr>)
   = Inr (receipt_success (sample_crates\<lparr>json_from_slice :=
       \<lambda>_. Inr (forged_transaction ''0xbad'' ''7'' ''0xb0b'')\<rparr>) 0 METHOD_NAME ''0x1'')"
proof -
  let ?X = "sample_crates\<lparr>json_from_slice := \<lambda>_. Inr (forged_transaction ''0xbad'' ''7'' ''0xb0b'')\<rparr>"
  let ?req = "charge_request_default\<lparr>cr_amount := ''7'', cr_recipient := Some ''0xb0b''\<rparr>"
  have l: "lookup_transaction ?X \<lparr>http_get = \<lambda>_. Response 200 [], http_post = \<lambda>_ _. Transport_Error []\<rparr>
      [] ''0x1'' = Inr (forged_transaction ''0xbad'' (cr_amount ?req) ''0xb0b'')"
    by (simp add: lookup_transaction_def is_success_status_def response_json_def from_slice_def
        from_value_def)
  have p: "parse_u64 (cr_amount ?req) = Some 7"
    by (simp add: parse_u64_def parse_uint_def dec_val_def digit_val_def is_ascii_digit_def
        del: One_nat_def)
  show ?thesis
    by (rule forged_event_accepted [OF l _ p]) simp_all
qed

end
