(* ===== verification/Mpp_Server.thy ===== *)
theory Mpp_Server
  imports Charge_Method Session_Method Amounts
begin

text \<open>
  The payment handler (src/server/mpp.rs) and its builder (src/server/mod.rs): it binds a charge
  method, a realm and a secret key, issues challenges whose identifier is an HMAC over their
  fields, and verifies credentials that echo them, without keeping any state of its own. A
  charge method is its \<open>verify\<close> operation as a function of the clock; a session method is the
  pair of \<open>verify_session\<close>, over the state \<open>'s\<close> of its channel store, and \<open>respond\<close>.
  Environment variables are a parameter.
\<close>

section \<open>State\<close>

type_synonym charge_verifier =
  "int \<Rightarrow> payment_credential \<Rightarrow> charge_request \<Rightarrow> verification_error + receipt"

record 's session_ops =
  so_verify :: "int \<Rightarrow> payment_credential \<Rightarrow> session_request \<Rightarrow> 's
    \<Rightarrow> (verification_error + receipt) \<times> 's"
  so_respond :: "payment_credential \<Rightarrow> receipt \<Rightarrow> json option"

record 's mpp =
  mpp_method :: charge_verifier
  mpp_session_method :: "'s session_ops option"
  mpp_realm :: string
  mpp_secret_key :: string
  mpp_currency :: "string option"
  mpp_recipient :: "string option"
  mpp_decimals :: nat
  mpp_fee_payer :: bool
  mpp_chain_id :: "u64 option"

record session_verify_result =
  sv_receipt :: receipt
  sv_management_response :: "json option"

definition DEFAULT_DECIMALS :: nat where "DEFAULT_DECIMALS = 6"

definition mpp_new :: "charge_verifier \<Rightarrow> string \<Rightarrow> string \<Rightarrow> 's mpp" where
  "mpp_new method realm secret_key =
     \<lparr>mpp_method = method, mpp_session_method = None, mpp_realm = realm,
      mpp_secret_key = secret_key, mpp_currency = None, mpp_recipient = None,
      mpp_decimals = DEFAULT_DECIMALS, mpp_fee_payer = False, mpp_chain_id = None\<rparr>"

definition with_session_method :: "'s session_ops \<Rightarrow> 's mpp \<Rightarrow> 's mpp" where
  "with_session_method sm m = m\<lparr>mpp_session_method := Some sm\<rparr>"

text \<open>The Movement methods as the operations above.\<close>

definition movement_charge_method :: "crates \<Rightarrow> network \<Rightarrow> string \<Rightarrow> charge_verifier" where
  "movement_charge_method X net rest_url now credential req =
     charge_method_verify X net now (charge_method_new rest_url) credential req"

definition movement_session_method ::
  "crates \<Rightarrow> network \<Rightarrow> session_method_config \<Rightarrow> 's channel_store_ops \<Rightarrow> 's session_ops" where
  "movement_session_method X net cfg S =
     \<lparr>so_verify = (\<lambda>now credential req st. method_verify_session X net now cfg S credential req st),
      so_respond = session_respond X\<rparr>"

section \<open>Verification\<close>

definition verify_hmac_and_expiry ::
  "crates \<Rightarrow> int \<Rightarrow> 's mpp \<Rightarrow> payment_credential \<Rightarrow> verification_error + unit" where
  "verify_hmac_and_expiry X now m credential =
     (let e = cred_challenge credential;
          expected_id = compute_challenge_id X (mpp_secret_key m) (mpp_realm m)
            (method_as_str (echo_method e)) (intent_as_str (echo_intent e)) (raw (echo_request e))
            (echo_expires e) (echo_digest e) (map_option raw (echo_opaque e)) in
      if echo_id e \<noteq> expected_id
      then Inl (with_code ''Challenge ID mismatch - not issued by this server'' CredentialMismatch)
      else case echo_expires e of
        None \<Rightarrow> Inr ()
      | Some expires \<Rightarrow>
          (case rfc3339_parse X expires of
             Some t \<Rightarrow>
               if t \<le> now then Inl (ve_expired (''Challenge expired at '' @ expires)) else Inr ()
           | None \<Rightarrow> Inl (verification_error_new ''Invalid expires timestamp in challenge'')))"

definition mpp_verify ::
  "crates \<Rightarrow> int \<Rightarrow> 's mpp \<Rightarrow> payment_credential \<Rightarrow> charge_request \<Rightarrow> verification_error + receipt" where
  "mpp_verify X now m credential req =
     and_then (verify_hmac_and_expiry X now m credential) (\<lambda>_. mpp_method m now credential req)"

definition decode_charge_request ::
  "crates \<Rightarrow> payment_credential \<Rightarrow> verification_error + charge_request" where
  "decode_charge_request X credential =
     map_err (\<lambda>e. verification_error_new (''Failed to decode request: '' @ mpp_error_display e))
       (b64json_decode X ''ChargeRequest'' charge_request_of_json
         (echo_request (cred_challenge credential)))"

definition verify_credential ::
  "crates \<Rightarrow> int \<Rightarrow> 's mpp \<Rightarrow> payment_credential \<Rightarrow> verification_error + receipt" where
  "verify_credential X now m credential =
     and_then (decode_charge_request X credential) (\<lambda>req. mpp_verify X now m credential req)"

definition verify_credential_with_expected_request ::
  "crates \<Rightarrow> int \<Rightarrow> 's mpp \<Rightarrow> payment_credential \<Rightarrow> charge_request \<Rightarrow> verification_error + receipt" where
  "verify_credential_with_expected_request X now m credential expected =
     and_then (decode_charge_request X credential) (\<lambda>req.
     if cr_amount req \<noteq> cr_amount expected
     then Inl (with_code (''Amount mismatch: credential has '' @ cr_amount req
            @ '' but endpoint expects '' @ cr_amount expected) CredentialMismatch)
     else if cr_currency req \<noteq> cr_currency expected
     then Inl (with_code (''Currency mismatch: credential has '' @ cr_currency req
            @ '' but endpoint expects '' @ cr_currency expected) CredentialMismatch)
     else if cr_recipient req \<noteq> cr_recipient expected
     then Inl (with_code ''Recipient mismatch: credential was issued for a different recipient''
            CredentialMismatch)
     else mpp_verify X now m credential req)"

definition decode_session_request ::
  "crates \<Rightarrow> payment_credential \<Rightarrow> verification_error + session_request" where
  "decode_session_request X credential =
     map_err (\<lambda>e. verification_error_new (''Failed to decode session request: '' @ mpp_error_display e))
       (b64json_decode X ''SessionRequest'' session_request_of_json
         (echo_request (cred_challenge credential)))"

definition mpp_verify_session ::
  "crates \<Rightarrow> int \<Rightarrow> 's mpp \<Rightarrow> payment_credential \<Rightarrow> 's
   \<Rightarrow> (verification_error + session_verify_result) \<times> 's" where
  "mpp_verify_session X now m credential st =
     (case mpp_session_method m of
        None \<Rightarrow> (Inl (verification_error_new ''No session method configured''), st)
      | Some session \<Rightarrow>
          (case and_then (verify_hmac_and_expiry X now m credential)
                  (\<lambda>_. decode_session_request X credential) of
             Inl e \<Rightarrow> (Inl e, st)
           | Inr req \<Rightarrow>
               (case so_verify session now credential req st of
                  (Inl e, st') \<Rightarrow> (Inl e, st')
                | (Inr rc, st') \<Rightarrow>
                    (Inr \<lparr>sv_receipt = rc, sv_management_response = so_respond session credential rc\<rparr>,
                     st'))))"

section \<open>Builder\<close>

record movement_builder =
  mb_currency :: string
  mb_recipient :: string
  mb_rest_url :: string
  mb_realm :: string
  mb_secret_key :: "string option"
  mb_decimals :: nat
  mb_network :: "movement_network option"

definition network_from_rest_url :: "string \<Rightarrow> movement_network" where
  "network_from_rest_url url = (if str_contains ''testnet'' url then Testnet else Mainnet)"

definition realm_env_vars :: "string list" where
  "realm_env_vars = [''MPP_REALM'', ''FLY_APP_NAME'', ''HEROKU_APP_NAME'', ''HOST'', ''HOSTNAME'',
     ''RAILWAY_PUBLIC_DOMAIN'', ''RENDER_EXTERNAL_HOSTNAME'', ''VERCEL_URL'', ''WEBSITE_HOSTNAME'']"

fun first_nonempty_var :: "(string \<Rightarrow> string option) \<Rightarrow> string list \<Rightarrow> string" where
  "first_nonempty_var env [] = ''MPP Payment''"
| "first_nonempty_var env (name # names) =
     (case env name of
        Some v \<Rightarrow> if v \<noteq> [] then v else first_nonempty_var env names
      | None \<Rightarrow> first_nonempty_var env names)"

definition detect_realm :: "(string \<Rightarrow> string option) \<Rightarrow> string" where
  "detect_realm env = first_nonempty_var env realm_env_vars"

definition movement_builder_new :: "(string \<Rightarrow> string option) \<Rightarrow> string \<Rightarrow> movement_builder" where
  "movement_builder_new env recipient =
     \<lparr>mb_currency = MOVE_TOKEN_METADATA, mb_recipient = recipient,
      mb_rest_url = DEFAULT_REST_URL_MAINNET, mb_realm = detect_realm env, mb_secret_key = None,
      mb_decimals = 8, mb_network = None\<rparr>"

definition builder_rest_url :: "string \<Rightarrow> movement_builder \<Rightarrow> movement_builder" where
  "builder_rest_url url b =
     (let b' = b\<lparr>mb_rest_url := url\<rparr> in
      if mb_network b' = None then b'\<lparr>mb_network := Some (network_from_rest_url url)\<rparr> else b')"

definition builder_network :: "movement_network \<Rightarrow> movement_builder \<Rightarrow> movement_builder" where
  "builder_network n b = b\<lparr>mb_network := Some n\<rparr>"

definition builder_currency :: "string \<Rightarrow> movement_builder \<Rightarrow> movement_builder" where
  "builder_currency addr b = b\<lparr>mb_currency := addr\<rparr>"

definition builder_realm :: "string \<Rightarrow> movement_builder \<Rightarrow> movement_builder" where
  "builder_realm realm b = b\<lparr>mb_realm := realm\<rparr>"

definition builder_decimals :: "nat \<Rightarrow> movement_builder \<Rightarrow> movement_builder" where
  "builder_decimals d b = b\<lparr>mb_decimals := d\<rparr>"

definition builder_secret_key :: "string \<Rightarrow> movement_builder \<Rightarrow> movement_builder" where
  "builder_secret_key key b = b\<lparr>mb_secret_key := Some key\<rparr>"

definition create_movement ::
  "crates \<Rightarrow> network \<Rightarrow> (string \<Rightarrow> string option) \<Rightarrow> movement_builder \<Rightarrow> mpp_error + 's mpp" where
  "create_movement X net env b =
     and_then (ok_or (MppInvalidConfig
         ''Missing secret key. Set MPP_SECRET_KEY environment variable or pass .secret_key(...).'')
       (Option.bind
         (case mb_secret_key b of Some k \<Rightarrow> Some k | None \<Rightarrow> env ''MPP_SECRET_KEY'')
         (\<lambda>v. if str_trim v = [] then None else Some v))) (\<lambda>secret_key.
     Inr \<lparr>mpp_method = movement_charge_method X net (mb_rest_url b), mpp_session_method = None,
          mpp_realm = mb_realm b, mpp_secret_key = secret_key, mpp_currency = Some (mb_currency b),
          mpp_recipient = Some (mb_recipient b), mpp_decimals = mb_decimals b,
          mpp_fee_payer = False, mpp_chain_id = None\<rparr>)"

section \<open>Issuing challenges\<close>

record charge_options =
  co_description :: "string option"
  co_external_id :: "string option"
  co_expires :: "string option"
  co_fee_payer :: bool

definition charge_options_default :: charge_options where
  "charge_options_default = \<lparr>co_description = None, co_external_id = None, co_expires = None,
     co_fee_payer = False\<rparr>"

record movement_session_options =
  mo_unit_type :: "string option"
  mo_suggested_deposit :: "string option"
  mo_module_address :: "string option"
  mo_registry_address :: "string option"
  mo_min_voucher_delta :: "string option"
  mo_description :: "string option"
  mo_expires :: "string option"

text \<open>The message has a dash outside ASCII, given by its UTF-8 bytes.\<close>

definition em_dash :: string where
  "em_dash = [CHR 0xE2, CHR 0x80, CHR 0x94]"

definition require_movement_config :: "'s mpp \<Rightarrow> mpp_error + string \<times> string" where
  "require_movement_config m =
     and_then (ok_or (MppInvalidConfig (''currency not configured '' @ em_dash
         @ '' use Mpp::create_movement() or set currency'')) (mpp_currency m)) (\<lambda>currency.
     and_then (ok_or (MppInvalidConfig (''recipient not configured '' @ em_dash
         @ '' use Mpp::create_movement() or set recipient'')) (mpp_recipient m)) (\<lambda>recipient.
     Inr (currency, recipient)))"

definition movement_charge_with_options ::
  "crates \<Rightarrow> int \<Rightarrow> 's mpp \<Rightarrow> string \<Rightarrow> charge_options \<Rightarrow> mpp_error + payment_challenge" where
  "movement_charge_with_options X now m amount options =
     and_then (require_movement_config m) (\<lambda>(currency, recipient).
     and_then (map_err mpp_of_amount_error (parse_dollar_amount amount (mpp_decimals m))) (\<lambda>base_units.
     charge_challenge_with_options X now (mpp_secret_key m) (mpp_realm m)
       (charge_request_default\<lparr>cr_amount := base_units, cr_currency := currency,
          cr_recipient := Some recipient, cr_description := co_description options,
          cr_external_id := co_external_id options\<rparr>)
       (co_expires options) (co_description options)))"

definition movement_charge ::
  "crates \<Rightarrow> int \<Rightarrow> 's mpp \<Rightarrow> string \<Rightarrow> mpp_error + payment_challenge" where
  "movement_charge X now m amount = movement_charge_with_options X now m amount charge_options_default"

definition movement_charge_challenge ::
  "crates \<Rightarrow> int \<Rightarrow> 's mpp \<Rightarrow> string \<Rightarrow> string \<Rightarrow> string \<Rightarrow> mpp_error + payment_challenge" where
  "movement_charge_challenge X now m amount currency recipient =
     charge_challenge X now (mpp_secret_key m) (mpp_realm m) amount currency recipient"

text \<open>Both session challenges are built alike and differ in the recipient.\<close>

definition session_options_details :: "movement_session_options \<Rightarrow> string \<Rightarrow> json" where
  "session_options_details options currency =
     (let module_addr = unwrap_or DEFAULT_MODULE_ADDRESS (mo_module_address options) in
      JObj ([(''moduleAddress'', JStr module_addr),
             (''registryAddress'', JStr (unwrap_or module_addr (mo_registry_address options))),
             (''tokenMetadata'', JStr currency)]
            @ opt_field ''minVoucherDelta'' JStr (mo_min_voucher_delta options)))"

definition session_challenge_request ::
  "string \<Rightarrow> string \<Rightarrow> string \<Rightarrow> movement_session_options \<Rightarrow> session_request" where
  "session_challenge_request amount_per_unit currency recipient options =
     \<lparr>sr_amount = amount_per_unit, sr_unit_type = mo_unit_type options, sr_currency = currency,
      sr_decimals = None, sr_recipient = Some recipient,
      sr_suggested_deposit = mo_suggested_deposit options,
      sr_method_details = Some (session_options_details options currency)\<rparr>"

definition session_challenge_for ::
  "crates \<Rightarrow> int \<Rightarrow> 's mpp \<Rightarrow> session_request \<Rightarrow> movement_session_options
   \<Rightarrow> mpp_error + payment_challenge" where
  "session_challenge_for X now m req options =
     and_then (b64json_from_typed X session_request_to_json req) (\<lambda>encoded.
     and_then (resolve_expires X now (mo_expires options)) (\<lambda>expires.
     Inr \<lparr>ch_id = compute_challenge_id X (mpp_secret_key m) (mpp_realm m) METHOD_NAME INTENT_SESSION
              (raw encoded) (Some expires) None None,
          ch_realm = mpp_realm m, ch_method = method_name_new METHOD_NAME,
          ch_intent = intent_name_new INTENT_SESSION, ch_request = encoded,
          ch_expires = Some expires, ch_description = mo_description options,
          ch_digest = None, ch_opaque = None\<rparr>))"

definition movement_session_challenge ::
  "crates \<Rightarrow> int \<Rightarrow> 's mpp \<Rightarrow> string \<Rightarrow> movement_session_options \<Rightarrow> mpp_error + payment_challenge" where
  "movement_session_challenge X now m amount_per_unit options =
     and_then (require_movement_config m) (\<lambda>(currency, recipient).
     session_challenge_for X now m
       (session_challenge_request amount_per_unit currency recipient options) options)"

definition movement_session_challenge_with_recipient ::
  "crates \<Rightarrow> int \<Rightarrow> 's mpp \<Rightarrow> string \<Rightarrow> string \<Rightarrow> movement_session_options
   \<Rightarrow> mpp_error + payment_challenge" where
  "movement_session_challenge_with_recipient X now m amount_per_unit recipient options =
     and_then (require_movement_config m) (\<lambda>(currency, _).
     session_challenge_for X now m
       (session_challenge_request amount_per_unit currency recipient options) options)"

section \<open>Issued challenges pass the check\<close>

lemma hmac_check_of_verified:
  assumes "challenge_verify X (mpp_secret_key m) c" and "ch_realm c = mpp_realm m"
  shows "verify_hmac_and_expiry X now m (credential_new (to_echo c) p) =
    (case ch_expires c of
       None \<Rightarrow> Inr ()
     | Some expires \<Rightarrow>
         (case rfc3339_parse X expires of
            Some t \<Rightarrow>
              if t \<le> now then Inl (ve_expired (''Challenge expired at '' @ expires)) else Inr ()
          | None \<Rightarrow> Inl (verification_error_new ''Invalid expires timestamp in challenge'')))"
  using assms
  by (simp add: verify_hmac_and_expiry_def credential_new_def to_echo_def challenge_verify_def
      constant_time_eq_correct Let_def)

lemma session_challenge_verifies:
  assumes "session_challenge_for X now m req options = Inr c"
  shows "challenge_verify X (mpp_secret_key m) c" and "ch_realm c = mpp_realm m"
  using assms
  by (auto simp: session_challenge_for_def res_simps challenge_verify_def constant_time_eq_correct
      names_normal)

lemma charge_challenge_realm:
  "charge_challenge_with_options X now k realm r e d = Inr c \<Longrightarrow> ch_realm c = realm"
  by (auto simp: charge_challenge_with_options_def res_simps)

end
