(* ===== verification/Gate.thy ===== *)
theory Gate
  imports Mpp_Server Headers
begin

text \<open>
  The HTTP gates: the axum extractor (src/server/axum.rs) and the tower layer
  (src/server/middleware.rs). A request is what the gates read of it: the value of its
  \<open>Authorization\<close> header, if it has one that is text. Which strings the \<open>http\<close> crate accepts as a
  header value is the parameter \<open>hv\<close>; headers the frameworks add on their own, such as the
  content type of a text body, are left out. The locale \<open>charge_challenger\<close> is the trait
  \<open>ChargeChallenger\<close> with what the extractor's users rely on, and \<open>Mpp\<close> interprets it.
\<close>

section \<open>Responses\<close>

record http_response =
  hr_status :: nat
  hr_headers :: "(string \<times> string) list"
  hr_body :: string

definition header_or_scheme :: "(string \<Rightarrow> bool) \<Rightarrow> string \<Rightarrow> string" where
  "header_or_scheme hv s = (if hv s then s else ''Payment'')"

definition payment_required_response :: "(string \<Rightarrow> bool) \<Rightarrow> payment_challenge \<Rightarrow> http_response" where
  "payment_required_response hv c =
     (case format_www_authenticate c of
        Inr www_auth \<Rightarrow>
          \<lparr>hr_status = 402,
           hr_headers = [(''www-authenticate'', header_or_scheme hv www_auth),
             (''content-type'', ''application/json'')],
           hr_body = ''{'' @ dquote @ ''error'' @ dquote @ '':'' @ dquote @ ''Payment Required'' @ dquote @ ''}''\<rparr>
      | Inl e \<Rightarrow>
          \<lparr>hr_status = 500, hr_headers = [],
           hr_body = ''Failed to format challenge: '' @ mpp_error_display e\<rparr>)"

datatype charge_rejection =
    RejectChallenge payment_challenge
  | RejectVerificationFailed payment_challenge
  | RejectInternalError string

fun rejection_response :: "(string \<Rightarrow> bool) \<Rightarrow> charge_rejection \<Rightarrow> http_response" where
  "rejection_response hv (RejectChallenge c) = payment_required_response hv c"
| "rejection_response hv (RejectVerificationFailed c) = payment_required_response hv c"
| "rejection_response hv (RejectInternalError msg) =
     \<lparr>hr_status = 500, hr_headers = [], hr_body = msg\<rparr>"

section \<open>The axum extractor\<close>

text \<open>The trait object: generate a challenge for an amount with an optional description, verify a
  credential string.\<close>

record challenger =
  cc_challenge :: "int \<Rightarrow> string \<Rightarrow> string option \<Rightarrow> string + payment_challenge"
  cc_verify_payment :: "int \<Rightarrow> string \<Rightarrow> string + receipt"

definition mpp_challenge ::
  "crates \<Rightarrow> 's mpp \<Rightarrow> int \<Rightarrow> string \<Rightarrow> string option \<Rightarrow> string + payment_challenge" where
  "mpp_challenge X m now amount description =
     map_err mpp_error_display (movement_charge_with_options X now m amount
       (charge_options_default\<lparr>co_description := description\<rparr>))"

definition mpp_verify_payment :: "crates \<Rightarrow> 's mpp \<Rightarrow> int \<Rightarrow> string \<Rightarrow> string + receipt" where
  "mpp_verify_payment X m now credential_str =
     (case parse_authorization X credential_str of
        Inl e \<Rightarrow> Inl (''Invalid credential: '' @ mpp_error_display e)
      | Inr credential \<Rightarrow>
          map_err verification_error_display (verify_credential X now m credential))"

definition mpp_challenger :: "crates \<Rightarrow> 's mpp \<Rightarrow> challenger" where
  "mpp_challenger X m = \<lparr>cc_challenge = mpp_challenge X m, cc_verify_payment = mpp_verify_payment X m\<rparr>"

definition extract_charge ::
  "challenger \<Rightarrow> int \<Rightarrow> string \<Rightarrow> string option \<Rightarrow> string option \<Rightarrow> charge_rejection + receipt" where
  "extract_charge C now amount description authorization =
     (case Option.bind authorization extract_payment_scheme of
        None \<Rightarrow>
          and_then (map_err RejectInternalError (cc_challenge C now amount description))
            (\<lambda>c. Inl (RejectChallenge c))
      | Some credential_str \<Rightarrow>
          (case cc_verify_payment C now credential_str of
             Inr r \<Rightarrow> Inr r
           | Inl _ \<Rightarrow>
               and_then (map_err RejectInternalError (cc_challenge C now amount description))
                 (\<lambda>c. Inl (RejectVerificationFailed c))))"

definition with_receipt ::
  "crates \<Rightarrow> (string \<Rightarrow> bool) \<Rightarrow> receipt \<Rightarrow> http_response \<Rightarrow> http_response" where
  "with_receipt X hv r resp =
     (case format_receipt X r of
        Inr header_val \<Rightarrow>
          if hv header_val
          then resp\<lparr>hr_headers := (''payment-receipt'', header_val)
                 # filter (\<lambda>(k, _). k \<noteq> ''payment-receipt'') (hr_headers resp)\<rparr>
          else resp
      | Inl _ \<Rightarrow> resp)"

section \<open>The tower layer\<close>

record payment_verifier =
  pv_challenge :: "string + string"
  pv_verify :: "string \<Rightarrow> string + string"

definition payment_layer_from_fns :: "string + string \<Rightarrow> (string \<Rightarrow> string + string) \<Rightarrow> payment_verifier" where
  "payment_layer_from_fns challenge_fn verify_fn =
     \<lparr>pv_challenge = challenge_fn, pv_verify = verify_fn\<rparr>"

definition error_response :: "nat \<Rightarrow> string \<Rightarrow> http_response" where
  "error_response status message = \<lparr>hr_status = status, hr_headers = [], hr_body = []\<rparr>"

text \<open>\<open>call\<close>: the inner service is a function from the request, and it fails with its own error.\<close>

definition payment_service_call ::
  "(string \<Rightarrow> bool) \<Rightarrow> payment_verifier \<Rightarrow> ('req \<Rightarrow> string option) \<Rightarrow> ('req \<Rightarrow> 'e + http_response)
   \<Rightarrow> 'req \<Rightarrow> 'e + http_response" where
  "payment_service_call hv V authorization inner req =
     (case Option.bind (authorization req) extract_payment_scheme of
        None \<Rightarrow>
          (case pv_challenge V of
             Inl e \<Rightarrow> Inr (error_response 500 (''Failed to generate challenge: '' @ e))
           | Inr c \<Rightarrow> Inr \<lparr>hr_status = 402, hr_headers = [(''www-authenticate'', header_or_scheme hv c)],
               hr_body = []\<rparr>)
      | Some credential \<Rightarrow>
          (case pv_verify V credential of
             Inl e \<Rightarrow> Inr (error_response 402 (''Payment verification failed: '' @ e))
           | Inr receipt_header \<Rightarrow>
               and_then (inner req) (\<lambda>resp.
                 Inr (if hv receipt_header
                   then resp\<lparr>hr_headers := (''payment-receipt'', receipt_header)
                          # filter (\<lambda>(k, _). k \<noteq> ''payment-receipt'') (hr_headers resp)\<rparr>
                   else resp))))"

section \<open>The contract of a challenger\<close>

text \<open>Every challenge handed out is one the server will recognize, and every payment accepted
  is a credential for a challenge the server recognizes at that time.\<close>

locale charge_challenger =
  fixes X :: crates and C :: challenger
    and recognizes :: "int \<Rightarrow> challenge_echo \<Rightarrow> bool"
    and issued :: "payment_challenge \<Rightarrow> bool"
  assumes challenge_issued: "cc_challenge C now amount description = Inr c \<Longrightarrow> issued c"
    and verified_recognized: "cc_verify_payment C now s = Inr r \<Longrightarrow>
      \<exists>credential. parse_authorization X s = Inr credential \<and> recognizes now (cred_challenge credential)"
begin

lemma admitted_paid:
  assumes "extract_charge C now amount description authorization = Inr r"
  shows "\<exists>header s credential. authorization = Some header \<and> extract_payment_scheme header = Some s
    \<and> parse_authorization X s = Inr credential \<and> recognizes now (cred_challenge credential)
    \<and> cc_verify_payment C now s = Inr r"
proof (cases "Option.bind authorization extract_payment_scheme")
  case None
  with assms show ?thesis by (auto simp: extract_charge_def res_simps)
next
  case (Some s)
  with assms have v: "cc_verify_payment C now s = Inr r"
    by (auto simp: extract_charge_def res_simps split: sum.splits)
  then obtain credential where "parse_authorization X s = Inr credential"
    "recognizes now (cred_challenge credential)" using verified_recognized by blast
  with v Some show ?thesis by (cases authorization) auto
qed

lemma rejected_with_issued:
  assumes "extract_charge C now amount description authorization = Inl e"
  shows "(\<exists>msg. e = RejectInternalError msg)
    \<or> (\<exists>c. (e = RejectChallenge c \<or> e = RejectVerificationFailed c) \<and> issued c)"
proof (cases "cc_challenge C now amount description")
  case (Inr c)
  with challenge_issued [OF Inr] assms show ?thesis
    by (auto simp: extract_charge_def split: option.splits sum.splits)
qed (use assms in \<open>auto simp: extract_charge_def split: option.splits sum.splits\<close>)

end

text \<open>\<open>Mpp\<close> recognizes a challenge by its HMAC and its expiry.\<close>

definition mpp_recognizes :: "crates \<Rightarrow> 's mpp \<Rightarrow> int \<Rightarrow> challenge_echo \<Rightarrow> bool" where
  "mpp_recognizes X m now e \<longleftrightarrow>
     echo_id e = compute_challenge_id X (mpp_secret_key m) (mpp_realm m)
       (method_as_str (echo_method e)) (intent_as_str (echo_intent e)) (raw (echo_request e))
       (echo_expires e) (echo_digest e) (map_option raw (echo_opaque e))
     \<and> (case echo_expires e of
          None \<Rightarrow> True
        | Some s \<Rightarrow> (case rfc3339_parse X s of None \<Rightarrow> False | Some t \<Rightarrow> now < t))"

definition mpp_issued :: "crates \<Rightarrow> 's mpp \<Rightarrow> payment_challenge \<Rightarrow> bool" where
  "mpp_issued X m c \<longleftrightarrow> challenge_verify X (mpp_secret_key m) c \<and> ch_realm c = mpp_realm m"

lemma hmac_check_iff:
  "verify_hmac_and_expiry X now m credential = Inr () \<longleftrightarrow>
   mpp_recognizes X m now (cred_challenge credential)"
  by (auto simp: verify_hmac_and_expiry_def mpp_recognizes_def Let_def linorder_not_le
      split: option.splits if_splits)

lemma rejection_status: "hr_status (rejection_response hv rejection) \<in> {402, 500}"
  by (cases rejection) (simp_all add: payment_required_response_def split: sum.splits)

lemma verify_credential_Inr:
  "verify_credential X now m credential = Inr r \<longleftrightarrow>
   (\<exists>req. decode_charge_request X credential = Inr req
     \<and> mpp_recognizes X m now (cred_challenge credential) \<and> mpp_method m now credential req = Inr r)"
  by (auto simp: verify_credential_def mpp_verify_def res_simps hmac_check_iff)

lemma charge_with_options_issued:
  assumes "movement_charge_with_options X now m amount options = Inr c"
  shows "mpp_issued X m c"
  using assms charge_challenge_verifies charge_challenge_realm
  by (auto simp: movement_charge_with_options_def res_simps mpp_issued_def split: prod.splits)

interpretation mpp_gate: charge_challenger X "mpp_challenger X m" "mpp_recognizes X m" "mpp_issued X m"
  for X m
proof unfold_locales
  show "cc_challenge (mpp_challenger X m) now amount description = Inr c \<Longrightarrow> mpp_issued X m c"
    for now amount description c
    by (auto simp: mpp_challenger_def mpp_challenge_def res_simps charge_with_options_issued)
  show "\<exists>credential. parse_authorization X s = Inr credential
      \<and> mpp_recognizes X m now (cred_challenge credential)"
    if "cc_verify_payment (mpp_challenger X m) now s = Inr r" for now s r
    using that
    by (auto simp: mpp_challenger_def mpp_verify_payment_def res_simps verify_credential_Inr
        split: sum.splits)
qed

end
