(* ===== verification/Server_Claims.thy ===== *)
theory Server_Claims
  imports Gate Charge_Claims
begin

text \<open>
  The properties of the payment handler and its gates: what admits a request, that a challenge
  the server issued is honoured for exactly the request it was issued for, what the
  expected-request check adds, and what the gates don't check.
\<close>

lemma decode_issued_request:
  assumes "b64json_from_typed X charge_request_to_json req = Inr b" and "b64url_ok X"
    and "reads_back X charge_request_of_json (charge_request_to_json req)"
    and "cr_method_details req \<noteq> Some JNull" and "cr_decimals req = None"
  shows "b64json_decode X ty charge_request_of_json b = Inr req"
proof (rule b64json_from_typed_decode [OF assms(1-3)])
  show "charge_request_of_json (charge_request_to_json req) = Some req"
    using charge_request_json_roundtrip [OF assms(4)] assms(5) by simp
qed

text \<open>The request a charge challenge stands for.\<close>

definition charge_terms :: "string \<Rightarrow> string \<Rightarrow> string \<Rightarrow> charge_options \<Rightarrow> charge_request" where
  "charge_terms base_units currency recipient options =
     charge_request_default\<lparr>cr_amount := base_units, cr_currency := currency,
       cr_recipient := Some recipient, cr_description := co_description options,
       cr_external_id := co_external_id options\<rparr>"

lemma issued_charge_parts:
  assumes "movement_charge_with_options X now m amount options = Inr c"
  obtains currency recipient base_units where
    "mpp_currency m = Some currency" and "mpp_recipient m = Some recipient"
    and "parse_dollar_amount amount (mpp_decimals m) = Inr base_units"
    and "b64json_from_typed X charge_request_to_json (charge_terms base_units currency recipient options)
      = Inr (ch_request c)"
    and "ch_expires c \<noteq> None"
proof -
  obtain currency recipient where cr: "require_movement_config m = Inr (currency, recipient)"
    using assms by (auto simp: movement_charge_with_options_def res_simps)
  then obtain base_units where
    b: "parse_dollar_amount amount (mpp_decimals m) = Inr base_units"
    and c: "charge_challenge_with_options X now (mpp_secret_key m) (mpp_realm m)
      (charge_terms base_units currency recipient options) (co_expires options) (co_description options)
      = Inr c"
    using assms by (auto simp: movement_charge_with_options_def res_simps charge_terms_def)
  have "b64json_from_typed X charge_request_to_json (charge_terms base_units currency recipient options)
      = Inr (ch_request c)" "ch_expires c \<noteq> None"
    using c by (auto simp: charge_challenge_with_options_def res_simps charge_with_base_units_def
        charge_terms_def charge_request_default_def)
  with cr b show thesis
    by (intro that [of currency recipient base_units])
      (auto simp: require_movement_config_def res_simps)
qed

lemma issued_charge_verified:
  assumes "movement_charge_with_options X now m amount options = Inr c"
    and "mpp_currency m = Some currency" and "mpp_recipient m = Some recipient"
    and "parse_dollar_amount amount (mpp_decimals m) = Inr base_units"
    and "b64url_ok X"
    and "reads_back X charge_request_of_json
      (charge_request_to_json (charge_terms base_units currency recipient options))"
    and "ch_expires c = Some e" and "rfc3339_parse X e = Some t" and "later < t"
  shows "verify_credential X later m (credential_new (to_echo c) payload)
    = mpp_method m later (credential_new (to_echo c) payload)
        (charge_terms base_units currency recipient options)"
proof -
  have enc: "b64json_from_typed X charge_request_to_json
      (charge_terms base_units currency recipient options) = Inr (ch_request c)"
    by (rule issued_charge_parts [OF assms(1)]) (use assms(2-4) in simp)
  have dec: "decode_charge_request X (credential_new (to_echo c) payload)
      = Inr (charge_terms base_units currency recipient options)"
    using decode_issued_request [OF enc assms(5,6)]
    by (simp add: decode_charge_request_def credential_new_def to_echo_def charge_terms_def
        charge_request_default_def)
  have "mpp_issued X m c" by (rule charge_with_options_issued [OF assms(1)])
  then have "verify_hmac_and_expiry X later m (credential_new (to_echo c) payload) = Inr ()"
    using assms(7-9) by (simp add: mpp_issued_def hmac_check_of_verified)
  with dec show ?thesis by (simp add: verify_credential_def mpp_verify_def)
qed

text \<open>
  C21: an issued charge challenge is honoured exactly when it is paid. On a server whose charge
  method is the Movement one, the challenge it issued, echoed in a credential before it expires,
  is accepted if and only if the payload names a transaction that the node reports as successful
  and that pays the terms of the server: the amount in base units, its currency and its
  recipient. The receipt names that transaction; nothing has to be remembered in between.
\<close>

theorem issued_charge_is_honoured:
  assumes "movement_charge_with_options X now m amount options = Inr c"
    and "mpp_currency m = Some currency" and "mpp_recipient m = Some recipient"
    and "parse_dollar_amount amount (mpp_decimals m) = Inr base_units"
    and "b64url_ok X"
    and "reads_back X charge_request_of_json
      (charge_request_to_json (charge_terms base_units currency recipient options))"
    and "ch_expires c = Some e" and "rfc3339_parse X e = Some t" and "later < t"
    and "mpp_method m = movement_charge_method X net rest_url"
  shows "verify_credential X later m (credential_new (to_echo c) payload) = Inr r \<longleftrightarrow>
    (\<exists>h body. names_hash payload h \<and> reports X net (charge_method_new rest_url) h body
      \<and> succeeded body \<and> pays body (charge_terms base_units currency recipient options)
      \<and> r = receipt_success X later METHOD_NAME h)"
  unfolding issued_charge_verified [OF assms(1-9)] assms(10) movement_charge_method_def charge_verify_iff
  by (simp add: credential_new_def)

definition sample_options :: charge_options where
  "sample_options = charge_options_default\<lparr>co_expires := Some ''100''\<rparr>"

definition sample_terms :: charge_request where
  "sample_terms = charge_terms ''7'' ''0xa'' ''0xb'' sample_options"

text \<open>Crates whose JSON functions know one document, and a server whose charge method accepts
  exactly the sample terms.\<close>

definition sample_json_world :: crates where
  "sample_json_world = sample_crates\<lparr>json_canonical := \<lambda>_. Inr ''doc'',
     json_from_slice := \<lambda>_. Inr (charge_request_to_json sample_terms)\<rparr>"

definition sample_receipt :: receipt where
  "sample_receipt = receipt_success sample_crates 0 ''movement'' ''0x1''"

definition sample_mpp :: "unit mpp" where
  "sample_mpp = (mpp_new (\<lambda>now credential req. if req = sample_terms then Inr sample_receipt
       else Inl (ve_invalid_amount ''other terms'')) ''realm'' ''key'')
     \<lparr>mpp_currency := Some ''0xa'', mpp_recipient := Some ''0xb'', mpp_decimals := 0\<rparr>"

lemma show_seven: "show_nat 7 = ''7''"
  by (simp add: show_nat.simps [of 7] digit_char_def char_eval)

lemma sample_dollar_amount: "parse_dollar_amount ''7'' 0 = Inr ''7''"
  by (simp add: parse_dollar_amount_def str_trim_def trim_start_def trim_end_def is_whitespace_def
      starts_with_def is_ascii_digit_def parse_part_def parse_uint_def dec_val_def digit_val_def
      checked_mul_u128_def checked_add_u128_def show_seven Let_def del: One_nat_def)

lemma sample_json_world_laws:
  "b64url_ok sample_json_world"
  "reads_back sample_json_world charge_request_of_json (charge_request_to_json sample_terms)"
  "rfc3339_parse sample_json_world ''100'' = Some 100"
  using sample_crates_b64url_ok
  by (simp_all add: sample_json_world_def b64url_ok_def reads_back_def)
    (simp add: sample_crates_def parse_uint_def dec_val_def digit_val_def is_ascii_digit_def
      del: One_nat_def)

lemma sample_issued:
  obtains c where "movement_charge_with_options sample_json_world 0 sample_mpp ''7'' sample_options = Inr c"
    and "ch_expires c = Some ''100''"
  by (simp add: movement_charge_with_options_def require_movement_config_def sample_mpp_def mpp_new_def
      sample_dollar_amount charge_challenge_with_options_def charge_with_base_units_def
      charge_request_default_def b64json_from_typed_def sample_json_world_def resolve_expires_def
      sample_options_def charge_options_default_def)

text \<open>
  C5: exactly what the axum extractor admits. A handler behind the extractor runs, with the
  receipt, precisely when the request has an \<open>Authorization\<close> header with a Payment scheme, its
  token parses to a credential whose challenge carries this server's HMAC and has not expired,
  and the charge method accepts the credential for the request inside that challenge.
\<close>

theorem gate_admits_iff:
  "extract_charge (mpp_challenger X m) now amount description authorization = Inr r \<longleftrightarrow>
   (\<exists>header s credential req. authorization = Some header \<and> extract_payment_scheme header = Some s
     \<and> parse_authorization X s = Inr credential \<and> decode_charge_request X credential = Inr req
     \<and> mpp_recognizes X m now (cred_challenge credential)
     \<and> mpp_method m now credential req = Inr r)"
proof
  assume "extract_charge (mpp_challenger X m) now amount description authorization = Inr r"
  from mpp_gate.admitted_paid [OF this] obtain header s credential where
    "authorization = Some header" "extract_payment_scheme header = Some s"
    "parse_authorization X s = Inr credential"
    "cc_verify_payment (mpp_challenger X m) now s = Inr r" by blast
  then show "\<exists>header s credential req. authorization = Some header \<and> extract_payment_scheme header = Some s
     \<and> parse_authorization X s = Inr credential \<and> decode_charge_request X credential = Inr req
     \<and> mpp_recognizes X m now (cred_challenge credential)
     \<and> mpp_method m now credential req = Inr r"
    by (auto simp: mpp_challenger_def mpp_verify_payment_def res_simps verify_credential_Inr)
next
  assume "\<exists>header s credential req. authorization = Some header \<and> extract_payment_scheme header = Some s
     \<and> parse_authorization X s = Inr credential \<and> decode_charge_request X credential = Inr req
     \<and> mpp_recognizes X m now (cred_challenge credential)
     \<and> mpp_method m now credential req = Inr r"
  then obtain header s credential where a: "authorization = Some header"
    "extract_payment_scheme header = Some s" "parse_authorization X s = Inr credential"
    "verify_credential X now m credential = Inr r"
    unfolding verify_credential_Inr by blast
  then have "cc_verify_payment (mpp_challenger X m) now s = Inr r"
    by (simp add: mpp_challenger_def mpp_verify_payment_def)
  with a show "extract_charge (mpp_challenger X m) now amount description authorization = Inr r"
    by (simp add: extract_charge_def)
qed

text \<open>
  The price of a route does not matter. What the extractor admits is the same for any two
  amounts and descriptions: a credential paid for the challenge of a cheap route opens an
  expensive one, as often as it is presented.
\<close>

theorem gate_ignores_price:
  "extract_charge (mpp_challenger X m) now cheap d authorization = Inr r
   \<longleftrightarrow> extract_charge (mpp_challenger X m) now expensive d' authorization = Inr r"
  by (auto simp: extract_charge_def res_simps split: option.splits sum.splits)

text \<open>
  What the expected request adds. Verification against an expected request accepts exactly
  the credentials that plain verification accepts, with the same receipt, and whose challenge
  was issued for the expected amount, currency and recipient.
\<close>

theorem expected_request_iff:
  "verify_credential_with_expected_request X now m credential expected = Inr r \<longleftrightarrow>
   verify_credential X now m credential = Inr r
   \<and> (\<exists>req. decode_charge_request X credential = Inr req \<and> cr_amount req = cr_amount expected
     \<and> cr_currency req = cr_currency expected \<and> cr_recipient req = cr_recipient expected)"
  by (cases "decode_charge_request X credential")
    (auto simp: verify_credential_with_expected_request_def verify_credential_def)

text \<open>
  The tower layer. Either the request carries a Payment scheme that the verifier accepts,
  and then the answer is the inner service's, its error included, with no change but a receipt
  header; or the response has status 402 or 500 and does not depend on the inner service at all.
\<close>

theorem tower_layer_gates:
  "(\<exists>header s h. authorization req = Some header \<and> extract_payment_scheme header = Some s
      \<and> pv_verify V s = Inr h
      \<and> (\<forall>inner. map_sum id (\<lambda>r. (hr_status r, hr_body r))
            (payment_service_call hv V authorization inner req)
          = map_sum id (\<lambda>r. (hr_status r, hr_body r)) (inner req))
      \<and> (\<forall>inner k v. map_sum id (\<lambda>r. k \<noteq> ''payment-receipt'' \<and> (k, v) \<in> set (hr_headers r))
            (payment_service_call hv V authorization inner req)
          = map_sum id (\<lambda>r. k \<noteq> ''payment-receipt'' \<and> (k, v) \<in> set (hr_headers r)) (inner req)))
   \<or> (\<exists>resp. (hr_status resp = 402 \<or> hr_status resp = 500)
      \<and> (\<forall>inner. payment_service_call hv V authorization inner req = Inr resp))"
proof (cases "Option.bind (authorization req) extract_payment_scheme")
  case None
  then show ?thesis
    by (cases "pv_challenge V") (auto simp: payment_service_call_def error_response_def)
next
  case (Some s)
  then obtain header where h: "authorization req = Some header" "extract_payment_scheme header = Some s"
    by (cases "authorization req") auto
  show ?thesis
  proof (cases "pv_verify V s")
    case (Inl e)
    with Some show ?thesis by (auto simp: payment_service_call_def error_response_def)
  next
    case (Inr r)
    have call: "payment_service_call hv V authorization inner req = map_sum id (\<lambda>resp.
        if hv r then resp\<lparr>hr_headers := (''payment-receipt'', r)
          # filter (\<lambda>(k, _). k \<noteq> ''payment-receipt'') (hr_headers resp)\<rparr> else resp) (inner req)" for inner
      using h Inr by (cases "inner req") (simp_all add: payment_service_call_def)
    show ?thesis
      by (rule disjI1, intro exI [of _ header] exI [of _ s] exI [of _ r])
        (auto simp: h Inr call sum.map_comp o_def intro!: sum.map_cong0)
  qed
qed

section \<open>A session challenge as a charge\<close>

lemma session_request_as_charge:
  "charge_request_of_json (session_request_to_json req)
   = (if sr_method_details req = Some JNull then charge_request_of_json (session_request_to_json req)
      else Some \<lparr>cr_amount = sr_amount req, cr_currency = sr_currency req, cr_decimals = None,
        cr_recipient = sr_recipient req, cr_description = None, cr_external_id = None,
        cr_method_details = sr_method_details req\<rparr>)"
proof (cases "sr_method_details req = Some JNull")
  case False
  let ?j = "session_request_to_json req"
  have "field_opt as_str ''recipient'' ?j = Some (sr_recipient req)"
    unfolding session_request_to_json_def
    by (rule field_opt_present [where enc = JStr])
      (simp_all add: map_add_def split: option.splits)
  moreover have "field_opt as_str ''description'' ?j = Some None"
    "field_opt as_str ''externalId'' ?j = Some None"
    by (simp_all add: session_request_to_json_def field_opt_def map_add_def split: option.splits)
  moreover have "field_opt Some ''methodDetails'' ?j = Some (sr_method_details req)"
    unfolding session_request_to_json_def
    by (rule field_opt_present [where enc = "\<lambda>j. j"])
      (use False in \<open>auto simp: map_add_def split: option.splits\<close>)
  moreover have "field_req as_str ''amount'' ?j = Some (sr_amount req)"
    "field_req as_str ''currency'' ?j = Some (sr_currency req)"
    by (simp_all add: session_request_to_json_def map_add_def split: option.splits)
  ultimately show ?thesis using False by (simp add: charge_request_of_json_def)
qed simp

lemma issued_session_parts:
  assumes "movement_session_challenge X now m unit_amount options = Inr c"
    and "mpp_currency m = Some currency" and "mpp_recipient m = Some recipient"
  shows "b64json_from_typed X session_request_to_json
      (session_challenge_request unit_amount currency recipient options) = Inr (ch_request c)"
    and "mpp_issued X m c"
proof -
  have c: "session_challenge_for X now m
      (session_challenge_request unit_amount currency recipient options) options = Inr c"
    using assms by (simp add: movement_session_challenge_def require_movement_config_def)
  then show "b64json_from_typed X session_request_to_json
      (session_challenge_request unit_amount currency recipient options) = Inr (ch_request c)"
    by (auto simp: session_challenge_for_def res_simps)
  from session_challenge_verifies [OF c] show "mpp_issued X m c"
    by (simp add: mpp_issued_def)
qed

lemma session_details_not_null: "session_options_details options currency \<noteq> JNull"
  by (simp add: session_options_details_def Let_def)

text \<open>
  An issued session challenge is honoured too: echoed before it expires, it reaches the
  session method with exactly the session request the server wrote, and what the session
  method answers is what the caller gets, with its management response.
\<close>

theorem issued_session_is_honoured:
  assumes "movement_session_challenge X now m unit_amount options = Inr c"
    and "mpp_currency m = Some currency" and "mpp_recipient m = Some recipient"
    and "mpp_session_method m = Some session" and "b64url_ok X"
    and "reads_back X session_request_of_json (session_request_to_json
      (session_challenge_request unit_amount currency recipient options))"
    and "ch_expires c = Some e" and "rfc3339_parse X e = Some t" and "later < t"
    and "so_verify session later (credential_new (to_echo c) payload)
      (session_challenge_request unit_amount currency recipient options) st = (Inr rc, st')"
  shows "mpp_verify_session X later m (credential_new (to_echo c) payload) st
    = (Inr \<lparr>sv_receipt = rc,
         sv_management_response = so_respond session (credential_new (to_echo c) payload) rc\<rparr>, st')"
proof -
  let ?req = "session_challenge_request unit_amount currency recipient options"
  note parts = issued_session_parts [OF assms(1-3)]
  have "session_request_of_json (session_request_to_json ?req) = Some ?req"
    using session_request_json_roundtrip [of ?req] session_details_not_null
    by (simp add: session_challenge_request_def)
  then have dec: "decode_session_request X (credential_new (to_echo c) payload) = Inr ?req"
    using b64json_from_typed_decode [OF parts(1) assms(5,6)]
    by (simp add: decode_session_request_def credential_new_def to_echo_def)
  have "verify_hmac_and_expiry X later m (credential_new (to_echo c) payload) = Inr ()"
    using parts(2) assms(7-9) by (simp add: mpp_issued_def hmac_check_of_verified)
  with dec assms(4,10) show ?thesis by (simp add: mpp_verify_session_def)
qed

definition sample_session_options :: movement_session_options where
  "sample_session_options = \<lparr>mo_unit_type = None, mo_suggested_deposit = None,
     mo_module_address = None, mo_registry_address = None, mo_min_voucher_delta = None,
     mo_description = None, mo_expires = Some ''100''\<rparr>"

definition sample_session_world :: crates where
  "sample_session_world = sample_crates\<lparr>json_canonical := \<lambda>_. Inr ''doc'',
     json_from_slice := \<lambda>_. Inr (session_request_to_json
       (session_challenge_request ''3'' ''0xa'' ''0xb'' sample_session_options))\<rparr>"

definition sample_session_ops :: "unit session_ops" where
  "sample_session_ops = \<lparr>so_verify = \<lambda>now credential req st.
      if sr_amount req = ''3'' then (Inr sample_receipt, st)
      else (Inl (ve_invalid_amount ''other terms''), st),
    so_respond = \<lambda>_ _. None\<rparr>"

lemma sample_session_world_laws:
  "b64url_ok sample_session_world" "rfc3339_parse sample_session_world ''100'' = Some 100"
  "reads_back sample_session_world d (session_request_to_json
     (session_challenge_request ''3'' ''0xa'' ''0xb'' sample_session_options))"
  using sample_crates_b64url_ok sample_json_world_laws(3)
  by (simp_all add: sample_session_world_def sample_json_world_def b64url_ok_def reads_back_def)

lemma sample_session_issued:
  obtains c where "movement_session_challenge sample_session_world 0
      (with_session_method sample_session_ops sample_mpp) ''3'' sample_session_options = Inr c"
    and "ch_expires c = Some ''100''"
  by (simp add: movement_session_challenge_def require_movement_config_def sample_mpp_def mpp_new_def
      with_session_method_def session_challenge_for_def b64json_from_typed_def
      sample_session_world_def resolve_expires_def sample_session_options_def)

theorem issued_session_is_honoured_witness:
  "\<exists>c. movement_session_challenge sample_session_world 0
      (with_session_method sample_session_ops sample_mpp) ''3'' sample_session_options = Inr c
     \<and> mpp_verify_session sample_session_world 99 (with_session_method sample_session_ops sample_mpp)
         (credential_new (to_echo c) JNull) ()
       = (Inr \<lparr>sv_receipt = sample_receipt, sv_management_response = None\<rparr>, ())"
proof -
  let ?m = "with_session_method sample_session_ops sample_mpp"
  obtain c where c: "movement_session_challenge sample_session_world 0 ?m ''3'' sample_session_options
      = Inr c" and e: "ch_expires c = Some ''100''"
    by (rule sample_session_issued)
  have "mpp_verify_session sample_session_world 99 ?m (credential_new (to_echo c) JNull) ()
    = (Inr \<lparr>sv_receipt = sample_receipt, sv_management_response =
        so_respond sample_session_ops (credential_new (to_echo c) JNull) sample_receipt\<rparr>, ())"
    by (rule issued_session_is_honoured [OF c _ _ _ _ sample_session_world_laws(3) e
        sample_session_world_laws(2)])
      (simp_all add: sample_session_world_laws with_session_method_def sample_mpp_def mpp_new_def
        sample_session_ops_def session_challenge_request_def)
  with c show ?thesis by (simp add: sample_session_ops_def)
qed

text \<open>
  The charge side does not ask for the intent. A session challenge, echoed before it
  expires, is honoured as a charge of its price per unit: the handler checks neither the method
  nor the intent of the challenge, and a session request reads as a charge request.
\<close>

theorem session_challenge_pays_as_charge:
  assumes "movement_session_challenge X now m unit_amount options = Inr c"
    and "mpp_currency m = Some currency" and "mpp_recipient m = Some recipient" and "b64url_ok X"
    and "reads_back X charge_request_of_json (session_request_to_json
      (session_challenge_request unit_amount currency recipient options))"
    and "ch_expires c = Some e" and "rfc3339_parse X e = Some t" and "later < t"
  shows "verify_credential X later m (credential_new (to_echo c) payload)
    = mpp_method m later (credential_new (to_echo c) payload)
        (charge_request_default\<lparr>cr_amount := unit_amount, cr_currency := currency,
          cr_recipient := Some recipient,
          cr_method_details := Some (session_options_details options currency)\<rparr>)"
proof -
  let ?req = "session_challenge_request unit_amount currency recipient options"
  let ?charge = "charge_request_default\<lparr>cr_amount := unit_amount, cr_currency := currency,
    cr_recipient := Some recipient, cr_method_details := Some (session_options_details options currency)\<rparr>"
  note parts = issued_session_parts [OF assms(1-3)]
  have "charge_request_of_json (session_request_to_json ?req) = Some ?charge"
    by (subst session_request_as_charge)
      (simp add: session_challenge_request_def session_details_not_null charge_request_default_def)
  then have dec: "decode_charge_request X (credential_new (to_echo c) payload) = Inr ?charge"
    using b64json_from_typed_decode [OF parts(1) assms(4,5)]
    by (simp add: decode_charge_request_def credential_new_def to_echo_def)
  have "verify_hmac_and_expiry X later m (credential_new (to_echo c) payload) = Inr ()"
    using parts(2) assms(6-8) by (simp add: mpp_issued_def hmac_check_of_verified)
  with dec show ?thesis by (simp add: verify_credential_def mpp_verify_def)
qed

theorem session_challenge_pays_as_charge_witness:
  "\<exists>c. movement_session_challenge sample_session_world 0
      (with_session_method sample_session_ops sample_mpp) ''3'' sample_session_options = Inr c
     \<and> verify_credential sample_session_world 99
         ((with_session_method sample_session_ops sample_mpp)\<lparr>mpp_method := \<lambda>_ _ req.
            if cr_amount req = ''3'' then Inr sample_receipt else Inl (ve_invalid_amount [])\<rparr>)
         (credential_new (to_echo c) JNull) = Inr sample_receipt"
proof -
  let ?base = "with_session_method sample_session_ops sample_mpp"
  let ?m = "?base\<lparr>mpp_method := \<lambda>_ _ req.
            if cr_amount req = ''3'' then Inr sample_receipt else Inl (ve_invalid_amount [])\<rparr>"
  obtain c where c: "movement_session_challenge sample_session_world 0 ?base ''3'' sample_session_options
      = Inr c" and e: "ch_expires c = Some ''100''"
    by (rule sample_session_issued)
  then have c': "movement_session_challenge sample_session_world 0 ?m ''3'' sample_session_options = Inr c"
    by (simp add: movement_session_challenge_def require_movement_config_def session_challenge_for_def)
  have "verify_credential sample_session_world 99 ?m (credential_new (to_echo c) JNull)
    = mpp_method ?m 99 (credential_new (to_echo c) JNull)
        (charge_request_default\<lparr>cr_amount := ''3'', cr_currency := ''0xa'',
          cr_recipient := Some ''0xb'',
          cr_method_details := Some (session_options_details sample_session_options ''0xa'')\<rparr>)"
    by (rule session_challenge_pays_as_charge [OF c' _ _ _ sample_session_world_laws(3) e
        sample_session_world_laws(2)])
      (simp_all add: sample_session_world_laws with_session_method_def sample_mpp_def mpp_new_def)
  with c show ?thesis by simp
qed

section \<open>One transaction for two challenges\<close>

text \<open>Two requests with the same terms.\<close>

definition same_terms :: "charge_request \<Rightarrow> charge_request \<Rightarrow> bool" where
  "same_terms r s \<longleftrightarrow> cr_amount r = cr_amount s \<and> cr_currency r = cr_currency s
     \<and> cr_recipient r = cr_recipient s"

lemma check_transfer_terms: "same_terms r s \<Longrightarrow> check_transfer body r = check_transfer body s"
  unfolding same_terms_def check_transfer_def amount_u64_def recipient_str_def by (elim conjE) (simp only:)

lemma charge_verify_reads_payload:
  assumes "charge_method_verify X net now url paid req = Inr r"
    and "cred_payload other = cred_payload paid" and "same_terms req req'"
  shows "\<exists>r'. charge_method_verify X net later url other req' = Inr r'
    \<and> rc_reference r' = rc_reference r"
proof -
  have "credential_tx_hash X other = credential_tx_hash X paid"
    unfolding credential_tx_hash_def charge_payload_def assms(2) by (rule refl)
  then obtain h where h: "credential_tx_hash X other = Inr h"
    and v: "verify_tx_hash X net now url h req = Inr r"
    using assms(1) by (auto simp: charge_method_verify_def res_simps)
  from v have r: "rc_reference r = h"
    by (auto simp: verify_tx_hash_def res_simps receipt_success_def split: if_splits)
  from v have "verify_tx_hash X net later url h req' = Inr (receipt_success X later METHOD_NAME h)"
    using check_transfer_terms [OF assms(3)]
    by (auto simp: verify_tx_hash_def res_simps split: if_splits)
  with h r show ?thesis by (simp add: charge_method_verify_def receipt_success_def)
qed

text \<open>
  C19: one transfer pays for every challenge with its terms. Once a credential has been accepted,
  its payload, the hash of the transaction, is accepted again with any other challenge the
  server issued and that has not expired, as long as amount, currency and recipient are the
  same: the handler remembers no transaction it has taken, and nothing in the transaction
  names the challenge. Both receipts carry the same reference.
\<close>

theorem one_transfer_pays_twice:
  assumes "mpp_method m = movement_charge_method X net url"
    and "verify_credential X now m paid = Inr r" and "decode_charge_request X paid = Inr req"
    and "cred_payload other = cred_payload paid" and "decode_charge_request X other = Inr req'"
    and "same_terms req req'" and "mpp_recognizes X m later (cred_challenge other)"
  shows "\<exists>r'. verify_credential X later m other = Inr r' \<and> rc_reference r' = rc_reference r"
proof -
  have "charge_method_verify X net now (charge_method_new url) paid req = Inr r"
    using assms(1-3) by (auto simp: verify_credential_Inr movement_charge_method_def)
  from charge_verify_reads_payload [OF this assms(4,6)] assms(1,5,7) show ?thesis
    by (auto simp: verify_credential_Inr movement_charge_method_def)
qed

text \<open>A transfer of seven base units to \<open>0xb\<close>, a node that knows it, and the credentials that
  name it with two challenges for the sample terms.\<close>

definition sample_transfer :: json where
  "sample_transfer = JObj
     [(''type'', JStr ''user_transaction''), (''success'', JBool True),
      (''payload'', JObj [(''function'', JStr ''0x1::aptos_account::transfer''),
         (''arguments'', JArr [JStr ''0xb'', JStr ''7''])])]"

lemma sample_transfer_pays: "pays sample_transfer sample_terms"
proof -
  have "native_token ''0xa''" unfolding native_token_iff [symmetric]
    by (simp add: is_native_move_def strip_0x_def strip_prefix_def starts_with_def
        trim_start_matches_def eq_ignore_ascii_case_def)
  moreover have "parse_u64 ''7'' = Some 7"
    by (simp add: parse_u64_def parse_uint_def dec_val_def digit_val_def is_ascii_digit_def
        del: One_nat_def)
  moreover have "same_account a a" for a by (simp add: same_account_def)
  ultimately show ?thesis
    by (simp add: pays_def sample_terms_def charge_terms_def charge_request_default_def token_agrees_def
        sample_transfer_def payload_pays_def plain_transfers_def args_pay_def)
qed

definition reuse_world :: crates where
  "reuse_world = sample_crates\<lparr>json_from_slice := \<lambda>bs.
     Inr (if bs = [] then sample_transfer else charge_request_to_json sample_terms)\<rparr>"

definition reuse_net :: network where
  "reuse_net = \<lparr>http_get = \<lambda>_. Response 200 [], http_post = \<lambda>_ _. Transport_Error []\<rparr>"

definition reuse_mpp :: "unit mpp" where
  "reuse_mpp = mpp_new (movement_charge_method reuse_world reuse_net []) ''realm'' ''key''"

definition reuse_credential :: "string \<Rightarrow> payment_credential" where
  "reuse_credential expires = credential_new
     \<lparr>echo_id = compute_challenge_id reuse_world ''key'' ''realm'' (method_as_str (method_name_new METHOD_NAME))
        (intent_as_str (intent_name_new INTENT_CHARGE)) ''00'' (Some expires) None None,
      echo_realm = ''realm'', echo_method = method_name_new METHOD_NAME,
      echo_intent = intent_name_new INTENT_CHARGE, echo_request = from_raw ''00'',
      echo_expires = Some expires, echo_digest = None, echo_opaque = None\<rparr>
     (JObj [(''hash'', JStr ''0x1'')])"

lemma sample_terms_read:
  "charge_request_of_json (charge_request_to_json sample_terms) = Some sample_terms"
  by (subst charge_request_json_roundtrip)
    (simp_all add: sample_terms_def charge_terms_def charge_request_default_def)

lemma reuse_decodes: "decode_charge_request reuse_world (reuse_credential e) = Inr sample_terms"
  by (simp add: decode_charge_request_def reuse_credential_def credential_new_def b64json_decode_def
      base64url_decode_def from_raw_def from_slice_def from_value_def reuse_world_def sample_crates_def
      is_hex_digit_def is_ascii_digit_def hex_digit_val_def sample_terms_read)

lemma reuse_recognized:
  "mpp_recognizes reuse_world reuse_mpp now (cred_challenge (reuse_credential e))
   \<longleftrightarrow> (case rfc3339_parse reuse_world e of None \<Rightarrow> False | Some t \<Rightarrow> now < t)"
  by (simp add: mpp_recognizes_def reuse_credential_def credential_new_def reuse_mpp_def mpp_new_def
      from_raw_def)

lemma reuse_times: "rfc3339_parse reuse_world ''100'' = Some 100" "rfc3339_parse reuse_world ''200'' = Some 200"
  by (simp_all add: reuse_world_def sample_crates_def parse_uint_def dec_val_def digit_val_def
      is_ascii_digit_def del: One_nat_def)

lemma reuse_accepted: "charge_method_verify reuse_world reuse_net now (charge_method_new []) (reuse_credential e) sample_terms
   = Inr (receipt_success reuse_world now METHOD_NAME ''0x1'')"
proof -
  have "lookup_transaction reuse_world reuse_net [] h = Inr sample_transfer" for h
    by (simp add: lookup_transaction_def reuse_net_def is_success_status_def response_json_def from_slice_def
        from_value_def reuse_world_def as_bytes_def)
  moreover have "check_transfer sample_transfer sample_terms = Inr ()"
    using sample_transfer_pays by (simp add: check_transfer_iff)
  moreover have "credential_tx_hash reuse_world (reuse_credential e) = Inr ''0x1''"
    by (simp add: credential_tx_hash_def reuse_credential_def credential_new_def charge_payload_def
        from_value_def payment_payload_of_json_def)
  ultimately show ?thesis
    by (simp add: charge_method_verify_def verify_tx_hash_def charge_method_new_def trim_end_matches_def
        sample_transfer_def get_str_def)
qed

theorem one_transfer_pays_twice_witness:
  "\<exists>r r'. verify_credential reuse_world 5 reuse_mpp (reuse_credential ''100'') = Inr r
     \<and> verify_credential reuse_world 150 reuse_mpp (reuse_credential ''200'') = Inr r'
     \<and> rc_reference r' = rc_reference r"
proof -
  have m: "mpp_method reuse_mpp = movement_charge_method reuse_world reuse_net []"
    by (simp add: reuse_mpp_def mpp_new_def)
  have paid: "verify_credential reuse_world 5 reuse_mpp (reuse_credential ''100'')
      = Inr (receipt_success reuse_world 5 METHOD_NAME ''0x1'')"
    by (simp add: verify_credential_Inr reuse_decodes reuse_recognized reuse_times m
        movement_charge_method_def reuse_accepted)
  have "\<exists>r'. verify_credential reuse_world 150 reuse_mpp (reuse_credential ''200'') = Inr r'
      \<and> rc_reference r' = rc_reference (receipt_success reuse_world 5 METHOD_NAME ''0x1'')"
    by (rule one_transfer_pays_twice [OF m paid reuse_decodes _ reuse_decodes])
      (simp_all add: reuse_recognized reuse_times same_terms_def, simp add: reuse_credential_def credential_new_def)
  with paid show ?thesis by blast
qed

text \<open>The sample challenge paid by the sample transfer, on a server with the Movement method.\<close>

definition paid_world :: crates where
  "paid_world = sample_json_world\<lparr>json_from_slice := \<lambda>bs.
     Inr (if bs = [] then sample_transfer else charge_request_to_json sample_terms)\<rparr>"

definition paid_mpp :: "unit mpp" where
  "paid_mpp = sample_mpp\<lparr>mpp_method := movement_charge_method paid_world reuse_net []\<rparr>"

theorem issued_charge_is_honoured_witness:
  "\<exists>c. movement_charge_with_options paid_world 0 paid_mpp ''7'' sample_options = Inr c
     \<and> verify_credential paid_world 99 paid_mpp
         (credential_new (to_echo c) (JObj [(''hash'', JStr ''0x1'')]))
       = Inr (receipt_success paid_world 99 METHOD_NAME ''0x1'')"
proof -
  obtain c where c: "movement_charge_with_options paid_world 0 paid_mpp ''7'' sample_options = Inr c"
    and e: "ch_expires c = Some ''100''"
    by (simp add: movement_charge_with_options_def require_movement_config_def paid_mpp_def sample_mpp_def
        mpp_new_def sample_dollar_amount charge_challenge_with_options_def charge_with_base_units_def
        charge_request_default_def b64json_from_typed_def paid_world_def sample_json_world_def
        resolve_expires_def sample_options_def charge_options_default_def)
  have laws: "b64url_ok paid_world" "rfc3339_parse paid_world ''100'' = Some 100"
    using sample_json_world_laws by (simp_all add: paid_world_def b64url_ok_def)
  have read: "reads_back paid_world charge_request_of_json (charge_request_to_json sample_terms)"
    by (simp add: reads_back_def paid_world_def) (simp add: sample_json_world_def as_bytes_def)
  have "names_hash (JObj [(''hash'', JStr ''0x1'')]) ''0x1''"
    by (simp add: names_hash_def payment_payload_of_json_def)
  moreover have "reports paid_world reuse_net (charge_method_new []) ''0x1'' sample_transfer"
    by (simp add: reports_def reuse_net_def paid_world_def as_bytes_def)
  moreover have "succeeded sample_transfer" by (simp add: succeeded_def sample_transfer_def)
  ultimately have "verify_credential paid_world 99 paid_mpp
         (credential_new (to_echo c) (JObj [(''hash'', JStr ''0x1'')]))
       = Inr (receipt_success paid_world 99 METHOD_NAME ''0x1'')"
    using sample_transfer_pays
    by (subst issued_charge_is_honoured [OF c _ _ _ laws(1) _ e laws(2), where recipient = "''0xb''"
          and currency = "''0xa''" and base_units = "''7''" and net = reuse_net and rest_url = "[]"])
      (auto simp: laws read sample_terms_def [symmetric] paid_mpp_def sample_mpp_def mpp_new_def
        sample_dollar_amount)
  with c show ?thesis by blast
qed

end
