(* ===== verification/Rest_Client.thy ===== *)
theory Rest_Client
  imports Errors Http
begin

text \<open>
  The Movement REST client (src/protocol/methods/movement/rest_client.rs): building, signing
  and submitting a transaction over four calls. The \<open>reqwest\<close> client is the network parameter;
  the signing key is its bytes; the system clock is in nanoseconds.
\<close>

section \<open>Requests and answers\<close>

record account_info =
  ai_sequence_number :: string
  ai_authentication_key :: string

record transaction_info =
  ti_hash :: string
  ti_success :: bool
  ti_vm_status :: string
  ti_tx_type :: string

record entry_function_payload =
  efp_type :: string
  efp_function :: string
  efp_type_arguments :: "string list"
  efp_arguments :: "json list"

record transaction_request =
  tr_sender :: string
  tr_sequence_number :: string
  tr_max_gas_amount :: string
  tr_gas_unit_price :: string
  tr_expiration_timestamp_secs :: string
  tr_payload :: entry_function_payload

record transaction_signature =
  ts_type :: string
  ts_public_key :: string
  ts_signature :: string

definition account_info_of_json :: "json \<Rightarrow> account_info option" where
  "account_info_of_json j =
     Option.bind (field_req as_str ''sequence_number'' j) (\<lambda>n.
     Option.bind (field_req as_str ''authentication_key'' j) (\<lambda>k.
     Some \<lparr>ai_sequence_number = n, ai_authentication_key = k\<rparr>))"

definition pending_hash_of_json :: "json \<Rightarrow> string option" where
  "pending_hash_of_json j = field_req as_str ''hash'' j"

text \<open>\<open>vm_status\<close> is \<open>#[serde(default)]\<close>: absent is empty, another type is an error.\<close>

definition transaction_info_of_json :: "json \<Rightarrow> transaction_info option" where
  "transaction_info_of_json j =
     Option.bind (field_req as_str ''hash'' j) (\<lambda>h.
     Option.bind (field_req as_bool ''success'' j) (\<lambda>s.
     Option.bind (case json_get ''vm_status'' j of None \<Rightarrow> Some [] | Some v \<Rightarrow> as_str v) (\<lambda>vm.
     Option.bind (field_req as_str ''type'' j) (\<lambda>ty.
     Some \<lparr>ti_hash = h, ti_success = s, ti_vm_status = vm, ti_tx_type = ty\<rparr>))))"

definition efp_new :: "string \<Rightarrow> json list \<Rightarrow> entry_function_payload" where
  "efp_new function args =
     \<lparr>efp_type = ''entry_function_payload'', efp_function = function, efp_type_arguments = [],
      efp_arguments = args\<rparr>"

definition with_type_arguments :: "string list \<Rightarrow> entry_function_payload \<Rightarrow> entry_function_payload" where
  "with_type_arguments tys p = p\<lparr>efp_type_arguments := tys\<rparr>"

definition efp_to_json :: "entry_function_payload \<Rightarrow> json" where
  "efp_to_json p = JObj
     [(''type'', JStr (efp_type p)), (''function'', JStr (efp_function p)),
      (''type_arguments'', JArr (map JStr (efp_type_arguments p))),
      (''arguments'', JArr (efp_arguments p))]"

definition transaction_request_fields :: "transaction_request \<Rightarrow> (string \<times> json) list" where
  "transaction_request_fields r =
     [(''sender'', JStr (tr_sender r)), (''sequence_number'', JStr (tr_sequence_number r)),
      (''max_gas_amount'', JStr (tr_max_gas_amount r)),
      (''gas_unit_price'', JStr (tr_gas_unit_price r)),
      (''expiration_timestamp_secs'', JStr (tr_expiration_timestamp_secs r)),
      (''payload'', efp_to_json (tr_payload r))]"

definition transaction_signature_to_json :: "transaction_signature \<Rightarrow> json" where
  "transaction_signature_to_json s = JObj
     [(''type'', JStr (ts_type s)), (''public_key'', JStr (ts_public_key s)),
      (''signature'', JStr (ts_signature s))]"

definition signed_request_to_json :: "transaction_request \<Rightarrow> transaction_signature \<Rightarrow> json" where
  "signed_request_to_json r s =
     JObj (transaction_request_fields r @ [(''signature'', transaction_signature_to_json s)])"

section \<open>Calls\<close>

definition rest_client_new :: "string \<Rightarrow> string" where
  "rest_client_new rest_url = trim_end_matches CHR ''/'' rest_url"

definition rest_answer ::
  "crates \<Rightarrow> string \<Rightarrow> string \<Rightarrow> string \<Rightarrow> string \<Rightarrow> (json \<Rightarrow> 'a option) \<Rightarrow> http_result \<Rightarrow> mpp_error + 'a" where
  "rest_answer X transport status_prefix parse_prefix ty d r =
     (case r of
        Transport_Error e \<Rightarrow> Inl (MppHttp (transport @ e))
      | Response status text \<Rightarrow>
          if \<not> is_success_status status then Inl (MppHttp (status_prefix @ text))
          else map_err (\<lambda>e. MppHttp (parse_prefix @ e)) (response_json X ty d text))"

definition get_account :: "crates \<Rightarrow> network \<Rightarrow> string \<Rightarrow> string \<Rightarrow> mpp_error + account_info" where
  "get_account X net url address =
     rest_answer X ''failed to get account: '' ''get account failed: ''
       ''failed to parse account info: '' ''AccountInfo'' account_info_of_json
       (http_get net (url @ ''/accounts/'' @ address))"

definition encode_submission ::
  "crates \<Rightarrow> network \<Rightarrow> string \<Rightarrow> transaction_request \<Rightarrow> mpp_error + bytes" where
  "encode_submission X net url request =
     and_then (rest_answer X ''encode_submission failed: '' ''encode_submission error: ''
       ''failed to parse encode_submission response: '' ''String'' as_str
       (http_post net (url @ ''/transactions/encode_submission'')
         (JObj (transaction_request_fields request)))) (\<lambda>hex_str.
     map_err (\<lambda>e. MppHttp (''invalid hex in encode_submission response: '' @ e))
       (hex_decode X (strip_0x hex_str)))"

definition submit_transaction ::
  "crates \<Rightarrow> network \<Rightarrow> string \<Rightarrow> transaction_request \<Rightarrow> transaction_signature \<Rightarrow> mpp_error + string" where
  "submit_transaction X net url request signature =
     rest_answer X ''submit transaction failed: '' ''submit transaction error: ''
       ''failed to parse submission response: '' ''PendingTransaction'' pending_hash_of_json
       (http_post net (url @ ''/transactions'') (signed_request_to_json request signature))"

definition wait_for_transaction ::
  "crates \<Rightarrow> network \<Rightarrow> string \<Rightarrow> string \<Rightarrow> mpp_error + transaction_info" where
  "wait_for_transaction X net url hash =
     rest_answer X ''wait_for_transaction failed: '' ''wait_for_transaction error: ''
       ''failed to parse transaction info: '' ''TransactionInfo'' transaction_info_of_json
       (http_get net (url @ ''/transactions/wait_by_hash/'' @ hash))"

definition DEFAULT_MAX_GAS_AMOUNT :: string where "DEFAULT_MAX_GAS_AMOUNT = ''200000''"
definition DEFAULT_GAS_UNIT_PRICE :: string where "DEFAULT_GAS_UNIT_PRICE = ''100''"

definition build_sign_submit_with_gas ::
  "crates \<Rightarrow> network \<Rightarrow> int \<Rightarrow> string \<Rightarrow> bytes \<Rightarrow> string \<Rightarrow> entry_function_payload \<Rightarrow> string \<Rightarrow> string
   \<Rightarrow> mpp_error + string" where
  "build_sign_submit_with_gas X net now url signing_key sender payload max_gas gas_price =
     and_then (get_account X net url sender) (\<lambda>account.
     and_then (if now < 0 then Inl (MppHttp ''system clock error: second time provided was later than self'')
       else Inr (nat (now div 10 ^ 9) + 300)) (\<lambda>expiration.
     let request = \<lparr>tr_sender = sender, tr_sequence_number = ai_sequence_number account,
           tr_max_gas_amount = max_gas, tr_gas_unit_price = gas_price,
           tr_expiration_timestamp_secs = show_nat expiration, tr_payload = payload\<rparr> in
     and_then (encode_submission X net url request) (\<lambda>signing_message.
     let signature = \<lparr>ts_type = ''ed25519_signature'',
           ts_public_key = ''0x'' @ hex_encode X (ed_public X signing_key),
           ts_signature = ''0x'' @ hex_encode X (ed_sign X signing_key signing_message)\<rparr> in
     and_then (submit_transaction X net url request signature) (\<lambda>hash.
     and_then (wait_for_transaction X net url hash) (\<lambda>info.
     if \<not> ti_success info then Inl (MppHttp (''transaction failed: '' @ ti_vm_status info))
     else Inr hash)))))"

definition build_sign_submit ::
  "crates \<Rightarrow> network \<Rightarrow> int \<Rightarrow> string \<Rightarrow> bytes \<Rightarrow> string \<Rightarrow> entry_function_payload \<Rightarrow> mpp_error + string" where
  "build_sign_submit X net now url signing_key sender payload =
     build_sign_submit_with_gas X net now url signing_key sender payload DEFAULT_MAX_GAS_AMOUNT
       DEFAULT_GAS_UNIT_PRICE"

end
