(* ===== verification/Client_Movement.thy ===== *)
theory Client_Movement
  imports Rest_Client Charge_Method Voucher
begin

text \<open>
  The Movement payment provider (src/client/movement/mod.rs): paying a charge by submitting a
  transfer, the channel operations on chain, address derivation and parsing.
  The client's copy of \<open>is_native_move\<close> is the server's, letter for letter, and shares its
  definition.
\<close>

section \<open>Addresses\<close>

definition derive_address :: "crates \<Rightarrow> bytes \<Rightarrow> string" where
  "derive_address X pubkey = ''0x'' @ hex_encode X (sha3_256 X (pubkey @ [0x00]))"

definition parse_address_bytes :: "crates \<Rightarrow> string \<Rightarrow> mpp_error + bytes" where
  "parse_address_bytes X addr =
     and_then (map_err (\<lambda>e. MppHttp (''invalid address hex '' @ squote @ addr @ squote @ '': '' @ e))
       (hex_decode X (pad_left_64 (strip_0x addr)))) (\<lambda>bs.
     if length bs = 32 then Inr bs else Inl (MppHttp (''address must be 32 bytes: '' @ addr)))"

section \<open>The provider\<close>

record movement_provider =
  mv_signing_key :: bytes
  mv_sender_address :: string
  mv_rest_url :: string

definition movement_provider_new :: "crates \<Rightarrow> bytes \<Rightarrow> string \<Rightarrow> movement_provider" where
  "movement_provider_new X signing_key rest_url =
     \<lparr>mv_signing_key = signing_key, mv_sender_address = derive_address X (ed_public X signing_key),
      mv_rest_url = rest_client_new rest_url\<rparr>"

definition movement_provider_with_address :: "bytes \<Rightarrow> string \<Rightarrow> string \<Rightarrow> movement_provider" where
  "movement_provider_with_address signing_key rest_url address =
     \<lparr>mv_signing_key = signing_key, mv_sender_address = address,
      mv_rest_url = rest_client_new rest_url\<rparr>"

definition provider_submit ::
  "crates \<Rightarrow> network \<Rightarrow> int \<Rightarrow> movement_provider \<Rightarrow> entry_function_payload \<Rightarrow> mpp_error + string" where
  "provider_submit X net now p payload =
     build_sign_submit X net now (mv_rest_url p) (mv_signing_key p) (mv_sender_address p) payload"

definition build_transfer_payload :: "string \<Rightarrow> string \<Rightarrow> u64 \<Rightarrow> entry_function_payload" where
  "build_transfer_payload currency recipient amount =
     (if is_native_move currency
      then efp_new ''0x1::aptos_account::transfer'' [JStr recipient, JStr (show_u64 amount)]
      else with_type_arguments [''0x1::fungible_asset::Metadata'']
        (efp_new ''0x1::primary_fungible_store::transfer''
          [JStr currency, JStr recipient, JStr (show_u64 amount)]))"

definition pay_charge ::
  "crates \<Rightarrow> network \<Rightarrow> int \<Rightarrow> movement_provider \<Rightarrow> payment_challenge \<Rightarrow> mpp_error + payment_credential" where
  "pay_charge X net now p challenge =
     and_then (b64json_decode X ''ChargeRequest'' charge_request_of_json (ch_request challenge)) (\<lambda>req.
     and_then (amount_u64 req) (\<lambda>amount.
     and_then (recipient_str req) (\<lambda>recipient.
     and_then (provider_submit X net now p
       (build_transfer_payload (cr_currency req) recipient amount)) (\<lambda>hash.
     Inr (credential_new (to_echo challenge) (payment_payload_to_json (payload_hash hash)))))))"

definition provider_supports :: "string \<Rightarrow> string \<Rightarrow> bool" where
  "provider_supports method intent \<longleftrightarrow>
     method = METHOD_NAME \<and> (intent = INTENT_CHARGE \<or> intent = INTENT_SESSION)"

definition provider_pay ::
  "crates \<Rightarrow> network \<Rightarrow> int \<Rightarrow> movement_provider \<Rightarrow> payment_challenge \<Rightarrow> mpp_error + payment_credential" where
  "provider_pay X net now p challenge =
     (let intent = intent_as_str (ch_intent challenge) in
      if intent = ''charge'' then pay_charge X net now p challenge
      else if intent = ''session'' then pay_charge X net now p challenge
      else Inl (MppUnsupportedPaymentMethod (''unsupported intent: '' @ intent)))"

section \<open>Channel transactions\<close>

definition open_payload ::
  "crates \<Rightarrow> string \<Rightarrow> string \<Rightarrow> string \<Rightarrow> string \<Rightarrow> u64 \<Rightarrow> bytes \<Rightarrow> bytes \<Rightarrow> entry_function_payload" where
  "open_payload X module_addr registry_addr payee token deposit salt pubkey =
     efp_new (module_addr @ ''::channel::open'')
       [JStr registry_addr, JStr payee, JStr token, JStr (show_u64 deposit),
        JStr (''0x'' @ hex_encode X salt), JStr (''0x'' @ hex_encode X pubkey)]"

definition open_channel ::
  "crates \<Rightarrow> network \<Rightarrow> int \<Rightarrow> movement_provider \<Rightarrow> string \<Rightarrow> string \<Rightarrow> string \<Rightarrow> string \<Rightarrow> u64 \<Rightarrow> bytes
   \<Rightarrow> mpp_error + string \<times> bytes" where
  "open_channel X net now p module_addr registry_addr payee token deposit salt =
     (let pubkey = ed_public X (mv_signing_key p) in
      and_then (provider_submit X net now p
        (open_payload X module_addr registry_addr payee token deposit salt pubkey)) (\<lambda>hash.
      and_then (parse_address_bytes X (mv_sender_address p)) (\<lambda>payer_bytes.
      and_then (parse_address_bytes X payee) (\<lambda>payee_bytes.
      and_then (parse_address_bytes X token) (\<lambda>token_bytes.
      Inr (hash, compute_channel_id X payer_bytes payee_bytes token_bytes salt pubkey))))))"

definition voucher_payload ::
  "crates \<Rightarrow> string \<Rightarrow> string \<Rightarrow> bytes \<Rightarrow> u64 \<Rightarrow> bytes \<Rightarrow> bytes \<Rightarrow> entry_function_payload" where
  "voucher_payload X function registry_addr channel_id amount signature pubkey =
     efp_new function
       [JStr registry_addr, JStr (''0x'' @ hex_encode X channel_id), JStr (show_u64 amount),
        JStr (''0x'' @ hex_encode X signature), JStr (''0x'' @ hex_encode X pubkey)]"

definition settle_channel ::
  "crates \<Rightarrow> network \<Rightarrow> int \<Rightarrow> movement_provider \<Rightarrow> string \<Rightarrow> string \<Rightarrow> bytes \<Rightarrow> u64 \<Rightarrow> bytes \<Rightarrow> bytes
   \<Rightarrow> mpp_error + string" where
  "settle_channel X net now p module_addr registry_addr channel_id amount signature pubkey =
     provider_submit X net now p
       (voucher_payload X (module_addr @ ''::channel::settle'') registry_addr channel_id amount
         signature pubkey)"

definition close_channel ::
  "crates \<Rightarrow> network \<Rightarrow> int \<Rightarrow> movement_provider \<Rightarrow> string \<Rightarrow> string \<Rightarrow> bytes \<Rightarrow> u64 \<Rightarrow> bytes \<Rightarrow> bytes
   \<Rightarrow> mpp_error + string" where
  "close_channel X net now p module_addr registry_addr channel_id amount signature pubkey =
     provider_submit X net now p
       (voucher_payload X (module_addr @ ''::channel::close'') registry_addr channel_id amount
         signature pubkey)"

definition provider_sign_voucher :: "crates \<Rightarrow> movement_provider \<Rightarrow> bytes \<Rightarrow> u64 \<Rightarrow> bytes" where
  "provider_sign_voucher X p channel_id amount = sign_voucher X (mv_signing_key p) channel_id amount"

end
