(* ===== verification/Client_Session.thy ===== *)
theory Client_Session
  imports Client_Movement Session_Claims Headers
begin

text \<open>
  The session provider (src/client/movement/session.rs): one payment channel per payee,
  currency and module, opened on chain at the first payment and paid by vouchers of a growing
  cumulative amount after that. The state is the provider with its channel map and the last
  challenge. The random salt is an argument of \<open>session_pay\<close>. \<open>HashMap::values().find\<close> runs in
  an unspecified order: which open channel it finds is the parameter \<open>pick\<close>. The addition to the
  cumulative amount is that of a release build. The lock is held for the whole voucher branch,
  and only around the insertion in the opening branch; one payment at a time is modelled.
\<close>

section \<open>State\<close>

record channel_entry =
  ce_channel_id :: bytes
  ce_salt :: bytes
  ce_cumulative_amount :: u64
  ce_module_address :: string
  ce_opened :: bool
  ce_authorized_pubkey :: bytes
  ce_highest_signature :: bytes

record session_provider =
  sp_signing_key :: bytes
  sp_sender_address :: string
  sp_rest_url :: string
  sp_max_deposit :: "u64 option"
  sp_default_deposit :: "u64 option"
  sp_channels :: "string \<rightharpoonup> channel_entry"
  sp_last_challenge :: "payment_challenge option"

definition session_provider_new :: "crates \<Rightarrow> bytes \<Rightarrow> string \<Rightarrow> session_provider" where
  "session_provider_new X signing_key rest_url =
     \<lparr>sp_signing_key = signing_key, sp_sender_address = derive_address X (ed_public X signing_key),
      sp_rest_url = rest_client_new rest_url, sp_max_deposit = None, sp_default_deposit = None,
      sp_channels = Map.empty, sp_last_challenge = None\<rparr>"

definition with_max_deposit :: "u64 \<Rightarrow> session_provider \<Rightarrow> session_provider" where
  "with_max_deposit amount p = p\<lparr>sp_max_deposit := Some amount\<rparr>"

definition with_default_deposit :: "u64 \<Rightarrow> session_provider \<Rightarrow> session_provider" where
  "with_default_deposit amount p = p\<lparr>sp_default_deposit := Some amount\<rparr>"

text \<open>Which open channel a search of the map finds: none when none is open, and one of them
  otherwise.\<close>

definition finds_open :: "((string \<rightharpoonup> channel_entry) \<Rightarrow> channel_entry option) \<Rightarrow> bool" where
  "finds_open pick \<longleftrightarrow> (\<forall>channels.
     (case pick channels of
        None \<Rightarrow> \<not> (\<exists>k e. channels k = Some e \<and> ce_opened e)
      | Some e \<Rightarrow> ce_opened e \<and> (\<exists>k. channels k = Some e)))"

definition cumulative ::
  "((string \<rightharpoonup> channel_entry) \<Rightarrow> channel_entry option) \<Rightarrow> session_provider \<Rightarrow> u64" where
  "cumulative pick p = (case pick (sp_channels p) of Some e \<Rightarrow> ce_cumulative_amount e | None \<Rightarrow> 0)"

definition resolve_deposit :: "session_provider \<Rightarrow> string option \<Rightarrow> mpp_error + u64" where
  "resolve_deposit p suggested =
     (case (Option.bind suggested parse_u64, sp_max_deposit p, sp_default_deposit p) of
        (Some s, Some mx, _) \<Rightarrow> Inr (min s mx)
      | (Some s, None, _) \<Rightarrow> Inr s
      | (None, Some mx, _) \<Rightarrow> Inr mx
      | (None, None, Some def) \<Rightarrow> Inr def
      | (None, None, None) \<Rightarrow> Inl (MppInvalidConfig
          (''no deposit amount: server didn'' @ squote
            @ ''t suggest one and no max_deposit/default_deposit set'')))"

definition channel_key :: "string \<Rightarrow> string \<Rightarrow> string \<Rightarrow> string" where
  "channel_key payee currency module_addr =
     to_ascii_lowercase payee @ '':'' @ to_ascii_lowercase currency @ '':''
       @ to_ascii_lowercase module_addr"

definition session_provider_supports :: "string \<Rightarrow> string \<Rightarrow> bool" where
  "session_provider_supports method intent \<longleftrightarrow> method = METHOD_NAME \<and> intent = INTENT_SESSION"

section \<open>Paying\<close>

definition prefixed_hex :: "crates \<Rightarrow> bytes \<Rightarrow> string" where
  "prefixed_hex X bs = ''0x'' @ hex_encode X bs"

definition voucher_json :: "crates \<Rightarrow> string \<Rightarrow> bytes \<Rightarrow> u64 \<Rightarrow> bytes \<Rightarrow> json" where
  "voucher_json X action channel_id amount sig = JObj
     [(''action'', JStr action), (''channelId'', JStr (prefixed_hex X channel_id)),
      (''cumulativeAmount'', JStr (show_u64 amount)), (''signature'', JStr (prefixed_hex X sig))]"

definition open_json :: "crates \<Rightarrow> string \<Rightarrow> bytes \<Rightarrow> bytes \<Rightarrow> u64 \<Rightarrow> bytes \<Rightarrow> json" where
  "open_json X tx channel_id pubkey amount sig = JObj
     [(''action'', JStr ''open''), (''txHash'', JStr tx),
      (''channelId'', JStr (prefixed_hex X channel_id)),
      (''authorizedSigner'', JStr (prefixed_hex X pubkey)),
      (''cumulativeAmount'', JStr (show_u64 amount)), (''signature'', JStr (prefixed_hex X sig))]"

text \<open>The branch for an open channel: raise, sign, answer.\<close>

definition raise_entry :: "crates \<Rightarrow> bytes \<Rightarrow> u64 \<Rightarrow> channel_entry \<Rightarrow> channel_entry" where
  "raise_entry X signing_key amount e =
     (let total = ce_cumulative_amount e + amount in
      e\<lparr>ce_cumulative_amount := total,
        ce_highest_signature := sign_voucher X signing_key (ce_channel_id e) total\<rparr>)"

definition pay_by_voucher ::
  "crates \<Rightarrow> session_provider \<Rightarrow> string \<Rightarrow> challenge_echo \<Rightarrow> u64 \<Rightarrow> channel_entry
   \<Rightarrow> payment_credential \<times> session_provider" where
  "pay_by_voucher X p key echo amount e =
     (let e' = raise_entry X (sp_signing_key p) amount e in
      (credential_new echo (voucher_json X ''voucher'' (ce_channel_id e') (ce_cumulative_amount e')
         (ce_highest_signature e')),
       p\<lparr>sp_channels := (sp_channels p)(key \<mapsto> e')\<rparr>))"

definition opened_entry ::
  "crates \<Rightarrow> session_provider \<Rightarrow> bytes \<Rightarrow> bytes \<Rightarrow> u64 \<Rightarrow> string \<Rightarrow> channel_entry" where
  "opened_entry X p channel_id salt amount module_addr =
     \<lparr>ce_channel_id = channel_id, ce_salt = salt, ce_cumulative_amount = amount,
      ce_module_address = module_addr, ce_opened = True,
      ce_authorized_pubkey = ed_public X (sp_signing_key p),
      ce_highest_signature = sign_voucher X (sp_signing_key p) channel_id amount\<rparr>"

text \<open>The branch for a new channel: deposit, open transaction and identifier; then the initial
  voucher.\<close>

definition open_submission ::
  "crates \<Rightarrow> network \<Rightarrow> int \<Rightarrow> bytes \<Rightarrow> session_provider \<Rightarrow> session_request \<Rightarrow> string \<Rightarrow> string
   \<Rightarrow> mpp_error + string \<times> bytes" where
  "open_submission X net now salt p req payee module_addr =
     (let registry_addr = unwrap_or module_addr (registry_address req);
          token = unwrap_or (sr_currency req) (token_metadata req);
          pubkey = ed_public X (sp_signing_key p) in
      and_then (resolve_deposit p (sr_suggested_deposit req)) (\<lambda>deposit.
      and_then (build_sign_submit X net now (sp_rest_url p) (sp_signing_key p) (sp_sender_address p)
        (open_payload X module_addr registry_addr payee token deposit salt pubkey)) (\<lambda>hash.
      and_then (parse_address_bytes X (sp_sender_address p)) (\<lambda>payer_bytes.
      and_then (parse_address_bytes X payee) (\<lambda>payee_bytes.
      and_then (parse_address_bytes X token) (\<lambda>token_bytes.
      Inr (hash, compute_channel_id X payer_bytes payee_bytes token_bytes salt pubkey)))))))"

definition pay_by_opening ::
  "crates \<Rightarrow> network \<Rightarrow> int \<Rightarrow> bytes \<Rightarrow> session_provider \<Rightarrow> string \<Rightarrow> challenge_echo \<Rightarrow> session_request
   \<Rightarrow> u64 \<Rightarrow> string \<Rightarrow> string \<Rightarrow> (mpp_error + payment_credential) \<times> session_provider" where
  "pay_by_opening X net now salt p key echo req amount payee module_addr =
     (case open_submission X net now salt p req payee module_addr of
        Inl e \<Rightarrow> (Inl e, p)
      | Inr (hash, channel_id) \<Rightarrow>
          let e = opened_entry X p channel_id salt amount module_addr in
          (Inr (credential_new echo (open_json X hash channel_id (ed_public X (sp_signing_key p)) amount
             (ce_highest_signature e))),
           p\<lparr>sp_channels := (sp_channels p)(key \<mapsto> e)\<rparr>))"

text \<open>The text of the \<open>ParseIntError\<close> that \<open>parse::<u64>\<close> gives: digits are read until one is not a
  digit or the value no longer fits.\<close>

fun parse_u64_scan_error :: "nat \<Rightarrow> string \<Rightarrow> string" where
  "parse_u64_scan_error a [] = ''cannot parse integer from empty string''"
| "parse_u64_scan_error a (c # s) =
     (if \<not> is_ascii_digit c then ''invalid digit found in string''
      else if u64_max < 10 * a + digit_val c then ''number too large to fit in target type''
      else parse_u64_scan_error (10 * a + digit_val c) s)"

definition parse_u64_error :: "string \<Rightarrow> string" where
  "parse_u64_error s =
     (case s of
        c # r \<Rightarrow> parse_u64_scan_error 0 (if c = CHR ''+'' \<and> r \<noteq> [] then r else s)
      | [] \<Rightarrow> parse_u64_scan_error 0 s)"

text \<open>What \<open>pay\<close> reads from the challenge: amount, payee, module, and the request.\<close>

definition session_terms ::
  "crates \<Rightarrow> payment_challenge \<Rightarrow> mpp_error + session_request \<times> u64 \<times> string \<times> string" where
  "session_terms X challenge =
     and_then (b64json_decode X ''SessionRequest'' session_request_of_json (ch_request challenge)) (\<lambda>req.
     and_then (ok_or (MppInvalidAmount (''invalid session amount: '' @ parse_u64_error (sr_amount req)))
       (parse_u64 (sr_amount req))) (\<lambda>amount.
     and_then (ok_or (MppInvalidConfig ''no recipient in session challenge'') (sr_recipient req)) (\<lambda>payee.
     Inr (req, amount, payee,
       case module_address req of Inr m \<Rightarrow> m | Inl _ \<Rightarrow> DEFAULT_MODULE_ADDRESS))))"

definition session_pay ::
  "crates \<Rightarrow> network \<Rightarrow> int \<Rightarrow> bytes \<Rightarrow> payment_challenge \<Rightarrow> session_provider
   \<Rightarrow> (mpp_error + payment_credential) \<times> session_provider" where
  "session_pay X net now salt challenge p0 =
     (let p = p0\<lparr>sp_last_challenge := Some challenge\<rparr> in
      case session_terms X challenge of
        Inl e \<Rightarrow> (Inl e, p)
      | Inr (req, amount, payee, module_addr) \<Rightarrow>
          let key = channel_key payee (sr_currency req) module_addr; echo = to_echo challenge in
          (case sp_channels p key of
             Some e \<Rightarrow>
               if ce_opened e
               then (let (cred, p') = pay_by_voucher X p key echo amount e in (Inr cred, p'))
               else pay_by_opening X net now salt p key echo req amount payee module_addr
           | None \<Rightarrow> pay_by_opening X net now salt p key echo req amount payee module_addr))"

section \<open>Closing\<close>

text \<open>\<open>close\<close> sends the credential of the last challenge for an open channel and reads the
  answer: \<open>post\<close> is the POST to the close URL with the \<open>Authorization\<close> value, answered with a
  status, the \<open>payment-receipt\<close> header if it is text, and a body. It takes \<open>&self\<close> and leaves the
  provider as it is.\<close>

datatype close_answer = Close_Transport string | Close_Response nat "string option" string

definition close_credential ::
  "crates \<Rightarrow> bytes \<Rightarrow> payment_challenge \<Rightarrow> channel_entry \<Rightarrow> payment_credential" where
  "close_credential X signing_key challenge e =
     credential_new (to_echo challenge)
       (voucher_json X ''close'' (ce_channel_id e) (ce_cumulative_amount e)
         (sign_voucher X signing_key (ce_channel_id e) (ce_cumulative_amount e)))"

definition session_close ::
  "crates \<Rightarrow> ((string \<rightharpoonup> channel_entry) \<Rightarrow> channel_entry option) \<Rightarrow> (string \<Rightarrow> close_answer)
   \<Rightarrow> session_provider \<Rightarrow> mpp_error + receipt option" where
  "session_close X pick post p =
     (case (sp_last_challenge p, pick (sp_channels p)) of
        (Some challenge, Some e) \<Rightarrow>
          and_then (map_err (\<lambda>er. MppHttp (''failed to format close credential: '' @ mpp_error_display er))
            (format_authorization X (close_credential X (sp_signing_key p) challenge e))) (\<lambda>auth_header.
          case post auth_header of
            Close_Transport er \<Rightarrow> Inl (MppHttp (''close request failed: '' @ er))
          | Close_Response status receipt_hdr text \<Rightarrow>
              if is_success_status status
              then Inr (Option.bind receipt_hdr (\<lambda>s. ok_opt (parse_receipt X s)))
              else Inl (MppHttp (''close failed: '' @ text)))
      | _ \<Rightarrow> Inr None)"

section \<open>The payloads as the server reads them\<close>

lemma voucher_json_reads:
  "session_payload_of_json (voucher_json X ''voucher'' cid n sig)
   = Some (Voucher (prefixed_hex X cid) (show_u64 n) (prefixed_hex X sig))"
  "session_payload_of_json (voucher_json X ''close'' cid n sig)
   = Some (Close (prefixed_hex X cid) (show_u64 n) (prefixed_hex X sig))"
  by (simp_all add: voucher_json_def session_payload_of_json_def voucher_fields_def get_str_def)

lemma open_json_reads:
  "session_payload_of_json (open_json X tx cid pk n sig)
   = Some (Open tx (prefixed_hex X cid) (Some (prefixed_hex X pk)) (show_u64 n) (prefixed_hex X sig))"
  by (simp add: open_json_def session_payload_of_json_def get_str_def field_opt_def)

lemma prefixed_hex_decodes: "hex_ok X \<Longrightarrow> hex_decode X (strip_0x (prefixed_hex X bs)) = Inr bs"
  unfolding prefixed_hex_def by (rule hex_text_decodes)

section \<open>Client and server in step\<close>

text \<open>The client's entry and the server's stored channel agree: same identifier, same signer, and
  the server's highest voucher is the client's cumulative amount.\<close>

definition in_step :: "crates \<Rightarrow> bytes \<Rightarrow> channel_entry \<Rightarrow> mem_store \<Rightarrow> bool" where
  "in_step X signing_key e st \<longleftrightarrow> ce_opened e \<and>
     (case st (prefixed_hex X (ce_channel_id e)) of
        None \<Rightarrow> False
      | Some c \<Rightarrow> \<not> cs_finalized c \<and> cs_authorized_signer_pubkey c = ed_public X signing_key
          \<and> cs_highest_voucher_amount c = ce_cumulative_amount e)"

lemma voucher_keeps_step:
  assumes "hex_ok X" and "ed25519_ok X" and "in_step X k e st"
    and "st (prefixed_hex X (ce_channel_id e)) = Some c"
    and "unat (ce_cumulative_amount e) + unat amount \<le> unat (cs_deposit c)"
    and "0 < amount" and "resolve_min_delta cfg d \<le> amount"
  shows "\<exists>rc st'. handle_voucher X now cfg mem_channels d (prefixed_hex X (ce_channel_id e))
      (show_u64 (ce_cumulative_amount (raise_entry X k amount e)))
      (prefixed_hex X (ce_highest_signature (raise_entry X k amount e))) st = (Inr rc, st')
    \<and> in_step X k (raise_entry X k amount e) st'
    \<and> st' = st(prefixed_hex X (ce_channel_id e) \<mapsto>
         raise_voucher c (ce_cumulative_amount e + amount)
           (ce_highest_signature (raise_entry X k amount e)))"
proof -
  let ?cid = "prefixed_hex X (ce_channel_id e)" and ?n = "ce_cumulative_amount e + amount"
  let ?sig = "sign_voucher X k (ce_channel_id e) ?n"
  have fin: "\<not> cs_finalized c" and pk: "cs_authorized_signer_pubkey c = ed_public X k"
    and hi: "cs_highest_voucher_amount c = ce_cumulative_amount e" and op: "ce_opened e"
    using assms(3,4) by (simp_all add: in_step_def)
  have "unat (ce_cumulative_amount e) + unat amount < 2 ^ 64"
    using assms(5) unat_u64_lt [of "cs_deposit c"] by simp
  then have sum: "unat ?n = unat (ce_cumulative_amount e) + unat amount"
    by (simp add: unat_word_ariths)
  have "?n \<le> cs_deposit c" and up: "cs_highest_voucher_amount c < ?n"
    using assms(5,6) sum hi by (simp_all add: word_le_nat_alt word_less_nat_alt)
  moreover have "valid_for X ?cid c ?n ?sig"
    by (simp add: valid_for_def prefixed_hex_decodes [OF assms(1)] pk
        length_sign_voucher [OF assms(2)] length_ed_public [OF assms(2)] sign_then_verify [OF assms(2)])
  ultimately have ok: "voucher_acceptable X (resolve_min_delta cfg d) ?cid c ?n ?sig"
    using fin assms(7) hi by (simp add: voucher_acceptable_def)
  have "voucher_plan X now cfg d ?cid (show_u64 ?n) (prefixed_hex X ?sig) (Inr (Some c)) = Inr
      (Commit ?cid (voucher_updater ?n ?sig) (\<lambda>updated. and_then (channel_or_not_found updated)
        (\<lambda>state. Inr (receipt_success X now METHOD_NAME (cs_channel_id state)))))"
    unfolding voucher_plan_reply
    by (intro exI [of _ ?n] exI [of _ ?sig])
      (use ok up in \<open>simp add: prefixed_hex_decodes [OF assms(1)] linorder_not_le\<close>)
  then have "handle_voucher X now cfg mem_channels d ?cid (show_u64 ?n) (prefixed_hex X ?sig) st
      = (Inr (receipt_success X now METHOD_NAME (cs_channel_id c)), st(?cid \<mapsto> raise_voucher c ?n ?sig))"
    using run_voucher_commit [of st ?cid c ?n ?sig X now, OF assms(4) up]
    by (simp add: handle_voucher_def mem_ops assms(4))
  moreover have "in_step X k (raise_entry X k amount e) (st(?cid \<mapsto> raise_voucher c ?n ?sig))"
    using fin pk op by (simp add: in_step_def raise_entry_def raise_voucher_def Let_def)
  ultimately show ?thesis by (simp add: raise_entry_def Let_def)
qed

end
