(* ===== verification/Client_Claims.thy ===== *)
theory Client_Claims
  imports Client_Session Charge_Claims
begin

text \<open>
  Client and server together: the transfer a client submits passes the server's charge check,
  the vouchers a client makes are accepted and keep both sides in step, an opening puts them in
  step, and what happens when a payment does not fit the deposit or follows a close.
\<close>

section \<open>Paying a charge\<close>

text \<open>A node's report of a call: the function and its arguments, where an address may be written
  another way and the token of a fungible asset transfer, an object, may be shown as one. Nothing
  is said about the other fields of the transaction.\<close>

definition shown :: "json \<Rightarrow> json \<Rightarrow> bool" where
  "shown sent seen \<longleftrightarrow> seen = sent
     \<or> (\<exists>a b. sent = JStr (''0x'' @ a) \<and> seen = JStr b \<and> same_account (''0x'' @ a) b)"

definition reports_call :: "json \<Rightarrow> entry_function_payload \<Rightarrow> bool" where
  "reports_call body call \<longleftrightarrow>
     (\<exists>payload seen. json_get ''payload'' body = Some payload
       \<and> json_get ''function'' payload = Some (JStr (efp_function call))
       \<and> json_get ''arguments'' payload = Some (JArr seen)
       \<and> (list_all2 shown (efp_arguments call) seen
         \<or> efp_function call = ''0x1::primary_fungible_store::transfer''
           \<and> (\<exists>fields rest. seen = JObj fields # rest \<and> list_all2 shown (tl (efp_arguments call)) rest)))"

lemma same_account_refl [simp]: "same_account a a"
  by (simp add: same_account_def)

lemma same_account_sym: "same_account a b \<Longrightarrow> same_account b a"
  unfolding same_account_iff [symmetric] by (rule sym)

lemma shown_text:
  assumes "shown (JStr a) seen"
  obtains b where "seen = JStr b" and "same_account b a"
  using assms same_account_sym by (auto simp: shown_def)

lemma show_u64_not_hex: "show_u64 n \<noteq> ''0x'' @ a"
proof
  assume "show_u64 n = ''0x'' @ a"
  then have "parse_u64 (''0x'' @ a) = Some n" using parse_u64_show_u64 [of n] by simp
  then show False
    by (simp add: parse_u64_def parse_uint_def dec_val_def digit_val_def is_ascii_digit_def
        split: if_splits)
qed

lemma shown_amount: "shown (JStr (show_u64 n)) seen \<longleftrightarrow> seen = JStr (show_u64 n)"
  using show_u64_not_hex by (auto simp: shown_def)

lemma reported_transfer_pays:
  assumes "reports_call body (build_transfer_payload (cr_currency req) recipient n)"
    and "parse_u64 (cr_amount req) = Some n" and "cr_recipient req = Some recipient"
  shows "pays body req"
proof (cases "is_native_move (cr_currency req)")
  case True
  with assms(1) obtain payload b where p: "json_get ''payload'' body = Some payload"
    "json_get ''function'' payload = Some (JStr ''0x1::aptos_account::transfer'')"
    "json_get ''arguments'' payload = Some (JArr [JStr b, JStr (show_u64 n)])"
    and b: "same_account b recipient"
    by (auto simp: reports_call_def build_transfer_payload_def efp_new_def list_all2_Cons1 shown_amount
        elim!: shown_text)
  have "token_agrees body (cr_currency req)"
    using p True by (simp add: token_agrees_def native_token_iff)
  moreover have "payload_pays body (cr_currency req) recipient n"
    using p b by (auto simp: payload_pays_def plain_transfers_def args_pay_def)
  ultimately show ?thesis using assms(2,3) by (simp add: pays_def)
next
  case False
  with assms(1) obtain payload token b where p: "json_get ''payload'' body = Some payload"
    "json_get ''function'' payload = Some (JStr ''0x1::primary_fungible_store::transfer'')"
    "json_get ''arguments'' payload = Some (JArr [token, JStr b, JStr (show_u64 n)])"
    and b: "same_account b recipient"
    and token: "\<And>t. token = JStr t \<Longrightarrow> same_account t (cr_currency req)"
    by (auto simp: reports_call_def build_transfer_payload_def efp_new_def with_type_arguments_def
        list_all2_Cons1 shown_amount elim!: shown_text)
  have "token_agrees body (cr_currency req)"
    using p token by (simp add: token_agrees_def)
  moreover have "payload_pays body (cr_currency req) recipient n"
    using p b token by (simp add: payload_pays_def args_pay_def)
  ultimately show ?thesis using assms(2,3) by (simp add: pays_def)
qed

lemma pay_charge_parts:
  assumes "pay_charge X net now p challenge = Inr credential"
    and "b64json_decode X ''ChargeRequest'' charge_request_of_json (ch_request challenge) = Inr req"
  obtains n recipient h where "parse_u64 (cr_amount req) = Some n" and "cr_recipient req = Some recipient"
    and "provider_submit X net now p (build_transfer_payload (cr_currency req) recipient n) = Inr h"
    and "credential = credential_new (to_echo challenge) (payment_payload_to_json (payload_hash h))"
  using assms by (auto simp: pay_charge_def res_simps amount_u64_def recipient_str_def)

lemma hash_payload_named: "names_hash (payment_payload_to_json (payload_hash h)) h'  \<longleftrightarrow> h' = h"
  by (auto simp: names_hash_def payload_hash_def)

text \<open>
  C23: what the client pays is what the server accepts. When the client pays a charge challenge,
  it has submitted one transfer, for the native token or for any other, and its credential names
  the hash; and whenever a node reports under that hash a successful transaction whose call is
  the submitted one, with addresses written in any way and whatever its other fields, among them
  its events, the server's charge method accepts the credential for the request of the challenge,
  with a receipt for the hash.
\<close>

theorem client_transfer_accepted:
  assumes "b64json_decode X ''ChargeRequest'' charge_request_of_json (ch_request challenge) = Inr req"
    and "pay_charge X net now p challenge = Inr credential"
  shows "\<exists>n recipient h. parse_u64 (cr_amount req) = Some n \<and> cr_recipient req = Some recipient
    \<and> provider_submit X net now p (build_transfer_payload (cr_currency req) recipient n) = Inr h
    \<and> (\<forall>net' now' rest_url body. reports X net' rest_url h body \<and> succeeded body
        \<and> reports_call body (build_transfer_payload (cr_currency req) recipient n) \<longrightarrow>
      charge_method_verify X net' now' rest_url credential req
        = Inr (receipt_success X now' METHOD_NAME h))"
proof (rule pay_charge_parts [OF assms(2,1)])
  fix n recipient h
  assume h: "parse_u64 (cr_amount req) = Some n" "cr_recipient req = Some recipient"
    "provider_submit X net now p (build_transfer_payload (cr_currency req) recipient n) = Inr h"
    "credential = credential_new (to_echo challenge) (payment_payload_to_json (payload_hash h))"
  then have "charge_method_verify X net' now' rest_url credential req
      = Inr (receipt_success X now' METHOD_NAME h)"
    if "reports X net' rest_url h body" and "succeeded body"
      and "reports_call body (build_transfer_payload (cr_currency req) recipient n)"
    for net' now' rest_url body
    using that reported_transfer_pays [OF that(3) h(1,2)]
    by (auto simp: charge_verify_iff credential_new_def hash_payload_named)
  with h show ?thesis by blast
qed

text \<open>A charge of 7 of some token for \<open>0xb0b\<close>, a node that takes its payment, and its report of the
  transaction: with hash, sender and an event of another kind, the token as an object and the
  recipient's address with a leading zero and in upper case.\<close>

definition fee_request :: charge_request where
  "fee_request = charge_request_default\<lparr>cr_amount := show_u64 7, cr_currency := ''0xcafe'',
     cr_recipient := Some ''0xb0b''\<rparr>"

definition fee_report :: json where
  "fee_report = JObj
     [(''type'', JStr ''user_transaction''), (''hash'', JStr ''0x1''), (''sender'', JStr ''0x5''),
      (''success'', JBool True), (''vm_status'', JStr ''Executed successfully''),
      (''payload'', JObj [(''type'', JStr ''entry_function_payload''),
         (''function'', JStr ''0x1::primary_fungible_store::transfer''),
         (''type_arguments'', JArr [JStr ''0x1::fungible_asset::Metadata'']),
         (''arguments'', JArr [JObj [(''inner'', JStr ''0xcafe'')], JStr ''0x0B0B'', JStr (show_u64 7)])]),
      (''events'', JArr [JObj [(''type'', JStr ''0x1::transaction_fee::FeeStatement'')]])]"

definition fee_world :: crates where
  "fee_world = sample_crates\<lparr>json_from_slice := \<lambda>bs. Inr
     (if length bs = 0 then charge_request_to_json fee_request
      else if length bs = 1 then JObj [(''sequence_number'', JStr ''1''),
       (''authentication_key'', JStr ''k''), (''hash'', JStr ''0x1''), (''success'', JBool True),
       (''type'', JStr ''user_transaction'')]
      else if length bs = 2 then JStr ''00'' else fee_report)\<rparr>"

definition fee_net :: network where
  "fee_net = \<lparr>http_get = \<lambda>url. Response 200 (if str_contains ''by_hash/0x'' url then ''txn'' else ''o''),
     http_post = \<lambda>url _. Response 200 (if url = ''/transactions'' then ''o'' else ''ss'')\<rparr>"

definition fee_challenge :: payment_challenge where
  "fee_challenge = \<lparr>ch_id = ''id'', ch_realm = ''realm'', ch_method = method_name_new METHOD_NAME,
     ch_intent = intent_name_new INTENT_CHARGE, ch_request = Base64UrlJson [], ch_expires = None,
     ch_description = None, ch_digest = None, ch_opaque = None\<rparr>"

definition fee_payer :: movement_provider where
  "fee_payer = movement_provider_with_address [3] [] ''0x5''"

lemma fee_documents:
  "json_from_slice fee_world [] = Inr (charge_request_to_json fee_request)"
  "json_from_slice fee_world (as_bytes ''o'') = Inr (JObj [(''sequence_number'', JStr ''1''),
     (''authentication_key'', JStr ''k''), (''hash'', JStr ''0x1''), (''success'', JBool True),
     (''type'', JStr ''user_transaction'')])"
  "json_from_slice fee_world (as_bytes ''ss'') = Inr (JStr ''00'')"
  "json_from_slice fee_world (as_bytes ''txn'') = Inr fee_report"
  by (simp_all add: fee_world_def as_bytes_def)

lemma fee_decodes: "b64json_decode fee_world ty charge_request_of_json (ch_request fee_challenge) = Inr fee_request"
proof -
  have "charge_request_of_json (charge_request_to_json fee_request) = Some fee_request"
    by (subst charge_request_json_roundtrip) (simp_all add: fee_request_def charge_request_default_def)
  moreover have "b64url_decode fee_world [] = Inr []"
    by (simp add: fee_world_def sample_crates_def)
  ultimately show ?thesis
    by (simp add: b64json_decode_def base64url_decode_def from_slice_def fee_challenge_def fee_documents
        from_value_def)
qed

lemma fee_submit: "build_sign_submit fee_world fee_net 0 [] k ''0x5'' payload = Inr ''0x1''"
proof -
  have "hex_decode fee_world (strip_0x ''00'') = Inr [0]"
    by (simp add: fee_world_def sample_crates_def strip_0x_def strip_prefix_def starts_with_def
        is_hex_digit_def is_ascii_digit_def hex_digit_val_def)
  then show ?thesis
    by (simp add: build_sign_submit_def build_sign_submit_with_gas_def get_account_def
        encode_submission_def submit_transaction_def wait_for_transaction_def rest_answer_def
        fee_net_def is_success_status_def response_json_def from_slice_def from_value_def starts_with_def
        fee_documents account_info_of_json_def pending_hash_of_json_def transaction_info_of_json_def fee_report_def Let_def)
qed

lemma fee_reported:
  "reports fee_world fee_net [] ''0x1'' fee_report" "succeeded fee_report"
  "reports_call fee_report (build_transfer_payload ''0xcafe'' ''0xb0b'' 7)"
proof -
  show "reports fee_world fee_net [] ''0x1'' fee_report"
    by (simp add: reports_def fee_net_def strip_0x_def strip_prefix_def starts_with_def fee_documents)
  show "succeeded fee_report" by (simp add: succeeded_def fee_report_def)
  have "\<not> is_native_move ''0xcafe''"
    by (simp add: is_native_move_def strip_0x_def strip_prefix_def starts_with_def
        trim_start_matches_def eq_ignore_ascii_case_def to_ascii_lowercase_def)
  moreover have "same_account ''0xb0b'' ''0x0B0B''"
    by (simp add: same_account_def strip_0x_def strip_prefix_def starts_with_def
        to_ascii_lowercase_def to_lower_def is_ascii_uppercase_def char_eval Let_def)
      (intro exI [of _ 0] exI [of _ 1] exI [of _ "''b0b''"], simp)
  then have "shown (JStr ''0xb0b'') (JStr ''0x0B0B'')"
    unfolding shown_def by (intro disjI2 exI [of _ "''b0b''"] exI [of _ "''0x0B0B''"]) simp
  moreover have "shown j j" for j by (simp add: shown_def)
  ultimately show "reports_call fee_report (build_transfer_payload ''0xcafe'' ''0xb0b'' 7)"
    by (simp add: reports_call_def fee_report_def build_transfer_payload_def efp_new_def
        with_type_arguments_def)
qed

theorem client_transfer_accepted_witness:
  "\<exists>credential. pay_charge fee_world fee_net 0 fee_payer fee_challenge = Inr credential
     \<and> charge_method_verify fee_world fee_net 5 [] credential fee_request
       = Inr (receipt_success fee_world 5 METHOD_NAME ''0x1'')"
proof -
  have terms: "parse_u64 (cr_amount fee_request) = Some 7" "cr_recipient fee_request = Some ''0xb0b''"
    "cr_currency fee_request = ''0xcafe''"
    by (simp_all add: fee_request_def charge_request_default_def)
  have submit: "provider_submit fee_world fee_net 0 fee_payer payload = Inr ''0x1''" for payload
    using fee_submit by (simp add: provider_submit_def fee_payer_def movement_provider_with_address_def
        rest_client_new_def trim_end_matches_def)
  then have "is_ok (pay_charge fee_world fee_net 0 fee_payer fee_challenge)"
    by (simp add: pay_charge_def fee_decodes amount_u64_def recipient_str_def terms)
  then obtain credential where c: "pay_charge fee_world fee_net 0 fee_payer fee_challenge = Inr credential"
    by (cases "pay_charge fee_world fee_net 0 fee_payer fee_challenge") auto
  from client_transfer_accepted [OF fee_decodes c] terms submit fee_reported c
  show ?thesis by auto
qed

section \<open>Vouchers\<close>

lemma credential_payload_session:
  assumes "method_as_str (ch_method challenge) = METHOD_NAME"
    and "intent_as_str (ch_intent challenge) = INTENT_SESSION"
    and "session_payload_of_json j = Some payload"
  shows "session_credential_check X (credential_new (to_echo challenge) j) = Inr payload"
  using assms by (simp add: session_credential_check_def session_payload_of_def payload_as_def
      from_value_def credential_new_def to_echo_def Let_def)

lemma session_pay_voucher:
  assumes "session_terms X challenge = Inr (req, amount, payee, module_addr)"
    and "sp_channels p (channel_key payee (sr_currency req) module_addr) = Some e" and "ce_opened e"
  shows "session_pay X net now salt challenge p =
    (Inr (credential_new (to_echo challenge)
        (voucher_json X ''voucher'' (ce_channel_id e)
           (ce_cumulative_amount (raise_entry X (sp_signing_key p) amount e))
           (ce_highest_signature (raise_entry X (sp_signing_key p) amount e)))),
     p\<lparr>sp_last_challenge := Some challenge,
       sp_channels := (sp_channels p)(channel_key payee (sr_currency req) module_addr
         \<mapsto> raise_entry X (sp_signing_key p) amount e)\<rparr>)"
proof -
  have "ce_channel_id (raise_entry X (sp_signing_key p) amount e) = ce_channel_id e"
    by (simp add: raise_entry_def Let_def)
  with assms show ?thesis by (simp add: session_pay_def pay_by_voucher_def Let_def)
qed

text \<open>A client and a server in step, for the concrete runs: price 3, amount so far 10, deposit 20.\<close>

definition step_request :: session_request where
  "step_request = \<lparr>sr_amount = show_u64 3, sr_unit_type = None, sr_currency = ''0xa'',
     sr_decimals = None, sr_recipient = Some ''0xb'', sr_suggested_deposit = None,
     sr_method_details = None\<rparr>"

definition step_world :: crates where
  "step_world = sample_crates\<lparr>json_from_slice := \<lambda>_. Inr (session_request_to_json step_request)\<rparr>"

definition step_challenge :: payment_challenge where
  "step_challenge = \<lparr>ch_id = ''id'', ch_realm = ''realm'', ch_method = method_name_new METHOD_NAME,
     ch_intent = intent_name_new INTENT_SESSION, ch_request = Base64UrlJson [], ch_expires = None,
     ch_description = None, ch_digest = None, ch_opaque = None\<rparr>"

definition step_entry :: channel_entry where
  "step_entry = \<lparr>ce_channel_id = [1, 2], ce_salt = [], ce_cumulative_amount = 10,
     ce_module_address = DEFAULT_MODULE_ADDRESS, ce_opened = True,
     ce_authorized_pubkey = ed_public step_world [3], ce_highest_signature = []\<rparr>"

definition step_channel :: channel_state where
  "step_channel = sample_channel\<lparr>cs_authorized_signer_pubkey := ed_public step_world [3],
     cs_deposit := 20, cs_highest_voucher_amount := 10\<rparr>"

definition step_store :: mem_store where
  "step_store = [prefixed_hex step_world [1, 2] \<mapsto> step_channel]"

definition step_provider :: session_provider where
  "step_provider = (session_provider_new step_world [3] [])\<lparr>sp_channels :=
     [channel_key ''0xb'' ''0xa'' DEFAULT_MODULE_ADDRESS \<mapsto> step_entry]\<rparr>"

lemma step_world_laws: "hex_ok step_world" "ed25519_ok step_world"
  using sample_crates_hex_ok sample_crates_ed25519_ok
  by (simp_all add: step_world_def hex_ok_def ed25519_ok_def)

lemma step_terms: "session_terms step_world step_challenge = Inr (step_request, 3, ''0xb'', DEFAULT_MODULE_ADDRESS)"
proof -
  have "session_request_of_json (session_request_to_json step_request) = Some step_request"
    using session_request_json_roundtrip [of step_request] by (simp add: step_request_def)
  moreover have "b64url_decode step_world [] = Inr []"
    by (simp add: step_world_def sample_crates_def)
  ultimately have "b64json_decode step_world ty session_request_of_json (ch_request step_challenge)
      = Inr step_request" for ty
    by (simp add: b64json_decode_def base64url_decode_def from_slice_def step_challenge_def)
      (simp add: step_world_def from_value_def)
  then show ?thesis
    by (simp add: session_terms_def)
      (simp add: step_request_def module_address_def session_detail_def)
qed

lemma step_in_step: "in_step step_world [3] step_entry step_store"
  by (simp add: in_step_def step_entry_def step_store_def step_channel_def sample_channel_def)

lemma voucher_round:
  assumes "hex_ok X" and "ed25519_ok X"
    and "session_terms X challenge = Inr (req, amount, payee, module_addr)"
    and "method_as_str (ch_method challenge) = METHOD_NAME"
    and "intent_as_str (ch_intent challenge) = INTENT_SESSION"
    and "sp_channels p (channel_key payee (sr_currency req) module_addr) = Some e"
    and "in_step X (sp_signing_key p) e st"
    and "st (prefixed_hex X (ce_channel_id e)) = Some c"
    and "unat (ce_cumulative_amount e) + unat amount \<le> unat (cs_deposit c)" and "0 < amount"
    and "resolve_min_delta cfg (resolve_details X cfg sreq) \<le> amount"
  shows "\<exists>credential p' e' rc st'. session_pay X net now salt challenge p = (Inr credential, p')
    \<and> method_verify_session X net' now' cfg mem_channels credential sreq st = (Inr rc, st')
    \<and> sp_channels p' (channel_key payee (sr_currency req) module_addr) = Some e'
    \<and> unat (ce_cumulative_amount e') = unat (ce_cumulative_amount e) + unat amount
    \<and> in_step X (sp_signing_key p) e' st'
    \<and> ce_channel_id e' = ce_channel_id e \<and> sp_signing_key p' = sp_signing_key p
    \<and> (\<exists>c'. st' (prefixed_hex X (ce_channel_id e)) = Some c' \<and> cs_deposit c' = cs_deposit c)"
proof -
  let ?e = "raise_entry X (sp_signing_key p) amount e"
  let ?key = "channel_key payee (sr_currency req) module_addr"
  let ?j = "voucher_json X ''voucher'' (ce_channel_id e) (ce_cumulative_amount ?e) (ce_highest_signature ?e)"
  have pay: "session_pay X net now salt challenge p =
    (Inr (credential_new (to_echo challenge) ?j),
     p\<lparr>sp_last_challenge := Some challenge, sp_channels := (sp_channels p)(?key \<mapsto> ?e)\<rparr>)"
    by (rule session_pay_voucher [OF assms(3,6)]) (use assms(7) in \<open>simp add: in_step_def\<close>)
  obtain rc st' where hv: "handle_voucher X now' cfg mem_channels (resolve_details X cfg sreq)
      (prefixed_hex X (ce_channel_id e)) (show_u64 (ce_cumulative_amount ?e))
      (prefixed_hex X (ce_highest_signature ?e)) st = (Inr rc, st')"
    and step: "in_step X (sp_signing_key p) ?e st'"
    and st': "st' = st(prefixed_hex X (ce_channel_id e) \<mapsto>
      raise_voucher c (ce_cumulative_amount e + amount) (ce_highest_signature ?e))"
    using voucher_keeps_step [OF assms(1,2,7-11), of now'] by blast
  have "session_credential_check X (credential_new (to_echo challenge) ?j)
      = Inr (Voucher (prefixed_hex X (ce_channel_id e)) (show_u64 (ce_cumulative_amount ?e))
          (prefixed_hex X (ce_highest_signature ?e)))"
    by (rule credential_payload_session [OF assms(4,5) voucher_json_reads(1)])
  then have "method_verify_session X net' now' cfg mem_channels (credential_new (to_echo challenge) ?j)
      sreq st = (Inr rc, st')"
    by (simp add: method_verify_session_def session_action_def hv)
  moreover have "unat (ce_cumulative_amount ?e) = unat (ce_cumulative_amount e) + unat amount"
    using assms(9) unat_u64_lt [of "cs_deposit c"]
    by (simp add: raise_entry_def Let_def unat_word_ariths)
  ultimately show ?thesis using pay step by (simp add: st' raise_voucher_def raise_entry_def Let_def)
qed

text \<open>
  C9: client and server stay in step. When the client's channel and the server's agree on
  identifier, signer and amount, and the next price fits the deposit and the minimum, then the
  credential the client makes for a session challenge is accepted by the server as it is,
  without touching the chain, and afterwards both agree again, on the amount plus the price.
\<close>

theorem paid_voucher_accepted:
  assumes "hex_ok X" and "ed25519_ok X"
    and "session_terms X challenge = Inr (req, amount, payee, module_addr)"
    and "method_as_str (ch_method challenge) = METHOD_NAME"
    and "intent_as_str (ch_intent challenge) = INTENT_SESSION"
    and "sp_channels p (channel_key payee (sr_currency req) module_addr) = Some e"
    and "in_step X (sp_signing_key p) e st"
    and "st (prefixed_hex X (ce_channel_id e)) = Some c"
    and "unat (ce_cumulative_amount e) + unat amount \<le> unat (cs_deposit c)" and "0 < amount"
    and "resolve_min_delta cfg (resolve_details X cfg sreq) \<le> amount"
  shows "\<exists>credential p' e' rc st'. session_pay X net now salt challenge p = (Inr credential, p')
    \<and> method_verify_session X net' now' cfg mem_channels credential sreq st = (Inr rc, st')
    \<and> sp_channels p' (channel_key payee (sr_currency req) module_addr) = Some e'
    \<and> unat (ce_cumulative_amount e') = unat (ce_cumulative_amount e) + unat amount
    \<and> in_step X (sp_signing_key p) e' st'"
  using voucher_round [OF assms] by blast

theorem paid_voucher_accepted_witness:
  "\<forall>net now salt net' now'. \<exists>credential p' rc st'.
      session_pay step_world net now salt step_challenge step_provider = (Inr credential, p')
    \<and> method_verify_session step_world net' now' config_default mem_channels credential step_request
        step_store = (Inr rc, st')"
proof (intro allI)
  fix net now salt net' now'
  have "\<exists>credential p' e' rc st'. session_pay step_world net now salt step_challenge step_provider
      = (Inr credential, p')
    \<and> method_verify_session step_world net' now' config_default mem_channels credential step_request
        step_store = (Inr rc, st')
    \<and> sp_channels p' (channel_key ''0xb'' (sr_currency step_request) DEFAULT_MODULE_ADDRESS) = Some e'
    \<and> unat (ce_cumulative_amount e') = unat (ce_cumulative_amount step_entry) + unat (3 :: u64)
    \<and> in_step step_world (sp_signing_key step_provider) e' st'"
    by (rule paid_voucher_accepted [OF step_world_laws step_terms, where c = step_channel])
      (simp_all add: step_challenge_def names_normal step_provider_def session_provider_new_def
        step_request_def step_in_step resolve_details_def movement_session_details_def
        resolve_min_delta_def config_default_def, simp_all add: step_store_def step_entry_def
        step_channel_def)
  then show "\<exists>credential p' rc st'.
      session_pay step_world net now salt step_challenge step_provider = (Inr credential, p')
    \<and> method_verify_session step_world net' now' config_default mem_channels credential step_request
        step_store = (Inr rc, st')" by blast
qed

text \<open>
  A payment that does not fit the deposit is refused, and the client does not take it back.
  The server answers with the exceeded-deposit error and keeps its state, the client's entry
  has already grown by the price, and so the two are out of step: a smaller payment afterwards
  is refused as well, until a top-up covers both.
\<close>

theorem overdrawn_payment_sticks:
  assumes "in_step X k e st" and "st (prefixed_hex X (ce_channel_id e)) = Some c"
    and "cs_deposit c < ce_cumulative_amount e + amount"
    and "unat (ce_cumulative_amount e + amount) + unat later < 2 ^ 64"
  shows "handle_voucher X now cfg mem_channels d (prefixed_hex X (ce_channel_id e))
      (show_u64 (ce_cumulative_amount (raise_entry X k amount e))) sig st
    = (Inl (exceeds_deposit_error (ce_cumulative_amount e + amount) (cs_deposit c)), st)
    \<and> handle_voucher X now cfg mem_channels d (prefixed_hex X (ce_channel_id e))
      (show_u64 (ce_cumulative_amount (raise_entry X k later (raise_entry X k amount e)))) sig' st
    = (Inl (exceeds_deposit_error (ce_cumulative_amount e + amount + later) (cs_deposit c)), st)"
proof -
  have fin: "\<not> cs_finalized c" using assms(1,2) by (simp add: in_step_def)
  have refuse: "handle_voucher X now cfg mem_channels d (prefixed_hex X (ce_channel_id e))
      (show_u64 n) s st = (Inl (exceeds_deposit_error n (cs_deposit c)), st)"
    if "cs_deposit c < n" for n s
    using that fin assms(2)
    by (simp add: handle_voucher_def mem_ops voucher_plan_def channel_or_not_found_def
        parse_cumulative_amount_def accept_plan_def)
  have "unat (ce_cumulative_amount e + amount + later) = unat (ce_cumulative_amount e + amount) + unat later"
    using assms(4) by (simp add: unat_word_ariths)
  then have "cs_deposit c < ce_cumulative_amount e + amount + later"
    using assms(3) by (simp add: word_less_nat_alt)
  then show ?thesis using refuse assms(3) by (simp add: raise_entry_def Let_def)
qed

theorem overdrawn_payment_sticks_witness:
  "handle_voucher step_world 0 config_default mem_channels sample_details
     (prefixed_hex step_world [1, 2])
     (show_u64 (ce_cumulative_amount (raise_entry step_world [3] 3 (raise_entry step_world [3] 15 step_entry))))
     [] step_store
   = (Inl (exceeds_deposit_error (10 + 15 + 3) 20), step_store)"
  using overdrawn_payment_sticks [OF step_in_step, of step_channel 15 3 0 config_default sample_details "[]" "[]"]
  by (simp add: step_store_def step_entry_def step_channel_def)

end
