(* ===== verification/Client_Http.thy ===== *)
theory Client_Http
  imports Gate Client_Session
begin

text \<open>
  The client side of HTTP payments: the provider interface and \<open>MultiProvider\<close>
  (src/client/provider.rs), the request extension (src/client/fetch.rs), the middleware
  (src/client/middleware.rs) and their errors (src/client/error.rs). A provider acts on a world
  \<open>'w\<close>: its own state and whatever its payment touches. The HTTP client is a parameter: sending
  a request changes the world and fails in transport or gives a response; which strings are
  header values, and which header values read as text, are two predicates of it. A request is
  its target, its headers in order (with lower-case names, as the \<open>http\<close> crate keeps them) and
  whether its body can be sent again.
\<close>

section \<open>Providers\<close>

record 'w payment_provider =
  pp_supports :: "string \<Rightarrow> string \<Rightarrow> bool"
  pp_pay :: "payment_challenge \<Rightarrow> 'w \<Rightarrow> (mpp_error + payment_credential) \<times> 'w"

definition multi_new :: "'w payment_provider list" where
  "multi_new = []"

definition multi_with :: "'w payment_provider \<Rightarrow> 'w payment_provider list \<Rightarrow> 'w payment_provider list" where
  "multi_with p ps = ps @ [p]"

definition has_support :: "'w payment_provider list \<Rightarrow> string \<Rightarrow> string \<Rightarrow> bool" where
  "has_support ps method intent = list_ex (\<lambda>p. pp_supports p method intent) ps"

fun pay_with_first ::
  "'w payment_provider list \<Rightarrow> payment_challenge \<Rightarrow> 'w \<Rightarrow> (mpp_error + payment_credential) \<times> 'w" where
  "pay_with_first [] challenge w =
     (Inl (MppUnsupportedPaymentMethod (''no provider supports method='' @ method_as_str (ch_method challenge)
        @ '', intent='' @ intent_as_str (ch_intent challenge))), w)"
| "pay_with_first (p # ps) challenge w =
     (if pp_supports p (method_as_str (ch_method challenge)) (intent_as_str (ch_intent challenge))
      then pp_pay p challenge w else pay_with_first ps challenge w)"

definition multi_provider :: "'w payment_provider list \<Rightarrow> 'w payment_provider" where
  "multi_provider ps = \<lparr>pp_supports = has_support ps, pp_pay = pay_with_first ps\<rparr>"

text \<open>The two Movement providers: the charge provider keeps no state, the session provider is
  its own world.\<close>

definition movement_payment_provider ::
  "crates \<Rightarrow> network \<Rightarrow> int \<Rightarrow> movement_provider \<Rightarrow> 'w payment_provider" where
  "movement_payment_provider X net now p =
     \<lparr>pp_supports = provider_supports, pp_pay = \<lambda>challenge w. (provider_pay X net now p challenge, w)\<rparr>"

definition session_payment_provider ::
  "crates \<Rightarrow> network \<Rightarrow> int \<Rightarrow> bytes \<Rightarrow> session_provider payment_provider" where
  "session_payment_provider X net now salt =
     \<lparr>pp_supports = session_provider_supports, pp_pay = session_pay X net now salt\<rparr>"

section \<open>Errors\<close>

datatype http_error =
    MissingChallenge
  | InvalidChallenge string
  | InvalidCredential string
  | CloneFailed
  | Payment mpp_error
  | Request string

fun http_error_display :: "http_error \<Rightarrow> string" where
  "http_error_display MissingChallenge = ''402 response missing WWW-Authenticate header''"
| "http_error_display (InvalidChallenge msg) = ''invalid challenge: '' @ msg"
| "http_error_display (InvalidCredential msg) = ''invalid credential: '' @ msg"
| "http_error_display CloneFailed = ''request could not be cloned for retry''"
| "http_error_display (Payment e) = ''payment failed: '' @ mpp_error_display e"
| "http_error_display (Request e) = ''HTTP request failed: '' @ e"

section \<open>Requests\<close>

record http_request =
  rq_target :: string
  rq_headers :: "(string \<times> string) list"
  rq_replayable :: bool

record 'w http_client =
  hc_send :: "http_request \<Rightarrow> 'w \<Rightarrow> (string + http_response) \<times> 'w"
  hc_is_value :: "string \<Rightarrow> bool"
  hc_is_text :: "string \<Rightarrow> bool"
  hc_value_error :: string
  hc_text_error :: string

text \<open>\<open>HeaderMap::get\<close> gives the first value of a name; \<open>RequestBuilder::header\<close> adds a value
  after those already there, \<open>HeaderMap::insert\<close> replaces them.\<close>

definition header_get :: "string \<Rightarrow> (string \<times> string) list \<Rightarrow> string option" where
  "header_get name headers = map_of headers name"

definition append_header :: "string \<Rightarrow> string \<Rightarrow> http_request \<Rightarrow> http_request" where
  "append_header name v req = req\<lparr>rq_headers := rq_headers req @ [(name, v)]\<rparr>"

definition insert_header :: "string \<Rightarrow> string \<Rightarrow> http_request \<Rightarrow> http_request" where
  "insert_header name v req =
     req\<lparr>rq_headers := filter (\<lambda>(k, _). k \<noteq> name) (rq_headers req) @ [(name, v)]\<rparr>"

section \<open>Sending with payment\<close>

definition response_challenge ::
  "crates \<Rightarrow> 'w http_client \<Rightarrow> http_response \<Rightarrow> http_error + payment_challenge" where
  "response_challenge X H resp =
     and_then (ok_or MissingChallenge (header_get ''www-authenticate'' (hr_headers resp))) (\<lambda>www_auth.
     and_then (ensure (hc_is_text H www_auth) (InvalidChallenge (hc_text_error H))) (\<lambda>_.
     map_err (\<lambda>e. InvalidChallenge (mpp_error_display e)) (parse_www_authenticate X www_auth)))"

definition send_with_payment ::
  "crates \<Rightarrow> 'w http_client \<Rightarrow> 'w payment_provider \<Rightarrow> http_request \<Rightarrow> 'w
   \<Rightarrow> (http_error + http_response) \<times> 'w" where
  "send_with_payment X H P req w =
     (if \<not> rq_replayable req then (Inl CloneFailed, w)
      else case hc_send H req w of
        (Inl e, w1) \<Rightarrow> (Inl (Request e), w1)
      | (Inr resp, w1) \<Rightarrow>
          if hr_status resp \<noteq> 402 then (Inr resp, w1)
          else case response_challenge X H resp of
            Inl e \<Rightarrow> (Inl e, w1)
          | Inr challenge \<Rightarrow>
              (case pp_pay P challenge w1 of
                 (Inl e, w2) \<Rightarrow> (Inl (Payment e), w2)
               | (Inr credential, w2) \<Rightarrow>
                   (case format_authorization X credential of
                      Inl e \<Rightarrow> (Inl (InvalidCredential (mpp_error_display e)), w2)
                    | Inr auth_header \<Rightarrow>
                        if \<not> hc_is_value H auth_header then (Inl (Request (hc_value_error H)), w2)
                        else (case hc_send H (append_header ''authorization'' auth_header req) w2 of
                            (r, w3) \<Rightarrow> (map_err Request r, w3)))))"

text \<open>The middleware reports an error as an outermost context, which is what its text shows; the
  transport's own errors pass through.\<close>

datatype middleware_error = Transport string | Middleware string

definition middleware_challenge ::
  "crates \<Rightarrow> 'w http_client \<Rightarrow> http_response \<Rightarrow> middleware_error + payment_challenge" where
  "middleware_challenge X H resp =
     and_then (ok_or (Middleware ''402 response missing WWW-Authenticate header'')
       (header_get ''www-authenticate'' (hr_headers resp))) (\<lambda>www_auth.
     and_then (ensure (hc_is_text H www_auth) (Middleware ''invalid WWW-Authenticate header'')) (\<lambda>_.
     map_err (\<lambda>_. Middleware ''invalid challenge'') (parse_www_authenticate X www_auth)))"

definition middleware_handle ::
  "crates \<Rightarrow> 'w http_client \<Rightarrow> 'w payment_provider \<Rightarrow> http_request \<Rightarrow> 'w
   \<Rightarrow> (middleware_error + http_response) \<times> 'w" where
  "middleware_handle X H P req w =
     (case hc_send H req w of
        (Inl e, w1) \<Rightarrow> (Inl (Transport e), w1)
      | (Inr resp, w1) \<Rightarrow>
          if hr_status resp \<noteq> 402 then (Inr resp, w1)
          else if \<not> rq_replayable req
          then (Inl (Middleware ''request could not be cloned for payment retry''), w1)
          else case middleware_challenge X H resp of
            Inl e \<Rightarrow> (Inl e, w1)
          | Inr challenge \<Rightarrow>
              (case pp_pay P challenge w1 of
                 (Inl e, w2) \<Rightarrow> (Inl (Middleware ''payment failed''), w2)
               | (Inr credential, w2) \<Rightarrow>
                   (case format_authorization X credential of
                      Inl e \<Rightarrow> (Inl (Middleware ''failed to format credential''), w2)
                    | Inr auth_header \<Rightarrow>
                        if \<not> hc_is_value H auth_header
                        then (Inl (Middleware ''invalid authorization header''), w2)
                        else (case hc_send H (insert_header ''authorization'' auth_header req) w2 of
                            (r, w3) \<Rightarrow> (map_err Transport r, w3)))))"

section \<open>Lemmas on headers and providers\<close>

lemma header_get_append:
  "header_get name (rq_headers (append_header name v req)) =
   Some (case header_get name (rq_headers req) of Some u \<Rightarrow> u | None \<Rightarrow> v)"
  by (auto simp: header_get_def append_header_def map_add_def split: option.splits)

lemma map_of_filter_key: "map_of (filter (\<lambda>(k, _). k \<noteq> name) kvs) name = None"
  by (induction kvs) auto

lemma header_get_insert:
  "header_get name (rq_headers (insert_header name v req)) = Some v"
  by (simp add: header_get_def insert_header_def map_add_def map_of_filter_key)

lemma insert_is_append:
  assumes "header_get name (rq_headers req) = None"
  shows "insert_header name v req = append_header name v req"
proof -
  have "filter (\<lambda>(k, _). k \<noteq> name) (rq_headers req) = rq_headers req"
    using assms by (auto simp: header_get_def map_of_eq_None_iff filter_id_conv image_iff)
  then show ?thesis by (simp add: insert_header_def append_header_def)
qed

lemma challenge_reading:
  "response_challenge X H resp = Inr c \<longleftrightarrow> (\<exists>h. header_get ''www-authenticate'' (hr_headers resp) = Some h
     \<and> hc_is_text H h \<and> parse_www_authenticate X h = Inr c)"
  "middleware_challenge X H resp = Inr c \<longleftrightarrow> (\<exists>h. header_get ''www-authenticate'' (hr_headers resp) = Some h
     \<and> hc_is_text H h \<and> parse_www_authenticate X h = Inr c)"
  by (auto simp: response_challenge_def middleware_challenge_def res_simps)

lemma challenge_reading_agrees:
  "ok_opt (middleware_challenge X H resp) = ok_opt (response_challenge X H resp)"
proof (cases "response_challenge X H resp")
  case (Inr c)
  then show ?thesis using challenge_reading [of X H resp c] by simp
next
  case (Inl e)
  then have "middleware_challenge X H resp \<noteq> Inr c" for c
    using challenge_reading [of X H resp c] by auto
  with Inl show ?thesis by (cases "middleware_challenge X H resp") auto
qed

end
