(* ===== verification/Fetch_Claims.thy ===== *)
theory Fetch_Claims
  imports Client_Http Header_Roundtrip Server_Claims
begin

text \<open>
  The properties of HTTP payments: how often a request and a payment are made, that the two
  client integrations agree, and the round through a client, a provider and a gated server. The
  server is the axum extractor around a handler with a fixed response; its clock reads the
  world the client acts in.
\<close>

section \<open>Requests and payments are counted\<close>

text \<open>The same client and provider, with a count of the requests and of the payments.\<close>

definition counted_client :: "'w http_client \<Rightarrow> (nat \<times> nat \<times> 'w) http_client" where
  "counted_client H =
     \<lparr>hc_send = \<lambda>req (n, m, w). (case hc_send H req w of (r, w') \<Rightarrow> (r, n + 1, m, w')),
      hc_is_value = hc_is_value H, hc_is_text = hc_is_text H,
      hc_value_error = hc_value_error H, hc_text_error = hc_text_error H\<rparr>"

definition counted_provider :: "'w payment_provider \<Rightarrow> (nat \<times> nat \<times> 'w) payment_provider" where
  "counted_provider P =
     \<lparr>pp_supports = pp_supports P,
      pp_pay = \<lambda>challenge (n, m, w). (case pp_pay P challenge w of (r, w') \<Rightarrow> (r, n, m + 1, w'))\<rparr>"

lemma counted_sel [simp]:
  "hc_send (counted_client H) req (n, m, w) = (case hc_send H req w of (r, w') \<Rightarrow> (r, n + 1, m, w'))"
  "hc_is_value (counted_client H) = hc_is_value H" "hc_is_text (counted_client H) = hc_is_text H"
  "hc_value_error (counted_client H) = hc_value_error H" "hc_text_error (counted_client H) = hc_text_error H"
  "pp_pay (counted_provider P) challenge (n, m, w)
     = (case pp_pay P challenge w of (r, w') \<Rightarrow> (r, n, m + 1, w'))"
  by (simp_all add: counted_client_def counted_provider_def)

lemma counted_challenge [simp]:
  "response_challenge X (counted_client H) = response_challenge X H"
  "middleware_challenge X (counted_client H) = middleware_challenge X H"
  by (simp_all add: fun_eq_iff response_challenge_def middleware_challenge_def)

text \<open>
  C33: one request costs at most one payment. Whatever the server answers, the extension sends
  the request at most twice and pays at most once, it pays no more often than it has sent a
  request, and only a payment lets it send again; the middleware behaves in the same way. A
  server that keeps answering 402 is not paid twice.
\<close>

theorem payment_is_bounded:
  "(case send_with_payment X (counted_client H) (counted_provider P) req (0, 0, w) of
      (r, n, m, w') \<Rightarrow> (r, w') = send_with_payment X H P req w \<and> m \<le> 1 \<and> m \<le> n \<and> n \<le> m + 1)
   \<and> (case middleware_handle X (counted_client H) (counted_provider P) req (0, 0, w) of
      (r, n, m, w') \<Rightarrow> (r, w') = middleware_handle X H P req w \<and> m \<le> 1 \<and> m \<le> n \<and> n \<le> m + 1)"
  by (auto simp: send_with_payment_def middleware_handle_def split: prod.splits sum.splits)

text \<open>
  C36: the two integrations do the same. For a request whose body can be sent again and that has
  no \<open>Authorization\<close> header yet, the extension and the middleware send the same requests, make
  the same payment, end in the same state of the world and with the same response, and one
  fails exactly when the other does.
\<close>

theorem middleware_matches_fetch:
  assumes "rq_replayable req" and "header_get ''authorization'' (rq_headers req) = None"
  shows "snd (middleware_handle X H P req w) = snd (send_with_payment X H P req w)
    \<and> ok_opt (fst (middleware_handle X H P req w)) = ok_opt (fst (send_with_payment X H P req w))"
proof (cases "hc_send H req w")
  case (Pair a w1)
  show ?thesis
  proof (cases a)
    case (Inr resp)
    have "ok_opt (middleware_challenge X H resp) = ok_opt (response_challenge X H resp)"
      by (rule challenge_reading_agrees)
    then show ?thesis
      using Pair Inr assms(1)
      by (cases "middleware_challenge X H resp"; cases "response_challenge X H resp")
        (auto simp: send_with_payment_def middleware_handle_def insert_is_append [OF assms(2)]
          split: prod.splits sum.splits)
  qed (use Pair assms(1) in \<open>simp add: send_with_payment_def middleware_handle_def\<close>)
qed

section \<open>A gated server\<close>

definition gate_answer ::
  "crates \<Rightarrow> 's mpp \<Rightarrow> (string \<Rightarrow> bool) \<Rightarrow> (string \<Rightarrow> bool) \<Rightarrow> string \<Rightarrow> string option \<Rightarrow> http_response
   \<Rightarrow> int \<Rightarrow> http_request \<Rightarrow> http_response" where
  "gate_answer X m is_value is_text amount description handler now req =
     (case extract_charge (mpp_challenger X m) now amount description
        (case header_get ''authorization'' (rq_headers req) of
           None \<Rightarrow> None | Some v \<Rightarrow> if is_text v then Some v else None) of
        Inl rejection \<Rightarrow> rejection_response is_value rejection
      | Inr rc \<Rightarrow> with_receipt X is_value rc handler)"

definition gate_client ::
  "crates \<Rightarrow> 's mpp \<Rightarrow> (string \<Rightarrow> bool) \<Rightarrow> (string \<Rightarrow> bool) \<Rightarrow> string \<Rightarrow> string option \<Rightarrow> http_response
   \<Rightarrow> ('w \<Rightarrow> int) \<Rightarrow> 'w http_client" where
  "gate_client X m is_value is_text amount description handler clock =
     \<lparr>hc_send = \<lambda>req w. (Inr (gate_answer X m is_value is_text amount description handler (clock w) req), w),
      hc_is_value = is_value, hc_is_text = is_text,
      hc_value_error = ''builder error'', hc_text_error = ''failed to convert header to a str''\<rparr>"

lemma gate_client_sel [simp]:
  "hc_send (gate_client X m hv tx a d h clock) req w = (Inr (gate_answer X m hv tx a d h (clock w) req), w)"
  "hc_is_value (gate_client X m hv tx a d h clock) = hv"
  "hc_is_text (gate_client X m hv tx a d h clock) = tx"
  by (simp_all add: gate_client_def)

lemma gate_demands_payment:
  assumes "header_get ''authorization'' (rq_headers req) = None"
    and "mpp_challenge X m now amount description = Inr c"
    and "format_www_authenticate c = Inr h" and "hv h"
  shows "gate_answer X m hv tx amount description handler now req =
    \<lparr>hr_status = 402, hr_headers = [(''www-authenticate'', h), (''content-type'', ''application/json'')],
     hr_body = ''{'' @ dquote @ ''error'' @ dquote @ '':'' @ dquote @ ''Payment Required'' @ dquote @ ''}''\<rparr>"
  using assms by (simp add: gate_answer_def extract_charge_def mpp_challenger_def
      payment_required_response_def header_or_scheme_def)

lemma issued_charge_on_wire:
  assumes "movement_charge_with_options X now m amount options = Inr c" and "ch_id c \<noteq> []"
    and "mpp_currency m = Some currency" and "mpp_recipient m = Some recipient"
    and "parse_dollar_amount amount (mpp_decimals m) = Inr base_units" and "b64url_ok X"
    and "reads_back X charge_request_of_json
      (charge_request_to_json (charge_terms base_units currency recipient options))"
  shows "wire_challenge c" and "decodes_to_json X (ch_request c)" and "ch_digest c = None"
proof -
  from issued_charge_parts [OF assms(1)] assms(3-5) have enc: "b64json_from_typed X charge_request_to_json
      (charge_terms base_units currency recipient options) = Inr (ch_request c)" by fastforce
  then obtain doc where "json_canonical X (charge_request_to_json
      (charge_terms base_units currency recipient options)) = Inr doc"
    and "ch_request c = Base64UrlJson (b64url_encode X (as_bytes doc))"
    by (auto simp: b64json_from_typed_def base64url_encode_def res_simps)
  with assms(6,7) show "decodes_to_json X (ch_request c)"
    by (auto simp: decodes_to_json_def decode_value_def base64url_decode_def reads_back_def
        res_simps b64url_ok_decode split: sum.splits)
  have "ch_method c = method_name_new METHOD_NAME" "ch_intent c = intent_name_new INTENT_CHARGE"
    and dig: "ch_digest c = None"
    using assms(1) by (auto simp: movement_charge_with_options_def charge_challenge_with_options_def res_simps)
  then show "wire_challenge c" using assms(2)
    by (simp add: wire_challenge_def method_is_valid_def method_name_new_def intent_name_new_def
        METHOD_NAME_def INTENT_CHARGE_def to_ascii_lowercase_def to_lower_def is_ascii_uppercase_def
        is_ascii_lowercase_def)
  show "ch_digest c = None" by (rule dig)
qed

section \<open>A paid round\<close>

text \<open>A credential that travels: it formats to a header value that reads as text, within the limit
  for tokens, and its JSON text reads back.\<close>

definition sendable ::
  "crates \<Rightarrow> (string \<Rightarrow> bool) \<Rightarrow> (string \<Rightarrow> bool) \<Rightarrow> payment_credential \<Rightarrow> string \<Rightarrow> bool" where
  "sendable X is_value is_text credential auth \<longleftrightarrow> format_authorization X credential = Inr auth
     \<and> is_value auth \<and> is_text auth \<and> auth \<noteq> ''Payment '' \<and> length auth \<le> 8 + max_token_len
     \<and> json_text_ok X (payment_credential_to_json credential)"

lemma gate_admits_sendable:
  assumes "header_get ''authorization'' (rq_headers req) = Some auth"
    and "sendable X hv tx credential auth" and "b64url_ok X"
    and "echo_digest (cred_challenge credential) = None"
    and "verify_credential X now m credential = Inr rc"
  shows "gate_answer X m hv tx amount description handler now req = with_receipt X hv rc handler"
proof -
  have "extract_payment_scheme auth = Some auth"
    using assms(2,3) by (auto simp: sendable_def intro: formatted_credential_scheme)
  moreover have "parse_authorization X auth = Inr credential"
    using assms(2,3,4)
    by (intro formatted_credential_parses) (auto simp: sendable_def digest_check_def)
  moreover have "tx auth" using assms(2) by (simp add: sendable_def)
  ultimately show ?thesis
    using assms(1,5)
    by (simp add: gate_answer_def extract_charge_def mpp_challenger_def mpp_verify_payment_def)
qed

text \<open>
  C11: a payment goes through. A client that sends a request to a handler behind the extractor,
  with a provider that pays the challenge it is given, ends with the handler's own response
  and its receipt: the challenge survives the header, the credential survives the header, and
  the server recognizes it, as long as the provider is done before the challenge expires and
  the charge method accepts the payment for the terms of the route.
\<close>

theorem paid_fetch_succeeds:
  assumes "rq_replayable req" and "header_get ''authorization'' (rq_headers req) = None"
    and "movement_charge_with_options X (clock w) m amount
      (charge_options_default\<lparr>co_description := description\<rparr>) = Inr c"
    and "mpp_currency m = Some currency" and "mpp_recipient m = Some recipient"
    and "parse_dollar_amount amount (mpp_decimals m) = Inr base_units" and "b64url_ok X"
    and "reads_back X charge_request_of_json (charge_request_to_json (charge_terms base_units
      currency recipient (charge_options_default\<lparr>co_description := description\<rparr>)))"
    and "ch_id c \<noteq> []" and "ch_expires c = Some e" and "rfc3339_parse X e = Some t"
    and "format_www_authenticate c = Inr h" and "hv h" and "tx h"
    and "pp_pay P c w = (Inr (credential_new (to_echo c) payload), w')" and "clock w' < t"
    and "sendable X hv tx (credential_new (to_echo c) payload) auth"
    and "mpp_method m (clock w') (credential_new (to_echo c) payload) (charge_terms base_units
      currency recipient (charge_options_default\<lparr>co_description := description\<rparr>)) = Inr rc"
  shows "send_with_payment X (gate_client X m hv tx amount description handler clock) P req w
    = (Inr (with_receipt X hv rc handler), w')"
proof -
  let ?H = "gate_client X m hv tx amount description handler clock"
  let ?cred = "credential_new (to_echo c) payload"
  note wire = issued_charge_on_wire [OF assms(3,9,4-8)]
  have demand: "hc_send ?H req w = (Inr (gate_answer X m hv tx amount description handler (clock w) req), w)"
    by simp
  have "mpp_challenge X m (clock w) amount description = Inr c"
    using assms(3) by (simp add: mpp_challenge_def)
  note first = gate_demands_payment [where hv = hv and h = h and tx = tx and handler = handler, OF assms(2) this assms(12,13)]
  have "parse_www_authenticate X h = Inr c"
    by (rule formatted_challenge_parses [OF assms(12) wire(1,2)])
  then have read: "response_challenge X ?H (gate_answer X m hv tx amount description handler (clock w) req) = Inr c"
    using assms(14) by (simp add: challenge_reading first header_get_def)
  have "verify_credential X (clock w') m ?cred = Inr rc"
    using issued_charge_verified [OF assms(3-8,10,11,16)] assms(18) by simp
  moreover have "echo_digest (cred_challenge ?cred) = None"
    using wire(3) by (simp add: credential_new_def to_echo_def)
  ultimately have "gate_answer X m hv tx amount description handler (clock w')
      (append_header ''authorization'' auth req) = with_receipt X hv rc handler"
    using assms(2,7,17)
    by (intro gate_admits_sendable [where credential = ?cred and auth = auth])
      (simp_all add: header_get_append)
  moreover have "format_authorization X ?cred = Inr auth" "hv auth"
    using assms(17) by (simp_all add: sendable_def)
  ultimately show ?thesis
    using assms(1,15) first read by (simp add: send_with_payment_def)
qed

text \<open>One concrete round: the documents are two texts, the provider pays at once.\<close>

definition round_challenge :: payment_challenge where
  "round_challenge = \<lparr>ch_id = compute_challenge_id sample_crates ''key'' ''realm'' METHOD_NAME
       INTENT_CHARGE (sample_hex_encode (as_bytes ''doc'')) (Some (show_nat 300000000000)) None None,
     ch_realm = ''realm'', ch_method = method_name_new METHOD_NAME,
     ch_intent = intent_name_new INTENT_CHARGE,
     ch_request = Base64UrlJson (sample_hex_encode (as_bytes ''doc'')),
     ch_expires = Some (show_nat 300000000000), ch_description = None, ch_digest = None,
     ch_opaque = None\<rparr>"

definition round_credential :: payment_credential where
  "round_credential = credential_new (to_echo round_challenge) JNull"

definition round_world :: crates where
  "round_world = sample_crates\<lparr>json_canonical := \<lambda>_. Inr ''doc'', json_to_string := \<lambda>_. Inr ''cred'',
     json_from_slice := \<lambda>bs. if length bs = 3 then Inr (charge_request_to_json sample_terms)
       else Inr (payment_credential_to_json round_credential)\<rparr>"

definition round_provider :: "unit payment_provider" where
  "round_provider = \<lparr>pp_supports = \<lambda>_ _. True,
     pp_pay = \<lambda>challenge w. (Inr (credential_new (to_echo challenge) JNull), w)\<rparr>"

definition round_request :: http_request where
  "round_request = \<lparr>rq_target = ''GET /paid'', rq_headers = [], rq_replayable = True\<rparr>"

lemma round_terms:
  "charge_terms ''7'' ''0xa'' ''0xb'' (charge_options_default\<lparr>co_description := None\<rparr>) = sample_terms"
  by (simp add: sample_terms_def charge_terms_def sample_options_def charge_options_default_def)

lemma round_issued:
  "movement_charge_with_options round_world 0 sample_mpp ''7''
     (charge_options_default\<lparr>co_description := None\<rparr>) = Inr round_challenge"
  by (simp add: movement_charge_with_options_def require_movement_config_def sample_mpp_def mpp_new_def
      sample_dollar_amount charge_challenge_with_options_def charge_with_base_units_def
      charge_request_default_def b64json_from_typed_def round_world_def resolve_expires_def
      charge_options_default_def round_challenge_def base64url_encode_def compute_challenge_id_def
      sample_crates_def default_expires_def DEFAULT_EXPIRES_MINUTES_def)

lemma sample_mpp_sel:
  "mpp_currency sample_mpp = Some ''0xa''" "mpp_recipient sample_mpp = Some ''0xb''"
  "mpp_decimals sample_mpp = 0" "mpp_method sample_mpp now credential sample_terms = Inr sample_receipt"
  by (simp_all add: sample_mpp_def mpp_new_def)

lemma round_laws:
  "b64url_ok round_world"
  "reads_back round_world charge_request_of_json (charge_request_to_json sample_terms)"
  "rfc3339_parse round_world (show_nat 300000000000) = Some 300000000000"
  by (rule sample_laws) (simp_all add: round_world_def sample_crates_def reads_back_def as_bytes_def)

lemma hex_no_break: "CHR 0x0D \<notin> set (sample_hex_encode bs)" "CHR 0x0A \<notin> set (sample_hex_encode bs)"
  using sample_hex_b64url [of bs] b64url_char_plain by (auto simp: list_all_iff)

lemma digits_no_break: "CHR 0x0D \<notin> set (show_nat n)" "CHR 0x0A \<notin> set (show_nat n)"
  using show_nat_digits [of n] by (auto simp: list_all_iff is_ascii_digit_def)

lemma round_formats: "\<exists>h. format_www_authenticate round_challenge = Inr h"
  by (simp add: format_www_authenticate_def res_simps challenge_params_def round_challenge_def
      names_normal compute_challenge_id_def base64url_encode_def hex_no_break digits_no_break)
    (simp add: sample_crates_def hex_no_break METHOD_NAME_def INTENT_CHARGE_def)

lemma round_identified: "ch_id round_challenge \<noteq> []"
  by (simp add: round_challenge_def compute_challenge_id_def base64url_encode_def sample_crates_def
      as_bytes_def)

lemma round_sendable:
  "sendable round_world (\<lambda>_. True) (\<lambda>_. True) round_credential
     (''Payment '' @ sample_hex_encode (as_bytes ''cred''))"
  by (simp add: sendable_def format_authorization_def base64url_encode_def json_text_ok_def
      round_world_def max_token_len_def as_bytes_def) (simp add: sample_crates_def)

theorem paid_fetch_succeeds_witness:
  "send_with_payment round_world (gate_client round_world sample_mpp (\<lambda>_. True) (\<lambda>_. True) ''7'' None
     \<lparr>hr_status = 200, hr_headers = [], hr_body = ''paid content''\<rparr> (\<lambda>_. 0)) round_provider round_request ()
   = (Inr (with_receipt round_world (\<lambda>_. True) sample_receipt
       \<lparr>hr_status = 200, hr_headers = [], hr_body = ''paid content''\<rparr>), ())"
proof -
  obtain h where h: "format_www_authenticate round_challenge = Inr h" using round_formats by blast
  show ?thesis
    by (rule paid_fetch_succeeds [where c = round_challenge and base_units = "''7''"
        and currency = "''0xa''" and recipient = "''0xb''" and h = h
        and payload = JNull and t = 300000000000 and e = "show_nat 300000000000"
        and auth = "''Payment '' @ sample_hex_encode (as_bytes ''cred'')"])
      (use round_sendable in \<open>simp_all add: round_request_def header_get_def round_issued sample_mpp_sel
        sample_dollar_amount round_laws round_terms h round_identified round_provider_def round_credential_def\<close>,
       simp_all add: round_challenge_def)
qed

theorem middleware_matches_fetch_witness:
  "let H = gate_client round_world sample_mpp (\<lambda>_. True) (\<lambda>_. True) ''7'' None
      \<lparr>hr_status = 200, hr_headers = [], hr_body = ''paid content''\<rparr> (\<lambda>_. 0)
   in ok_opt (fst (middleware_handle round_world H round_provider round_request ()))
    = ok_opt (fst (send_with_payment round_world H round_provider round_request ()))"
  unfolding Let_def
  by (rule middleware_matches_fetch [THEN conjunct2]) (simp_all add: round_request_def header_get_def)

section \<open>A request with an Authorization header of its own\<close>

lemma gate_refuses:
  "Option.bind authorization extract_payment_scheme = None
   \<Longrightarrow> \<exists>rej. extract_charge C now amount description authorization = Inl rej"
  by (cases "cc_challenge C now amount description") (auto simp: extract_charge_def)

text \<open>
  The extension pays in vain when the request already has an \<open>Authorization\<close> header of another
  scheme. It adds its credential as a second value, the gate reads the first one: the payment
  is made, the world is the one after it, and the answer is a refusal all the same. The
  middleware replaces the header, and the gate reads its credential.
\<close>

theorem second_authorization_unseen:
  assumes "rq_replayable req" and "header_get ''authorization'' (rq_headers req) = Some a"
    and "extract_payment_scheme a = None"
    and "mpp_challenge X m (clock w) amount description = Inr c"
    and "format_www_authenticate c = Inr h" and "hv h" and "tx h"
    and "parse_www_authenticate X h = Inr c" and "pp_pay P c w = (Inr credential, w')"
    and "format_authorization X credential = Inr auth" and "hv auth"
  shows "(\<exists>resp. send_with_payment X (gate_client X m hv tx amount description handler clock) P req w
      = (Inr resp, w') \<and> hr_status resp \<in> {402, 500})
    \<and> header_get ''authorization'' (rq_headers (append_header ''authorization'' auth req)) = Some a
    \<and> header_get ''authorization'' (rq_headers (insert_header ''authorization'' auth req)) = Some auth"
proof -
  let ?H = "gate_client X m hv tx amount description handler clock"
  have refuse: "\<exists>rej. gate_answer X m hv tx amount description handler now r = rejection_response hv rej"
    if "header_get ''authorization'' (rq_headers r) = Some a" for now r
  proof -
    obtain rej where "extract_charge (mpp_challenger X m) now amount description
        (if tx a then Some a else None) = Inl rej"
      using gate_refuses [of "if tx a then Some a else None"] assms(3) by fastforce
    with that show ?thesis by (intro exI [of _ rej]) (simp add: gate_answer_def)
  qed
  have kept: "header_get ''authorization'' (rq_headers (append_header ''authorization'' auth req)) = Some a"
    by (simp add: header_get_append assms(2))
  have demand: "gate_answer X m hv tx amount description handler (clock w) req = payment_required_response hv c"
    using assms(2-4) by (simp add: gate_answer_def extract_charge_def mpp_challenger_def)
  have first: "hr_status (payment_required_response hv c) = 402"
    "header_get ''www-authenticate'' (hr_headers (payment_required_response hv c)) = Some h"
    using assms(5,6) by (simp_all add: payment_required_response_def header_or_scheme_def header_get_def)
  have "response_challenge X ?H (payment_required_response hv c) = Inr c"
    using assms(7,8) by (simp add: challenge_reading first)
  then have run: "send_with_payment X ?H P req w = (Inr (gate_answer X m hv tx amount description handler
      (clock w') (append_header ''authorization'' auth req)), w')"
    using assms(1,9-11) by (simp add: send_with_payment_def demand first)
  obtain rej where "gate_answer X m hv tx amount description handler (clock w')
      (append_header ''authorization'' auth req) = rejection_response hv rej"
    using refuse [OF kept] by blast
  with run rejection_status [of hv rej] show ?thesis
    by (simp add: kept header_get_insert)
qed

theorem second_authorization_unseen_witness:
  "\<exists>resp. send_with_payment round_world (gate_client round_world sample_mpp (\<lambda>_. True) (\<lambda>_. True) ''7'' None
     \<lparr>hr_status = 200, hr_headers = [], hr_body = ''paid content''\<rparr> (\<lambda>_. 0)) round_provider
     (round_request\<lparr>rq_headers := [(''authorization'', ''Bearer x'')]\<rparr>) () = (Inr resp, ())
   \<and> hr_status resp \<in> {402, 500}"
proof -
  obtain h where h: "format_www_authenticate round_challenge = Inr h" using round_formats by blast
  have p: "parse_www_authenticate round_world h = Inr round_challenge"
    using issued_charge_on_wire [OF round_issued round_identified sample_mpp_sel(1,2)] sample_dollar_amount
    by (intro formatted_challenge_parses [OF h]) (simp_all add: round_laws round_terms sample_mpp_sel)
  have s: "extract_payment_scheme ''Bearer x'' = None"
    by (simp add: extract_payment_scheme_def str_trim_def trim_start_def trim_end_def is_whitespace_def
        get_to_def is_some_and_def eq_ignore_ascii_case_def to_ascii_lowercase_def to_lower_def
        is_ascii_uppercase_def char_eval)
  have i: "mpp_challenge round_world sample_mpp 0 ''7'' None = Inr round_challenge"
    by (simp add: mpp_challenge_def round_issued)
  have pay: "pp_pay round_provider round_challenge () = (Inr round_credential, ())"
    by (simp add: round_provider_def round_credential_def)
  have f: "format_authorization round_world round_credential
      = Inr (''Payment '' @ sample_hex_encode (as_bytes ''cred''))"
    using round_sendable by (simp only: sendable_def)
  show ?thesis
    by (rule second_authorization_unseen [where m = sample_mpp and hv = "\<lambda>_. True" and tx = "\<lambda>_. True"
        and clock = "\<lambda>_. 0", THEN conjunct1, OF _ _ s i h _ _ p pay f])
      (simp_all add: round_request_def header_get_def)
qed

end
