(* ===== verification/Session_Round.thy ===== *)
theory Session_Round
  imports Client_Claims
begin

text \<open>
  The life of a channel: the session provider of the client and the session method of the server
  run against each other. A round is one payment: the client makes a credential for a
  challenge, the server verifies it. The first round opens the channel and puts the two in
  step; every later one keeps them in step, and none is refused as long as the prices fit the
  deposit.
\<close>

section \<open>Rounds\<close>

definition pay_round ::
  "crates \<Rightarrow> network \<Rightarrow> network \<Rightarrow> int \<Rightarrow> bytes \<Rightarrow> session_method_config \<Rightarrow> session_request
   \<Rightarrow> payment_challenge \<Rightarrow> session_provider \<times> mem_store \<Rightarrow> bool \<times> session_provider \<times> mem_store" where
  "pay_round X net net' now salt cfg sreq challenge s =
     (case session_pay X net now salt challenge (fst s) of
        (Inl e, p') \<Rightarrow> (False, p', snd s)
      | (Inr credential, p') \<Rightarrow>
          (case method_verify_session X net' now cfg mem_channels credential sreq (snd s) of
             (r, st') \<Rightarrow> (is_ok r, p', st')))"

fun pay_rounds ::
  "crates \<Rightarrow> network \<Rightarrow> network \<Rightarrow> int \<Rightarrow> bytes \<Rightarrow> session_method_config \<Rightarrow> session_request
   \<Rightarrow> payment_challenge list \<Rightarrow> session_provider \<times> mem_store
   \<Rightarrow> bool list \<times> session_provider \<times> mem_store" where
  "pay_rounds X net net' now salt cfg sreq [] s = ([], s)"
| "pay_rounds X net net' now salt cfg sreq (challenge # challenges) s =
     (case pay_round X net net' now salt cfg sreq challenge s of (ok, s') \<Rightarrow>
        (case pay_rounds X net net' now salt cfg sreq challenges s' of (oks, s'') \<Rightarrow> (ok # oks, s'')))"

text \<open>A session challenge that asks for an amount on the channel stored under a key.\<close>

definition asks_for :: "crates \<Rightarrow> string \<Rightarrow> payment_challenge \<Rightarrow> u64 \<Rightarrow> bool" where
  "asks_for X key challenge amount \<longleftrightarrow> method_as_str (ch_method challenge) = METHOD_NAME
     \<and> intent_as_str (ch_intent challenge) = INTENT_SESSION
     \<and> (case session_terms X challenge of
          Inl _ \<Rightarrow> False
        | Inr (req, a, payee, module_addr) \<Rightarrow>
            a = amount \<and> channel_key payee (sr_currency req) module_addr = key)"

text \<open>Client and server share a channel under a key, with an amount already paid and a deposit.\<close>

definition shares_channel ::
  "crates \<Rightarrow> string \<Rightarrow> nat \<Rightarrow> u64 \<Rightarrow> session_provider \<times> mem_store \<Rightarrow> bool" where
  "shares_channel X key paid deposit s \<longleftrightarrow>
     (case sp_channels (fst s) key of
        None \<Rightarrow> False
      | Some e \<Rightarrow> in_step X (sp_signing_key (fst s)) e (snd s) \<and> unat (ce_cumulative_amount e) = paid
          \<and> (case snd s (prefixed_hex X (ce_channel_id e)) of
               None \<Rightarrow> False | Some c \<Rightarrow> cs_deposit c = deposit))"

lemma shares_channelI:
  assumes "sp_channels p key = Some e" and "in_step X (sp_signing_key p) e st"
    and "st (prefixed_hex X (ce_channel_id e)) = Some c" and "cs_deposit c = deposit"
    and "unat (ce_cumulative_amount e) = paid"
  shows "shares_channel X key paid deposit (p, st)"
  using assms by (simp add: shares_channel_def)

lemma round_accepted:
  assumes "hex_ok X" and "ed25519_ok X" and "asks_for X key challenge amount"
    and "shares_channel X key paid deposit s" and "paid + unat amount \<le> unat deposit"
    and "0 < amount" and "resolve_min_delta cfg (resolve_details X cfg sreq) \<le> amount"
  obtains s' where "pay_round X net net' now salt cfg sreq challenge s = (True, s')"
    and "shares_channel X key (paid + unat amount) deposit s'"
proof -
  obtain p st where s: "s = (p, st)" by fastforce
  obtain req payee module_addr where
    terms: "session_terms X challenge = Inr (req, amount, payee, module_addr)"
    and key: "key = channel_key payee (sr_currency req) module_addr"
    and m: "method_as_str (ch_method challenge) = METHOD_NAME"
    and i: "intent_as_str (ch_intent challenge) = INTENT_SESSION"
    using assms(3) by (auto simp: asks_for_def split: sum.splits)
  obtain e c where e: "sp_channels p key = Some e" and step: "in_step X (sp_signing_key p) e st"
    and paid: "unat (ce_cumulative_amount e) = paid"
    and c: "st (prefixed_hex X (ce_channel_id e)) = Some c" and dep: "cs_deposit c = deposit"
    using assms(4) by (auto simp: shares_channel_def s split: option.splits)
  have fits: "unat (ce_cumulative_amount e) + unat amount \<le> unat (cs_deposit c)"
    using assms(5) by (simp add: paid dep)
  obtain credential p' e' rc st' c' where
    pay: "session_pay X net now salt challenge p = (Inr credential, p')"
    and ver: "method_verify_session X net' now cfg mem_channels credential sreq st = (Inr rc, st')"
    and e': "sp_channels p' key = Some e'"
    and amt: "unat (ce_cumulative_amount e') = unat (ce_cumulative_amount e) + unat amount"
    and step': "in_step X (sp_signing_key p) e' st'" and cid: "ce_channel_id e' = ce_channel_id e"
    and sk: "sp_signing_key p' = sp_signing_key p"
    and c': "st' (prefixed_hex X (ce_channel_id e)) = Some c'" "cs_deposit c' = cs_deposit c"
    using voucher_round [OF assms(1,2) terms m i e [unfolded key] step c fits assms(6,7),
        of net now salt net' now] unfolding key by blast
  have "pay_round X net net' now salt cfg sreq challenge s = (True, p', st')"
    by (simp add: pay_round_def s pay ver)
  moreover have "shares_channel X key (paid + unat amount) deposit (p', st')"
    by (rule shares_channelI [OF e']) (use step' c' amt in \<open>simp_all add: cid sk dep paid\<close>)
  ultimately show thesis by (rule that)
qed

lemma rounds_accepted:
  assumes "hex_ok X" and "ed25519_ok X" and "list_all2 (asks_for X key) challenges amounts"
    and "\<forall>a \<in> set amounts. 0 < a \<and> resolve_min_delta cfg (resolve_details X cfg sreq) \<le> a"
    and "shares_channel X key paid deposit s" and "paid + (\<Sum>a \<leftarrow> amounts. unat a) \<le> unat deposit"
  shows "\<exists>s'. pay_rounds X net net' now salt cfg sreq challenges s = (replicate (length challenges) True, s')
    \<and> shares_channel X key (paid + (\<Sum>a \<leftarrow> amounts. unat a)) deposit s'"
  using assms(3-6)
proof (induction challenges amounts arbitrary: paid s rule: list_all2_induct)
  case Nil
  then show ?case by simp
next
  case (Cons ch chs a as)
  obtain s1 where 1: "pay_round X net net' now salt cfg sreq ch s = (True, s1)"
    and sh: "shares_channel X key (paid + unat a) deposit s1"
    by (rule round_accepted [OF assms(1,2) Cons.hyps(1) Cons.prems(2)]) (use Cons.prems in auto)
  from Cons.IH [OF _ sh] Cons.prems obtain s' where
    "pay_rounds X net net' now salt cfg sreq chs s1 = (replicate (length chs) True, s')"
    "shares_channel X key (paid + unat a + (\<Sum>a \<leftarrow> as. unat a)) deposit s'" by auto
  with 1 show ?case by (simp add: add.assoc)
qed

section \<open>Opening\<close>

text \<open>The client has no open channel for what the challenge asks for, and its open transaction goes
  through with this hash and channel identifier.\<close>

definition opens_with ::
  "crates \<Rightarrow> network \<Rightarrow> int \<Rightarrow> bytes \<Rightarrow> session_provider \<Rightarrow> payment_challenge \<Rightarrow> string \<Rightarrow> bytes \<Rightarrow> bool" where
  "opens_with X net now salt p challenge hash cid \<longleftrightarrow>
     (case session_terms X challenge of
        Inl _ \<Rightarrow> False
      | Inr (req, amount, payee, module_addr) \<Rightarrow>
          (case sp_channels p (channel_key payee (sr_currency req) module_addr) of
             None \<Rightarrow> True | Some e \<Rightarrow> \<not> ce_opened e)
          \<and> open_submission X net now salt p req payee module_addr = Inr (hash, cid))"

text \<open>The node the server asks shows the transaction and the channel, funded and open.\<close>

definition chain_shows ::
  "crates \<Rightarrow> network \<Rightarrow> session_method_config \<Rightarrow> session_request \<Rightarrow> string \<Rightarrow> bytes \<Rightarrow> u64 \<Rightarrow> bool" where
  "chain_shows X net cfg sreq hash cid deposit \<longleftrightarrow>
     is_ok (verify_transaction_on_chain X net (cfg_rest_url cfg) hash) \<and> deposit \<noteq> 0
     \<and> (case get_on_chain_channel X net (cfg_rest_url cfg)
            (sd_module_address (resolve_details X cfg sreq)) (details_registry (resolve_details X cfg sreq))
            (prefixed_hex X cid) of
          Inl _ \<Rightarrow> False | Inr oc \<Rightarrow> oc_deposit oc = deposit \<and> \<not> oc_finalized oc)"

lemma session_pay_opening:
  assumes "session_terms X challenge = Inr (req, amount, payee, module_addr)"
    and "opens_with X net now salt p challenge hash cid"
  shows "session_pay X net now salt challenge p =
    (Inr (credential_new (to_echo challenge) (open_json X hash cid (ed_public X (sp_signing_key p)) amount
        (sign_voucher X (sp_signing_key p) cid amount))),
     p\<lparr>sp_last_challenge := Some challenge,
       sp_channels := (sp_channels p)(channel_key payee (sr_currency req) module_addr
         \<mapsto> opened_entry X p cid salt amount module_addr)\<rparr>)"
proof -
  let ?p = "p\<lparr>sp_last_challenge := Some challenge\<rparr>"
  let ?key = "channel_key payee (sr_currency req) module_addr"
  have "open_submission X net now salt ?p req payee module_addr = Inr (hash, cid)"
    using assms by (simp add: opens_with_def open_submission_def resolve_deposit_def)
  then have "pay_by_opening X net now salt ?p ?key (to_echo challenge) req amount payee module_addr =
    (Inr (credential_new (to_echo challenge) (open_json X hash cid (ed_public X (sp_signing_key p)) amount
        (sign_voucher X (sp_signing_key p) cid amount))),
     ?p\<lparr>sp_channels := (sp_channels p)(?key \<mapsto> opened_entry X p cid salt amount module_addr)\<rparr>)"
    by (simp add: pay_by_opening_def opened_entry_def Let_def)
  with assms show ?thesis
    by (auto simp: session_pay_def opens_with_def Let_def split: option.splits)
qed

lemma opening_accepted:
  assumes "hex_ok X" and "ed25519_ok X" and "asks_for X key challenge amount"
    and "opens_with X net now salt p challenge hash cid"
    and "chain_shows X net' cfg sreq hash cid deposit" and "amount \<le> deposit"
  obtains s' where "pay_round X net net' now salt cfg sreq challenge (p, st) = (True, s')"
    and "shares_channel X key (unat amount) deposit s'"
proof -
  let ?sk = "sp_signing_key p" and ?d = "resolve_details X cfg sreq"
  obtain req payee module_addr where
    terms: "session_terms X challenge = Inr (req, amount, payee, module_addr)"
    and key: "key = channel_key payee (sr_currency req) module_addr"
    and m: "method_as_str (ch_method challenge) = METHOD_NAME"
    and i: "intent_as_str (ch_intent challenge) = INTENT_SESSION"
    using assms(3) by (auto simp: asks_for_def split: sum.splits)
  obtain t oc where t: "verify_transaction_on_chain X net' (cfg_rest_url cfg) hash = Inr t"
    and oc: "get_on_chain_channel X net' (cfg_rest_url cfg) (sd_module_address ?d) (details_registry ?d)
      (prefixed_hex X cid) = Inr oc"
    and dep: "oc_deposit oc = deposit" "deposit \<noteq> 0" "\<not> oc_finalized oc"
    using assms(5) by (auto simp: chain_shows_def res_simps split: sum.splits)
  note dec = prefixed_hex_decodes [OF assms(1)]
  have "open_plan X net' now cfg ?d hash (prefixed_hex X cid) (Some (prefixed_hex X (ed_public X ?sk)))
      (show_u64 amount) (prefixed_hex X (sign_voucher X ?sk cid amount)) =
    Inr (Commit (prefixed_hex X cid) (open_updater (opened_channel X now ?d (prefixed_hex X cid) oc
        (ed_public X ?sk) amount (sign_voucher X ?sk cid amount)))
      (\<lambda>_. Inr (receipt_success X now METHOD_NAME hash)))"
    using open_honest [OF assms(2) t oc _ dep(3) _ dec dec dec] dep assms(6) by simp
  note handled = handle_open_eq [OF this, of st]
  let ?e = "opened_entry X p cid salt amount module_addr"
  let ?c = "opened_channel X now ?d (prefixed_hex X cid) oc (ed_public X ?sk) amount
    (sign_voucher X ?sk cid amount)"
  have "pay_round X net net' now salt cfg sreq challenge (p, st) = (True,
      p\<lparr>sp_last_challenge := Some challenge, sp_channels := (sp_channels p)(key \<mapsto> ?e)\<rparr>,
      st(prefixed_hex X cid \<mapsto> ?c))"
    by (simp add: pay_round_def session_pay_opening [OF terms assms(4)] method_verify_session_def
        credential_payload_session [OF m i open_json_reads] session_action_def handled key)
  moreover have "shares_channel X key (unat amount) deposit
     (p\<lparr>sp_last_challenge := Some challenge, sp_channels := (sp_channels p)(key \<mapsto> ?e)\<rparr>,
      st(prefixed_hex X cid \<mapsto> ?c))"
    by (simp add: shares_channel_def in_step_def opened_entry_def opened_channel_def dep)
  ultimately show thesis by (rule that)
qed

lemma lifetime_rounds:
  assumes "hex_ok X" and "ed25519_ok X" and "asks_for X key challenge amount"
    and "opens_with X net now salt p challenge hash cid"
    and "chain_shows X net' cfg sreq hash cid deposit"
    and "list_all2 (asks_for X key) challenges amounts"
    and "\<forall>a \<in> set amounts. 0 < a \<and> resolve_min_delta cfg (resolve_details X cfg sreq) \<le> a"
    and "(\<Sum>a \<leftarrow> amount # amounts. unat a) \<le> unat deposit"
  shows "\<exists>s'. pay_rounds X net net' now salt cfg sreq (challenge # challenges) (p, st)
      = (replicate (Suc (length challenges)) True, s')
    \<and> shares_channel X key (\<Sum>a \<leftarrow> amount # amounts. unat a) deposit s'"
proof -
  have "amount \<le> deposit" using assms(8) by (simp add: word_le_nat_alt)
  then obtain s1 where "pay_round X net net' now salt cfg sreq challenge (p, st) = (True, s1)"
    and sh: "shares_channel X key (unat amount) deposit s1"
    using opening_accepted [OF assms(1-5)] by blast
  moreover obtain s2 where "pay_rounds X net net' now salt cfg sreq challenges s1
      = (replicate (length challenges) True, s2)"
    and "shares_channel X key (unat amount + (\<Sum>a \<leftarrow> amounts. unat a)) deposit s2"
    using rounds_accepted [OF assms(1,2,6,7) sh] assms(8) by fastforce
  ultimately show ?thesis by (intro exI [of _ s2]) simp
qed

text \<open>
  C10: the life of a channel. A session provider without a channel opens one for the first
  challenge and pays every further challenge for the same recipient, token and module with a
  voucher: as long as the node shows the funded channel and the prices, each at least the
  minimum, fit the deposit together, the server accepts every single round, and in the end
  both sides agree that exactly the sum of the prices has been paid.
\<close>

theorem session_lifetime:
  assumes "hex_ok X" and "ed25519_ok X" and "asks_for X key challenge amount"
    and "opens_with X net now salt p challenge hash cid"
    and "chain_shows X net' cfg sreq hash cid deposit"
    and "list_all2 (asks_for X key) challenges amounts"
    and "\<forall>a \<in> set amounts. 0 < a \<and> resolve_min_delta cfg (resolve_details X cfg sreq) \<le> a"
    and "(\<Sum>a \<leftarrow> amount # amounts. unat a) \<le> unat deposit"
  shows "\<exists>s'. pay_rounds X net net' now salt cfg sreq (challenge # challenges) (p, st)
      = (replicate (Suc (length challenges)) True, s')
    \<and> shares_channel X key (\<Sum>a \<leftarrow> amount # amounts. unat a) deposit s'"
  using assms by (rule lifetime_rounds)

section \<open>One concrete life\<close>

text \<open>A node that answers every lookup with one document that is an account, a pending and a
  confirmed transaction, and shows a channel with deposit 100; a client with no channel.\<close>

definition life_world :: crates where
  "life_world = sample_crates\<lparr>json_from_slice := \<lambda>bs.
     if length bs = 0 then Inr (session_request_to_json step_request)
     else if length bs = 1 then Inr (JObj [(''sequence_number'', JStr ''1''),
       (''authentication_key'', JStr ''k''), (''hash'', JStr ''0x1''), (''success'', JBool True),
       (''type'', JStr ''user_transaction'')])
     else if length bs = 2 then Inr (JStr ''00'')
     else Inr (JArr [JStr ''0x2'', JStr ''0xb'', JStr ''0xa'', JStr ''100'', JStr ''0'', JStr ''0'',
       JBool False])\<rparr>"

definition life_net :: network where
  "life_net = \<lparr>http_get = \<lambda>_. Response 200 ''o'',
     http_post = \<lambda>url _. Response 200 (if url = ''/transactions'' then ''o'' else ''ss'')\<rparr>"

definition life_chain :: network where
  "life_chain = \<lparr>http_get = \<lambda>_. Response 200 ''o'', http_post = \<lambda>_ _. Response 200 ''channel''\<rparr>"

definition life_provider :: session_provider where
  "life_provider = with_default_deposit 100 (session_provider_new life_world [3] [])"

lemma life_laws: "hex_ok life_world" "ed25519_ok life_world"
  using sample_crates_hex_ok sample_crates_ed25519_ok
  by (simp_all add: life_world_def hex_ok_def ed25519_ok_def)

lemma life_terms:
  "session_terms life_world step_challenge = Inr (step_request, 3, ''0xb'', DEFAULT_MODULE_ADDRESS)"
proof -
  have "session_request_of_json (session_request_to_json step_request) = Some step_request"
    using session_request_json_roundtrip [of step_request] by (simp add: step_request_def)
  moreover have "b64url_decode life_world [] = Inr []"
    by (simp add: life_world_def sample_crates_def)
  ultimately have "b64json_decode life_world ty session_request_of_json (ch_request step_challenge)
      = Inr step_request" for ty
    by (simp add: b64json_decode_def base64url_decode_def from_slice_def step_challenge_def)
      (simp add: life_world_def from_value_def)
  then show ?thesis
    by (simp add: session_terms_def)
      (simp add: step_request_def module_address_def session_detail_def)
qed

lemma life_asks:
  "asks_for life_world (channel_key ''0xb'' ''0xa'' DEFAULT_MODULE_ADDRESS) step_challenge 3"
  by (simp add: asks_for_def life_terms) (simp add: step_challenge_def step_request_def names_normal)

lemma sample_hex_decode_digits:
  "list_all is_hex_digit s \<Longrightarrow> even (length s)
   \<Longrightarrow> \<exists>bs. sample_hex_decode s = Inr bs \<and> 2 * length bs = length s"
  by (induction s rule: sample_hex_decode.induct) auto

lemma life_address:
  assumes "list_all is_hex_digit (strip_0x a)" and "length (strip_0x a) \<le> 64"
  shows "\<exists>bs. parse_address_bytes life_world a = Inr bs"
proof -
  have "is_hex_digit CHR ''0''" by (simp add: is_hex_digit_def is_ascii_digit_def)
  then have "list_all is_hex_digit (pad_left_64 (strip_0x a))" "length (pad_left_64 (strip_0x a)) = 64"
    using assms by (auto simp: pad_left_64_def list_all_iff)
  then obtain bs where "sample_hex_decode (pad_left_64 (strip_0x a)) = Inr bs" "2 * length bs = 64"
    using sample_hex_decode_digits by fastforce
  then show ?thesis
    by (simp add: parse_address_bytes_def life_world_def sample_crates_def)
qed

lemma life_document:
  "json_from_slice life_world (as_bytes ''o'') = Inr (JObj [(''sequence_number'', JStr ''1''),
     (''authentication_key'', JStr ''k''), (''hash'', JStr ''0x1''), (''success'', JBool True),
     (''type'', JStr ''user_transaction'')])"
  "json_from_slice life_world (as_bytes ''ss'') = Inr (JStr ''00'')"
  "json_from_slice life_world (as_bytes ''channel'') = Inr (JArr [JStr ''0x2'', JStr ''0xb'',
     JStr ''0xa'', JStr ''100'', JStr ''0'', JStr ''0'', JBool False])"
  by (simp_all add: life_world_def as_bytes_def)

lemma life_submit: "build_sign_submit life_world life_net 0 [] k sender payload = Inr ''0x1''"
proof -
  have "hex_decode life_world (strip_0x ''00'') = Inr [0]"
    by (simp add: life_world_def sample_crates_def strip_0x_def strip_prefix_def starts_with_def
        is_hex_digit_def is_ascii_digit_def hex_digit_val_def)
  then show ?thesis
    by (simp add: build_sign_submit_def build_sign_submit_with_gas_def get_account_def
        encode_submission_def submit_transaction_def wait_for_transaction_def rest_answer_def
        life_net_def is_success_status_def response_json_def from_slice_def from_value_def
        life_document account_info_of_json_def pending_hash_of_json_def transaction_info_of_json_def Let_def)
qed

lemma life_opens: "\<exists>cid. opens_with life_world life_net 0 [] life_provider step_challenge ''0x1'' cid"
proof -
  have p: "sp_rest_url life_provider = []" "sp_channels life_provider = Map.empty"
    "sp_sender_address life_provider = derive_address life_world (ed_public life_world [3])"
    "resolve_deposit life_provider (sr_suggested_deposit step_request) = Inr 100"
    by (simp_all add: life_provider_def with_default_deposit_def session_provider_new_def
        rest_client_new_def trim_end_matches_def resolve_deposit_def step_request_def)
  let ?addr = "derive_address life_world (ed_public life_world [3])"
  let ?hash = "sha3_256 life_world (ed_public life_world [3] @ [0])"
  have text_of: "strip_0x ?addr = sample_hex_encode ?hash"
    by (simp add: derive_address_def) (simp add: life_world_def sample_crates_def)
  have short: "length ?hash \<le> 32" by (simp add: life_world_def sample_crates_def)
  have "length (sample_hex_encode bs) = 2 * length bs" for bs
    by (induction bs) auto
  then have "length (strip_0x ?addr) \<le> 64" using short by (simp add: text_of)
  moreover have "list_all is_hex_digit (strip_0x ?addr)"
    unfolding text_of by (rule sample_hex_roundtrip(2))
  ultimately obtain payer where payer: "parse_address_bytes life_world ?addr = Inr payer"
    using life_address by blast
  have hx: "list_all is_hex_digit (strip_0x ''0xb'')" "list_all is_hex_digit (strip_0x ''0xa'')"
    by (simp_all add: is_hex_digit_def is_ascii_digit_def)
  have "length (strip_0x ''0xb'') \<le> 64" "length (strip_0x ''0xa'') \<le> 64" by simp_all
  then obtain payee token where "parse_address_bytes life_world ''0xb'' = Inr payee"
    "parse_address_bytes life_world ''0xa'' = Inr token"
    using life_address hx by meson
  moreover have "unwrap_or (sr_currency step_request) (token_metadata step_request) = ''0xa''"
    by (simp add: token_metadata_def session_detail_def step_request_def)
  ultimately have "open_submission life_world life_net 0 [] life_provider step_request ''0xb''
      DEFAULT_MODULE_ADDRESS = Inr (''0x1'', compute_channel_id life_world payer payee token []
        (ed_public life_world (sp_signing_key life_provider)))"
    by (simp add: open_submission_def p life_submit payer Let_def)
  then show ?thesis by (auto simp: opens_with_def life_terms p)
qed

lemma life_chain_shows: "chain_shows life_world life_chain cfg sreq tx cid 100"
proof -
  have view: "on_chain_of_view [JStr ''0x2'', JStr ''0xb'', JStr ''0xa'', JStr ''100'', JStr ''0'',
      JStr ''0'', JBool False] = Inr (sample_on_chain\<lparr>oc_payee := ''0xb''\<rparr>)"
    by (simp add: on_chain_of_view_def json_str_or_empty_def json_u64_or_zero_def parse_100
        sample_on_chain_def)
  have "get_on_chain_channel life_world life_chain url m r (prefixed_hex life_world cid)
      = Inr (sample_on_chain\<lparr>oc_payee := ''0xb''\<rparr>)" for url m r
    by (simp add: get_on_chain_channel_def prefixed_hex_decodes [OF life_laws(1)] life_chain_def
        is_success_status_def response_json_def from_slice_def from_value_def life_document view Let_def)
  moreover have "is_ok (verify_transaction_on_chain life_world life_chain url tx)" for url
    by (simp add: verify_transaction_on_chain_def life_chain_def is_success_status_def
        response_json_def from_slice_def from_value_def life_document get_str_def)
  ultimately show ?thesis by (simp add: chain_shows_def sample_on_chain_def)
qed

theorem session_lifetime_witness:
  "\<exists>s'. pay_rounds life_world life_net life_chain 0 [] config_default step_request
        [step_challenge, step_challenge, step_challenge] (life_provider, mem_store_new)
      = ([True, True, True], s')
    \<and> shares_channel life_world (channel_key ''0xb'' ''0xa'' DEFAULT_MODULE_ADDRESS) 9 100 s'"
proof -
  obtain cid where o: "opens_with life_world life_net 0 [] life_provider step_challenge ''0x1'' cid"
    using life_opens by blast
  have "resolve_min_delta config_default (resolve_details life_world config_default step_request) = 0"
    by (simp add: resolve_details_def movement_session_details_def step_request_def
        resolve_min_delta_def config_default_def)
  then have "\<exists>s'. pay_rounds life_world life_net life_chain 0 [] config_default step_request
        (step_challenge # [step_challenge, step_challenge]) (life_provider, mem_store_new)
      = (replicate (Suc (length [step_challenge, step_challenge])) True, s')
    \<and> shares_channel life_world (channel_key ''0xb'' ''0xa'' DEFAULT_MODULE_ADDRESS)
        (\<Sum>a \<leftarrow> 3 # [3, 3]. unat (a :: u64)) 100 s'"
    by (intro session_lifetime [OF life_laws life_asks o life_chain_shows]) (simp_all add: life_asks)
  moreover have "(\<Sum>a \<leftarrow> 3 # [3, 3]. unat (a :: u64)) = 9"
    "replicate (Suc (length [step_challenge, step_challenge])) True = [True, True, True]"
    by simp_all
  ultimately show ?thesis by (simp only:)
qed

end
