(* ===== verification/Session_Close.thy ===== *)
theory Session_Close
  imports Session_Round Session_Claims
begin

text \<open>
  The end of a channel: the client's close credential, what the server does with it, and what
  the client does afterwards. The client's \<open>close\<close> leaves its table of channels as it is, so
  the closed channel stays the one it pays with.
\<close>

text \<open>The client still holds the channel as open, the server has finalized it at an amount.\<close>

definition closed_at :: "crates \<Rightarrow> string \<Rightarrow> nat \<Rightarrow> session_provider \<times> mem_store \<Rightarrow> bool" where
  "closed_at X key paid s \<longleftrightarrow>
     (case sp_channels (fst s) key of
        None \<Rightarrow> False
      | Some e \<Rightarrow> ce_opened e
          \<and> (case snd s (prefixed_hex X (ce_channel_id e)) of
               None \<Rightarrow> False
             | Some c \<Rightarrow> cs_finalized c \<and> unat (cs_highest_voucher_amount c) = paid))"

lemma close_of_step:
  assumes "hex_ok X" and "ed25519_ok X" and "in_step X k e st"
    and "st (prefixed_hex X (ce_channel_id e)) = Some c"
    and "method_as_str (ch_method challenge) = METHOD_NAME"
    and "intent_as_str (ch_intent challenge) = INTENT_SESSION"
  shows "method_verify_session X net now cfg mem_channels (close_credential X k challenge e) sreq st =
    (Inr (receipt_success X now METHOD_NAME (prefixed_hex X (ce_channel_id e))),
     st(prefixed_hex X (ce_channel_id e) \<mapsto> (raise_voucher c (ce_cumulative_amount e)
       (sign_voucher X k (ce_channel_id e) (ce_cumulative_amount e)))\<lparr>cs_finalized := True\<rparr>))"
proof -
  let ?cid = "prefixed_hex X (ce_channel_id e)" and ?n = "ce_cumulative_amount e"
  let ?sig = "sign_voucher X k (ce_channel_id e) ?n"
  have c: "\<not> cs_finalized c" "cs_authorized_signer_pubkey c = ed_public X k"
    "cs_highest_voucher_amount c = ?n"
    using assms(3,4) by (simp_all add: in_step_def)
  have "valid_for X ?cid c ?n ?sig"
    by (simp add: valid_for_def prefixed_hex_decodes [OF assms(1)] c(2)
        length_sign_voucher [OF assms(2)] length_ed_public [OF assms(2)] sign_then_verify [OF assms(2)])
  then have "handle_close X now mem_channels ?cid (show_u64 ?n) (prefixed_hex X ?sig) st =
    (Inr (receipt_success X now METHOD_NAME ?cid), st(?cid \<mapsto> (raise_voucher c ?n ?sig)\<lparr>cs_finalized := True\<rparr>))"
    unfolding handle_close_iff using assms(4) c
    by (intro exI [of _ c] exI [of _ ?n] exI [of _ ?sig]) (simp add: prefixed_hex_decodes [OF assms(1)])
  moreover have "session_credential_check X (close_credential X k challenge e)
      = Inr (Close ?cid (show_u64 ?n) (prefixed_hex X ?sig))"
    unfolding close_credential_def by (rule credential_payload_session [OF assms(5,6) voucher_json_reads(2)])
  ultimately show ?thesis by (simp add: method_verify_session_def session_action_def)
qed

lemma finalized_refuses:
  assumes "st cid = Some c" and "cs_finalized c"
  shows "handle_voucher X now cfg mem_channels d cid amt sig st = (Inl (ve_channel_closed ''channel is finalized''), st)"
    and "handle_close X now mem_channels cid amt sig st
      = (Inl (ve_channel_closed ''channel is already finalized''), st)"
  using assms by (simp_all add: handle_voucher_def handle_close_def mem_ops voucher_plan_def
      close_plan_def channel_or_not_found_def)

lemma closed_round:
  assumes "asks_for X key challenge amount" and "closed_at X key paid s"
  shows "\<exists>p'. pay_round X net net' now salt cfg sreq challenge s = (False, p', snd s)
    \<and> closed_at X key paid (p', snd s)"
proof -
  obtain p st where s: "s = (p, st)" by fastforce
  obtain req payee module_addr where
    terms: "session_terms X challenge = Inr (req, amount, payee, module_addr)"
    and key: "key = channel_key payee (sr_currency req) module_addr"
    and mi: "method_as_str (ch_method challenge) = METHOD_NAME"
      "intent_as_str (ch_intent challenge) = INTENT_SESSION"
    using assms(1) by (auto simp: asks_for_def split: sum.splits)
  obtain e c where e: "sp_channels p key = Some e" "ce_opened e"
    and c: "st (prefixed_hex X (ce_channel_id e)) = Some c" "cs_finalized c"
      "unat (cs_highest_voucher_amount c) = paid"
    using assms(2) by (auto simp: closed_at_def s split: option.splits)
  show ?thesis
    using e c
    by (simp add: s pay_round_def session_pay_voucher [OF terms e(1) [unfolded key] e(2)]
        method_verify_session_def credential_payload_session [OF mi voucher_json_reads(1)]
        session_action_def finalized_refuses(1) [where st = st and c = c] closed_at_def key raise_entry_def Let_def)
qed

lemma closed_rounds:
  assumes "list_all2 (asks_for X key) challenges amounts" and "closed_at X key paid s"
  shows "\<exists>p'. pay_rounds X net net' now salt cfg sreq challenges s
      = (replicate (length challenges) False, p', snd s) \<and> closed_at X key paid (p', snd s)"
  using assms
proof (induction challenges amounts arbitrary: s rule: list_all2_induct)
  case Nil
  then show ?case by (cases s) simp
next
  case (Cons ch chs a as)
  from closed_round [OF Cons.hyps(1) Cons.prems] obtain p1 where
    1: "pay_round X net net' now salt cfg sreq ch s = (False, p1, snd s)"
    "closed_at X key paid (p1, snd s)" by blast
  from Cons.IH [OF this(2)] 1(1) show ?case by auto
qed

text \<open>
  C16: closing settles and is final. The close credential that a client in step makes for a
  challenge is accepted and finalizes the channel at exactly the amount paid. From then on
  the client is stuck with it: its own \<open>close\<close> leaves the channel open in its table, so every
  later payment for the same recipient, token and module is a voucher on the finalized channel
  and is refused, whatever the price, and a second close credential is refused as well; the
  store stays as the close left it.
\<close>

theorem close_is_final:
  assumes "hex_ok X" and "ed25519_ok X" and "shares_channel X key paid deposit (p, st)"
    and "sp_channels p key = Some e" and "asks_for X key challenge amount"
    and "list_all2 (asks_for X key) challenges amounts"
  shows "\<exists>rc st' p'. method_verify_session X net now cfg mem_channels
        (close_credential X (sp_signing_key p) challenge e) sreq st = (Inr rc, st')
    \<and> closed_at X key paid (p, st')
    \<and> pay_rounds X net net' now salt cfg sreq challenges (p, st')
        = (replicate (length challenges) False, p', st')
    \<and> closed_at X key paid (p', st')
    \<and> method_verify_session X net now cfg mem_channels
        (close_credential X (sp_signing_key p) challenge e) sreq st'
      = (Inl (ve_channel_closed ''channel is already finalized''), st')"
proof -
  have mi: "method_as_str (ch_method challenge) = METHOD_NAME"
    "intent_as_str (ch_intent challenge) = INTENT_SESSION"
    using assms(5) by (simp_all add: asks_for_def)
  obtain c where step: "in_step X (sp_signing_key p) e st" and paid: "unat (ce_cumulative_amount e) = paid"
    and c: "st (prefixed_hex X (ce_channel_id e)) = Some c"
    using assms(3,4) by (auto simp: shares_channel_def split: option.splits)
  obtain st' where st': "st' = st(prefixed_hex X (ce_channel_id e) \<mapsto> (raise_voucher c (ce_cumulative_amount e)
      (sign_voucher X (sp_signing_key p) (ce_channel_id e) (ce_cumulative_amount e)))\<lparr>cs_finalized := True\<rparr>)"
    by blast
  note close = close_of_step [OF assms(1,2) step c mi, of net now cfg sreq, folded st']
  have op: "ce_opened e" using step by (simp add: in_step_def)
  have closed: "closed_at X key paid (p, st')"
    using op by (simp add: closed_at_def assms(4) st' raise_voucher_def paid)
  obtain p' where later: "pay_rounds X net net' now salt cfg sreq challenges (p, st')
      = (replicate (length challenges) False, p', st')" "closed_at X key paid (p', st')"
    using closed_rounds [OF assms(6) closed, of net net' now salt cfg sreq] by auto
  have "st' (prefixed_hex X (ce_channel_id e)) = Some ((raise_voucher c (ce_cumulative_amount e)
      (sign_voucher X (sp_signing_key p) (ce_channel_id e) (ce_cumulative_amount e)))\<lparr>cs_finalized := True\<rparr>)"
    by (simp add: st')
  then have "method_verify_session X net now cfg mem_channels
      (close_credential X (sp_signing_key p) challenge e) sreq st'
    = (Inl (ve_channel_closed ''channel is already finalized''), st')"
    by (simp add: method_verify_session_def close_credential_def
        credential_payload_session [OF mi voucher_json_reads(2)] session_action_def
        finalized_refuses(2))
  with close closed later show ?thesis by blast
qed

lemma life_shares:
  "\<exists>p st e. shares_channel life_world (channel_key ''0xb'' ''0xa'' DEFAULT_MODULE_ADDRESS) 3 100 (p, st)
     \<and> sp_channels p (channel_key ''0xb'' ''0xa'' DEFAULT_MODULE_ADDRESS) = Some e"
proof -
  obtain cid where o: "opens_with life_world life_net 0 [] life_provider step_challenge ''0x1'' cid"
    using life_opens by blast
  have "(3 :: u64) \<le> 100" by (simp add: word_le_nat_alt)
  then obtain s where sh: "shares_channel life_world (channel_key ''0xb'' ''0xa'' DEFAULT_MODULE_ADDRESS)
      (unat (3 :: u64)) 100 s"
    by (rule opening_accepted [OF life_laws life_asks o life_chain_shows [of config_default step_request]])
  obtain p st where s: "s = (p, st)" by fastforce
  from sh obtain e where "sp_channels p (channel_key ''0xb'' ''0xa'' DEFAULT_MODULE_ADDRESS) = Some e"
    by (auto simp: shares_channel_def s split: option.splits)
  with sh show ?thesis unfolding s by auto
qed

theorem close_is_final_witness:
  "\<exists>p st e rc st' p'. shares_channel life_world (channel_key ''0xb'' ''0xa'' DEFAULT_MODULE_ADDRESS) 3 100 (p, st)
    \<and> method_verify_session life_world life_net 0 config_default mem_channels
        (close_credential life_world (sp_signing_key p) step_challenge e) step_request st = (Inr rc, st')
    \<and> pay_rounds life_world life_net life_net 0 [] config_default step_request [step_challenge] (p, st')
        = ([False], p', st')"
proof -
  obtain p st e where sh: "shares_channel life_world (channel_key ''0xb'' ''0xa'' DEFAULT_MODULE_ADDRESS) 3 100 (p, st)"
    and e: "sp_channels p (channel_key ''0xb'' ''0xa'' DEFAULT_MODULE_ADDRESS) = Some e"
    using life_shares by blast
  have "list_all2 (asks_for life_world (channel_key ''0xb'' ''0xa'' DEFAULT_MODULE_ADDRESS)) [step_challenge] [3]"
    by (simp add: life_asks)
  from close_is_final [OF life_laws sh e life_asks this, of life_net 0 config_default step_request life_net "[]"]
  obtain rc st' p' where "method_verify_session life_world life_net 0 config_default mem_channels
      (close_credential life_world (sp_signing_key p) step_challenge e) step_request st = (Inr rc, st')"
    "pay_rounds life_world life_net life_net 0 [] config_default step_request [step_challenge] (p, st')
      = (replicate (length [step_challenge]) False, p', st')" by blast
  moreover have "replicate (length [step_challenge]) False = [False]" by simp
  ultimately show ?thesis using sh by metis
qed

end
