(* ===== verification/Proxy.thy ===== *)
theory Proxy
  imports Mpp_Server
begin

text \<open>
  The API proxy's configuration and routing (src/proxy/service.rs) and the services that come
  with it (src/proxy/services/*.rs): patterns, matching of request paths to services and
  routes, discovery documents. Header tables are maps; a path is split into its non-empty
  segments, and the lemmas show that routing depends on a path only through them.
\<close>

section \<open>Services\<close>

record paid_endpoint =
  pe_intent :: string
  pe_amount :: string
  pe_unit_type :: "string option"
  pe_description :: "string option"

datatype endpoint = Free | Paid paid_endpoint

record route =
  rt_method :: "string option"
  rt_path :: string
  rt_pattern :: string
  rt_endpoint :: endpoint

record service =
  sv_id :: string
  sv_base_url :: string
  sv_routes :: "route list"
  sv_headers :: "string \<rightharpoonup> string"

record service_builder =
  sb_id :: string
  sb_base_url :: string
  sb_routes :: "route list"
  sb_headers :: "string \<rightharpoonup> string"

definition service_new :: "string \<Rightarrow> string \<Rightarrow> service_builder" where
  "service_new sid base_url =
     \<lparr>sb_id = sid, sb_base_url = base_url, sb_routes = [], sb_headers = Map.empty\<rparr>"

definition builder_header :: "string \<Rightarrow> string \<Rightarrow> service_builder \<Rightarrow> service_builder" where
  "builder_header name v b = b\<lparr>sb_headers := (sb_headers b)(name \<mapsto> v)\<rparr>"

definition builder_bearer :: "string \<Rightarrow> service_builder \<Rightarrow> service_builder" where
  "builder_bearer token b =
     b\<lparr>sb_headers := (sb_headers b)(''Authorization'' \<mapsto> ''Bearer '' @ token)\<rparr>"

definition HTTP_METHODS :: "string list" where
  "HTTP_METHODS = [''GET'', ''POST'', ''PUT'', ''DELETE'', ''PATCH'', ''HEAD'', ''OPTIONS'']"

definition parse_route_pattern :: "string \<Rightarrow> string option \<times> string" where
  "parse_route_pattern pattern =
     (let tokens = split_whitespace pattern in
      if 2 \<le> length tokens \<and> to_uppercase (tokens ! 0) \<in> set HTTP_METHODS
      then (Some (to_uppercase (tokens ! 0)), join '' '' (drop 1 tokens))
      else (None, str_trim pattern))"

definition builder_route :: "string \<Rightarrow> endpoint \<Rightarrow> service_builder \<Rightarrow> service_builder" where
  "builder_route pattern endpoint b =
     (let (method, path) = parse_route_pattern pattern in
      b\<lparr>sb_routes := sb_routes b
          @ [\<lparr>rt_method = method, rt_path = path, rt_pattern = pattern, rt_endpoint = endpoint\<rparr>]\<rparr>)"

definition builder_build :: "service_builder \<Rightarrow> service" where
  "builder_build b = \<lparr>sv_id = sb_id b, sv_base_url = sb_base_url b, sv_routes = sb_routes b,
     sv_headers = sb_headers b\<rparr>"

text \<open>The services that come with the proxy, from a key and the routes a caller adds.\<close>

definition anthropic_service :: "string \<Rightarrow> (service_builder \<Rightarrow> service_builder) \<Rightarrow> service" where
  "anthropic_service api_key configure = builder_build (configure
     (builder_header ''x-api-key'' api_key (service_new ''anthropic'' ''https://api.anthropic.com'')))"

definition firecrawl_service :: "string \<Rightarrow> (service_builder \<Rightarrow> service_builder) \<Rightarrow> service" where
  "firecrawl_service api_key configure = builder_build (configure
     (builder_bearer api_key (service_new ''firecrawl'' ''https://api.firecrawl.dev'')))"

definition openai_service :: "string \<Rightarrow> (service_builder \<Rightarrow> service_builder) \<Rightarrow> service" where
  "openai_service api_key configure = builder_build (configure
     (builder_bearer api_key (service_new ''openai'' ''https://api.openai.com'')))"

definition stripe_service ::
  "crates \<Rightarrow> string \<Rightarrow> (service_builder \<Rightarrow> service_builder) \<Rightarrow> service" where
  "stripe_service X api_key configure =
     (let encoded = b64std_encode X (as_bytes (api_key @ '':'')) in
      builder_build (configure (builder_header ''Authorization'' (''Basic '' @ encoded)
        (service_new ''stripe'' ''https://api.stripe.com''))))"

section \<open>Matching\<close>

definition path_segments :: "string \<Rightarrow> string list" where
  "path_segments path = filter (\<lambda>s. s \<noteq> []) (split_on CHR ''/'' path)"

definition segment_matches :: "string \<Rightarrow> string \<Rightarrow> bool" where
  "segment_matches pat seg \<longleftrightarrow> starts_with '':'' pat \<or> pat = seg"

definition path_matches :: "string \<Rightarrow> string \<Rightarrow> bool" where
  "path_matches pattern path =
     (let pat_segments = path_segments pattern; segments = path_segments path in
      if length pat_segments \<noteq> length segments then False
      else list_all (\<lambda>(pat, seg). segment_matches pat seg) (zip pat_segments segments))"

record proxy_config =
  pc_base_path :: "string option"
  pc_services :: "service list"

record parsed_route =
  pr_service :: service
  pr_route :: route
  pr_upstream_path :: string

definition strip_base :: "proxy_config \<Rightarrow> string \<Rightarrow> string option" where
  "strip_base cfg path =
     (case pc_base_path cfg of
        None \<Rightarrow> Some path
      | Some base \<Rightarrow> strip_prefix (trim_end_matches CHR ''/'' base) path)"

definition parse_path :: "string \<Rightarrow> (string \<times> string) option" where
  "parse_path path =
     (case path_segments path of
        [] \<Rightarrow> None
      | service_id # segments \<Rightarrow> Some (service_id, ''/'' @ join ''/'' segments))"

definition method_admits :: "route \<Rightarrow> string \<Rightarrow> bool" where
  "method_admits r method =
     (case rt_method r of Some m \<Rightarrow> eq_ignore_ascii_case m method | None \<Rightarrow> True)"

definition match_route :: "route list \<Rightarrow> string \<Rightarrow> string \<Rightarrow> route option" where
  "match_route routes method path =
     find (\<lambda>r. if \<not> method_admits r method then False else path_matches (rt_path r) path) routes"

definition match_route_path_only :: "route list \<Rightarrow> string \<Rightarrow> route option" where
  "match_route_path_only routes path = find (\<lambda>r. path_matches (rt_path r) path) routes"

definition resolve_route :: "route list \<Rightarrow> string \<Rightarrow> string \<Rightarrow> route option" where
  "resolve_route routes method upstream_path =
     (case match_route routes method upstream_path of
        Some r \<Rightarrow> Some r
      | None \<Rightarrow>
          if eq_ignore_ascii_case method ''POST''
          then match_route_path_only routes upstream_path else None)"

definition proxy_match_route :: "proxy_config \<Rightarrow> string \<Rightarrow> string \<Rightarrow> parsed_route option" where
  "proxy_match_route cfg method path =
     Option.bind (strip_base cfg path) (\<lambda>stripped.
     Option.bind (parse_path stripped) (\<lambda>(service_id, upstream_path).
     Option.bind (find (\<lambda>s. sv_id s = service_id) (pc_services cfg)) (\<lambda>service.
     Option.bind (resolve_route (sv_routes service) method upstream_path) (\<lambda>r.
     Some \<lparr>pr_service = service, pr_route = r, pr_upstream_path = upstream_path\<rparr>))))"

section \<open>Discovery\<close>

fun serialize_payment :: "endpoint \<Rightarrow> json" where
  "serialize_payment Free = JNull"
| "serialize_payment (Paid p) = JObj (
     [(''intent'', JStr (pe_intent p)), (''amount'', JStr (pe_amount p))]
     @ opt_field ''unitType'' JStr (pe_unit_type p)
     @ opt_field ''description'' JStr (pe_description p))"

definition serialize_route :: "route \<Rightarrow> json" where
  "serialize_route r = JObj
     [(''method'', case rt_method r of Some m \<Rightarrow> JStr m | None \<Rightarrow> JNull),
      (''path'', JStr (rt_path r)), (''pattern'', JStr (rt_pattern r)),
      (''payment'', serialize_payment (rt_endpoint r))]"

definition serialize_service :: "service \<Rightarrow> json" where
  "serialize_service s = JObj
     [(''id'', JStr (sv_id s)), (''baseUrl'', JStr (sv_base_url s)),
      (''routes'', JArr (map serialize_route (sv_routes s)))]"

definition serialize_services :: "service list \<Rightarrow> json" where
  "serialize_services services = JArr (map serialize_service services)"

definition llms_service_line :: "service \<Rightarrow> string" where
  "llms_service_line s =
     (let free = length (filter (\<lambda>r. rt_endpoint r = Free) (sv_routes s));
          paid = length (sv_routes s) - free;
          parts = (if 0 < paid then [show_nat paid @ '' paid''] else [])
            @ (if 0 < free then [show_nat free @ '' free''] else []) in
      ''- ['' @ sv_id s @ '']('' @ sv_base_url s @ ''): '' @ join '', '' parts)"

fun llms_route_line :: "route \<Rightarrow> string" where
  "llms_route_line r =
     (case rt_endpoint r of
        Free \<Rightarrow> ''- `'' @ rt_pattern r @ ''`: Free''
      | Paid p \<Rightarrow>
          let unit = pe_amount p @ '' units'';
              parts = [pe_intent p]
                @ [case pe_unit_type p of Some ut \<Rightarrow> unit @ '' per '' @ ut | None \<Rightarrow> unit]
                @ (case pe_description p of Some d \<Rightarrow> [dquote @ d @ dquote] | None \<Rightarrow> []) in
          ''- `'' @ rt_pattern r @ ''`: '' @ join ('' '' @ em_dash @ '' '') parts)"

definition to_llms_txt :: "service list \<Rightarrow> string" where
  "to_llms_txt services =
     (let lines = [''# API Proxy'', [],
            ''> Paid API proxy powered by [Machine Payments Protocol](https://mpp.dev).'', [],
            ''For machine-readable service data, use `GET /services` (JSON).'', []] in
      if services = [] then join [CHR 0x0A] lines
      else join [CHR 0x0A] (lines @ [''## Services'', []] @ map llms_service_line services
        @ concat (map (\<lambda>s. [[], ''## '' @ sv_id s, []] @ map llms_route_line (sv_routes s)) services)))"

datatype discovery_response = DiscoveryJson json | LlmsTxt string

definition handle_discovery :: "proxy_config \<Rightarrow> string \<Rightarrow> string \<Rightarrow> discovery_response option" where
  "handle_discovery cfg method path =
     (if \<not> eq_ignore_ascii_case method ''GET'' then None
      else Option.bind (strip_base cfg path) (\<lambda>stripped.
        if stripped = ''/llms.txt'' then Some (LlmsTxt (to_llms_txt (pc_services cfg)))
        else if stripped = ''/services'' \<or> stripped = ''/services/''
        then Some (DiscoveryJson (serialize_services (pc_services cfg)))
        else case map_option (trim_end_matches CHR ''/'') (strip_prefix ''/services/'' stripped) of
          Some sid \<Rightarrow>
            if sid \<noteq> [] \<and> CHR ''/'' \<notin> set sid
            then map_option (\<lambda>s. DiscoveryJson (serialize_service s))
                   (find (\<lambda>s. sv_id s = sid) (pc_services cfg))
            else None
        | None \<Rightarrow> None))"

end
