(* ===== verification/Proxy_Claims.thy ===== *)
theory Proxy_Claims
  imports Proxy
begin

text \<open>
  The properties of proxy routing: exactly which service and route a request gets, that patterns
  read back, and what the base path does not check.
\<close>

section \<open>Segments\<close>

definition is_segment :: "string \<Rightarrow> bool" where
  "is_segment s \<longleftrightarrow> s \<noteq> [] \<and> CHR ''/'' \<notin> set s"

lemma path_segments_are: "s \<in> set (path_segments path) \<Longrightarrow> is_segment s"
  by (auto simp: path_segments_def is_segment_def dest: split_on_no_sep_elem)

lemma path_segments_slash [simp]: "path_segments (CHR ''/'' # path) = path_segments path"
  by (simp add: path_segments_def)

lemma path_segments_join:
  assumes "\<forall>s \<in> set segs. is_segment s"
  shows "path_segments (join ''/'' segs) = segs"
proof (cases "segs = []")
  case True
  then show ?thesis by (simp add: path_segments_def)
next
  case False
  then have "split_on CHR ''/'' (join ''/'' segs) = segs"
    using assms by (intro split_on_join) (auto simp: is_segment_def)
  then show ?thesis using assms by (simp add: path_segments_def filter_id_conv is_segment_def)
qed

text \<open>The upstream path of a request has the segments after the service identifier.\<close>

lemma parse_path_Some:
  "parse_path path = Some (sid, up) \<longleftrightarrow>
   (\<exists>segs. path_segments path = sid # segs \<and> up = ''/'' @ join ''/'' segs \<and> path_segments up = segs)"
proof -
  have "path_segments (''/'' @ join ''/'' segs) = segs" if "path_segments path = sid # segs" for segs
    using path_segments_join [of segs] path_segments_are [of _ path] that by simp
  then show ?thesis by (auto simp: parse_path_def split: list.splits)
qed

text \<open>What it is for a path to have segments: slashes, a segment, and a rest that is empty or begins
  with a slash, again and again.\<close>

inductive has_segments :: "string \<Rightarrow> string list \<Rightarrow> bool" where
  no_segment: "set gap \<subseteq> {CHR ''/''} \<Longrightarrow> has_segments gap []"
| next_segment: "has_segments rest segs \<Longrightarrow> set gap \<subseteq> {CHR ''/''} \<Longrightarrow> is_segment s
    \<Longrightarrow> rest = [] \<or> hd rest = CHR ''/'' \<Longrightarrow> has_segments (gap @ s @ rest) (s # segs)"

lemma path_segments_gap: "set gap \<subseteq> {CHR ''/''} \<Longrightarrow> path_segments (gap @ path) = path_segments path"
  by (induction gap) auto

lemma path_segments_next:
  assumes "is_segment s" and "rest = [] \<or> hd rest = CHR ''/''"
  shows "path_segments (s @ rest) = s # path_segments rest"
proof -
  have s: "s \<noteq> []" "CHR ''/'' \<notin> set s" using assms(1) by (simp_all add: is_segment_def)
  show ?thesis
  proof (cases rest)
    case Nil
    with s show ?thesis by (simp add: path_segments_def split_on_no_sep)
  next
    case (Cons c rest')
    with assms(2) have "rest = CHR ''/'' # rest'" by simp
    with s show ?thesis
      by (simp add: path_segments_def split_on_sep)
  qed
qed

lemma has_segmentsD: "has_segments path segs \<Longrightarrow> path_segments path = segs"
proof (induction rule: has_segments.induct)
  case (no_segment gap)
  then show ?case using path_segments_gap [of gap "[]"] by (simp add: path_segments_def)
next
  case (next_segment rest segs gap s)
  then show ?case by (simp add: path_segments_gap path_segments_next)
qed

lemma has_segments_self: "has_segments path (path_segments path)"
proof (induction "length path" arbitrary: path rule: less_induct)
  case less
  let ?slash = "\<lambda>c. c = CHR ''/''"
  define gap where "gap = takeWhile ?slash path"
  define s where "s = takeWhile (\<lambda>c. \<not> ?slash c) (dropWhile ?slash path)"
  define rest where "rest = dropWhile (\<lambda>c. \<not> ?slash c) (dropWhile ?slash path)"
  have path: "path = gap @ s @ rest" by (simp add: gap_def s_def rest_def)
  have gap: "set gap \<subseteq> {CHR ''/''}" by (auto simp: gap_def dest: set_takeWhileD)
  have rest: "rest = [] \<or> hd rest = CHR ''/''"
    using hd_dropWhile [of "\<lambda>c. \<not> ?slash c" "dropWhile ?slash path"] by (auto simp: rest_def)
  show ?case
  proof (cases "dropWhile ?slash path = []")
    case True
    then have "s = []" "rest = []" by (simp_all only: s_def rest_def list.simps takeWhile.simps dropWhile.simps)
    then have "path = gap" using path by simp
    with no_segment [OF gap] path_segments_gap [OF gap, of "[]"] show ?thesis
      by (simp add: path_segments_def)
  next
    case False
    then have "s \<noteq> []" using hd_dropWhile [OF False] by (cases "dropWhile ?slash path") (auto simp: s_def)
    then have s: "is_segment s" by (auto simp: is_segment_def s_def dest: set_takeWhileD)
    have "length rest < length path" using \<open>s \<noteq> []\<close> by (simp add: path)
    from next_segment [OF less [OF this] gap s rest]
    have "has_segments path (s # path_segments rest)" using path by simp
    moreover have "path_segments path = s # path_segments rest"
      using path path_segments_gap [OF gap] path_segments_next [OF s rest] by simp
    ultimately show ?thesis by simp
  qed
qed

lemma has_segments_iff: "has_segments path segs \<longleftrightarrow> path_segments path = segs"
  using has_segmentsD has_segments_self by blast

text \<open>A pattern fits segment by segment; a colon segment fits anything.\<close>

definition pattern_fits :: "string \<Rightarrow> string list \<Rightarrow> bool" where
  "pattern_fits pattern segs \<longleftrightarrow>
     (\<exists>pats. has_segments pattern pats
       \<and> list_all2 (\<lambda>pat seg. (\<exists>name. pat = CHR '':'' # name) \<or> pat = seg) pats segs)"

lemma colon_segment: "segment_matches pat seg \<longleftrightarrow> (\<exists>name. pat = CHR '':'' # name) \<or> pat = seg"
  by (cases pat) (auto simp: segment_matches_def starts_with_def)

lemma path_matches_iff: "path_matches pattern path \<longleftrightarrow> pattern_fits pattern (path_segments path)"
  by (auto simp: path_matches_def pattern_fits_def has_segments_iff colon_segment [symmetric]
      list_all2_iff list_all_iff Let_def)

text \<open>What is left of a path after the base path, which loses its slashes at the end.\<close>

definition below_base :: "proxy_config \<Rightarrow> string \<Rightarrow> string \<Rightarrow> bool" where
  "below_base cfg path rest \<longleftrightarrow>
     (case pc_base_path cfg of
        None \<Rightarrow> rest = path
      | Some base \<Rightarrow> \<exists>b gap. base = b @ gap \<and> set gap \<subseteq> {CHR ''/''} \<and> (b = [] \<or> last b \<noteq> CHR ''/'')
          \<and> path = b @ rest)"

lemma trimmed_base:
  "trim_end_matches CHR ''/'' base = b \<longleftrightarrow>
   (\<exists>gap. base = b @ gap \<and> set gap \<subseteq> {CHR ''/''} \<and> (b = [] \<or> last b \<noteq> CHR ''/''))"
proof
  assume b: "trim_end_matches CHR ''/'' base = b"
  let ?r = "rev base" and ?slash = "\<lambda>c. c = CHR ''/''"
  have b': "b = rev (dropWhile ?slash ?r)" using b by (simp add: trim_end_matches_def)
  have "base = rev (dropWhile ?slash ?r) @ rev (takeWhile ?slash ?r)"
    by (metis rev_append rev_rev_ident takeWhile_dropWhile_id)
  moreover have "set (rev (takeWhile ?slash ?r)) \<subseteq> {CHR ''/''}" by (auto dest: set_takeWhileD)
  moreover have "b = [] \<or> last b \<noteq> CHR ''/''"
    using hd_dropWhile [of ?slash ?r] by (cases "dropWhile ?slash ?r = []") (simp_all add: b' last_rev)
  ultimately show "\<exists>gap. base = b @ gap \<and> set gap \<subseteq> {CHR ''/''} \<and> (b = [] \<or> last b \<noteq> CHR ''/'')"
    unfolding b' by blast
next
  assume "\<exists>gap. base = b @ gap \<and> set gap \<subseteq> {CHR ''/''} \<and> (b = [] \<or> last b \<noteq> CHR ''/'')"
  then obtain gap where base: "base = b @ gap" "set gap \<subseteq> {CHR ''/''}" and b: "b = [] \<or> last b \<noteq> CHR ''/''"
    by blast
  then have "dropWhile (\<lambda>c. c = CHR ''/'') (rev gap @ rev b) = dropWhile (\<lambda>c. c = CHR ''/'') (rev b)"
    by (intro dropWhile_append2) auto
  also have "\<dots> = rev b" using b by (cases b rule: rev_cases) auto
  finally show "trim_end_matches CHR ''/'' base = b" by (simp add: trim_end_matches_def base(1))
qed

lemma strip_base_iff: "strip_base cfg path = Some rest \<longleftrightarrow> below_base cfg path rest"
proof (cases "pc_base_path cfg")
  case (Some base)
  then have "below_base cfg path rest \<longleftrightarrow> (\<exists>b. trim_end_matches CHR ''/'' base = b \<and> path = b @ rest)"
    unfolding trimmed_base by (auto simp: below_base_def)
  with Some show ?thesis by (auto simp: strip_base_def strip_prefix_Some)
qed (auto simp: strip_base_def below_base_def)

section \<open>Which route a request gets\<close>

definition first_with :: "('a \<Rightarrow> bool) \<Rightarrow> 'a list \<Rightarrow> 'a \<Rightarrow> bool" where
  "first_with P xs x \<longleftrightarrow> (\<exists>pre post. xs = pre @ x # post \<and> P x \<and> (\<forall>y \<in> set pre. \<not> P y))"

lemma first_with_Cons: "first_with P (y # ys) x \<longleftrightarrow> (if P y then x = y else first_with P ys x)"
proof
  assume "first_with P (y # ys) x"
  then obtain pre post where "y # ys = pre @ x # post" "P x" "\<forall>z \<in> set pre. \<not> P z"
    unfolding first_with_def by blast
  then show "if P y then x = y else first_with P ys x"
    unfolding first_with_def by (cases pre) auto
next
  assume r: "if P y then x = y else first_with P ys x"
  show "first_with P (y # ys) x"
  proof (cases "P y")
    case True
    with r have "y # ys = [] @ x # ys" "P x" by simp_all
    then show ?thesis unfolding first_with_def by fastforce
  next
    case False
    with r obtain pre post where "ys = pre @ x # post" "P x" "\<forall>z \<in> set pre. \<not> P z"
      unfolding first_with_def by auto
    with False have "y # ys = (y # pre) @ x # post" "\<forall>z \<in> set (y # pre). \<not> P z" by simp_all
    with \<open>P x\<close> show ?thesis unfolding first_with_def by blast
  qed
qed

lemma find_first: "find P xs = Some x \<longleftrightarrow> first_with P xs x"
proof (induction xs)
  case Nil
  show ?case by (simp add: first_with_def)
next
  case (Cons y ys)
  then show ?case by (auto simp: first_with_Cons)
qed

definition route_accepts :: "string \<Rightarrow> string list \<Rightarrow> route \<Rightarrow> bool" where
  "route_accepts method segs r \<longleftrightarrow>
     (\<forall>m. rt_method r = Some m \<longrightarrow> to_ascii_lowercase m = to_ascii_lowercase method)
     \<and> pattern_fits (rt_path r) segs"

lemma resolve_route_iff:
  assumes "path_segments up = segs"
  shows "resolve_route routes method up = Some r \<longleftrightarrow>
    first_with (route_accepts method segs) routes r
    \<or> eq_ignore_ascii_case method ''POST'' \<and> \<not> list_ex (route_accepts method segs) routes
      \<and> first_with (\<lambda>q. pattern_fits (rt_path q) segs) routes r"
proof -
  have pred: "(\<lambda>r. if \<not> method_admits r method then False else path_matches (rt_path r) up)
      = route_accepts method segs" "(\<lambda>r. path_matches (rt_path r) up) = (\<lambda>r. pattern_fits (rt_path r) segs)"
    by (auto simp: fun_eq_iff route_accepts_def path_matches_iff assms method_admits_def eq_ignore_ascii_case_def
        split: option.splits)
  show ?thesis
  proof (cases "find (route_accepts method segs) routes")
    case None
    then have none: "\<not> list_ex (route_accepts method segs) routes"
      by (auto simp: find_None_iff list_ex_iff)
    then have "\<not> first_with (route_accepts method segs) routes r"
      by (auto simp: first_with_def list_ex_iff)
    with None none show ?thesis
      unfolding resolve_route_def match_route_def match_route_path_only_def pred
      by (simp add: find_first)
  next
    case (Some a)
    then have "list_ex (route_accepts method segs) routes"
      by (auto simp: find_first first_with_def list_ex_iff)
    with Some show ?thesis
      unfolding resolve_route_def match_route_def pred find_first [symmetric] by auto
  qed
qed

lemma routed_iff:
  "proxy_match_route cfg method path = Some pr \<longleftrightarrow>
   (\<exists>rest segs. below_base cfg path rest
     \<and> has_segments rest (sv_id (pr_service pr) # segs)
     \<and> first_with (\<lambda>s. sv_id s = sv_id (pr_service pr)) (pc_services cfg) (pr_service pr)
     \<and> pr_upstream_path pr = ''/'' @ join ''/'' segs
     \<and> resolve_route (sv_routes (pr_service pr)) method (pr_upstream_path pr) = Some (pr_route pr)
     \<and> path_segments (pr_upstream_path pr) = segs)"
  (is "?l \<longleftrightarrow> ?r")
proof
  assume ?l
  then obtain rest sid up s where st: "below_base cfg path rest"
    and pp: "parse_path rest = Some (sid, up)"
    and s: "find (\<lambda>s. sv_id s = sid) (pc_services cfg) = Some s"
    and r: "resolve_route (sv_routes s) method up = Some (pr_route pr)"
    and pr: "pr_service pr = s" "pr_upstream_path pr = up"
    by (auto simp: proxy_match_route_def bind_eq_Some_conv strip_base_iff)
  obtain segs where segs: "path_segments rest = sid # segs" "up = ''/'' @ join ''/'' segs"
    "path_segments up = segs" using pp unfolding parse_path_Some by blast
  have "sv_id s = sid" using s by (auto simp: find_first first_with_def)
  then show ?r
    using st segs s pr r
    by (intro exI [of _ rest] exI [of _ segs]) (simp add: find_first has_segments_iff)
next
  assume ?r
  then obtain rest segs where below: "strip_base cfg path = Some rest"
    and segs: "path_segments rest = sv_id (pr_service pr) # segs"
    and s: "find (\<lambda>s. sv_id s = sv_id (pr_service pr)) (pc_services cfg) = Some (pr_service pr)"
    and up: "pr_upstream_path pr = ''/'' @ join ''/'' segs" "path_segments (pr_upstream_path pr) = segs"
    and r: "resolve_route (sv_routes (pr_service pr)) method (pr_upstream_path pr) = Some (pr_route pr)"
    unfolding strip_base_iff has_segments_iff find_first by blast
  have "parse_path rest = Some (sv_id (pr_service pr), pr_upstream_path pr)"
    using segs up unfolding parse_path_Some by blast
  with below s r show ?l by (simp add: proxy_match_route_def)
qed

text \<open>
  C37: exactly which route serves a request. The path, without the base path, must have the
  identifier of a configured service as its first segment, and the first such service is taken;
  the remaining segments are the upstream path; and the route is the first of the service whose
  method, if it has one, is that of the request up to case, and whose pattern fits segment by
  segment, a colon segment fitting anything. Only a POST that no route accepts falls back to the
  first route that fits whatever its method. Segments are what slashes separate, empty ones
  left out, and the base path counts without the slashes at its end.
\<close>

theorem routing_iff:
  "proxy_match_route cfg method path = Some pr \<longleftrightarrow>
   (\<exists>rest segs. below_base cfg path rest
     \<and> has_segments rest (sv_id (pr_service pr) # segs)
     \<and> first_with (\<lambda>s. sv_id s = sv_id (pr_service pr)) (pc_services cfg) (pr_service pr)
     \<and> pr_upstream_path pr = ''/'' @ join ''/'' segs
     \<and> (first_with (route_accepts method segs) (sv_routes (pr_service pr)) (pr_route pr)
        \<or> to_ascii_lowercase method = ''post''
          \<and> \<not> list_ex (route_accepts method segs) (sv_routes (pr_service pr))
          \<and> first_with (\<lambda>r. pattern_fits (rt_path r) segs) (sv_routes (pr_service pr)) (pr_route pr)))"
proof -
  have post: "eq_ignore_ascii_case method ''POST'' \<longleftrightarrow> to_ascii_lowercase method = ''post''"
    by (simp add: eq_ignore_ascii_case_def to_ascii_lowercase_def to_lower_def is_ascii_uppercase_def char_eval)
  have up: "path_segments (''/'' @ join ''/'' segs) = segs" if "has_segments rest (sid # segs)" for rest sid segs
    using that path_segments_join [of segs] path_segments_are [of _ rest] by (simp add: has_segments_iff)
  have route: "resolve_route (sv_routes s) method (''/'' @ join ''/'' segs) = Some r
        \<and> path_segments (''/'' @ join ''/'' segs) = segs \<longleftrightarrow>
      first_with (route_accepts method segs) (sv_routes s) r
      \<or> to_ascii_lowercase method = ''post'' \<and> \<not> list_ex (route_accepts method segs) (sv_routes s)
        \<and> first_with (\<lambda>r. pattern_fits (rt_path r) segs) (sv_routes s) r"
    if "has_segments rest (sid # segs)" for rest sid segs s r
    using resolve_route_iff [OF up [OF that]] up [OF that] post by blast
  show ?thesis
    unfolding routed_iff by (intro ex_cong1 conj_cong refl) (simp only: route)
qed

section \<open>Patterns\<close>

lemma split_whitespace_word:
  assumes "w \<noteq> []" and "\<forall>c \<in> set w. \<not> is_whitespace c"
  shows "split_whitespace (w @ CHR '' '' # s) = w # split_whitespace s" and "split_whitespace w = [w]"
proof -
  obtain c v where w: "w = c # v" using assms(1) by (cases w) auto
  have all: "takeWhile (\<lambda>d. \<not> is_whitespace d) v = v" "dropWhile (\<lambda>d. \<not> is_whitespace d) v = []"
    using assms(2) w by (simp_all add: takeWhile_eq_all_conv dropWhile_eq_Nil_conv)
  have "takeWhile (\<lambda>d. \<not> is_whitespace d) (v @ CHR '' '' # s) = v"
    "dropWhile (\<lambda>d. \<not> is_whitespace d) (v @ CHR '' '' # s) = CHR '' '' # s"
    using assms(2) w by (auto simp: is_whitespace_def [of "CHR '' ''"] takeWhile_tail)
  then show "split_whitespace (w @ CHR '' '' # s) = w # split_whitespace s"
    using assms(2) w by (simp add: is_whitespace_def [of "CHR '' ''"])
  show "split_whitespace w = [w]" using assms(2) unfolding w by (simp only: split_whitespace.simps all) simp
qed

text \<open>
  A route pattern reads back as its parts: a method of the list in any mix of cases, one or
  more blanks, and a path without blanks give that method in upper case and that path; a path
  alone gives no method.
\<close>

theorem route_pattern_parts:
  assumes "to_uppercase method \<in> set HTTP_METHODS" and "path \<noteq> []"
    and "\<forall>c \<in> set path. \<not> is_whitespace c"
  shows "parse_route_pattern (method @ '' '' @ replicate n CHR '' '' @ path) = (Some (to_uppercase method), path)
    \<and> parse_route_pattern path = (None, path)"
proof -
  have meth: "\<forall>c \<in> set method. \<not> is_whitespace c" "method \<noteq> []"
  proof -
    have "is_ascii_uppercase (to_upper c)" if "c \<in> set method" for c
    proof -
      have "to_upper c \<in> set (to_uppercase method)" using that by (simp add: to_uppercase_def)
      with assms(1) show ?thesis by (auto simp: HTTP_METHODS_def is_ascii_uppercase_def)
    qed
    moreover have "\<not> is_whitespace c" if "is_ascii_uppercase (to_upper c)" for c
      using that by (auto simp: is_ascii_uppercase_def to_upper_def is_whitespace_def
          is_ascii_lowercase_def split: if_splits)
    ultimately show "\<forall>c \<in> set method. \<not> is_whitespace c" by blast
    show "method \<noteq> []" using assms(1) by (auto simp: HTTP_METHODS_def to_uppercase_def)
  qed
  have "split_whitespace (replicate n CHR '' '' @ path) = [path]"
    by (induction n) (simp_all add: split_whitespace_word(2) [OF assms(2,3)] is_whitespace_def)
  then have "split_whitespace (method @ '' '' @ replicate n CHR '' '' @ path) = [method, path]"
    using split_whitespace_word(1) [OF meth(2,1)] by simp
  then show ?thesis
    using assms(1) split_whitespace_word(2) [OF assms(2,3)] str_trim_id [OF assms(3)]
    by (simp add: parse_route_pattern_def Let_def)
qed

theorem route_pattern_parts_witness:
  "parse_route_pattern ''post /v1/chat'' = (Some ''POST'', ''/v1/chat'')"
  using route_pattern_parts [of "''post''" "''/v1/chat''" 0]
  by (simp add: to_uppercase_def to_upper_def is_ascii_lowercase_def HTTP_METHODS_def char_eval
      is_whitespace_def)

text \<open>
  The base path ends anywhere. What follows the base path need not start a new segment: a
  path that continues the last segment of the base is routed like the path with a slash in
  between, so with the base \<open>/api\<close> the request \<open>/apiopenai/v1\<close> reaches the service \<open>openai\<close>.
\<close>

theorem base_path_unbounded:
  "proxy_match_route (cfg\<lparr>pc_base_path := Some base\<rparr>) method (trim_end_matches CHR ''/'' base @ rest)
   = proxy_match_route (cfg\<lparr>pc_base_path := Some base\<rparr>) method
       (trim_end_matches CHR ''/'' base @ ''/'' @ rest)"
  by (simp add: proxy_match_route_def strip_base_def parse_path_def)

end
