(* ===== verification/Sse.thy ===== *)
theory Sse
  imports Movement_Types
begin

text \<open>
  Server-sent events for metered sessions (src/server/sse.rs): formatting and parsing of the
  events. A formatter that would panic when serialization fails gives \<open>None\<close>. The parser's loop
  over lines is a fold whose state is the event type and the data lines so far.
\<close>

record need_voucher_event =
  nv_channel_id :: string
  nv_required_cumulative :: string
  nv_accepted_cumulative :: string
  nv_deposit :: string

definition need_voucher_to_json :: "need_voucher_event \<Rightarrow> json" where
  "need_voucher_to_json e = JObj
     [(''channelId'', JStr (nv_channel_id e)),
      (''requiredCumulative'', JStr (nv_required_cumulative e)),
      (''acceptedCumulative'', JStr (nv_accepted_cumulative e)),
      (''deposit'', JStr (nv_deposit e))]"

definition need_voucher_of_json :: "json \<Rightarrow> need_voucher_event option" where
  "need_voucher_of_json j =
     Option.bind (field_req as_str ''channelId'' j) (\<lambda>cid.
     Option.bind (field_req as_str ''requiredCumulative'' j) (\<lambda>req.
     Option.bind (field_req as_str ''acceptedCumulative'' j) (\<lambda>acc.
     Option.bind (field_req as_str ''deposit'' j) (\<lambda>dep.
     Some \<lparr>nv_channel_id = cid, nv_required_cumulative = req, nv_accepted_cumulative = acc,
       nv_deposit = dep\<rparr>))))"

datatype sse_event = Message string | PaymentNeedVoucher need_voucher_event

abbreviation newline :: char where
  "newline \<equiv> CHR 0x0A"

definition format_need_voucher_event :: "crates \<Rightarrow> need_voucher_event \<Rightarrow> string option" where
  "format_need_voucher_event X e =
     map_option (\<lambda>doc. ''event: payment-need-voucher'' @ [newline] @ ''data: '' @ doc @ [newline, newline])
       (ok_opt (json_to_string X (need_voucher_to_json e)))"

definition format_message_event :: "string \<Rightarrow> string" where
  "format_message_event data = ''event: message'' @ [newline] @ ''data: '' @ data @ [newline, newline]"

definition parse_event_line :: "string \<times> string list \<Rightarrow> string \<Rightarrow> string \<times> string list" where
  "parse_event_line = (\<lambda>(event_type, data_lines) line.
     (case strip_prefix ''event: '' line of
        Some rest \<Rightarrow> (str_trim rest, data_lines)
      | None \<Rightarrow>
          (case strip_prefix ''data: '' line of
             Some rest \<Rightarrow> (event_type, data_lines @ [rest])
           | None \<Rightarrow> if line = ''data:'' then (event_type, data_lines @ [[]])
               else (event_type, data_lines))))"

definition parse_event :: "crates \<Rightarrow> string \<Rightarrow> sse_event option" where
  "parse_event X raw_event =
     (let (event_type, data_lines) = foldl parse_event_line (''message'', []) (split_on newline raw_event) in
      if data_lines = [] then None
      else
        let data = join [newline] data_lines in
        if event_type = ''message'' then Some (Message data)
        else if event_type = ''payment-need-voucher''
        then map_option PaymentNeedVoucher
               (ok_opt (from_slice X ''NeedVoucherEvent'' need_voucher_of_json (as_bytes data)))
        else Some (Message data))"

definition is_event_stream :: "string \<Rightarrow> bool" where
  "is_event_stream content_type = starts_with ''text/event-stream'' (to_ascii_lowercase content_type)"

definition sse_headers :: "(string \<times> string) list" where
  "sse_headers = [(''Cache-Control'', ''no-cache, no-transform''), (''Connection'', ''keep-alive''),
     (''Content-Type'', ''text/event-stream; charset=utf-8'')]"

section \<open>Lines\<close>

lemma line_event: "parse_event_line (ty, ds) (''event: '' @ t) = (str_trim t, ds)"
  by (simp add: parse_event_line_def strip_prefix_def starts_with_def)

lemma line_data: "parse_event_line (ty, ds) (''data: '' @ d) = (ty, ds @ [d])"
  by (simp add: parse_event_line_def strip_prefix_def starts_with_def)

lemma line_empty: "parse_event_line (ty, ds) [] = (ty, ds)"
  by (simp add: parse_event_line_def strip_prefix_def starts_with_def)

lemma line_other:
  "\<not> starts_with ''event: '' l \<Longrightarrow> \<not> starts_with ''data: '' l \<Longrightarrow> l \<noteq> ''data:''
   \<Longrightarrow> parse_event_line s l = s"
  by (cases s) (simp add: parse_event_line_def strip_prefix_def)

lemma split_event:
  assumes "newline \<notin> set h"
  shows "split_on newline (h @ [newline] @ body @ [newline, newline]) = h # split_on newline body @ [[], []]"
proof -
  have "split_on newline (body @ [newline, newline]) = split_on newline body @ [[], []]"
    by (induction body) (auto split: list.splits simp: neq_Nil_conv dest: arg_cong [where f = "\<lambda>x. x = []"])
  then show ?thesis using split_on_sep [OF assms, of "body @ [newline, newline]"] by simp
qed

lemma message_word: "str_trim ''message'' = ''message''" "str_trim ''payment-need-voucher'' = ''payment-need-voucher''"
  by (rule str_trim_id, simp add: is_whitespace_def)+

lemma need_voucher_json_roundtrip: "need_voucher_of_json (need_voucher_to_json e) = Some e"
  by (simp add: need_voucher_of_json_def need_voucher_to_json_def)

text \<open>The state after the lines of an event with a first line of data and further lines.\<close>

lemma parse_formatted:
  assumes "newline \<notin> set ty" and "\<forall>c \<in> set ty. \<not> is_whitespace c" and "split_on newline d = l # ls"
  shows "foldl parse_event_line (''message'', [])
      (split_on newline (''event: '' @ ty @ [newline] @ ''data: '' @ d @ [newline, newline]))
    = foldl parse_event_line (ty, [l]) ls"
proof -
  have "split_on newline (''data: '' @ d) = (''data: '' @ l) # ls"
    by (simp add: assms(3))
  then have lines: "split_on newline (''event: '' @ ty @ [newline] @ ''data: '' @ d @ [newline, newline])
      = (''event: '' @ ty) # (''data: '' @ l) # (ls @ [[], []])"
    using split_event [of "''event: '' @ ty" "''data: '' @ d"] assms(1) by simp
  have blank: "parse_event_line s [] = s" for s by (cases s) (simp add: line_empty)
  show ?thesis
    unfolding lines foldl_Cons line_event str_trim_id [OF assms(2)] line_data foldl_append
    by (simp add: blank)
qed

end
