(* ===== verification/Sse_Claims.thy ===== *)
theory Sse_Claims
  imports Sse Sample_Crates
begin

text \<open>
  The properties of server-sent events: what the parser gives back for a formatted event, when
  that is the event, and what data with line breaks does.
\<close>

text \<open>
  Events survive the wire. Application data without a line feed parses back to itself, and
  a need-voucher event parses back to itself whenever its JSON text is on one line and reads
  back, which is what the compact printer of the JSON crate promises.
\<close>

theorem sse_event_roundtrip:
  assumes "newline \<notin> set d" and "format_need_voucher_event X e = Some raw_event"
    and "json_to_string X (need_voucher_to_json e) = Inr doc" and "newline \<notin> set doc"
    and "json_from_slice X (as_bytes doc) = Inr (need_voucher_to_json e)"
  shows "parse_event X (format_message_event d) = Some (Message d)
    \<and> parse_event X raw_event = Some (PaymentNeedVoucher e)"
proof
  have plain: "\<forall>c \<in> set ''message''. \<not> is_whitespace c" "\<forall>c \<in> set ''payment-need-voucher''. \<not> is_whitespace c"
    by (simp_all add: is_whitespace_def)
  have m: "format_message_event d = ''event: '' @ ''message'' @ [newline] @ ''data: '' @ d @ [newline, newline]"
    by (simp add: format_message_event_def)
  show "parse_event X (format_message_event d) = Some (Message d)"
    unfolding m parse_event_def
    using parse_formatted [OF _ plain(1) split_on_no_sep [OF assms(1)]] by simp
  have v: "raw_event = ''event: '' @ ''payment-need-voucher'' @ [newline] @ ''data: '' @ doc @ [newline, newline]"
    using assms(2,3) by (simp add: format_need_voucher_event_def)
  show "parse_event X raw_event = Some (PaymentNeedVoucher e)"
    unfolding v parse_event_def
    using parse_formatted [OF _ plain(2) split_on_no_sep [OF assms(4)]] assms(5)
    by (simp add: from_slice_def from_value_def need_voucher_json_roundtrip)
qed

definition sample_need :: need_voucher_event where
  "sample_need = \<lparr>nv_channel_id = ''0xabc'', nv_required_cumulative = ''2000000'',
     nv_accepted_cumulative = ''1000000'', nv_deposit = ''5000000''\<rparr>"

definition sample_sse_world :: crates where
  "sample_sse_world = sample_crates\<lparr>json_to_string := \<lambda>_. Inr ''{}'',
     json_from_slice := \<lambda>_. Inr (need_voucher_to_json sample_need)\<rparr>"

theorem sse_event_roundtrip_witness:
  "parse_event sample_sse_world (format_message_event ''hello'') = Some (Message ''hello'')
   \<and> (\<exists>raw_event. format_need_voucher_event sample_sse_world sample_need = Some raw_event
      \<and> parse_event sample_sse_world raw_event = Some (PaymentNeedVoucher sample_need))"
proof -
  obtain r where r: "format_need_voucher_event sample_sse_world sample_need = Some r"
    by (simp add: format_need_voucher_event_def sample_sse_world_def)
  have "parse_event sample_sse_world (format_message_event ''hello'') = Some (Message ''hello'')
      \<and> parse_event sample_sse_world r = Some (PaymentNeedVoucher sample_need)"
    by (rule sse_event_roundtrip [where doc = "''{}''", OF _ r]) (simp_all add: sample_sse_world_def)
  with r show ?thesis by blast
qed

text \<open>
  Application data can forge a payment event. The message formatter does not break its data
  into lines, so data that is the text of a need-voucher event followed by an event line parses
  as that event; and of data with any other line break the client sees the first line only.
\<close>

theorem sse_message_forges:
  assumes "newline \<notin> set doc" and "from_slice X ''NeedVoucherEvent'' need_voucher_of_json (as_bytes doc) = Inr e"
    and "newline \<notin> set l" and "\<not> starts_with ''event: '' l" and "\<not> starts_with ''data: '' l"
    and "l \<noteq> ''data:''"
  shows "parse_event X (format_message_event (doc @ [newline] @ ''event: payment-need-voucher''))
      = Some (PaymentNeedVoucher e)
    \<and> parse_event X (format_message_event (doc @ [newline] @ l)) = Some (Message doc)"
proof
  have plain: "\<forall>c \<in> set ''message''. \<not> is_whitespace c" by (simp add: is_whitespace_def)
  have m: "format_message_event d = ''event: '' @ ''message'' @ [newline] @ ''data: '' @ d @ [newline, newline]" for d
    by (simp add: format_message_event_def)
  have split: "split_on newline (doc @ [newline] @ r) = [doc, r]" if "newline \<notin> set r" for r
    using split_on_sep [OF assms(1)] split_on_no_sep [OF that] by simp
  have "parse_event_line (''message'', [doc]) (''event: '' @ ''payment-need-voucher'')
      = (''payment-need-voucher'', [doc])"
    by (simp only: line_event message_word)
  then show "parse_event X (format_message_event (doc @ [newline] @ ''event: payment-need-voucher''))
      = Some (PaymentNeedVoucher e)"
    unfolding m parse_event_def
    using parse_formatted [OF _ plain split [of "''event: payment-need-voucher''"]] assms(2) by simp
  show "parse_event X (format_message_event (doc @ [newline] @ l)) = Some (Message doc)"
    unfolding m parse_event_def
    using parse_formatted [OF _ plain split [OF assms(3)]] line_other [OF assms(4-6)] by simp
qed

theorem sse_message_forges_witness:
  "parse_event sample_sse_world (format_message_event (''{}'' @ [newline] @ ''event: payment-need-voucher''))
   = Some (PaymentNeedVoucher sample_need)"
  using sse_message_forges [of "''{}''" sample_sse_world sample_need "''x''"]
  by (simp add: from_slice_def from_value_def sample_sse_world_def need_voucher_json_roundtrip
      starts_with_def)

end
