(* ===== verification/Kv_Store.thy ===== *)
theory Kv_Store
  imports Crates
begin

text \<open>
  The key-value store (src/store.rs): the interface with its laws as the locale \<open>kv_store\<close>, the
  memory store and the file store. A store is its state; an operation gives the result and the
  new state. The file system is the files by path, with the faults of the system as a
  parameter: an operation on a path may fail with a text, and a failed write leaves whatever it
  leaves. The lemmas inside the locale show that a store behaves as a map from slots, whatever
  it keys on.
\<close>

section \<open>Errors\<close>

datatype store_error = Internal string | Serialization string

fun store_error_display :: "store_error \<Rightarrow> string" where
  "store_error_display (Internal e) = ''Store error: '' @ e"
| "store_error_display (Serialization e) = ''Serialization error: '' @ e"

section \<open>The memory store\<close>

type_synonym memory_store = "string \<rightharpoonup> string"

definition memory_store_new :: memory_store where
  "memory_store_new = Map.empty"

definition parse_stored :: "crates \<Rightarrow> string \<Rightarrow> store_error + json option" where
  "parse_stored X doc = map_sum Serialization Some (json_from_slice X (as_bytes doc))"

definition memory_get :: "crates \<Rightarrow> memory_store \<Rightarrow> string \<Rightarrow> store_error + json option" where
  "memory_get X st key = (case st key of Some doc \<Rightarrow> parse_stored X doc | None \<Rightarrow> Inr None)"

definition memory_put ::
  "crates \<Rightarrow> memory_store \<Rightarrow> string \<Rightarrow> json \<Rightarrow> (store_error + unit) \<times> memory_store" where
  "memory_put X st key v =
     (case json_to_string X v of
        Inl e \<Rightarrow> (Inl (Serialization e), st)
      | Inr doc \<Rightarrow> (Inr (), st(key \<mapsto> doc)))"

definition memory_delete :: "memory_store \<Rightarrow> string \<Rightarrow> (store_error + unit) \<times> memory_store" where
  "memory_delete st key = (Inr (), st(key := None))"

section \<open>The file system\<close>

datatype io_error = NotFound | OtherIo string

record faults =
  ft_create :: "string \<Rightarrow> string option"
  ft_read :: "string \<Rightarrow> string option"
  ft_write :: "string \<Rightarrow> (string \<times> string option) option"
  ft_remove :: "string \<Rightarrow> string option"

type_synonym files = "string \<rightharpoonup> string"

definition read_to_string :: "faults \<Rightarrow> files \<Rightarrow> string \<Rightarrow> io_error + string" where
  "read_to_string F fs path =
     (case ft_read F path of Some e \<Rightarrow> Inl (OtherIo e) | None \<Rightarrow> ok_or NotFound (fs path))"

definition write_file :: "faults \<Rightarrow> files \<Rightarrow> string \<Rightarrow> string \<Rightarrow> (string + unit) \<times> files" where
  "write_file F fs path content =
     (case ft_write F path of
        Some (e, left) \<Rightarrow> (Inl e, fs(path := left))
      | None \<Rightarrow> (Inr (), fs(path \<mapsto> content)))"

definition remove_file :: "faults \<Rightarrow> files \<Rightarrow> string \<Rightarrow> (io_error + unit) \<times> files" where
  "remove_file F fs path =
     (case ft_remove F path of
        Some e \<Rightarrow> (Inl (OtherIo e), fs)
      | None \<Rightarrow> (if fs path = None then (Inl NotFound, fs) else (Inr (), fs(path := None))))"

section \<open>The file store\<close>

text \<open>A file store is its directory; its state is the file system.\<close>

definition file_store_new :: "faults \<Rightarrow> string \<Rightarrow> store_error + string" where
  "file_store_new F dir =
     (case ft_create F dir of
        Some e \<Rightarrow> Inl (Internal (''Failed to create store dir: '' @ e))
      | None \<Rightarrow> Inr dir)"

definition safe_key :: "string \<Rightarrow> string" where
  "safe_key key = map (\<lambda>c. if is_alphanumeric c \<or> c = CHR ''-'' \<or> c = CHR ''_'' then c else CHR ''_'') key"

definition key_path :: "string \<Rightarrow> string \<Rightarrow> string" where
  "key_path dir key = dir @ ''/'' @ safe_key key @ ''.json''"

definition file_get :: "crates \<Rightarrow> faults \<Rightarrow> string \<Rightarrow> files \<Rightarrow> string \<Rightarrow> store_error + json option" where
  "file_get X F dir fs key =
     (case read_to_string F fs (key_path dir key) of
        Inr doc \<Rightarrow> parse_stored X doc
      | Inl NotFound \<Rightarrow> Inr None
      | Inl (OtherIo e) \<Rightarrow> Inl (Internal e))"

definition file_put ::
  "crates \<Rightarrow> faults \<Rightarrow> string \<Rightarrow> files \<Rightarrow> string \<Rightarrow> json \<Rightarrow> (store_error + unit) \<times> files" where
  "file_put X F dir fs key v =
     (case json_to_string_pretty X v of
        Inl e \<Rightarrow> (Inl (Serialization e), fs)
      | Inr doc \<Rightarrow>
          (case write_file F fs (key_path dir key) doc of
             (r, fs') \<Rightarrow> (map_err Internal r, fs')))"

definition file_delete :: "faults \<Rightarrow> string \<Rightarrow> files \<Rightarrow> string \<Rightarrow> (store_error + unit) \<times> files" where
  "file_delete F dir fs key =
     (case remove_file F fs (key_path dir key) of
        (Inr u, fs') \<Rightarrow> (Inr (), fs')
      | (Inl NotFound, fs') \<Rightarrow> (Inr (), fs')
      | (Inl (OtherIo e), fs') \<Rightarrow> (Inl (Internal e), fs'))"

section \<open>Operations on a store\<close>

datatype kv_op = Put string json | Delete string

text \<open>A list of operations, stopped at the first that fails; and the last of them on a slot: what
  it leaves there.\<close>

fun kv_run ::
  "('s \<Rightarrow> string \<Rightarrow> json \<Rightarrow> (store_error + unit) \<times> 's) \<Rightarrow> ('s \<Rightarrow> string \<Rightarrow> (store_error + unit) \<times> 's)
   \<Rightarrow> kv_op list \<Rightarrow> 's \<Rightarrow> 's option" where
  "kv_run put delete [] st = Some st"
| "kv_run put delete (op # ops) st =
     (case (case op of Put k v \<Rightarrow> put st k v | Delete k \<Rightarrow> delete st k) of
        (Inl e, st') \<Rightarrow> None
      | (Inr u, st') \<Rightarrow> kv_run put delete ops st')"

fun last_write :: "(string \<Rightarrow> 'k) \<Rightarrow> 'k \<Rightarrow> kv_op list \<Rightarrow> json option option" where
  "last_write slot s [] = None"
| "last_write slot s (op # ops) =
     (case last_write slot s ops of
        Some r \<Rightarrow> Some r
      | None \<Rightarrow>
          (case op of
             Put k v \<Rightarrow> if slot k = s then Some (Some v) else None
           | Delete k \<Rightarrow> if slot k = s then Some None else None))"

definition stores_only :: "(json \<Rightarrow> bool) \<Rightarrow> kv_op list \<Rightarrow> bool" where
  "stores_only storable ops \<longleftrightarrow> list_all (\<lambda>op. case op of Put k v \<Rightarrow> storable v | Delete k \<Rightarrow> True) ops"

locale kv_store =
  fixes get :: "'s \<Rightarrow> string \<Rightarrow> store_error + json option"
    and put :: "'s \<Rightarrow> string \<Rightarrow> json \<Rightarrow> (store_error + unit) \<times> 's"
    and delete :: "'s \<Rightarrow> string \<Rightarrow> (store_error + unit) \<times> 's"
    and slot :: "string \<Rightarrow> 'k"
    and storable :: "json \<Rightarrow> bool"
    and readable :: "string \<Rightarrow> bool"
  assumes get_put: "storable v \<Longrightarrow> readable q \<Longrightarrow> put st k v = (Inr u, st') \<Longrightarrow>
      get st' q = (if slot k = slot q then Inr (Some v) else get st q)"
    and get_delete: "readable q \<Longrightarrow> delete st k = (Inr u, st') \<Longrightarrow>
      get st' q = (if slot k = slot q then Inr None else get st q)"
begin

lemma get_after_run:
  assumes "kv_run put delete ops st = Some st'" and "stores_only storable ops" and "readable q"
  shows "get st' q = (case last_write slot (slot q) ops of Some r \<Rightarrow> Inr r | None \<Rightarrow> get st q)"
  using assms(1,2)
proof (induction ops arbitrary: st)
  case (Cons op ops)
  obtain st1 u where one: "(case op of Put k v \<Rightarrow> put st k v | Delete k \<Rightarrow> delete st k) = (Inr u, st1)"
    and rest: "kv_run put delete ops st1 = Some st'"
    using Cons.prems(1) by (auto split: prod.splits sum.splits)
  have "get st' q = (case last_write slot (slot q) ops of Some r \<Rightarrow> Inr r | None \<Rightarrow> get st1 q)"
    using Cons.IH [OF rest] Cons.prems(2) by (simp add: stores_only_def)
  moreover have "get st1 q = (case op of
       Put k v \<Rightarrow> if slot k = slot q then Inr (Some v) else get st q
     | Delete k \<Rightarrow> if slot k = slot q then Inr None else get st q)"
    using one Cons.prems(2) get_put [OF _ assms(3)] get_delete [OF assms(3)]
    by (cases op) (auto simp: stores_only_def)
  ultimately show ?case by (auto split: option.splits kv_op.splits)
qed simp

lemma same_slot_same_value:
  assumes "kv_run put delete ops st = Some st'" and "stores_only storable ops"
    and "readable q" and "readable q'" and "slot q = slot q'" and "last_write slot (slot q) ops \<noteq> None"
  shows "get st' q = get st' q'"
  using get_after_run [OF assms(1,2,3)] get_after_run [OF assms(1,2,4)] assms(5,6)
  by (auto split: option.splits)

end

section \<open>Both stores keep the contract\<close>

definition text_reads_back :: "crates \<Rightarrow> (json \<Rightarrow> string + string) \<Rightarrow> json \<Rightarrow> bool" where
  "text_reads_back X print v \<longleftrightarrow>
     (case print v of Inl _ \<Rightarrow> True | Inr doc \<Rightarrow> json_from_slice X (as_bytes doc) = Inr v)"

interpretation mem: kv_store "memory_get X" "memory_put X" memory_delete "\<lambda>k. k"
    "text_reads_back X (json_to_string X)" "\<lambda>_. True" for X
  by unfold_locales
    (auto simp: memory_get_def memory_put_def memory_delete_def parse_stored_def text_reads_back_def
      split: sum.splits)

interpretation disk: kv_store "file_get X F dir" "file_put X F dir" "file_delete F dir" safe_key
    "text_reads_back X (json_to_string_pretty X)" "\<lambda>k. ft_read F (key_path dir k) = None" for X F dir
  by unfold_locales
    (auto simp: file_get_def file_put_def file_delete_def parse_stored_def text_reads_back_def
      key_path_def read_to_string_def write_file_def remove_file_def res_simps
      split: sum.splits option.splits prod.splits io_error.splits if_splits)

end
