(* ===== verification/Kv_Claims.thy ===== *)
theory Kv_Claims
  imports Kv_Store Sample_Crates
begin

text \<open>
  The properties of the key-value stores: what a store holds after any list of operations, that
  the file store is the memory store on disk as long as its keys keep apart, and the keys that
  it cannot tell apart.
\<close>

fun op_key :: "kv_op \<Rightarrow> string" where
  "op_key (Put k v) = k"
| "op_key (Delete k) = k"

lemma last_write_same_slot:
  "\<forall>op \<in> set ops. slot (op_key op) = slot q \<longrightarrow> op_key op = q
   \<Longrightarrow> last_write slot (slot q) ops = last_write (\<lambda>k. k) q ops"
proof (induction ops)
  case (Cons op ops)
  then show ?case by (cases op) (auto split: option.splits)
qed simp

definition apart :: "string \<Rightarrow> kv_op list \<Rightarrow> bool" where
  "apart q ops \<longleftrightarrow> list_all (\<lambda>op. safe_key (op_key op) = safe_key q \<longrightarrow> op_key op = q) ops"

definition prints_back :: "crates \<Rightarrow> kv_op list \<Rightarrow> bool" where
  "prints_back X ops \<longleftrightarrow> stores_only (text_reads_back X (json_to_string X)) ops
     \<and> stores_only (text_reads_back X (json_to_string_pretty X)) ops"

text \<open>
  C38: the file store is the memory store on disk. The same operations, each of which succeeds,
  are run on a new memory store and on a directory without a file for the key: both read the
  same value for it, the last one put and not deleted since, or none. The key has to be readable
  and no operation may use another key with the same file; the values have to be ones whose
  printed text reads back.
\<close>

theorem file_store_matches_memory:
  assumes "kv_run (memory_put X) memory_delete ops memory_store_new = Some st"
    and "kv_run (file_put X F dir) (file_delete F dir) ops fs = Some fs'"
    and "fs (key_path dir q) = None" and "ft_read F (key_path dir q) = None"
    and "prints_back X ops" and "apart q ops"
  shows "file_get X F dir fs' q = memory_get X st q
    \<and> memory_get X st q = Inr (case last_write (\<lambda>k. k) q ops of None \<Rightarrow> None | Some r \<Rightarrow> r)"
proof -
  have "memory_get X st q = Inr (case last_write (\<lambda>k. k) q ops of None \<Rightarrow> None | Some r \<Rightarrow> r)"
    using mem.get_after_run [OF assms(1) _ TrueI, of q] assms(5)
    by (simp add: prints_back_def memory_get_def memory_store_new_def split: option.splits)
  moreover have "last_write safe_key (safe_key q) ops = last_write (\<lambda>k. k) q ops"
    using assms(6) by (intro last_write_same_slot) (simp add: apart_def list_all_iff)
  moreover have "file_get X F dir fs q = Inr None"
    using assms(3,4) by (simp add: file_get_def read_to_string_def)
  ultimately show ?thesis
    using disk.get_after_run [OF assms(2) _ assms(4)] assms(5)
    by (simp add: prints_back_def split: option.splits)
qed

definition kv_world :: crates where
  "kv_world = sample_crates\<lparr>json_to_string := \<lambda>_. Inr ''true'', json_to_string_pretty := \<lambda>_. Inr ''true'',
     json_from_slice := \<lambda>_. Inr (JBool True)\<rparr>"

definition no_faults :: faults where
  "no_faults = \<lparr>ft_create = \<lambda>_. None, ft_read = \<lambda>_. None, ft_write = \<lambda>_. None, ft_remove = \<lambda>_. None\<rparr>"

definition kv_sample :: "kv_op list" where
  "kv_sample = [Put ''a'' (JBool True), Put ''b'' (JBool True), Delete ''b'']"

lemma kv_sample_runs:
  "\<exists>st. kv_run (memory_put kv_world) memory_delete kv_sample memory_store_new = Some st"
  "\<exists>fs'. kv_run (file_put kv_world no_faults ''d'') (file_delete no_faults ''d'') kv_sample Map.empty = Some fs'"
  by (simp_all add: kv_sample_def memory_put_def memory_delete_def file_put_def file_delete_def
      kv_world_def no_faults_def write_file_def remove_file_def)

lemma kv_sample_fits: "prints_back kv_world kv_sample" "apart ''a'' kv_sample"
  by (simp_all add: prints_back_def stores_only_def kv_sample_def text_reads_back_def kv_world_def
      apart_def safe_key_def is_alphanumeric_def is_ascii_digit_def is_ascii_lowercase_def
      is_ascii_uppercase_def)

theorem file_store_matches_memory_witness:
  "\<exists>st fs'. kv_run (memory_put kv_world) memory_delete kv_sample memory_store_new = Some st
   \<and> kv_run (file_put kv_world no_faults ''d'') (file_delete no_faults ''d'') kv_sample Map.empty = Some fs'
   \<and> file_get kv_world no_faults ''d'' fs' ''a'' = Inr (Some (JBool True))
   \<and> memory_get kv_world st ''a'' = Inr (Some (JBool True))"
proof -
  obtain st fs' where run: "kv_run (memory_put kv_world) memory_delete kv_sample memory_store_new = Some st"
    "kv_run (file_put kv_world no_faults ''d'') (file_delete no_faults ''d'') kv_sample Map.empty = Some fs'"
    using kv_sample_runs by blast
  have last: "last_write (\<lambda>k. k) ''a'' kv_sample = Some (Some (JBool True))"
    by (simp add: kv_sample_def)
  have readable: "ft_read no_faults (key_path ''d'' ''a'') = None" by (simp add: no_faults_def)
  from file_store_matches_memory [OF run refl readable kv_sample_fits]
  have "file_get kv_world no_faults ''d'' fs' ''a'' = Inr (Some (JBool True))"
    "memory_get kv_world st ''a'' = Inr (Some (JBool True))"
    by (simp_all add: last)
  with run show ?thesis by blast
qed

text \<open>
  The file store merges keys. A key's file name keeps letters, digits, hyphen and underscore
  and turns every other character into an underscore, so a value put under one key is read
  back under every key with the same file name, where the memory store has nothing, and a
  deletion of one key deletes them all.
\<close>

theorem file_keys_collide:
  assumes "safe_key k = safe_key q" and "k \<noteq> q" and "ft_read F (key_path dir q) = None"
    and "file_put X F dir fs k v = (Inr (), fs')" and "text_reads_back X (json_to_string_pretty X) v"
    and "memory_put X memory_store_new k v = (Inr (), st)"
  shows "file_get X F dir fs' q = Inr (Some v) \<and> memory_get X st q = Inr None
    \<and> (\<forall>fs''. file_delete F dir fs' k = (Inr (), fs'') \<longrightarrow> file_get X F dir fs'' q = Inr None)"
proof (intro conjI allI impI)
  show "file_get X F dir fs' q = Inr (Some v)"
    using disk.get_put [OF assms(5,3,4)] assms(1) by simp
  show "memory_get X st q = Inr None"
    using assms(2,6) by (auto simp: memory_put_def memory_get_def memory_store_new_def split: sum.splits)
  show "file_get X F dir fs'' q = Inr None" if "file_delete F dir fs' k = (Inr (), fs'')" for fs''
    using disk.get_delete [OF assms(3) that] assms(1) by simp
qed

theorem file_keys_collide_witness:
  "\<exists>fs'. file_put kv_world no_faults ''d'' Map.empty ''user:1'' (JBool True) = (Inr (), fs')
   \<and> file_get kv_world no_faults ''d'' fs' ''user_1'' = Inr (Some (JBool True))"
proof -
  obtain fs' where put: "file_put kv_world no_faults ''d'' Map.empty ''user:1'' (JBool True) = (Inr (), fs')"
    by (simp add: file_put_def kv_world_def write_file_def no_faults_def)
  obtain st where mp: "memory_put kv_world memory_store_new ''user:1'' (JBool True) = (Inr (), st)"
    by (simp add: memory_put_def kv_world_def)
  have "safe_key ''user:1'' = safe_key ''user_1''"
    by (simp add: safe_key_def is_alphanumeric_def is_ascii_digit_def is_ascii_lowercase_def
        is_ascii_uppercase_def)
  from file_keys_collide [OF this _ _ put _ mp] have "file_get kv_world no_faults ''d'' fs' ''user_1'' = Inr (Some (JBool True))"
    by (simp add: no_faults_def text_reads_back_def kv_world_def)
  with put show ?thesis by blast
qed

end
