(* ===== verification/Mcp.thy ===== *)
theory Mcp
  imports Envelope_Json Errors
begin

text \<open>
  Payments over the Model Context Protocol (src/mcp.rs): the JSON-RPC error that demands a
  payment, the credential in the request's \<open>_meta\<close> and the receipt in the result's \<open>_meta\<close>.
  The code changes a JSON value in place and panics when the value, or its \<open>_meta\<close>, is not
  an object; here an operation gives the changed value, and \<open>None\<close> where it panics.
\<close>

definition PAYMENT_REQUIRED_CODE :: int where "PAYMENT_REQUIRED_CODE = - 32042"
definition PAYMENT_VERIFICATION_FAILED_CODE :: int where
  "PAYMENT_VERIFICATION_FAILED_CODE = - 32043"
definition CREDENTIAL_META_KEY :: string where
  "CREDENTIAL_META_KEY = ''org.paymentauth/credential''"
definition RECEIPT_META_KEY :: string where "RECEIPT_META_KEY = ''org.paymentauth/receipt''"

section \<open>Types\<close>

record mcp_receipt =
  mr_receipt :: receipt
  mr_challenge_id :: string

record mcp_payment_error_data =
  md_http_status :: u16
  md_challenges :: "payment_challenge list"
  md_problem :: "payment_error_details option"

record mcp_payment_error =
  me_code :: "32 word"
  me_message :: string
  me_data :: "mcp_payment_error_data option"

section \<open>Their JSON forms\<close>

text \<open>The flattened receipt comes first, the fields of an object in one list.\<close>

definition mcp_receipt_to_json :: "mcp_receipt \<Rightarrow> json" where
  "mcp_receipt_to_json r =
     (case receipt_to_json (mr_receipt r) of
        JObj kvs \<Rightarrow> JObj (kvs @ [(''challengeId'', JStr (mr_challenge_id r))])
      | _ \<Rightarrow> JNull)"

definition mcp_receipt_of_json :: "json \<Rightarrow> mcp_receipt option" where
  "mcp_receipt_of_json j =
     Option.bind (field_req as_str ''challengeId'' j) (\<lambda>challenge_id.
     Option.bind (receipt_of_json j) (\<lambda>receipt.
     Some \<lparr>mr_receipt = receipt, mr_challenge_id = challenge_id\<rparr>))"

definition payment_error_details_to_json :: "payment_error_details \<Rightarrow> json" where
  "payment_error_details_to_json p = JObj (
     [(''type'', JStr (problem_type p)), (''title'', JStr (problem_title p)),
      (''status'', JInt (int (problem_status p))), (''detail'', JStr (problem_detail p))]
     @ opt_str (problem_challenge_id p) ''challengeId'')"

definition payment_error_details_of_json :: "json \<Rightarrow> payment_error_details option" where
  "payment_error_details_of_json j =
     Option.bind (field_req as_str ''type'' j) (\<lambda>ty.
     Option.bind (field_req as_str ''title'' j) (\<lambda>title.
     Option.bind (field_req as_u16 ''status'' j) (\<lambda>status.
     Option.bind (field_req as_str ''detail'' j) (\<lambda>detail.
     Option.bind (field_opt as_str ''challengeId'' j) (\<lambda>challenge_id.
     Some \<lparr>problem_type = ty, problem_title = title, problem_status = unat status,
       problem_detail = detail, problem_challenge_id = challenge_id\<rparr>)))))"

definition mcp_data_to_json :: "mcp_payment_error_data \<Rightarrow> json" where
  "mcp_data_to_json d = JObj (
     [(''httpStatus'', JInt (uint (md_http_status d))),
      (''challenges'', JArr (map payment_challenge_to_json (md_challenges d)))]
     @ opt_field ''problem'' payment_error_details_to_json (md_problem d))"

fun challenges_of_json :: "json \<Rightarrow> payment_challenge list option" where
  "challenges_of_json (JArr vs) = those (map payment_challenge_of_json vs)"
| "challenges_of_json _ = None"

definition mcp_data_of_json :: "json \<Rightarrow> mcp_payment_error_data option" where
  "mcp_data_of_json j =
     Option.bind (field_req as_u16 ''httpStatus'' j) (\<lambda>status.
     Option.bind (field_req challenges_of_json ''challenges'' j) (\<lambda>challenges.
     Option.bind (field_opt payment_error_details_of_json ''problem'' j) (\<lambda>problem.
     Some \<lparr>md_http_status = status, md_challenges = challenges, md_problem = problem\<rparr>)))"

fun as_i32 :: "json \<Rightarrow> 32 word option" where
  "as_i32 (JInt n) = (if - (2 ^ 31) \<le> n \<and> n < 2 ^ 31 then Some (of_int n) else None)"
| "as_i32 _ = None"

definition mcp_error_to_json :: "mcp_payment_error \<Rightarrow> json" where
  "mcp_error_to_json e = JObj (
     [(''code'', JInt (sint (me_code e))), (''message'', JStr (me_message e))]
     @ opt_field ''data'' mcp_data_to_json (me_data e))"

definition mcp_error_of_json :: "json \<Rightarrow> mcp_payment_error option" where
  "mcp_error_of_json j =
     Option.bind (field_req as_i32 ''code'' j) (\<lambda>c.
     Option.bind (field_req as_str ''message'' j) (\<lambda>message.
     Option.bind (field_opt mcp_data_of_json ''data'' j) (\<lambda>dat.
     Some \<lparr>me_code = c, me_message = message, me_data = dat\<rparr>)))"

section \<open>The server's side\<close>

definition extract_credential :: "json \<Rightarrow> payment_credential option" where
  "extract_credential meta =
     Option.bind (json_get CREDENTIAL_META_KEY meta) payment_credential_of_json"

definition payment_required_error :: "payment_challenge \<Rightarrow> mcp_payment_error" where
  "payment_required_error challenge =
     \<lparr>me_code = of_int PAYMENT_REQUIRED_CODE, me_message = ''Payment Required'',
      me_data = Some \<lparr>md_http_status = 402, md_challenges = [challenge], md_problem = None\<rparr>\<rparr>"

text \<open>\<open>entry("_meta").or_insert_with({})\<close>, then an insertion into it.\<close>

definition insert_meta :: "string \<Rightarrow> json \<Rightarrow> json \<Rightarrow> json option" where
  "insert_meta key v target =
     Option.bind (as_object target) (\<lambda>kvs.
     Option.bind (as_object (case map_of kvs ''_meta'' of None \<Rightarrow> JObj [] | Some m \<Rightarrow> m)) (\<lambda>meta.
     Some (JObj (obj_insert ''_meta'' (JObj (obj_insert key v meta)) kvs))))"

definition attach_receipt :: "json \<Rightarrow> receipt \<Rightarrow> string \<Rightarrow> json option" where
  "attach_receipt target r challenge_id =
     insert_meta RECEIPT_META_KEY
       (mcp_receipt_to_json \<lparr>mr_receipt = r, mr_challenge_id = challenge_id\<rparr>) target"

section \<open>The client's side\<close>

definition is_payment_required :: "json \<Rightarrow> bool" where
  "is_payment_required e \<longleftrightarrow>
     Option.bind (json_get ''code'' e) as_i64 = Some PAYMENT_REQUIRED_CODE"

definition extract_challenges :: "json \<Rightarrow> payment_challenge list option" where
  "extract_challenges e =
     Option.bind (json_get ''data'' e) (\<lambda>d. Option.bind (json_get ''challenges'' d) challenges_of_json)"

definition attach_credential :: "json \<Rightarrow> payment_credential \<Rightarrow> json option" where
  "attach_credential params credential =
     insert_meta CREDENTIAL_META_KEY (payment_credential_to_json credential) params"

section \<open>Lemmas\<close>

lemma those_map_Some: "(\<And>x. f (g x) = Some x) \<Longrightarrow> those (map f (map g xs)) = Some xs"
  by (induction xs) simp_all

lemma challenges_json_roundtrip:
  "challenges_of_json (JArr (map payment_challenge_to_json cs)) = Some cs"
  by (simp only: challenges_of_json.simps those_map_Some payment_challenge_json_roundtrip)

lemma mcp_receipt_json_roundtrip: "mcp_receipt_of_json (mcp_receipt_to_json r) = Some r"
  by (cases "rc_status (mr_receipt r)")
    (simp add: mcp_receipt_of_json_def mcp_receipt_to_json_def receipt_to_json_def receipt_of_json_def
      receipt_status_of_json_def unit_variant_def)

lemma as_u16_uint [simp]: "as_u16 (JInt (uint w)) = Some w"
proof -
  have "uint w < 2 ^ LENGTH(16)" by (rule unsigned_less)
  then show ?thesis by simp
qed

lemma as_i32_sint [simp]: "as_i32 (JInt (sint w)) = Some w"
proof -
  have "sint w < 2 ^ (LENGTH(32) - 1)" "- (2 ^ (LENGTH(32) - 1)) \<le> sint w"
    by (rule sint_lt) (rule sint_ge)
  then show ?thesis by simp
qed

lemma problem_json_roundtrip:
  "problem_status p < 2 ^ 16 \<Longrightarrow>
   payment_error_details_of_json (payment_error_details_to_json p) = Some p"
  by (simp add: payment_error_details_of_json_def payment_error_details_to_json_def opt_str_def
      field_opt_str_present unat_of_nat)

end
