(* ===== verification/Mcp_Claims.thy ===== *)
theory Mcp_Claims
  imports Mcp Server_Claims
begin

text \<open>
  The properties of payments over the Model Context Protocol: the demand for a payment, the
  credential in \<open>_meta\<close>, and a whole exchange with a payment handler.
\<close>

section \<open>JSON forms\<close>

definition problems_fit :: "mcp_payment_error \<Rightarrow> bool" where
  "problems_fit e = (case me_data e of None \<Rightarrow> True
     | Some d \<Rightarrow> (case md_problem d of None \<Rightarrow> True | Some p \<Rightarrow> problem_status p < 2 ^ 16))"

lemma to_json_not_null: "payment_error_details_to_json p \<noteq> JNull" "mcp_data_to_json d \<noteq> JNull"
  by (simp_all add: payment_error_details_to_json_def mcp_data_to_json_def)

lemma mcp_data_json_roundtrip:
  assumes "case md_problem d of None \<Rightarrow> True | Some p \<Rightarrow> problem_status p < 2 ^ 16"
  shows "mcp_data_of_json (mcp_data_to_json d) = Some d"
proof -
  have "field_opt payment_error_details_of_json ''problem'' (mcp_data_to_json d) = Some (md_problem d)"
    unfolding mcp_data_to_json_def
    by (rule field_opt_present [where enc = payment_error_details_to_json])
      (use assms in \<open>auto simp: to_json_not_null problem_json_roundtrip map_add_def split: option.splits\<close>)
  moreover have "field_req as_u16 ''httpStatus'' (mcp_data_to_json d) = Some (md_http_status d)"
    "field_req challenges_of_json ''challenges'' (mcp_data_to_json d) = Some (md_challenges d)"
    by (simp_all add: mcp_data_to_json_def challenges_json_roundtrip map_add_def
        del: as_u16.simps challenges_of_json.simps split: option.splits)
  ultimately show ?thesis by (simp add: mcp_data_of_json_def)
qed

lemma mcp_error_json_roundtrip:
  assumes "problems_fit e"
  shows "mcp_error_of_json (mcp_error_to_json e) = Some e"
proof -
  have "field_opt mcp_data_of_json ''data'' (mcp_error_to_json e) = Some (me_data e)"
    unfolding mcp_error_to_json_def
    by (rule field_opt_present [where enc = mcp_data_to_json])
      (use assms in \<open>auto simp: problems_fit_def to_json_not_null mcp_data_json_roundtrip map_add_def
        split: option.splits\<close>)
  moreover have "field_req as_i32 ''code'' (mcp_error_to_json e) = Some (me_code e)"
    "field_req as_str ''message'' (mcp_error_to_json e) = Some (me_message e)"
    by (simp_all add: mcp_error_to_json_def map_add_def del: as_i32.simps split: option.splits)
  ultimately show ?thesis by (simp add: mcp_error_of_json_def)
qed

lemma extract_challenges_mcp:
  "extract_challenges (mcp_error_to_json e) = map_option md_challenges (me_data e)"
  by (cases "me_data e") (simp_all add: extract_challenges_def mcp_error_to_json_def
      mcp_data_to_json_def opt_field_def challenges_json_roundtrip del: challenges_of_json.simps)

lemma sint_code: "sint (w :: 32 word) = - 32042 \<longleftrightarrow> w = of_int (- 32042)"
proof
  assume "sint w = - 32042"
  then have "of_int (sint w) = (of_int (- 32042) :: 32 word)" by (simp only:)
  then show "w = of_int (- 32042)" by (simp only: of_int_sint scast_id)
qed simp

text \<open>
  The payloads survive the wire. The JSON form of any payment error, whose problem document
  has a status that fits, reads back as that error, with all its challenges and its problem; the
  form of a receipt with its challenge id reads back; and the demand for a payment is told apart
  and gives its challenge back from the raw JSON, without the typed form.
\<close>

theorem mcp_forms_roundtrip:
  assumes "problems_fit e"
  shows "mcp_error_of_json (mcp_error_to_json e) = Some e
    \<and> mcp_receipt_of_json (mcp_receipt_to_json r) = Some r
    \<and> is_payment_required (mcp_error_to_json e) = (me_code e = of_int PAYMENT_REQUIRED_CODE)
    \<and> extract_challenges (mcp_error_to_json e) = map_option md_challenges (me_data e)"
proof (intro conjI)
  show "mcp_error_of_json (mcp_error_to_json e) = Some e"
    using assms by (rule mcp_error_json_roundtrip)
  show "mcp_receipt_of_json (mcp_receipt_to_json r) = Some r" by (rule mcp_receipt_json_roundtrip)
  have "- (2 ^ 63) \<le> sint (me_code e)" "sint (me_code e) < 2 ^ 63"
    using sint_ge [of "me_code e"] sint_lt [of "me_code e"] by simp_all
  then have "as_i64 (JInt (sint (me_code e))) = Some (sint (me_code e))" by simp
  moreover note sint_code [of "me_code e"]
  ultimately show "is_payment_required (mcp_error_to_json e) = (me_code e = of_int PAYMENT_REQUIRED_CODE)"
    by (simp add: is_payment_required_def mcp_error_to_json_def PAYMENT_REQUIRED_CODE_def
        del: as_i64.simps)
  show "extract_challenges (mcp_error_to_json e) = map_option md_challenges (me_data e)"
    by (rule extract_challenges_mcp)
qed

definition sample_demand :: payment_challenge where
  "sample_demand = \<lparr>ch_id = ''a1'', ch_realm = ''api'', ch_method = MethodName ''movement'',
     ch_intent = IntentName ''charge'', ch_request = Base64UrlJson ''e30'', ch_expires = None,
     ch_description = None, ch_digest = None, ch_opaque = None\<rparr>"

theorem mcp_forms_roundtrip_witness:
  "extract_challenges (mcp_error_to_json (payment_required_error sample_demand)) = Some [sample_demand]
   \<and> is_payment_required (mcp_error_to_json (payment_required_error sample_demand))"
  using mcp_forms_roundtrip [of "payment_required_error sample_demand"]
  by (simp add: problems_fit_def payment_required_error_def)

section \<open>Metadata\<close>

text \<open>A JSON value that an attachment does not panic on: an object whose \<open>_meta\<close>, if any, is
  an object.\<close>

definition takes_meta :: "json \<Rightarrow> bool" where
  "takes_meta target \<longleftrightarrow> is_object target
     \<and> (case json_get ''_meta'' target of None \<Rightarrow> True | Some m \<Rightarrow> is_object m)"

definition meta_get :: "string \<Rightarrow> json \<Rightarrow> json option" where
  "meta_get key target = Option.bind (json_get ''_meta'' target) (json_get key)"

lemma insert_meta_None: "insert_meta key v target = None \<longleftrightarrow> \<not> takes_meta target"
  by (cases target) (auto simp: takes_meta_def insert_meta_def is_object_def bind_eq_None_conv
      split: option.splits)

lemma insert_meta_Some:
  assumes "insert_meta key v target = Some t"
  shows "meta_get k t = (if k = key then Some v else meta_get k target)"
    and "k \<noteq> ''_meta'' \<Longrightarrow> json_get k t = json_get k target"
    and "takes_meta t"
proof -
  obtain kvs meta where "target = JObj kvs"
    and m: "(case map_of kvs ''_meta'' of None \<Rightarrow> JObj [] | Some m \<Rightarrow> m) = JObj meta"
    and t: "t = JObj (obj_insert ''_meta'' (JObj (obj_insert key v meta)) kvs)"
    using assms by (auto simp: insert_meta_def bind_eq_Some_conv elim!: as_object.elims)
  then show "meta_get k t = (if k = key then Some v else meta_get k target)"
    and "k \<noteq> ''_meta'' \<Longrightarrow> json_get k t = json_get k target" and "takes_meta t"
    by (auto simp: meta_get_def map_of_obj_insert takes_meta_def is_object_def split: option.splits)
qed

lemma extract_by_meta: "Option.bind (json_get ''_meta'' t) extract_credential
    = Option.bind (meta_get CREDENTIAL_META_KEY t) payment_credential_of_json"
  by (cases "json_get ''_meta'' t") (simp_all add: extract_credential_def meta_get_def)

lemma attached_is_extracted:
  assumes "takes_meta params"
  shows "Option.bind (attach_credential params credential)
    (\<lambda>p. Option.bind (json_get ''_meta'' p) extract_credential) = Some credential"
proof -
  obtain p where p: "attach_credential params credential = Some p"
    using assms by (metis attach_credential_def insert_meta_None not_Some_eq)
  then show ?thesis
    using insert_meta_Some(1) [OF p [unfolded attach_credential_def]]
    by (simp add: extract_by_meta payment_credential_json_roundtrip)
qed

text \<open>
  Attaching to \<open>_meta\<close>. A credential goes into every request whose parameters are an object
  without a \<open>_meta\<close> or with one that is an object; on any other value the code panics. What the
  server then extracts is that credential, every other entry of \<open>_meta\<close> and of the parameters
  is as before, and a receipt attached afterwards leaves the credential in place.
\<close>

theorem mcp_attach_exact:
  "(case attach_credential params credential of
      None \<Rightarrow> \<not> takes_meta params
    | Some p \<Rightarrow> takes_meta params
        \<and> Option.bind (json_get ''_meta'' p) extract_credential = Some credential
        \<and> (\<forall>k. meta_get k p = (if k = CREDENTIAL_META_KEY then Some (payment_credential_to_json credential)
             else meta_get k params))
        \<and> (\<forall>k. json_get k p = (if k = ''_meta'' then json_get k p else json_get k params))
        \<and> (case attach_receipt p r challenge_id of
             None \<Rightarrow> False
           | Some p' \<Rightarrow> Option.bind (json_get ''_meta'' p') extract_credential = Some credential
               \<and> Option.bind (meta_get RECEIPT_META_KEY p') mcp_receipt_of_json
                   = Some \<lparr>mr_receipt = r, mr_challenge_id = challenge_id\<rparr>))"
proof (cases "attach_credential params credential")
  case None
  then have "\<not> takes_meta params" by (simp add: attach_credential_def insert_meta_None)
  with None show ?thesis by simp
next
  case (Some p)
  then have ins: "insert_meta CREDENTIAL_META_KEY (payment_credential_to_json credential) params = Some p"
    by (simp add: attach_credential_def)
  have takes: "takes_meta params" using ins by (metis insert_meta_None option.distinct(1))
  obtain p' where p': "attach_receipt p r challenge_id = Some p'"
    using insert_meta_Some(3) [OF ins] insert_meta_None unfolding attach_receipt_def by blast
  note ins' = p' [unfolded attach_receipt_def]
  have keys: "RECEIPT_META_KEY \<noteq> CREDENTIAL_META_KEY"
    by (simp add: RECEIPT_META_KEY_def CREDENTIAL_META_KEY_def)
  show ?thesis
    using insert_meta_Some [OF ins] insert_meta_Some [OF ins'] keys takes
    by (auto simp: Some p' extract_by_meta payment_credential_json_roundtrip mcp_receipt_json_roundtrip)
qed

section \<open>A paid exchange\<close>

text \<open>
  A payment over this protocol goes through. A server demands a payment with the JSON form of
  the error for a charge challenge it issued; the client reads exactly that challenge, and
  attaches a credential for it to its parameters, whatever object they are; the server extracts
  the credential before the challenge expires and accepts it exactly when its charge method
  does, for the terms of the challenge.
\<close>

theorem mcp_exchange_pays:
  assumes "movement_charge_with_options X now m amount options = Inr c"
    and "mpp_currency m = Some currency" and "mpp_recipient m = Some recipient"
    and "parse_dollar_amount amount (mpp_decimals m) = Inr base_units"
    and "b64url_ok X"
    and "reads_back X charge_request_of_json
      (charge_request_to_json (charge_terms base_units currency recipient options))"
    and "ch_expires c = Some e" and "rfc3339_parse X e = Some t" and "later < t"
    and "takes_meta params"
  shows "extract_challenges (mcp_error_to_json (payment_required_error c)) = Some [c]
    \<and> map_option (verify_credential X later m)
        (Option.bind (attach_credential params (credential_new (to_echo c) payload))
          (\<lambda>p. Option.bind (json_get ''_meta'' p) extract_credential))
      = Some (mpp_method m later (credential_new (to_echo c) payload)
          (charge_terms base_units currency recipient options))"
proof
  show "extract_challenges (mcp_error_to_json (payment_required_error c)) = Some [c]"
    by (simp add: extract_challenges_mcp payment_required_error_def)
  have "Option.bind (attach_credential params (credential_new (to_echo c) payload))
      (\<lambda>p. Option.bind (json_get ''_meta'' p) extract_credential) = Some (credential_new (to_echo c) payload)"
    using assms(10) by (rule attached_is_extracted)
  then show "map_option (verify_credential X later m)
        (Option.bind (attach_credential params (credential_new (to_echo c) payload))
          (\<lambda>p. Option.bind (json_get ''_meta'' p) extract_credential))
      = Some (mpp_method m later (credential_new (to_echo c) payload)
          (charge_terms base_units currency recipient options))"
    by (simp add: issued_charge_verified [OF assms(1-9)])
qed

theorem mcp_exchange_pays_witness:
  "\<exists>c. movement_charge_with_options sample_json_world 0 sample_mpp ''7'' sample_options = Inr c
     \<and> map_option (verify_credential sample_json_world 99 sample_mpp)
        (Option.bind (attach_credential (JObj [(''name'', JStr ''tool'')]) (credential_new (to_echo c) JNull))
          (\<lambda>p. Option.bind (json_get ''_meta'' p) extract_credential))
       = Some (Inr sample_receipt)"
proof -
  obtain c where c: "movement_charge_with_options sample_json_world 0 sample_mpp ''7'' sample_options = Inr c"
    and e: "ch_expires c = Some ''100''" by (rule sample_issued)
  have "map_option (verify_credential sample_json_world 99 sample_mpp)
      (Option.bind (attach_credential (JObj [(''name'', JStr ''tool'')]) (credential_new (to_echo c) JNull))
        (\<lambda>p. Option.bind (json_get ''_meta'' p) extract_credential))
    = Some (mpp_method sample_mpp 99 (credential_new (to_echo c) JNull)
        (charge_terms ''7'' ''0xa'' ''0xb'' sample_options))"
    by (rule mcp_exchange_pays [OF c _ _ _ _ _ e sample_json_world_laws(3), THEN conjunct2])
      (simp_all add: sample_json_world_laws sample_terms_def [symmetric] sample_mpp_def mpp_new_def
        sample_dollar_amount takes_meta_def is_object_def)
  with c show ?thesis
    by (simp add: sample_terms_def [symmetric] sample_mpp_def mpp_new_def)
qed

end
