(* ===== verification/Body_Expires.thy ===== *)
theory Body_Expires
  imports Crates
begin

text \<open>
  The body digest (src/body_digest.rs) and the expiry helpers (src/expires.rs). A duration is a
  number of seconds at the width of \<open>i64\<close>: the conversion from \<open>u64\<close> reads the same bits with
  a sign, a product in the code wraps as in a release build, and the constructors of the
  \<open>time\<close> crate panic when the number of seconds does not fit. Adding to the present time panics
  outside the range of \<open>OffsetDateTime\<close>, which is the parameter \<open>in_range\<close>. \<open>None\<close> is a panic.
\<close>

section \<open>Body digest\<close>

definition digest_compute :: "crates \<Rightarrow> bytes \<Rightarrow> string" where
  "digest_compute X body = ''sha-256='' @ b64std_encode X (sha256 X body)"

definition digest_compute_json :: "crates \<Rightarrow> json \<Rightarrow> string option" where
  "digest_compute_json X body =
     (case json_to_string X body of Inl e \<Rightarrow> None | Inr doc \<Rightarrow> Some (digest_compute X (as_bytes doc)))"

definition digest_verify :: "crates \<Rightarrow> string \<Rightarrow> bytes \<Rightarrow> bool" where
  "digest_verify X digest body \<longleftrightarrow> digest_compute X body = digest"

section \<open>Durations\<close>

definition duration_of :: "int \<Rightarrow> int \<Rightarrow> int option" where
  "duration_of per n = (if - (2 ^ 63) \<le> n * per \<and> n * per < 2 ^ 63 then Some (n * per) else None)"

definition duration_seconds :: "u64 \<Rightarrow> int option" where "duration_seconds n = Some (sint n)"
definition duration_minutes :: "u64 \<Rightarrow> int option" where
  "duration_minutes n = duration_of 60 (sint n)"
definition duration_hours :: "u64 \<Rightarrow> int option" where
  "duration_hours n = duration_of 3600 (sint n)"
definition duration_days :: "u64 \<Rightarrow> int option" where
  "duration_days n = duration_of 86400 (sint n)"
definition duration_weeks :: "u64 \<Rightarrow> int option" where
  "duration_weeks n = duration_of 604800 (sint n)"

section \<open>Expiry times\<close>

definition expires_offset :: "crates \<Rightarrow> (int \<Rightarrow> bool) \<Rightarrow> int \<Rightarrow> int \<Rightarrow> string option" where
  "expires_offset X in_range now duration =
     (let dt = now + duration * 10 ^ 9 in
      if in_range dt
      then Some (case iso8601_format X dt of Inl e \<Rightarrow> ''1970-01-01T00:00:00Z'' | Inr s \<Rightarrow> s)
      else None)"

definition expires_seconds :: "crates \<Rightarrow> (int \<Rightarrow> bool) \<Rightarrow> int \<Rightarrow> u64 \<Rightarrow> string option" where
  "expires_seconds X in_range now n = Option.bind (duration_seconds n) (expires_offset X in_range now)"

definition expires_minutes :: "crates \<Rightarrow> (int \<Rightarrow> bool) \<Rightarrow> int \<Rightarrow> u64 \<Rightarrow> string option" where
  "expires_minutes X in_range now n = Option.bind (duration_minutes n) (expires_offset X in_range now)"

definition expires_hours :: "crates \<Rightarrow> (int \<Rightarrow> bool) \<Rightarrow> int \<Rightarrow> u64 \<Rightarrow> string option" where
  "expires_hours X in_range now n = Option.bind (duration_hours n) (expires_offset X in_range now)"

definition expires_days :: "crates \<Rightarrow> (int \<Rightarrow> bool) \<Rightarrow> int \<Rightarrow> u64 \<Rightarrow> string option" where
  "expires_days X in_range now n = Option.bind (duration_days n) (expires_offset X in_range now)"

definition expires_weeks :: "crates \<Rightarrow> (int \<Rightarrow> bool) \<Rightarrow> int \<Rightarrow> u64 \<Rightarrow> string option" where
  "expires_weeks X in_range now n = Option.bind (duration_weeks n) (expires_offset X in_range now)"

definition expires_months :: "crates \<Rightarrow> (int \<Rightarrow> bool) \<Rightarrow> int \<Rightarrow> u64 \<Rightarrow> string option" where
  "expires_months X in_range now n = Option.bind (duration_days (n * 30)) (expires_offset X in_range now)"

definition expires_years :: "crates \<Rightarrow> (int \<Rightarrow> bool) \<Rightarrow> int \<Rightarrow> u64 \<Rightarrow> string option" where
  "expires_years X in_range now n = Option.bind (duration_days (n * 365)) (expires_offset X in_range now)"

lemmas expires_defs = expires_seconds_def expires_minutes_def expires_hours_def expires_days_def
  expires_weeks_def expires_months_def expires_years_def duration_seconds_def duration_minutes_def
  duration_hours_def duration_days_def duration_weeks_def

lemma sint_u64: "sint (n :: u64) = (int (unat n) + 2 ^ 63) mod 2 ^ 64 - 2 ^ 63"
  by (simp add: sint_uint signed_take_bit_eq_take_bit_shift take_bit_eq_mod flip: uint_nat)

lemma signed_reading:
  assumes "u < 2 ^ 64"
  shows "(int u + 2 ^ 63) mod 2 ^ 64 - 2 ^ 63 = (if u < 2 ^ 63 then int u else int u - 2 ^ 64)"
proof (cases "u < 2 ^ 63")
  case True
  then have "int u < 2 ^ 63" by simp
  then show ?thesis using True by (simp add: mod_pos_pos_trivial)
next
  case False
  then have "2 ^ 63 \<le> int u" "int u < 2 ^ 64" using assms by simp_all
  moreover have "int u + 2 ^ 63 = int u - 2 ^ 63 + 2 ^ 64" by simp
  moreover have "(int u - 2 ^ 63 + 2 ^ 64) mod (2 ^ 64 :: int) = (int u - 2 ^ 63) mod 2 ^ 64"
    by (rule mod_add_self2)
  ultimately have "(int u + 2 ^ 63) mod 2 ^ 64 = int u - 2 ^ 63" by (simp add: mod_pos_pos_trivial add.commute)
  then show ?thesis using False by simp
qed

lemma sint_small: "unat (n :: u64) < 2 ^ 63 \<Longrightarrow> sint n = int (unat n)"
  using signed_reading [OF unat_u64_lt, of n] unfolding sint_u64 by (simp only: if_True)

lemma sint_large: "2 ^ 63 \<le> unat (n :: u64) \<Longrightarrow> sint n = int (unat n) - 2 ^ 64"
  using signed_reading [OF unat_u64_lt, of n] unfolding sint_u64 by (simp only: not_less [symmetric] if_False)

lemma sint_scaled:
  assumes "unat (n :: u64) * m < 2 ^ 63" and "m < 2 ^ 63"
  shows "sint (n * of_nat m) = int (unat n * m)"
proof -
  have "unat (n * of_nat m) = unat n * m"
    using assms by (simp add: unat_word_ariths unat_of_nat)
  then show ?thesis using assms(1) by (simp add: sint_small)
qed

end
