(* ===== verification/Expiry_Claims.thy ===== *)
theory Expiry_Claims
  imports Body_Expires Sample_Crates
begin

text \<open>
  The properties of the expiry helpers: the instant each of them names, for the numbers that fit,
  and what the conversion to a signed number does with the ones that do not.
\<close>

lemma int_small: "u < 2 ^ w \<Longrightarrow> int u < 2 ^ w"
  by (metis of_nat_less_iff of_nat_numeral of_nat_power)

lemma duration_of_fits:
  "k * m < 2 ^ 63 \<Longrightarrow> duration_of (int m) (int k) = Some (int (k * m))"
  using int_small [of "k * m" 63] by (simp add: duration_of_def del: of_nat_mult flip: of_nat_mult)

text \<open>
  Every helper is exact for numbers of years up to nearly three hundred billion, and so for
  every number that the calendar has room for: it gives the time that many seconds, minutes,
  hours, days, weeks, thirty-day months or 365-day years ahead.
\<close>

theorem expiry_exact:
  assumes "unat n * 31536000 < 2 ^ 63"
  shows "expires_seconds X R now n = expires_offset X R now (int (unat n))
    \<and> expires_minutes X R now n = expires_offset X R now (int (unat n * 60))
    \<and> expires_hours X R now n = expires_offset X R now (int (unat n * 3600))
    \<and> expires_days X R now n = expires_offset X R now (int (unat n * 86400))
    \<and> expires_weeks X R now n = expires_offset X R now (int (unat n * 604800))
    \<and> expires_months X R now n = expires_offset X R now (int (unat n * 2592000))
    \<and> expires_years X R now n = expires_offset X R now (int (unat n * 31536000))"
proof -
  have "sint n = int (unat n)" using assms by (intro sint_small) simp
  moreover have "sint (n * 30) = int (unat n * 30)" "sint (n * 365) = int (unat n * 365)"
    using sint_scaled [of n 30] sint_scaled [of n 365] assms by simp_all
  moreover note duration_of_fits [of "unat n" 60] duration_of_fits [of "unat n" 3600]
    duration_of_fits [of "unat n" 86400] duration_of_fits [of "unat n" 604800]
    duration_of_fits [of "unat n * 30" 86400] duration_of_fits [of "unat n * 365" 86400]
  ultimately show ?thesis
    using assms by (simp add: expires_defs mult.assoc del: uint_nat)
qed

theorem expiry_exact_witness:
  "expires_hours sample_crates (\<lambda>_. True) 0 1 = expires_offset sample_crates (\<lambda>_. True) 0 3600"
  using expiry_exact [of 1 sample_crates "\<lambda>_. True" 0] by simp

text \<open>
  A large number of seconds, minutes, hours, days or weeks expires in the past. The helper
  takes an unsigned number and reads it with a sign, so from two to the power 63 on it either
  panics or gives a time before the present one; the largest number of seconds is one second ago.
\<close>

definition past_or_panic :: "crates \<Rightarrow> (int \<Rightarrow> bool) \<Rightarrow> int \<Rightarrow> string option \<Rightarrow> bool" where
  "past_or_panic X R now r \<longleftrightarrow> r = None \<or> (\<exists>d < 0. r = expires_offset X R now d)"

lemma duration_of_negative:
  "n < 0 \<Longrightarrow> 0 < per \<Longrightarrow> past_or_panic X R now (Option.bind (duration_of per n) (expires_offset X R now))"
  by (auto simp: duration_of_def past_or_panic_def mult_neg_pos intro!: exI [of _ "n * per"])

theorem expiry_in_past:
  assumes "2 ^ 63 \<le> unat n"
  shows "past_or_panic X R now (expires_seconds X R now n)
    \<and> past_or_panic X R now (expires_minutes X R now n)
    \<and> past_or_panic X R now (expires_hours X R now n)
    \<and> past_or_panic X R now (expires_days X R now n)
    \<and> past_or_panic X R now (expires_weeks X R now n)
    \<and> expires_seconds X R now (- 1) = expires_offset X R now (- 1)"
proof -
  have "sint n < 0" using sint_large [OF assms] int_small [OF unat_u64_lt [of n]] by linarith
  moreover from this have "past_or_panic X R now (expires_seconds X R now n)"
    by (auto simp: expires_defs past_or_panic_def)
  ultimately show ?thesis by (simp add: expires_defs duration_of_negative)
qed

theorem expiry_in_past_witness:
  "expires_seconds sample_crates (\<lambda>_. True) 0 (- 1) = expires_offset sample_crates (\<lambda>_. True) 0 (- 1)"
  using expiry_in_past [of "- 1" sample_crates "\<lambda>_. True" 0] by (simp add: unsigned_minus_1_eq_mask mask_eq_exp_minus_1)

end
