(* ===== verification/Convenience.thy ===== *)
theory Convenience
  imports Headers Intents
begin

text \<open>
  The convenience interface: constructors of the library error (src/error.rs), the header methods
  of challenge, credential and receipt (src/protocol/core/challenge.rs), and the generic
  payment request helpers (src/protocol/intents/payment_request.rs).
\<close>

section \<open>Error constructors\<close>

definition unsupported_method :: "string \<Rightarrow> mpp_error" where
  "unsupported_method method =
     MppUnsupportedPaymentMethod (''Payment method '' @ [CHR 0x27] @ method @ [CHR 0x27] @ '' is not supported'')"

definition mpp_malformed_credential :: "string \<Rightarrow> mpp_error" where
  "mpp_malformed_credential reason = MppMalformedCredential (Some reason)"

definition malformed_credential_default :: mpp_error where
  "malformed_credential_default = MppMalformedCredential None"

definition invalid_challenge_id :: "string \<Rightarrow> mpp_error" where
  "invalid_challenge_id i = MppInvalidChallenge (Some i) None"

definition mpp_invalid_challenge :: "string \<Rightarrow> string \<Rightarrow> mpp_error" where
  "mpp_invalid_challenge i reason = MppInvalidChallenge (Some i) (Some reason)"

definition invalid_challenge_default :: mpp_error where
  "invalid_challenge_default = MppInvalidChallenge None None"

definition mpp_verification_failed :: "string \<Rightarrow> mpp_error" where
  "mpp_verification_failed reason = MppVerificationFailed (Some reason)"

definition verification_failed_default :: mpp_error where
  "verification_failed_default = MppVerificationFailed None"

definition mpp_payment_expired :: "string \<Rightarrow> mpp_error" where
  "mpp_payment_expired expires = MppPaymentExpired (Some expires)"

definition payment_expired_default :: mpp_error where
  "payment_expired_default = MppPaymentExpired None"

definition payment_required_realm :: "string \<Rightarrow> mpp_error" where
  "payment_required_realm realm = MppPaymentRequired (Some realm) None"

definition payment_required_description :: "string \<Rightarrow> mpp_error" where
  "payment_required_description description = MppPaymentRequired None (Some description)"

definition mpp_payment_required :: "string \<Rightarrow> string \<Rightarrow> mpp_error" where
  "mpp_payment_required realm description = MppPaymentRequired (Some realm) (Some description)"

definition payment_required_default :: mpp_error where
  "payment_required_default = MppPaymentRequired None None"

definition invalid_payload_default :: mpp_error where
  "invalid_payload_default = MppInvalidPayload None"

definition mpp_bad_request :: "string \<Rightarrow> mpp_error" where
  "mpp_bad_request reason = MppBadRequest (Some reason)"

definition bad_request_default :: mpp_error where
  "bad_request_default = MppBadRequest None"

definition details_stream :: "string \<Rightarrow> payment_error_details" where
  "details_stream suffix = details_session suffix"

definition with_challenge_id :: "string \<Rightarrow> payment_error_details \<Rightarrow> payment_error_details" where
  "with_challenge_id i p = p\<lparr>problem_challenge_id := Some i\<rparr>"

section \<open>Header methods\<close>

definition challenge_to_header :: "payment_challenge \<Rightarrow> mpp_error + string" where
  "challenge_to_header c = format_www_authenticate c"

definition challenge_from_header :: "crates \<Rightarrow> string \<Rightarrow> mpp_error + payment_challenge" where
  "challenge_from_header X header = parse_www_authenticate X header"

definition challenge_from_headers ::
  "crates \<Rightarrow> string list \<Rightarrow> (mpp_error + payment_challenge) list" where
  "challenge_from_headers X headers = parse_www_authenticate_all X headers"

definition credential_from_header :: "crates \<Rightarrow> string \<Rightarrow> mpp_error + payment_credential" where
  "credential_from_header X header = parse_authorization X header"

definition receipt_to_header :: "crates \<Rightarrow> receipt \<Rightarrow> mpp_error + string" where
  "receipt_to_header X r = format_receipt X r"

definition receipt_from_header :: "crates \<Rightarrow> string \<Rightarrow> mpp_error + receipt" where
  "receipt_from_header X header = parse_receipt X header"

definition receipt_from_response :: "crates \<Rightarrow> string \<Rightarrow> mpp_error + receipt" where
  "receipt_from_response X receipt_header = receipt_from_header X receipt_header"

section \<open>Payment requests\<close>

definition request_serialize :: "crates \<Rightarrow> ('a \<Rightarrow> json) \<Rightarrow> 'a \<Rightarrow> mpp_error + string" where
  "request_serialize X enc request =
     and_then (map_err MppJson (json_canonical X (enc request)))
       (\<lambda>doc. Inr (base64url_encode X (as_bytes doc)))"

definition request_deserialize :: "crates \<Rightarrow> string \<Rightarrow> mpp_error + json" where
  "request_deserialize X encoded =
     and_then (base64url_decode X encoded) (\<lambda>bytes. map_err MppJson (json_from_slice X bytes))"

definition request_deserialize_typed ::
  "crates \<Rightarrow> string \<Rightarrow> (json \<Rightarrow> 'a option) \<Rightarrow> string \<Rightarrow> mpp_error + 'a" where
  "request_deserialize_typed X ty d encoded =
     and_then (base64url_decode X encoded) (\<lambda>bytes. map_err MppJson (from_slice X ty d bytes))"

definition request_from_challenge :: "crates \<Rightarrow> payment_challenge \<Rightarrow> mpp_error + json" where
  "request_from_challenge X challenge = decode_value X (ch_request challenge)"

definition request_from_challenge_typed ::
  "crates \<Rightarrow> string \<Rightarrow> (json \<Rightarrow> 'a option) \<Rightarrow> payment_challenge \<Rightarrow> mpp_error + 'a" where
  "request_from_challenge_typed X ty d challenge = b64json_decode X ty d (ch_request challenge)"

text \<open>The helpers and the wrapper type give the same text and accept the same texts.\<close>

lemma request_serialize_raw:
  "request_serialize X enc r = and_then (b64json_from_typed X enc r) (\<lambda>b. Inr (raw b))"
  by (cases "json_canonical X (enc r)") (simp_all add: request_serialize_def b64json_from_typed_def)

lemma request_deserialize_agrees:
  "ok_opt (request_deserialize X s) = ok_opt (decode_value X (Base64UrlJson s))"
  "ok_opt (request_deserialize_typed X ty d s) = ok_opt (b64json_decode X ty d (Base64UrlJson s))"
  by (cases "base64url_decode X s";
      simp add: request_deserialize_def decode_value_def request_deserialize_typed_def b64json_decode_def)+

text \<open>A request that was serialized and put into a challenge reads back from it, and from the text.\<close>

theorem request_roundtrip:
  assumes "request_serialize X enc r = Inr s" and "b64url_ok X" and "reads_back X d (enc r)"
    and "d (enc r) = Some r" and "raw (ch_request challenge) = s"
  shows "request_deserialize_typed X ty d s = Inr r
    \<and> request_from_challenge_typed X ty d challenge = Inr r"
proof -
  have b: "b64json_from_typed X enc r = Inr (Base64UrlJson s)"
    using assms(1) by (auto simp: request_serialize_def b64json_from_typed_def res_simps)
  have c: "ch_request challenge = Base64UrlJson s"
    using assms(5) by (cases "ch_request challenge") simp
  note dec = b64json_from_typed_decode [OF b assms(2-4)]
  then have "ok_opt (request_deserialize_typed X ty d s) = Some r"
    by (simp add: request_deserialize_agrees)
  with dec show ?thesis by (simp add: request_from_challenge_typed_def c res_simps)
qed

end
