(* ===== verification/Rate_Limiter.thy ===== *)
theory Rate_Limiter
  imports Prelude
begin

text \<open>
  The request limiters of the example applications: the \<open>RateLimiter\<close> of
  examples/firecrawl-proxy and examples/search-image-email, and \<open>check_rate_limit\<close> of
  examples/voice-call. An \<open>Instant\<close> is a number of nanoseconds; \<open>duration_since\<close> is the
  saturating difference, which is subtraction on \<open>nat\<close>. A table of windows is a map from the
  client to its counter and the start of its window.

  The locale \<open>window_limiter\<close> states what one request and one cleanup do to the windows, and
  bounds what any sequence of them admits; both limiters interpret it.
\<close>

section \<open>The proxies' limiter\<close>

type_synonym instant = nat

definition secs :: "u64 \<Rightarrow> nat" where
  "secs s = unat s * 10 ^ 9"

record rate_limiter =
  rl_windows :: "string \<Rightarrow> (u32 \<times> instant) option"
  rl_max_requests :: u32
  rl_window_secs :: u64

definition rate_limiter_new :: "u32 \<Rightarrow> u64 \<Rightarrow> rate_limiter" where
  "rate_limiter_new max_requests window_secs =
     \<lparr>rl_windows = (\<lambda>_. None), rl_max_requests = max_requests, rl_window_secs = window_secs\<rparr>"

definition limiter_check :: "rate_limiter \<Rightarrow> instant \<Rightarrow> string \<Rightarrow> rate_limiter \<times> bool" where
  "limiter_check rl now ip =
     (let (count, start) = (case rl_windows rl ip of Some entry \<Rightarrow> entry | None \<Rightarrow> (0, now));
          store = (\<lambda>entry. rl\<lparr>rl_windows := (rl_windows rl)(ip \<mapsto> entry)\<rparr>) in
      if now - start > secs (rl_window_secs rl) then (store (1, now), True)
      else if rl_max_requests rl \<le> count then (store (count, start), False)
      else (store (count + 1, start), True))"

definition limiter_cleanup :: "rate_limiter \<Rightarrow> instant \<Rightarrow> rate_limiter" where
  "limiter_cleanup rl now =
     rl\<lparr>rl_windows := (\<lambda>ip. case rl_windows rl ip of
          None \<Rightarrow> None
        | Some (count, start) \<Rightarrow>
            if now - start \<le> secs (rl_window_secs rl) then Some (count, start) else None)\<rparr>"

section \<open>The voice server's limiter\<close>

definition RATE_LIMIT_MAX :: u64 where "RATE_LIMIT_MAX = 60"
definition RATE_LIMIT_WINDOW :: u64 where "RATE_LIMIT_WINDOW = 60"

type_synonym limits = "string \<Rightarrow> (u64 \<times> instant) option"

definition check_rate_limit :: "limits \<Rightarrow> instant \<Rightarrow> string \<Rightarrow> limits \<times> bool" where
  "check_rate_limit limits now ip =
     (let (count, start) = (case limits ip of Some entry \<Rightarrow> entry | None \<Rightarrow> (0, now)) in
      if now - start > secs RATE_LIMIT_WINDOW then (limits(ip \<mapsto> (1, now)), True)
      else (limits(ip \<mapsto> (count + 1, start)), count + 1 \<le> RATE_LIMIT_MAX))"

text \<open>The limiter's part of \<open>sweep_stale\<close>.\<close>

definition sweep_rate_limits :: "limits \<Rightarrow> instant \<Rightarrow> limits" where
  "sweep_rate_limits limits now = (\<lambda>ip. case limits ip of
       None \<Rightarrow> None
     | Some (count, start) \<Rightarrow>
         if now - start < 2 * secs RATE_LIMIT_WINDOW then Some (count, start) else None)"

section \<open>What a limiter promises\<close>

datatype limiter_op = Request instant string | Cleanup instant

fun op_time :: "limiter_op \<Rightarrow> instant" where
  "op_time (Request now ip) = now"
| "op_time (Cleanup now) = now"

text \<open>The requests of one client that a sequence of operations admits.\<close>

fun admitted :: "('s \<Rightarrow> instant \<Rightarrow> string \<Rightarrow> 's \<times> bool) \<Rightarrow> ('s \<Rightarrow> instant \<Rightarrow> 's) \<Rightarrow> string \<Rightarrow> 's
  \<Rightarrow> limiter_op list \<Rightarrow> nat" where
  "admitted check cleanup ip s [] = 0"
| "admitted check cleanup ip s (Request now client # ops) =
     (case check s now client of (s', b) \<Rightarrow>
        (if b \<and> client = ip then 1 else 0) + admitted check cleanup ip s' ops)"
| "admitted check cleanup ip s (Cleanup now # ops) = admitted check cleanup ip (cleanup s now) ops"

fun run_ops :: "('s \<Rightarrow> instant \<Rightarrow> string \<Rightarrow> 's \<times> bool) \<Rightarrow> ('s \<Rightarrow> instant \<Rightarrow> 's) \<Rightarrow> 's
  \<Rightarrow> limiter_op list \<Rightarrow> 's" where
  "run_ops check cleanup s [] = s"
| "run_ops check cleanup s (Request now client # ops) =
     run_ops check cleanup (fst (check s now client)) ops"
| "run_ops check cleanup s (Cleanup now # ops) = run_ops check cleanup (cleanup s now) ops"

text \<open>The answers to the requests, in order.\<close>

fun decisions :: "('s \<Rightarrow> instant \<Rightarrow> string \<Rightarrow> 's \<times> bool) \<Rightarrow> ('s \<Rightarrow> instant \<Rightarrow> 's) \<Rightarrow> 's
  \<Rightarrow> limiter_op list \<Rightarrow> bool list" where
  "decisions check cleanup s [] = []"
| "decisions check cleanup s (Request now client # ops) =
     (case check s now client of (s', b) \<Rightarrow> b # decisions check cleanup s' ops)"
| "decisions check cleanup s (Cleanup now # ops) = decisions check cleanup (cleanup s now) ops"

fun is_request :: "limiter_op \<Rightarrow> bool" where
  "is_request (Request now ip) \<longleftrightarrow> True"
| "is_request (Cleanup now) \<longleftrightarrow> False"

text \<open>The state of a limiter, seen through \<open>view\<close>: how many requests each client's window has
  admitted, and when the window started. \<open>room s n\<close> says that \<open>n\<close> more requests can be counted.\<close>

locale window_limiter =
  fixes check :: "'s \<Rightarrow> instant \<Rightarrow> string \<Rightarrow> 's \<times> bool"
    and cleanup :: "'s \<Rightarrow> instant \<Rightarrow> 's"
    and view :: "'s \<Rightarrow> string \<Rightarrow> (nat \<times> instant) option"
    and room :: "'s \<Rightarrow> nat \<Rightarrow> bool"
    and mx :: "'s \<Rightarrow> nat" and win :: "'s \<Rightarrow> nat"
  assumes check_limits: "check s now ip = (s', b) \<Longrightarrow> mx s' = mx s \<and> win s' = win s"
    and check_other: "check s now ip = (s', b) \<Longrightarrow> other \<noteq> ip \<Longrightarrow> view s' other = view s other"
    and check_room: "check s now ip = (s', b) \<Longrightarrow> room s (Suc n) \<Longrightarrow> room s' n"
    and check_new: "check s now ip = (s', b) \<Longrightarrow> view s ip = None \<Longrightarrow> 0 < mx s \<Longrightarrow>
      b \<and> view s' ip = Some (1, now)"
    and check_expired: "check s now ip = (s', b) \<Longrightarrow> view s ip = Some (n, start) \<Longrightarrow>
      win s < now - start \<Longrightarrow> b \<and> view s' ip = Some (1, now)"
    and check_live: "check s now ip = (s', b) \<Longrightarrow> view s ip = Some (n, start) \<Longrightarrow>
      now - start \<le> win s \<Longrightarrow> room s (Suc k) \<Longrightarrow>
      (b \<longleftrightarrow> n < mx s) \<and> view s' ip = Some (if n < mx s then n + 1 else n, start)"
    and room_le: "room s (Suc n) \<Longrightarrow> room s n"
    and cleanup_limits: "mx (cleanup s now) = mx s \<and> win (cleanup s now) = win s"
    and cleanup_room: "room s n \<Longrightarrow> room (cleanup s now) n"
    and cleanup_view: "view (cleanup s now) ip = view s ip
      \<or> view (cleanup s now) ip = None \<and> (\<exists>n start. view s ip = Some (n, start) \<and> win s < now - start)"
begin

text \<open>What a client may still be admitted from the time \<open>a\<close> on, before a window that started at
  or after \<open>a\<close> ends.\<close>

definition allowance :: "instant \<Rightarrow> string \<Rightarrow> 's \<Rightarrow> nat" where
  "allowance a ip s =
     (case view s ip of
        None \<Rightarrow> mx s
      | Some (n, start) \<Rightarrow> if a \<le> start then mx s - n else (mx s - n) + mx s)"

text \<open>A window in the table has admitted a request.\<close>

definition used :: "'s \<Rightarrow> bool" where
  "used s \<longleftrightarrow> (\<forall>ip n start. view s ip = Some (n, start) \<longrightarrow> 0 < n)"

lemma allowance_le: "used s \<Longrightarrow> 0 < mx s \<Longrightarrow> allowance a ip s \<le> 2 * mx s - 1"
  by (auto simp: allowance_def used_def split: option.splits) fastforce

lemma used_check:
  assumes "check s now client = (s', b)" and "0 < mx s" and "room s (Suc k)" and "used s"
  shows "used s'"
  unfolding used_def
proof (intro allI impI)
  fix ip n start
  assume v: "view s' ip = Some (n, start)"
  show "0 < n"
  proof (cases "ip = client \<and> view s ip \<noteq> None")
    case True
    then obtain m start' where m: "view s client = Some (m, start')" by auto
    with \<open>used s\<close> have "0 < m" by (auto simp: used_def)
    with check_live [OF assms(1) m _ assms(3)] check_expired [OF assms(1) m] v True show ?thesis
      by (cases "win s < now - start'") (auto split: if_splits)
  next
    case False
    show ?thesis
    proof (cases "ip = client")
      case True
      with False have "view s client = None" by (simp del: not_None_eq)
      with check_new [OF assms(1) this assms(2)] v True show ?thesis by simp
    next
      case False
      with check_other [OF assms(1)] v have "view s ip = Some (n, start)" by simp
      with \<open>used s\<close> show ?thesis unfolding used_def by blast
    qed
  qed
qed

lemma used_cleanup: "used s \<Longrightarrow> used (cleanup s now)"
  unfolding used_def using cleanup_view by (metis option.distinct(1))

lemma run_ops_used:
  "0 < mx s \<Longrightarrow> room s (length ops + k) \<Longrightarrow> used s \<Longrightarrow>
   used (run_ops check cleanup s ops) \<and> room (run_ops check cleanup s ops) k
   \<and> mx (run_ops check cleanup s ops) = mx s \<and> win (run_ops check cleanup s ops) = win s"
proof (induction ops arbitrary: s)
  case (Cons x ops)
  show ?case
  proof (cases x)
    case (Request now client)
    obtain s' b where c: "check s now client = (s', b)" by (cases "check s now client") auto
    with Cons.IH [of s'] Cons.prems check_limits [OF c] check_room [OF c, of "length ops + k"]
      used_check [OF c, of "length ops + k"] Request
    show ?thesis by simp
  next
    case (Cleanup now)
    with Cons.IH [of "cleanup s now"] Cons.prems cleanup_limits [of s now] used_cleanup
      cleanup_room room_le show ?thesis by simp
  qed
qed simp

lemma allowance_check:
  assumes c: "check s now client = (s', b)" and "0 < mx s" and "room s (Suc k)"
    and a: "a \<le> now" "now \<le> a + win s"
  shows "(if b \<and> client = ip then 1 else 0) + allowance a ip s' \<le> allowance a ip s"
proof (cases "client = ip")
  case False
  then show ?thesis
    using check_limits [OF c] check_other [OF c, of ip]
    by (auto simp: allowance_def split: option.splits)
next
  case True
  note c = c [unfolded True] and lim = check_limits [OF c [unfolded True]]
  show ?thesis
  proof (cases "view s ip")
    case None
    from check_new [OF c None assms(2)] lim a None True \<open>0 < mx s\<close> show ?thesis
      by (simp add: allowance_def)
  next
    case (Some e)
    then obtain n start where v: "view s ip = Some (n, start)" by (cases e) auto
    show ?thesis
    proof (cases "win s < now - start")
      case w: True
      with a have "start < a" by linarith
      with check_expired [OF c v w] lim a v True \<open>0 < mx s\<close> show ?thesis
        by (simp add: allowance_def)
    next
      case w: False
      then have "now - start \<le> win s" by simp
      from check_live [OF c v this assms(3)] lim v True show ?thesis
        by (auto simp: allowance_def)
    qed
  qed
qed

lemma allowance_cleanup:
  assumes "a \<le> now" "now \<le> a + win s"
  shows "allowance a ip (cleanup s now) \<le> allowance a ip s"
  using cleanup_view [of s now ip] cleanup_limits [of s now] assms
  by (auto simp: allowance_def split: option.splits)

lemma admitted_le_allowance:
  assumes "0 < mx s" and "room s (length ops)"
    and "\<And>x. x \<in> set ops \<Longrightarrow> a \<le> op_time x \<and> op_time x \<le> a + win s"
  shows "admitted check cleanup ip s ops \<le> allowance a ip s"
  using assms
proof (induction ops arbitrary: s)
  case (Cons x ops)
  show ?case
  proof (cases x)
    case (Request now client)
    obtain s' b where c: "check s now client = (s', b)" by (cases "check s now client") auto
    have "admitted check cleanup ip s' ops \<le> allowance a ip s'"
      by (rule Cons.IH) (use Cons.prems check_limits [OF c] check_room [OF c] in auto)
    moreover have "a \<le> now" "now \<le> a + win s" using Cons.prems(3) [of x] Request by simp_all
    then have "(if b \<and> client = ip then 1 else 0) + allowance a ip s' \<le> allowance a ip s"
      using allowance_check [OF c Cons.prems(1)] Cons.prems(2) by simp
    ultimately show ?thesis using Request c by simp
  next
    case (Cleanup now)
    have "room s (length ops)" using Cons.prems(2) room_le by simp
    then have "admitted check cleanup ip (cleanup s now) ops \<le> allowance a ip (cleanup s now)"
      by (intro Cons.IH) (use Cons.prems cleanup_limits [of s now] cleanup_room in auto)
    moreover have "allowance a ip (cleanup s now) \<le> allowance a ip s"
      using allowance_cleanup Cons.prems(3) [of x] Cleanup by simp
    ultimately show ?thesis using Cleanup by simp
  qed
qed simp

lemma admitted_bound:
  assumes "0 < mx s" and "room s (length before + length ops)" and "used s"
    and "\<And>x. x \<in> set ops \<Longrightarrow> a \<le> op_time x \<and> op_time x \<le> a + win s"
  shows "admitted check cleanup ip (run_ops check cleanup s before) ops \<le> 2 * mx s - 1"
proof -
  let ?s = "run_ops check cleanup s before"
  from run_ops_used [OF assms(1-3)] have s: "used ?s" "room ?s (length ops)" "mx ?s = mx s" "win ?s = win s"
    by simp_all
  have "admitted check cleanup ip ?s ops \<le> allowance a ip ?s"
    by (rule admitted_le_allowance) (use assms s in auto)
  also have "\<dots> \<le> 2 * mx s - 1" using allowance_le [OF s(1)] s(3) assms(1) by metis
  finally show ?thesis .
qed

text \<open>A state that has lost nothing but windows that are over.\<close>

definition trimmed :: "instant \<Rightarrow> 's \<Rightarrow> 's \<Rightarrow> bool" where
  "trimmed t s s' \<longleftrightarrow> mx s' = mx s \<and> win s' = win s
     \<and> (\<forall>ip. view s' ip = view s ip
          \<or> view s' ip = None \<and> (\<exists>n start. view s ip = Some (n, start) \<and> win s < t - start))"

lemma trimmed_later: "trimmed t s s' \<Longrightarrow> t \<le> u \<Longrightarrow> trimmed u s s'"
  unfolding trimmed_def by (meson diff_le_mono less_le_trans)

lemma trimmed_cleanup: "trimmed t s s' \<Longrightarrow> trimmed t s (cleanup s' t)"
  using cleanup_view [of s' t] cleanup_limits [of s' t] unfolding trimmed_def by metis

lemma check_same_view:
  assumes "check s now ip = (u, b)" and "check s' now ip = (u', b')"
    and "view s' ip = view s ip" and "mx s' = mx s" and "win s' = win s" and "0 < mx s"
    and "room s (Suc k)" and "room s' (Suc k')"
  shows "b' = b \<and> view u' ip = view u ip"
proof (cases "view s ip")
  case None
  with check_new [OF assms(1)] check_new [OF assms(2)] assms(3,4,6) show ?thesis by simp
next
  case (Some e)
  then obtain n start where v: "view s ip = Some (n, start)" and v': "view s' ip = Some (n, start)"
    using assms(3) by (cases e) auto
  show ?thesis
  proof (cases "win s < now - start")
    case True
    with check_expired [OF assms(1) v] check_expired [OF assms(2) v'] assms(5) show ?thesis by simp
  next
    case False
    with check_live [OF assms(1) v _ assms(7)] check_live [OF assms(2) v' _ assms(8)] assms(4,5)
    show ?thesis by simp
  qed
qed

lemma trimmed_check:
  assumes t: "trimmed now s s'" and c: "check s now ip = (u, b)" "check s' now ip = (u', b')"
    and m: "0 < mx s" and r: "room s (Suc k)" "room s' (Suc k')"
  shows "b' = b \<and> trimmed now u u'"
proof -
  have lim: "mx s' = mx s" "win s' = win s" using t by (simp_all add: trimmed_def)
  have "b' = b \<and> view u' ip = view u ip"
  proof (cases "view s' ip = view s ip")
    case True
    from check_same_view [OF c True lim m r] show ?thesis .
  next
    case False
    then obtain n start where gone: "view s' ip = None" "view s ip = Some (n, start)" "win s < now - start"
      using t unfolding trimmed_def by blast
    with check_new [OF c(2)] check_expired [OF c(1)] lim m show ?thesis by simp
  qed
  moreover have "view u' other = view s' other" "view u other = view s other" if "other \<noteq> ip" for other
    using check_other [OF c(1) that] check_other [OF c(2) that] by simp_all
  ultimately show ?thesis
    using t check_limits [OF c(1)] check_limits [OF c(2)] unfolding trimmed_def by metis
qed

lemma cleanup_invisible_from:
  assumes "trimmed t s s'" and "0 < mx s" and "room s (length ops)" and "room s' (length ops)"
    and "sorted (t # map op_time ops)"
  shows "decisions check cleanup s' ops = decisions check cleanup s (filter is_request ops)"
  using assms
proof (induction ops arbitrary: s s' t)
  case (Cons x ops)
  let ?t = "op_time x"
  have now: "trimmed ?t s s'" and rest: "sorted (?t # map op_time ops)"
    using trimmed_later [OF Cons.prems(1)] Cons.prems(5) by auto
  have r: "room s (Suc (length ops))" "room s' (Suc (length ops))" using Cons.prems by simp_all
  show ?case
  proof (cases x)
    case (Request u ip)
    obtain v b v' b' where c: "check s u ip = (v, b)" "check s' u ip = (v', b')"
      by (cases "check s u ip", cases "check s' u ip") auto
    from trimmed_check [OF _ c Cons.prems(2) r] now Request have "b' = b" "trimmed u v v'" by simp_all
    with Cons.IH [of u v v'] Cons.prems(2) check_limits [OF c(1)] check_room [OF c(1) r(1)]
      check_room [OF c(2) r(2)] rest Request c
    show ?thesis by simp
  next
    case (Cleanup u)
    with Cons.IH [of u s "cleanup s' u"] trimmed_cleanup now Cons.prems(2) rest r cleanup_room room_le
    show ?thesis by simp
  qed
qed simp

lemma cleanup_invisible:
  assumes "0 < mx s" and "room s (length ops)" and "sorted (map op_time ops)"
  shows "decisions check cleanup s ops = decisions check cleanup s (filter is_request ops)"
  by (rule cleanup_invisible_from [where t = 0]) (use assms in \<open>auto simp: trimmed_def\<close>)

end

section \<open>Both limiters keep the promise\<close>

definition limiter_view :: "rate_limiter \<Rightarrow> string \<Rightarrow> (nat \<times> instant) option" where
  "limiter_view rl ip = map_option (\<lambda>(count, start). (unat count, start)) (rl_windows rl ip)"

lemma unat_Suc_below:
  assumes "\<not> unat (m :: u32) \<le> unat (count :: u32)"
  shows "unat (count + 1) = Suc (unat count)"
proof -
  have "unat m < 2 ^ LENGTH(32)" by (rule unsigned_less)
  with assms show ?thesis by (simp add: unat_word_ariths)
qed

interpretation proxy_limiter: window_limiter limiter_check limiter_cleanup limiter_view
  "\<lambda>_ _. True" "\<lambda>rl. unat (rl_max_requests rl)" "\<lambda>rl. secs (rl_window_secs rl)"
  by unfold_locales
    (auto simp: limiter_check_def limiter_cleanup_def limiter_view_def Let_def word_less_nat_alt
      word_le_nat_alt unat_Suc_below split: option.splits prod.splits if_splits)

definition limits_view :: "limits \<Rightarrow> string \<Rightarrow> (nat \<times> instant) option" where
  "limits_view limits ip =
     map_option (\<lambda>(count, start). (min (unat count) (unat RATE_LIMIT_MAX), start)) (limits ip)"

definition limits_room :: "limits \<Rightarrow> nat \<Rightarrow> bool" where
  "limits_room limits n \<longleftrightarrow> n < 2 ^ 64
     \<and> (\<forall>ip count start. limits ip = Some (count, start) \<longrightarrow> unat count + n < 2 ^ 64)"

lemma limits_room_le: "limits_room limits (Suc n) \<Longrightarrow> limits_room limits n"
  unfolding limits_room_def by (metis Suc_lessD add_Suc_right)

lemma unat_Suc_room: "unat (count :: u64) + Suc n < 2 ^ 64 \<Longrightarrow> unat (count + 1) = Suc (unat count)"
  by (simp add: unat_word_ariths)

interpretation voice_limiter: window_limiter check_rate_limit sweep_rate_limits limits_view
  limits_room "\<lambda>_. unat RATE_LIMIT_MAX" "\<lambda>_. secs RATE_LIMIT_WINDOW"
proof unfold_locales
  fix s :: limits and s' now ip b n start k
  assume c: "check_rate_limit s now ip = (s', b)" and v: "limits_view s ip = Some (n, start)"
    and live: "now - start \<le> secs RATE_LIMIT_WINDOW" and r: "limits_room s (Suc k)"
  from v obtain count where e: "s ip = Some (count, start)" "n = min (unat count) (unat RATE_LIMIT_MAX)"
    by (auto simp: limits_view_def)
  with r have "unat (count + 1) = Suc (unat count)"
    by (intro unat_Suc_room [of _ k]) (auto simp: limits_room_def)
  with c e live show "(b \<longleftrightarrow> n < unat RATE_LIMIT_MAX)
      \<and> limits_view s' ip = Some (if n < unat RATE_LIMIT_MAX then n + 1 else n, start)"
    by (auto simp: check_rate_limit_def limits_view_def word_le_nat_alt)
next
  show "limits_room s (Suc n) \<Longrightarrow> limits_room s n" for s n by (rule limits_room_le)
next
  fix s :: limits and s' now ip b n
  assume c: "check_rate_limit s now ip = (s', b)" and r: "limits_room s (Suc n)"
  show "limits_room s' n"
    unfolding limits_room_def
  proof (intro conjI allI impI)
    show "n < 2 ^ 64" using r by (simp add: limits_room_def)
    fix client count start
    assume s': "s' client = Some (count, start)"
    have old: "unat m + Suc n < 2 ^ 64" if "s client = Some (m, t)" for m t
      using r that by (simp add: limits_room_def) blast
    then have "unat m + n < 2 ^ 64" "unat (m + 1) = Suc (unat m)" if "s client = Some (m, t)" for m t
      using that unat_Suc_room by fastforce+
    with s' c r old show "unat count + n < 2 ^ 64"
      by (cases "client = ip") (auto simp: check_rate_limit_def limits_room_def Let_def split: option.splits
          prod.splits if_splits)
  qed
qed (auto simp: check_rate_limit_def sweep_rate_limits_def limits_view_def limits_room_def
    RATE_LIMIT_MAX_def RATE_LIMIT_WINDOW_def secs_def split: option.splits prod.splits if_splits)

end
