(* ===== verification/App_Http.thy ===== *)
theory App_Http
  imports Gate Rate_Limiter
begin

text \<open>
  What the example applications share with each other: JSON responses, the client's address, the
  route behind a charge, and the calls of an upstream API. The routes are axum handlers: the
  charge extractor runs before the body is read, and the framework answers a body that is not
  JSON itself; that answer is part of the request here. Printing a \<open>serde_json::Value\<close> does
  not fail.
\<close>

section \<open>Responses and requests\<close>

definition json_text :: "crates \<Rightarrow> json \<Rightarrow> string" where
  "json_text X j = (case json_to_string X j of Inr s \<Rightarrow> s | Inl e \<Rightarrow> e)"

definition json_response :: "crates \<Rightarrow> nat \<Rightarrow> json \<Rightarrow> http_response" where
  "json_response X status j =
     \<lparr>hr_status = status, hr_headers = [(''content-type'', ''application/json'')],
      hr_body = json_text X j\<rparr>"

definition error_json :: "string \<Rightarrow> json" where
  "error_json e = JObj [(''error'', JStr e)]"

definition health :: "crates \<Rightarrow> http_response" where
  "health X = json_response X 200 (JObj [(''status'', JStr ''ok'')])"

text \<open>The value of \<open>x-forwarded-for\<close> if the request has one that is text, the address of the
  peer, the \<open>Authorization\<close> header, and the body: the framework's rejection, or the value
  of the type the handler asks for.\<close>

record 'b app_request =
  aq_forwarded_for :: "string option"
  aq_peer_ip :: string
  aq_authorization :: "string option"
  aq_body :: "http_response + 'b"

definition get_client_ip :: "'b app_request \<Rightarrow> string" where
  "get_client_ip req =
     (case aq_forwarded_for req of
        Some s \<Rightarrow> str_trim (hd (split_on CHR '','' s))
      | None \<Rightarrow> aq_peer_ip req)"

text \<open>A route behind a charge: the extractor, then the body, then the handler, over a state.\<close>

definition charged_route ::
  "(string \<Rightarrow> bool) \<Rightarrow> challenger \<Rightarrow> int \<Rightarrow> string \<Rightarrow> string option
   \<Rightarrow> (receipt \<Rightarrow> 'b \<Rightarrow> 's \<Rightarrow> http_response \<times> 's) \<Rightarrow> 'b app_request \<Rightarrow> 's \<Rightarrow> http_response \<times> 's" where
  "charged_route hv C now amount description handler req st =
     (case extract_charge C now amount description (aq_authorization req) of
        Inl rejection \<Rightarrow> (rejection_response hv rejection, st)
      | Inr r \<Rightarrow>
          (case aq_body req of
             Inl rejected \<Rightarrow> (rejected, st)
           | Inr body \<Rightarrow> handler r body st))"

text \<open>A response with one more header. A text that is no header value makes the framework answer
  500 with the text of the error.\<close>

definition with_header :: "(string \<Rightarrow> bool) \<Rightarrow> string \<Rightarrow> string \<Rightarrow> http_response \<Rightarrow> http_response" where
  "with_header hv name v resp =
     (if hv v then resp\<lparr>hr_headers := (name, v) # hr_headers resp\<rparr>
      else \<lparr>hr_status = 500, hr_headers = [], hr_body = ''failed to parse header value''\<rparr>)"

text \<open>\<open>MovementSessionOptions::default()\<close>.\<close>

definition no_session_options :: movement_session_options where
  "no_session_options = \<lparr>mo_unit_type = None, mo_suggested_deposit = None, mo_module_address = None,
     mo_registry_address = None, mo_min_voucher_delta = None, mo_description = None, mo_expires = None\<rparr>"

section \<open>Upstream services\<close>

text \<open>A POST with headers and a JSON body.\<close>

type_synonym upstream = "string \<Rightarrow> (string \<times> string) list \<Rightarrow> json \<Rightarrow> http_result"

definition response_value :: "crates \<Rightarrow> string \<Rightarrow> string + json" where
  "response_value X body = response_json X ''Value'' Some body"

text \<open>\<open>body[k]\<close> and \<open>body[i]\<close>: a missing entry reads as null.\<close>

definition json_at :: "string \<Rightarrow> json \<Rightarrow> json" where
  "json_at k j = (case json_get k j of Some v \<Rightarrow> v | None \<Rightarrow> JNull)"

fun json_nth :: "nat \<Rightarrow> json \<Rightarrow> json" where
  "json_nth i (JArr vs) = (if i < length vs then vs ! i else JNull)"
| "json_nth i _ = JNull"

section \<open>Facts\<close>

lemma json_response_sel [simp]:
  "hr_status (json_response X status j) = status"
  "hr_headers (json_response X status j) = [(''content-type'', ''application/json'')]"
  "hr_body (json_response X status j) = json_text X j"
  by (simp_all add: json_response_def)

lemma with_receipt_sel [simp]:
  "hr_status (with_receipt X hv r resp) = hr_status resp"
  "hr_body (with_receipt X hv r resp) = hr_body resp"
  by (simp_all add: with_receipt_def split: sum.splits)

lemma split_on_not_Nil [simp]: "split_on c s \<noteq> []"
  by (induction s) (auto split: list.splits)

definition has_receipt :: "http_response \<Rightarrow> bool" where
  "has_receipt resp \<longleftrightarrow> list_ex (\<lambda>(k, _). k = ''payment-receipt'') (hr_headers resp)"

lemma no_receipt_json [simp]: "\<not> has_receipt (json_response X status j)"
  by (simp add: has_receipt_def)

lemma no_receipt_rejection: "\<not> has_receipt (rejection_response hv rejection)"
  by (cases rejection)
    (simp_all add: has_receipt_def payment_required_response_def split: sum.splits)

end
