(* ===== verification/Firecrawl_Proxy.thy ===== *)
theory Firecrawl_Proxy
  imports App_Http Proxy
begin

text \<open>
  The Firecrawl proxy (examples/firecrawl-proxy/src/main.rs): validation of the URL to scrape,
  the two charged handlers, and the discovery configuration. The \<open>url\<close> crate is the parameter
  \<open>parse\<close>: its error text, or the scheme, the host and the text of the parsed URL. The state
  that requests change is the rate limiter, and the world the upstream service is called in.
\<close>

section \<open>URL validation\<close>

record parsed_url =
  url_scheme :: string
  url_host :: "string option"
  url_string :: string

definition ends_with :: "string \<Rightarrow> string \<Rightarrow> bool" where
  "ends_with p s \<longleftrightarrow> length p \<le> length s \<and> drop (length s - length p) s = p"

definition blocked_hosts :: "string list" where
  "blocked_hosts = [''localhost'', ''127.0.0.1'', ''0.0.0.0'', ''::1'', ''metadata.google.internal'',
     ''169.254.169.254'']"

definition blocked_prefixes :: "string list" where
  "blocked_prefixes = [''10.'', ''172.16.'', ''172.17.'', ''172.18.'', ''172.19.'', ''172.2'',
     ''172.30.'', ''172.31.'', ''192.168.'']"

definition blocked_suffixes :: "string list" where
  "blocked_suffixes = [''.internal'', ''.local'']"

definition host_blocked :: "string \<Rightarrow> bool" where
  "host_blocked host \<longleftrightarrow>
     (let lower = to_ascii_lowercase host in
      lower \<in> set blocked_hosts \<or> list_ex (\<lambda>p. starts_with p lower) blocked_prefixes
      \<or> list_ex (\<lambda>p. ends_with p lower) blocked_suffixes)"

definition validate_scrape_url :: "(string \<Rightarrow> string + parsed_url) \<Rightarrow> string \<Rightarrow> string + string" where
  "validate_scrape_url parse input =
     and_then (map_err (\<lambda>e. ''Invalid URL: '' @ e) (parse input)) (\<lambda>parsed.
     if url_scheme parsed \<notin> {''http'', ''https''}
     then Inl (''Scheme '' @ squote @ url_scheme parsed @ squote @ '' not allowed. Use http or https.'')
     else case url_host parsed of
       None \<Rightarrow> Inl ''URL must have a host''
     | Some host \<Rightarrow>
         if host_blocked host then Inl ''Internal/private URLs are not allowed''
         else Inr (url_string parsed))"

section \<open>Handlers\<close>

definition FIRECRAWL_BASE :: string where "FIRECRAWL_BASE = ''https://api.firecrawl.dev''"

record firecrawl_state =
  fc_api_key :: string
  fc_rate_limiter :: rate_limiter

definition raw_url :: "json \<Rightarrow> string" where
  "raw_url body = unwrap_or ''https://example.com'' (get_str ''url'' body)"

text \<open>Both handlers begin with the limiter and the URL.\<close>

definition admit_url ::
  "crates \<Rightarrow> (string \<Rightarrow> string + parsed_url) \<Rightarrow> instant \<Rightarrow> json app_request \<Rightarrow> json \<Rightarrow> firecrawl_state
   \<Rightarrow> (http_response + string) \<times> firecrawl_state" where
  "admit_url X parse t req body st =
     (case limiter_check (fc_rate_limiter st) t (get_client_ip req) of
        (limiter, allowed) \<Rightarrow>
          (if \<not> allowed
           then Inl (json_response X 429 (error_json ''Rate limit exceeded. Try again in a minute.''))
           else map_err (\<lambda>e. json_response X 400 (error_json e)) (validate_scrape_url parse (raw_url body)),
           st\<lparr>fc_rate_limiter := limiter\<rparr>))"

text \<open>A call of the upstream service changes the world the handler runs in.\<close>

type_synonym 'w caller = "string \<Rightarrow> (string \<times> string) list \<Rightarrow> json \<Rightarrow> 'w \<Rightarrow> http_result \<times> 'w"

definition forward ::
  "crates \<Rightarrow> (string \<Rightarrow> bool) \<Rightarrow> 'w caller \<Rightarrow> string \<Rightarrow> string \<Rightarrow> json \<Rightarrow> receipt \<Rightarrow> 'w
   \<Rightarrow> http_response \<times> 'w" where
  "forward X hv up api_key path request r w =
     (case up (FIRECRAWL_BASE @ path) [(''authorization'', ''Bearer '' @ api_key)] request w of
        (Response status text, w') \<Rightarrow>
          let body = (case response_value X text of
                Inr j \<Rightarrow> j | Inl _ \<Rightarrow> error_json ''failed to parse Firecrawl response'') in
          (if is_success_status status then with_receipt X hv r (json_response X 200 body)
           else json_response X 502 body, w')
      | (Transport_Error e, w') \<Rightarrow>
          (json_response X 502 (error_json (''Firecrawl request failed: '' @ e)), w'))"

definition scrape ::
  "crates \<Rightarrow> (string \<Rightarrow> bool) \<Rightarrow> (string \<Rightarrow> string + parsed_url) \<Rightarrow> 'w caller \<Rightarrow> instant \<Rightarrow> json app_request
   \<Rightarrow> receipt \<Rightarrow> json \<Rightarrow> firecrawl_state \<times> 'w \<Rightarrow> http_response \<times> firecrawl_state \<times> 'w" where
  "scrape X hv parse up t req r body sw =
     (case admit_url X parse t req body (fst sw) of
        (Inl resp, st') \<Rightarrow> (resp, st', snd sw)
      | (Inr url, st') \<Rightarrow>
          (case forward X hv up (fc_api_key st') ''/v1/scrape''
             (JObj [(''url'', JStr url), (''formats'', JArr [JStr ''markdown''])]) r (snd sw) of
             (resp, w') \<Rightarrow> (resp, st', w')))"

definition crawl_limit :: "json \<Rightarrow> u64" where
  "crawl_limit body = min (unwrap_or 5 (Option.bind (json_get ''limit'' body) as_u64)) 20"

definition crawl ::
  "crates \<Rightarrow> (string \<Rightarrow> bool) \<Rightarrow> (string \<Rightarrow> string + parsed_url) \<Rightarrow> 'w caller \<Rightarrow> instant \<Rightarrow> json app_request
   \<Rightarrow> receipt \<Rightarrow> json \<Rightarrow> firecrawl_state \<times> 'w \<Rightarrow> http_response \<times> firecrawl_state \<times> 'w" where
  "crawl X hv parse up t req r body sw =
     (case admit_url X parse t req body (fst sw) of
        (Inl resp, st') \<Rightarrow> (resp, st', snd sw)
      | (Inr url, st') \<Rightarrow>
          (case forward X hv up (fc_api_key st') ''/v1/crawl''
             (JObj [(''url'', JStr url), (''limit'', JInt (uint (crawl_limit body)))]) r (snd sw) of
             (resp, w') \<Rightarrow> (resp, st', w')))"

text \<open>The fees of the two routes.\<close>

definition scrape_fee :: "string \<times> string option" where
  "scrape_fee = (''0.01'', Some ''Scrape a URL via Firecrawl'')"

definition crawl_fee :: "string \<times> string option" where
  "crawl_fee = (''0.05'', Some ''Crawl a site via Firecrawl'')"

section \<open>Discovery\<close>

definition firecrawl_proxy_config :: proxy_config where
  "firecrawl_proxy_config =
     \<lparr>pc_base_path = Some ''/api'',
      pc_services = [builder_build
        (builder_route ''GET /v1/crawl/:id'' Free
        (builder_route ''POST /v1/crawl'' (Paid \<lparr>pe_intent = ''charge'', pe_amount = ''0.05'',
           pe_unit_type = None, pe_description = Some ''Crawl an entire site''\<rparr>)
        (builder_route ''POST /v1/scrape'' (Paid \<lparr>pe_intent = ''charge'', pe_amount = ''0.01'',
           pe_unit_type = None, pe_description = Some ''Scrape a single URL and extract clean content''\<rparr>)
        (service_new ''firecrawl'' FIRECRAWL_BASE))))]\<rparr>"

definition firecrawl_services :: "crates \<Rightarrow> http_response" where
  "firecrawl_services X = json_response X 200 (serialize_services (pc_services firecrawl_proxy_config))"

definition firecrawl_llms_txt :: http_response where
  "firecrawl_llms_txt = \<lparr>hr_status = 200, hr_headers = [(''content-type'', ''text/plain'')],
     hr_body = to_llms_txt (pc_services firecrawl_proxy_config)\<rparr>"

end
