(* ===== verification/Utf8.thy ===== *)
theory Utf8
  imports Prelude
begin

text \<open>
  Strings outside ASCII are the bytes of their UTF-8 encoding. This theory holds
  \<open>String::from_utf8_lossy\<close> of the standard library, which replaces every maximal invalid sequence
  of bytes by the replacement character, and when it changes nothing: on valid text, and so on
  the pieces of a text that is cut between characters; and the first characters of a text.
\<close>

section \<open>Characters\<close>

text \<open>The length of the character a byte starts, 0 if it starts none.\<close>

definition utf8_width :: "char \<Rightarrow> nat" where
  "utf8_width c =
     (if code c < 0x80 then 1
      else if 0xC2 \<le> code c \<and> code c \<le> 0xDF then 2
      else if 0xE0 \<le> code c \<and> code c \<le> 0xEF then 3
      else if 0xF0 \<le> code c \<and> code c \<le> 0xF4 then 4 else 0)"

definition utf8_continues :: "char \<Rightarrow> bool" where
  "utf8_continues c \<longleftrightarrow> 0x80 \<le> code c \<and> code c \<le> 0xBF"

text \<open>The second byte: no overlong forms, no surrogates, nothing above U+10FFFF.\<close>

definition utf8_second :: "char \<Rightarrow> char \<Rightarrow> bool" where
  "utf8_second c d \<longleftrightarrow> utf8_continues d
     \<and> (code c = 0xE0 \<longrightarrow> 0xA0 \<le> code d) \<and> (code c = 0xED \<longrightarrow> code d \<le> 0x9F)
     \<and> (code c = 0xF0 \<longrightarrow> 0x90 \<le> code d) \<and> (code c = 0xF4 \<longrightarrow> code d \<le> 0x8F)"

fun utf8_run :: "nat \<Rightarrow> string \<Rightarrow> nat" where
  "utf8_run (Suc n) (c # s) = (if utf8_continues c then Suc (utf8_run n s) else 0)"
| "utf8_run n s = 0"

text \<open>How many of the bytes behind \<open>c\<close> continue its character.\<close>

definition utf8_extra :: "char \<Rightarrow> string \<Rightarrow> nat" where
  "utf8_extra c s =
     (case s of [] \<Rightarrow> 0
      | d # s' \<Rightarrow> if 2 \<le> utf8_width c \<and> utf8_second c d then Suc (utf8_run (utf8_width c - 2) s') else 0)"

text \<open>\<open>chars().take(n)\<close> on valid text.\<close>

fun take_chars :: "nat \<Rightarrow> string \<Rightarrow> string" where
  "take_chars 0 s = []"
| "take_chars (Suc n) [] = []"
| "take_chars (Suc n) (c # s) =
     c # take (utf8_extra c s) s @ take_chars n (drop (utf8_extra c s) s)"

section \<open>Decoding\<close>

definition replacement_char :: string where
  "replacement_char = [CHR 0xEF, CHR 0xBF, CHR 0xBD]"

fun from_utf8_lossy :: "string \<Rightarrow> string" where
  "from_utf8_lossy [] = []"
| "from_utf8_lossy (c # s) =
     (let n = utf8_extra c s in
      (if utf8_width c = Suc n then c # take n s else replacement_char) @ from_utf8_lossy (drop n s))"

text \<open>Valid text: whole characters only.\<close>

fun is_utf8 :: "string \<Rightarrow> bool" where
  "is_utf8 [] = True"
| "is_utf8 (c # s) \<longleftrightarrow> utf8_width c = Suc (utf8_extra c s) \<and> is_utf8 (drop (utf8_extra c s) s)"

lemma from_utf8_lossy_valid: "is_utf8 s \<Longrightarrow> from_utf8_lossy s = s"
  by (induction s rule: is_utf8.induct) (simp_all add: Let_def)

lemma utf8_ascii_char [simp]:
  "code c < 0x80 \<Longrightarrow> utf8_width c = Suc 0" "code c < 0x80 \<Longrightarrow> utf8_extra c s = 0"
  by (simp_all add: utf8_extra_def utf8_width_def split: list.split)

lemma utf8_ascii: "\<forall>c \<in> set s. code c < 0x80 \<Longrightarrow> is_utf8 s"
  by (induction s) simp_all

lemma from_utf8_lossy_ascii: "\<forall>c \<in> set s. code c < 0x80 \<Longrightarrow> from_utf8_lossy s = s"
  by (intro from_utf8_lossy_valid utf8_ascii)

text \<open>Pieces of valid text are decoded apart as together.\<close>

lemma decoded_pieces: "list_all is_utf8 pieces \<Longrightarrow> map from_utf8_lossy pieces = pieces"
  by (induction pieces) (simp_all add: from_utf8_lossy_valid)

text \<open>A character that is cut is lost: of the two bytes of e with acute accent, each alone becomes the
  replacement character.\<close>

lemma cut_character:
  "is_utf8 [CHR 0xC3, CHR 0xA9]" "from_utf8_lossy [CHR 0xC3] = replacement_char"
  "from_utf8_lossy [CHR 0xA9] = replacement_char"
  by (simp_all add: utf8_extra_def utf8_width_def utf8_second_def utf8_continues_def Let_def)

end
