(* ===== verification/Pipeline.thy ===== *)
theory Pipeline
  imports App_Http Proxy Utf8
begin

text \<open>
  The search-image-email service (examples/search-image-email/src/main.rs): one charge for three
  upstream calls, each retried. An upstream service may answer each attempt differently, so it is
  a function from the number of the attempt, from 1. HTML and prompts are the literal texts of
  the code. The state that requests change is the rate limiter; the log lines are left out.
\<close>

section \<open>Requests\<close>

record pipeline_request =
  pq_query :: string
  pq_email :: string
  pq_num_results :: "u32 option"

definition parse_u32 :: "string \<Rightarrow> nat option" where
  "parse_u32 s = parse_uint (2 ^ 32 - 1) s"

definition count_words :: "string list" where
  "count_words = [''top'', ''find'', ''list'', ''get'', ''show'', ''give'']"

text \<open>The loop over the words, with the word before the current one.\<close>

fun extract_num :: "string \<Rightarrow> string list \<Rightarrow> nat option" where
  "extract_num before [] = None"
| "extract_num before (word # rest) =
     (case parse_u32 word of
        Some n \<Rightarrow>
          if 1 \<le> n \<and> n \<le> 50 then
            if 1900 \<le> n \<and> n \<le> 2100 then extract_num word rest
            else if to_ascii_lowercase before \<in> set count_words
                  \<or> (case rest of [] \<Rightarrow> [] | after # _ \<Rightarrow> to_ascii_lowercase after) \<noteq> []
            then Some n
            else extract_num word rest
          else extract_num word rest
      | None \<Rightarrow> extract_num word rest)"

definition extract_num_from_query :: "string \<Rightarrow> nat option" where
  "extract_num_from_query query = extract_num [] (split_whitespace query)"

definition wanted_results :: "pipeline_request \<Rightarrow> nat" where
  "wanted_results req =
     min (unwrap_or 10 (case pq_num_results req of
            Some n \<Rightarrow> Some (unat n)
          | None \<Rightarrow> extract_num_from_query (str_trim (pq_query req)))) 20"

section \<open>Retrying\<close>

text \<open>The attempts from the given one on, with the last error so far: the result, and the pauses
  in milliseconds.\<close>

function retry_from :: "(nat \<Rightarrow> string + 'a) \<Rightarrow> nat \<Rightarrow> nat \<Rightarrow> string \<Rightarrow> (string + 'a) \<times> nat list" where
  "retry_from f max_attempts attempt last_err =
     (if max_attempts < attempt then (Inl last_err, [])
      else case f attempt of
        Inr v \<Rightarrow> (Inr v, [])
      | Inl e \<Rightarrow>
          (case retry_from f max_attempts (attempt + 1) e of
             (res, pauses) \<Rightarrow>
               (res, (if attempt < max_attempts then [500 * attempt] else []) @ pauses)))"
  by pat_completeness auto
termination by (relation "measure (\<lambda>(_, m, a, _). m + 1 - a)") auto

declare retry_from.simps [simp del]

definition retry_pauses :: "(nat \<Rightarrow> string + 'a) \<Rightarrow> nat \<Rightarrow> (string + 'a) \<times> nat list" where
  "retry_pauses f max_attempts = retry_from f max_attempts 1 []"

definition retry :: "(nat \<Rightarrow> string + 'a) \<Rightarrow> nat \<Rightarrow> string + 'a" where
  "retry f max_attempts = fst (retry_pauses f max_attempts)"

section \<open>Upstream calls\<close>

record search_result =
  se_title :: string
  se_url :: string
  se_summary :: string

record pipeline_config =
  pl_exa_api_key :: string
  pl_fal_api_key :: string
  pl_resend_api_key :: string
  pl_from_email :: string

definition upstream_answer :: "crates \<Rightarrow> string \<Rightarrow> http_result \<Rightarrow> string + json" where
  "upstream_answer X name r =
     (case r of
        Transport_Error e \<Rightarrow> Inl e
      | Response status text \<Rightarrow>
          if \<not> is_success_status status
          then Inl (name @ '' returned '' @ status_text X status @ '': '' @ text)
          else response_value X text)"

definition filter_strs :: "json list \<Rightarrow> string list" where
  "filter_strs vs = concat (map (\<lambda>v. case as_str v of Some s \<Rightarrow> [s] | None \<Rightarrow> []) vs)"

definition str_at :: "string \<Rightarrow> string \<Rightarrow> json \<Rightarrow> string" where
  "str_at k dflt j = unwrap_or dflt (as_str (json_at k j))"

definition search_result_of :: "json \<Rightarrow> search_result" where
  "search_result_of r =
     (let highlights = (case as_array (json_at ''highlights'' r) of
            Some hs \<Rightarrow> join '' '' (filter_strs hs) | None \<Rightarrow> []) in
      \<lparr>se_title = str_at ''title'' ''Untitled'' r, se_url = str_at ''url'' [] r,
       se_summary = (if highlights = [] then take_chars 200 (str_at ''text'' [] r) else highlights)\<rparr>)"

definition exa_system_prompt :: string where
  "exa_system_prompt = ''Find the most relevant, authoritative sources for this query. If the query asks for scientific studies, research, or evidence, prefer peer-reviewed journals, PubMed, and academic sources. If the query asks for things to do, places, or recommendations, prefer well-known travel and review sites. Always prefer primary sources over aggregator or SEO content. Avoid duplicate results.''"

definition exa_search ::
  "crates \<Rightarrow> upstream \<Rightarrow> pipeline_config \<Rightarrow> string \<Rightarrow> nat \<Rightarrow> string + search_result list" where
  "exa_search X up cfg query num_results =
     and_then (upstream_answer X ''Exa'' (up ''https://api.exa.ai/search''
         [(''x-api-key'', pl_exa_api_key cfg)]
         (JObj [(''query'', JStr query), (''numResults'', JInt (int num_results)),
            (''type'', JStr ''deep-reasoning''), (''systemPrompt'', JStr exa_system_prompt),
            (''contents'', JObj
               [(''text'', JObj [(''maxCharacters'', JInt 300)]),
                (''highlights'', JObj [(''numSentences'', JInt 3), (''maxCharacters'', JInt 300)])])]))) (\<lambda>body.
     Inr (case as_array (json_at ''results'' body) of
            Some arr \<Rightarrow> map search_result_of arr | None \<Rightarrow> []))"

definition build_image_prompt :: "string \<Rightarrow> search_result list \<Rightarrow> string" where
  "build_image_prompt query results =
     ''A vibrant, colorful illustration summarizing: '' @ query @ ''. Key topics: ''
     @ join '', '' (take 5 (map se_title results))
     @ ''. Style: modern digital art, clean composition, no text.''"

definition fal_generate_image ::
  "crates \<Rightarrow> upstream \<Rightarrow> pipeline_config \<Rightarrow> string \<Rightarrow> string + string" where
  "fal_generate_image X up cfg prompt =
     and_then (upstream_answer X ''fal.ai'' (up ''https://queue.fal.run/fal-ai/flux/schnell''
         [(''authorization'', ''Key '' @ pl_fal_api_key cfg)]
         (JObj [(''prompt'', JStr prompt), (''image_size'', JStr ''landscape_16_9''),
            (''num_images'', JInt 1)]))) (\<lambda>body.
     ok_or ''No image URL in fal.ai response''
       (as_str (json_at ''url'' (json_nth 0 (json_at ''images'' body)))))"

definition resend_send ::
  "crates \<Rightarrow> upstream \<Rightarrow> pipeline_config \<Rightarrow> string \<Rightarrow> string \<Rightarrow> string \<Rightarrow> string + string" where
  "resend_send X up cfg to_addr subject html =
     and_then (upstream_answer X ''Resend'' (up ''https://api.resend.com/emails''
         [(''authorization'', ''Bearer '' @ pl_resend_api_key cfg)]
         (JObj [(''from'', JStr (pl_from_email cfg)), (''to'', JArr [JStr to_addr]),
            (''subject'', JStr (''Search results: '' @ subject)), (''html'', JStr html)]))) (\<lambda>body.
     Inr (str_at ''id'' ''unknown'' body))"

section \<open>The e-mail\<close>

definition html_escape :: "string \<Rightarrow> string" where
  "html_escape s =
     replace_char CHR 0x22 ''&quot;'' (replace_char CHR ''>'' ''&gt;''
       (replace_char CHR ''<'' ''&lt;'' (replace_char CHR ''&'' ''&amp;'' s)))"

definition result_row :: "nat \<Rightarrow> search_result \<Rightarrow> string" where
  \<open>result_row num r = ''<tr>
                <td style="padding:12px 16px;border-bottom:1px solid #eee;">
                    <strong style="color:#111;">'' @ show_nat num @ ''. '' @ html_escape (se_title r) @ ''</strong><br/>
                    <span style="color:#666;font-size:14px;">'' @ html_escape (se_summary r) @ ''</span><br/>
                    <a href="'' @ html_escape (se_url r) @ ''" style="color:#6366f1;font-size:13px;">'' @ html_escape (se_url r) @ ''</a>
                </td>
            </tr>''\<close>

definition image_tag :: "string option \<Rightarrow> string" where
  \<open>image_tag image_url =
     (case image_url of
        Some u \<Rightarrow> ''<img src="'' @ u @ ''" alt="AI generated image" style="width:100%;height:auto;display:block;"/>''
      | None \<Rightarrow> [])\<close>

definition build_email_html :: "string \<Rightarrow> search_result list \<Rightarrow> string option \<Rightarrow> string" where
  \<open>build_email_html query results image_url = ''<!DOCTYPE html>
<html>
<head><meta charset="utf-8"/></head>
<body style="font-family:-apple-system,sans-serif;max-width:600px;margin:0 auto;padding:20px;background:#f9f9fb;">
    <div style="background:white;border-radius:12px;overflow:hidden;box-shadow:0 1px 3px rgba(0,0,0,0.1);">
        '' @ image_tag image_url @ ''
        <div style="padding:24px;">
            <h1 style="font-size:20px;color:#111;margin:0 0 4px;">'' @ html_escape query @ ''</h1>
            <p style="color:#888;font-size:13px;margin:0 0 20px;">Search results powered by MPP on Movement Network</p>
            <table style="width:100%;border-collapse:collapse;">
                '' @ concat (map (\<lambda>(i, r). result_row (i + 1) r) (enumerate 0 results)) @ ''
            </table>
        </div>
    </div>
    <p style="text-align:center;color:#aaa;font-size:12px;margin-top:16px;">
        Sent via Machine Payments Protocol '' @ em_dash @ '' paid with MOVE
    </p>
</body>
</html>''\<close>

section \<open>The handler\<close>

record pipeline_response =
  ps_search_results :: "search_result list"
  ps_image_url :: "string option"
  ps_email_sent_to :: "string option"
  ps_email_id :: "string option"
  ps_steps_completed :: "string list"
  ps_partial_failure :: "string option"

definition search_result_to_json :: "search_result \<Rightarrow> json" where
  "search_result_to_json r = JObj [(''title'', JStr (se_title r)), (''url'', JStr (se_url r)),
     (''summary'', JStr (se_summary r))]"

definition nullable_str :: "string option \<Rightarrow> json" where
  "nullable_str v = (case v of Some s \<Rightarrow> JStr s | None \<Rightarrow> JNull)"

definition pipeline_response_to_json :: "pipeline_response \<Rightarrow> json" where
  "pipeline_response_to_json r = JObj
     [(''search_results'', JArr (map search_result_to_json (ps_search_results r))),
      (''image_url'', nullable_str (ps_image_url r)), (''email_sent_to'', nullable_str (ps_email_sent_to r)),
      (''email_id'', nullable_str (ps_email_id r)),
      (''steps_completed'', JArr (map JStr (ps_steps_completed r))),
      (''partial_failure'', nullable_str (ps_partial_failure r))]"

text \<open>The second and third step, which don't stop the pipeline.\<close>

definition image_step ::
  "crates \<Rightarrow> (nat \<Rightarrow> upstream) \<Rightarrow> pipeline_config \<Rightarrow> string \<Rightarrow> search_result list \<Rightarrow> string + string" where
  "image_step X ups cfg query results =
     retry (\<lambda>k. fal_generate_image X (ups k) cfg (build_image_prompt query results)) 2"

definition email_step ::
  "crates \<Rightarrow> (nat \<Rightarrow> upstream) \<Rightarrow> pipeline_config \<Rightarrow> string \<Rightarrow> string \<Rightarrow> search_result list
   \<Rightarrow> string option \<Rightarrow> string + string" where
  "email_step X ups cfg to_addr query results image_url =
     retry (\<lambda>k. resend_send X (ups k) cfg to_addr query (build_email_html query results image_url)) 3"

definition pipeline_outcome ::
  "crates \<Rightarrow> (nat \<Rightarrow> upstream) \<Rightarrow> pipeline_config \<Rightarrow> string \<Rightarrow> string \<Rightarrow> search_result list
   \<Rightarrow> pipeline_response" where
  "pipeline_outcome X ups cfg query email results =
     (let image = image_step X ups cfg query results;
          failure = (case image of
              Inr _ \<Rightarrow> None | Inl e \<Rightarrow> Some (''Image generation failed: '' @ e));
          mail = email_step X ups cfg email query results (ok_opt image) in
      \<lparr>ps_search_results = results, ps_image_url = ok_opt image,
       ps_email_sent_to = map_option (\<lambda>_. email) (ok_opt mail), ps_email_id = ok_opt mail,
       ps_steps_completed = [''search''] @ (if is_ok image then [''image''] else [])
         @ (if is_ok mail then [''email''] else []),
       ps_partial_failure = (case mail of
           Inr _ \<Rightarrow> failure
         | Inl e \<Rightarrow>
             let msg = ''Email delivery failed: '' @ e in
             Some (case failure of Some prev \<Rightarrow> prev @ ''; '' @ msg | None \<Rightarrow> msg))\<rparr>)"

definition run_pipeline ::
  "crates \<Rightarrow> (string \<Rightarrow> bool) \<Rightarrow> (nat \<Rightarrow> upstream) \<Rightarrow> pipeline_config \<Rightarrow> instant \<Rightarrow> pipeline_request app_request
   \<Rightarrow> receipt \<Rightarrow> pipeline_request \<Rightarrow> rate_limiter \<Rightarrow> http_response \<times> rate_limiter" where
  "run_pipeline X hv ups cfg t req r body limiter =
     (case limiter_check limiter t (get_client_ip req) of
        (limiter', allowed) \<Rightarrow>
          (if \<not> allowed then json_response X 429 (error_json ''Rate limit exceeded'')
           else if CHR ''@'' \<notin> set (pq_email body) \<or> 254 < length (pq_email body)
           then json_response X 400 (error_json ''Invalid email address'')
           else
             let query = str_trim (pq_query body) in
             if query = [] \<or> 500 < length query
             then json_response X 400 (error_json ''Query must be 1-500 characters'')
             else case retry (\<lambda>k. exa_search X (ups k) cfg query (wanted_results body)) 3 of
               Inl e \<Rightarrow>
                 json_response X 502 (JObj
                   [(''error'', JStr (''Search failed after retries: '' @ e)),
                    (''steps_completed'', JArr []),
                    (''note'', JStr ''Payment was received. Contact support if you need a refund.'')])
             | Inr results \<Rightarrow>
                 with_receipt X hv r (json_response X 200 (pipeline_response_to_json
                   (pipeline_outcome X ups cfg query (pq_email body) results))),
           limiter'))"

definition pipeline_fee :: "string \<times> string option" where
  "pipeline_fee = (''0.05'', Some ''Search + AI image + email delivery'')"

definition pipeline_proxy_config :: proxy_config where
  "pipeline_proxy_config =
     \<lparr>pc_base_path = Some ''/api'',
      pc_services = [builder_build
        (builder_route ''POST /v1/run'' (Paid \<lparr>pe_intent = ''charge'', pe_amount = ''0.05'',
           pe_unit_type = None,
           pe_description = Some ''Search the web, generate an AI image, and email the results''\<rparr>)
        (service_new ''search-image-email'' ''http://localhost:3020''))]\<rparr>"

definition pipeline_services :: "crates \<Rightarrow> http_response" where
  "pipeline_services X = json_response X 200 (serialize_services (pc_services pipeline_proxy_config))"

definition pipeline_llms_txt :: http_response where
  "pipeline_llms_txt = \<lparr>hr_status = 200, hr_headers = [(''content-type'', ''text/plain'')],
     hr_body = to_llms_txt (pc_services pipeline_proxy_config)\<rparr>"

end
