(* ===== verification/Apps_Claims.thy ===== *)
theory Apps_Claims
  imports Firecrawl_Proxy Pipeline
begin

text \<open>
  The properties of the two proxying applications: what their limiters admit, which hosts may be
  scraped, what a paying client is answered, and the pipeline's retries, escaping and report.
\<close>

section \<open>Limits\<close>

text \<open>
  C24: what a limiter admits. However its requests and cleanups interleave, a limiter with
  \<open>max\<close> requests per window admits at most \<open>2 * max - 1\<close> requests of one client within any span
  of time as long as the window: the windows are fixed, not sliding, and a window starts with the
  request that opens it.
\<close>

theorem limiter_bounds_span:
  assumes "0 < unat max_requests"
    and "\<And>x. x \<in> set ops \<Longrightarrow> a \<le> op_time x \<and> op_time x \<le> a + secs window"
  shows "admitted limiter_check limiter_cleanup ip
      (run_ops limiter_check limiter_cleanup (rate_limiter_new max_requests window) before) ops
    \<le> 2 * unat max_requests - 1"
proof -
  have "proxy_limiter.used (rate_limiter_new max_requests window)"
    by (simp add: proxy_limiter.used_def limiter_view_def rate_limiter_new_def)
  from proxy_limiter.admitted_bound [OF _ _ this, where before = before and ops = ops and a = a and ip = ip]
    assms
  show ?thesis by (simp add: rate_limiter_new_def)
qed

theorem limiter_bounds_span_witness:
  "admitted limiter_check limiter_cleanup ''a''
     (run_ops limiter_check limiter_cleanup (rate_limiter_new 2 60) [Request 0 ''a''])
     [Request (60 * 10 ^ 9) ''a'', Request (60 * 10 ^ 9 + 1) ''a'', Request (60 * 10 ^ 9 + 1) ''a'',
      Request (60 * 10 ^ 9 + 2) ''a''] = 3 \<and> (3 :: nat) \<le> 2 * unat (2 :: u32) - 1"
proof -
  let ?ops = "[Request (60 * 10 ^ 9) ''a'', Request (60 * 10 ^ 9 + 1) ''a'',
     Request (60 * 10 ^ 9 + 1) ''a'', Request (60 * 10 ^ 9 + 2) ''a'']"
  have n: "admitted limiter_check limiter_cleanup ''a''
      (run_ops limiter_check limiter_cleanup (rate_limiter_new 2 60) [Request 0 ''a'']) ?ops = 3"
    by (simp add: limiter_check_def rate_limiter_new_def secs_def Let_def word_le_nat_alt)
  have "admitted limiter_check limiter_cleanup ''a''
      (run_ops limiter_check limiter_cleanup (rate_limiter_new 2 60) [Request 0 ''a'']) ?ops
    \<le> 2 * unat (2 :: u32) - 1"
    by (rule limiter_bounds_span [where a = "60 * 10 ^ 9"]) (auto simp: secs_def)
  with n show ?thesis by simp
qed

text \<open>
  Forgetting is safe. With a clock that never goes back, the cleanups that drop old windows
  can't be noticed: every request is answered as if no cleanup had run.
\<close>

theorem cleanup_unnoticed:
  assumes "0 < unat (rl_max_requests rl)" and "sorted (map op_time ops)"
  shows "decisions limiter_check limiter_cleanup rl ops
    = decisions limiter_check limiter_cleanup rl (filter is_request ops)"
  by (rule proxy_limiter.cleanup_invisible) (use assms in simp_all)

theorem cleanup_unnoticed_witness:
  "decisions limiter_check limiter_cleanup (rate_limiter_new 1 1)
     [Request 0 ''a'', Request 5 ''a'', Cleanup (2 * 10 ^ 9), Request (2 * 10 ^ 9) ''a''] = [True, False, True]"
  by (subst cleanup_unnoticed)
    (simp_all add: rate_limiter_new_def limiter_check_def secs_def Let_def word_le_nat_alt)

section \<open>Which hosts may be scraped\<close>

definition dotted :: "nat \<Rightarrow> nat \<Rightarrow> nat \<Rightarrow> nat \<Rightarrow> string" where
  "dotted a b c d = join ''.'' (map show_nat [a, b, c, d])"

lemma dotted_parts:
  "dotted a b c d = show_nat a @ CHR ''.'' # show_nat b @ CHR ''.'' # show_nat c @ CHR ''.'' # show_nat d"
  by (simp add: dotted_def)

lemma no_dot_in_digits: "list_all is_ascii_digit s \<Longrightarrow> CHR ''.'' \<notin> set s"
  by (auto simp: list_all_iff is_ascii_digit_def)

lemma dotted_inject: "dotted a b c d = dotted a' b' c' d' \<longleftrightarrow> a = a' \<and> b = b' \<and> c = c' \<and> d = d'"
  unfolding dotted_def
  by (subst join_inject) (auto simp: no_dot_in_digits show_nat_digits show_nat_inject)

lemma dotted_lower: "to_ascii_lowercase (dotted a b c d) = dotted a b c d"
proof -
  have "to_lower x = x" if "is_ascii_digit x \<or> x = CHR ''.''" for x
    using that by (auto simp: to_lower_def is_ascii_uppercase_def is_ascii_digit_def)
  moreover have "list_all (\<lambda>x. is_ascii_digit x \<or> x = CHR ''.'') (dotted a b c d)"
    using show_nat_digits by (auto simp: dotted_parts list_all_iff)
  ultimately show ?thesis
    by (auto simp: to_ascii_lowercase_def list_all_iff intro!: map_idI)
qed

lemma starts_with_Nil: "starts_with [] s"
  by (simp add: starts_with_def)

lemma starts_with_Cons: "starts_with (c # p) (d # s) \<longleftrightarrow> c = d \<and> starts_with p s"
  by (auto simp: starts_with_def)

lemma digits_prefix:
  "list_all is_ascii_digit p \<Longrightarrow> list_all is_ascii_digit s \<Longrightarrow>
   starts_with (p @ CHR ''.'' # q) (s @ CHR ''.'' # r) \<longleftrightarrow> s = p \<and> starts_with q r"
proof (induction p arbitrary: s)
  case Nil
  then show ?case by (cases s) (auto simp: starts_with_Cons is_ascii_digit_def)
next
  case (Cons c p)
  then show ?case by (cases s) (auto simp: starts_with_Cons is_ascii_digit_def)
qed

lemma number_prefix:
  "starts_with (show_nat m @ CHR ''.'' # q) (show_nat n @ CHR ''.'' # r) \<longleftrightarrow> n = m \<and> starts_with q r"
  by (simp add: digits_prefix show_nat_digits show_nat_inject)

lemma shown:
  "''10'' = show_nat 10" "''172'' = show_nat 172" "''192'' = show_nat 192" "''168'' = show_nat 168"
  "''16'' = show_nat 16" "''17'' = show_nat 17" "''18'' = show_nat 18" "''19'' = show_nat 19"
  "''30'' = show_nat 30" "''31'' = show_nat 31" "''127'' = show_nat 127" "''169'' = show_nat 169"
  "''254'' = show_nat 254" "''0'' = show_nat 0" "''1'' = show_nat 1"
  by (simp_all add: show_nat.simps digit_char_def char_eval)

lemma lead_digit:
  assumes "b < 256"
  shows "starts_with ''2'' (show_nat b @ s) \<longleftrightarrow> b = 2 \<or> 20 \<le> b \<and> b < 30 \<or> 200 \<le> b"
proof -
  have d: "digit_char k = CHR ''2'' \<longleftrightarrow> k = 2" if "k < 10" for k
  proof
    assume "digit_char k = CHR ''2''"
    then have "digit_val (digit_char k) = digit_val CHR ''2''" by simp
    with digit_val_char [OF that] show "k = 2" by (simp add: digit_val_def)
  qed (simp add: digit_char_def char_eval)
  have "show_nat b = [digit_char b]" if "b < 10"
    using that by (simp add: show_nat.simps [of b])
  moreover have "show_nat b = [digit_char (b div 10), digit_char (b mod 10)]" if "10 \<le> b" "b < 100"
    using that by (simp add: show_nat.simps [of b] show_nat.simps [of "b div 10"])
  moreover have "show_nat b = [digit_char (b div 100), digit_char (b div 10 mod 10), digit_char (b mod 10)]"
    if "100 \<le> b"
  proof -
    have "\<not> b < 10" "\<not> b div 10 < 10" "b div 10 div 10 < 10" "b div 10 div 10 = b div 100"
      using that assms by linarith+
    then show ?thesis
      by (simp add: show_nat.simps [of b] show_nat.simps [of "b div 10"] show_nat.simps [of "b div 100"])
  qed
  moreover have "b div 100 = 2 \<longleftrightarrow> 200 \<le> b" "b div 10 = 2 \<longleftrightarrow> 20 \<le> b \<and> b < 30" if "b < 256"
    using that by linarith+
  ultimately show ?thesis
    using assms by (cases "b < 10"; cases "b < 100") (auto simp: starts_with_def d)
qed

lemma blocked_prefix_iff:
  assumes "b < 256"
  shows "list_ex (\<lambda>p. starts_with p (dotted a b c d)) blocked_prefixes
    \<longleftrightarrow> a = 10 \<or> a = 172 \<and> (16 \<le> b \<and> b < 32 \<or> b = 2 \<or> 200 \<le> b) \<or> a = 192 \<and> b = 168"
proof -
  let ?t = "show_nat c @ CHR ''.'' # show_nat d"
  have one: "starts_with (show_nat m @ ''.'') (dotted a b c d) \<longleftrightarrow> a = m" for m
    using number_prefix [of m "[]"] by (simp add: dotted_parts starts_with_Nil)
  have two: "starts_with (show_nat m @ CHR ''.'' # show_nat n @ ''.'') (dotted a b c d) \<longleftrightarrow> a = m \<and> b = n"
    for m n
    using number_prefix [of n "[]" b ?t] by (simp add: dotted_parts number_prefix starts_with_Nil)
  have lead: "starts_with (show_nat 172 @ CHR ''.'' # ''2'') (dotted a b c d)
      \<longleftrightarrow> a = 172 \<and> (b = 2 \<or> 20 \<le> b \<and> b < 30 \<or> 200 \<le> b)"
    using lead_digit [OF assms] by (simp add: dotted_parts number_prefix)
  have shape: "blocked_prefixes = [show_nat 10 @ ''.'', show_nat 172 @ CHR ''.'' # show_nat 16 @ ''.'',
      show_nat 172 @ CHR ''.'' # show_nat 17 @ ''.'', show_nat 172 @ CHR ''.'' # show_nat 18 @ ''.'',
      show_nat 172 @ CHR ''.'' # show_nat 19 @ ''.'', show_nat 172 @ CHR ''.'' # ''2'',
      show_nat 172 @ CHR ''.'' # show_nat 30 @ ''.'', show_nat 172 @ CHR ''.'' # show_nat 31 @ ''.'',
      show_nat 192 @ CHR ''.'' # show_nat 168 @ ''.'']"
    by (simp add: blocked_prefixes_def shown [symmetric])
  show ?thesis unfolding shape by (simp add: one two lead) arith
qed

lemma dotted_last: "is_ascii_digit (last (dotted a b c d))"
  using show_nat_digits [of d] last_in_set [OF show_nat_nonempty, of d]
  by (auto simp: dotted_parts list_all_iff)

lemma dotted_hd: "is_ascii_digit (hd (dotted a b c d))"
  using show_nat_hd_digit [of a] by (simp add: dotted_parts hd_append)

lemma ends_with_last: "ends_with p s \<Longrightarrow> p \<noteq> [] \<Longrightarrow> last s = last p"
  by (auto simp: ends_with_def) (metis drop_all last_drop leI)

lemma blocked_names_iff:
  "dotted a b c d \<in> set blocked_hosts
   \<longleftrightarrow> (a, b, c, d) \<in> {(127, 0, 0, 1), (0, 0, 0, 0), (169, 254, 169, 254)}"
proof -
  have "s \<noteq> dotted a b c d" if "\<not> is_ascii_digit (hd s)" for s
    using that dotted_hd by metis
  then have names: "''localhost'' \<noteq> dotted a b c d" "''::1'' \<noteq> dotted a b c d"
    "''metadata.google.internal'' \<noteq> dotted a b c d"
    by (simp_all add: is_ascii_digit_def)
  have "''127.0.0.1'' = dotted 127 0 0 1" "''0.0.0.0'' = dotted 0 0 0 0"
    "''169.254.169.254'' = dotted 169 254 169 254"
    by (simp_all add: dotted_parts shown [symmetric] del: One_nat_def)
  with names show ?thesis
    unfolding blocked_hosts_def by (simp add: dotted_inject names [symmetric])
qed

text \<open>
  Which IPv4 hosts the proxy refuses to scrape, exactly. The private blocks 10/8, 172.16/12
  and 192.168/16 are refused, and of the loopback, unspecified and link-local addresses only
  127.0.0.1, 0.0.0.0 and 169.254.169.254: the rest of 127/8 and 169.254/16 may be scraped. The
  prefix \<open>172.2\<close> also refuses the public addresses under 172.2/16 and 172.200/16 to 172.255/16.
\<close>

theorem ipv4_host_blocked_iff:
  assumes "a < 256" and "b < 256" and "c < 256" and "d < 256"
  shows "host_blocked (dotted a b c d) \<longleftrightarrow>
    a = 10 \<or> a = 172 \<and> 16 \<le> b \<and> b < 32 \<or> a = 192 \<and> b = 168
    \<or> a = 172 \<and> (b = 2 \<or> 200 \<le> b)
    \<or> (a, b, c, d) \<in> {(127, 0, 0, 1), (0, 0, 0, 0), (169, 254, 169, 254)}"
proof -
  have "\<not> ends_with p (dotted a b c d)" if "p \<noteq> []" "\<not> is_ascii_digit (last p)" for p
    using that ends_with_last dotted_last by metis
  then have "\<not> list_ex (\<lambda>p. ends_with p (dotted a b c d)) blocked_suffixes"
    by (simp add: blocked_suffixes_def is_ascii_digit_def)
  then show ?thesis
    unfolding host_blocked_def Let_def dotted_lower blocked_names_iff blocked_prefix_iff [OF assms(2)]
    by blast
qed

theorem ipv4_host_blocked_iff_witness:
  "host_blocked (dotted 172 31 0 9) \<and> host_blocked (dotted 172 217 16 46) \<and> \<not> host_blocked (dotted 127 0 0 2)"
  by (simp add: ipv4_host_blocked_iff)

section \<open>What a paying client is answered\<close>

text \<open>The limiter has no room: the client's window is open and has had its number of requests. A client
  with no window opens one now.\<close>

definition over_limit :: "rate_limiter \<Rightarrow> instant \<Rightarrow> string \<Rightarrow> bool" where
  "over_limit rl t ip \<longleftrightarrow>
     (\<exists>count start. (rl_windows rl ip = Some (count, start) \<or> rl_windows rl ip = None \<and> count = 0 \<and> start = t)
       \<and> t - start \<le> unat (rl_window_secs rl) * 1000000000 \<and> unat (rl_max_requests rl) \<le> unat count)"

lemma limiter_check_iff: "snd (limiter_check rl t ip) \<longleftrightarrow> \<not> over_limit rl t ip"
  by (cases "rl_windows rl ip")
    (auto simp: limiter_check_def over_limit_def secs_def word_le_nat_alt not_less split: prod.splits)

text \<open>The hosts a URL must not have, in lower case.\<close>

definition internal_host :: "string \<Rightarrow> bool" where
  "internal_host h \<longleftrightarrow>
     h \<in> {''localhost'', ''127.0.0.1'', ''0.0.0.0'', ''::1'', ''metadata.google.internal'', ''169.254.169.254''}
     \<or> (\<exists>net \<in> {''10.'', ''172.16.'', ''172.17.'', ''172.18.'', ''172.19.'', ''172.2'', ''172.30.'', ''172.31.'',
           ''192.168.''}. \<exists>rest. h = net @ rest)
     \<or> (\<exists>domain \<in> {''.internal'', ''.local''}. \<exists>front. h = front @ domain)"

definition public_url :: "(string \<Rightarrow> string + parsed_url) \<Rightarrow> string \<Rightarrow> string \<Rightarrow> bool" where
  "public_url parse input url \<longleftrightarrow>
     (\<exists>parsed host. parse input = Inr parsed \<and> (url_scheme parsed = ''http'' \<or> url_scheme parsed = ''https'')
       \<and> url_host parsed = Some host \<and> \<not> internal_host (to_ascii_lowercase host) \<and> url = url_string parsed)"

lemma ends_with_iff: "ends_with p s \<longleftrightarrow> (\<exists>front. s = front @ p)"
proof
  assume "ends_with p s"
  then have "s = take (length s - length p) s @ p"
    unfolding ends_with_def by (metis append_take_drop_id)
  then show "\<exists>front. s = front @ p" by blast
qed (auto simp: ends_with_def)

lemma host_blocked_iff: "host_blocked host \<longleftrightarrow> internal_host (to_ascii_lowercase host)"
  unfolding host_blocked_def internal_host_def blocked_hosts_def blocked_prefixes_def blocked_suffixes_def
  by (simp add: Let_def ends_with_iff starts_with_iff)

lemma validate_scrape_url_iff: "validate_scrape_url parse input = Inr url \<longleftrightarrow> public_url parse input url"
proof (cases "parse input")
  case (Inr parsed)
  show ?thesis
  proof (cases "url_scheme parsed = ''http'' \<or> url_scheme parsed = ''https''")
    case True
    then have s: "url_scheme parsed \<in> {''http'', ''https''}" by simp
    show ?thesis
    proof (cases "url_host parsed")
      case None
      with Inr s show ?thesis
        unfolding validate_scrape_url_def public_url_def by (simp del: insert_iff)
    next
      case (Some host)
      have "(\<exists>p h. parse input = Inr p \<and> (url_scheme p = ''http'' \<or> url_scheme p = ''https'')
          \<and> url_host p = Some h \<and> \<not> internal_host (to_ascii_lowercase h) \<and> url = url_string p)
        \<longleftrightarrow> \<not> internal_host (to_ascii_lowercase host) \<and> url = url_string parsed"
        using Inr Some True by simp
      with Inr s Some show ?thesis
        unfolding validate_scrape_url_def public_url_def host_blocked_iff by (auto simp del: insert_iff)
    qed
  next
    case False
    with Inr show ?thesis by (auto simp: validate_scrape_url_def public_url_def)
  qed
qed (simp add: validate_scrape_url_def public_url_def)

text \<open>The receipt is on a response if it prints to a header value.\<close>

definition carries :: "crates \<Rightarrow> (string \<Rightarrow> bool) \<Rightarrow> receipt \<Rightarrow> http_response \<Rightarrow> bool" where
  "carries X hv r resp \<longleftrightarrow>
     (\<forall>h. format_receipt X r = Inr h \<and> hv h \<longrightarrow> (''payment-receipt'', h) \<in> set (hr_headers resp))"

lemma with_receipt_carries: "carries X hv r (with_receipt X hv r resp)"
  by (simp add: carries_def with_receipt_def)

text \<open>One call of Firecrawl, and the answer to the client made of its answer.\<close>

definition relays ::
  "crates \<Rightarrow> (string \<Rightarrow> bool) \<Rightarrow> 'w caller \<Rightarrow> string \<Rightarrow> string \<Rightarrow> json \<Rightarrow> receipt \<Rightarrow> 'w \<Rightarrow> http_response \<Rightarrow> 'w
   \<Rightarrow> bool" where
  "relays X hv up key path request r w resp w' \<longleftrightarrow>
     (\<exists>answer. up (''https://api.firecrawl.dev'' @ path) [(''authorization'', ''Bearer '' @ key)] request w
         = (answer, w')
       \<and> (case answer of
            Response status text \<Rightarrow>
              let doc = (case json_from_slice X (as_bytes text) of
                  Inr j \<Rightarrow> j | Inl _ \<Rightarrow> error_json ''failed to parse Firecrawl response'') in
              if 200 \<le> status \<and> status < 300
              then hr_status resp = 200 \<and> hr_body resp = json_text X doc \<and> carries X hv r resp
              else resp = json_response X 502 doc
          | Transport_Error e \<Rightarrow>
              resp = json_response X 502 (error_json (''Firecrawl request failed: '' @ e))))"

lemma forward_relays:
  assumes "forward X hv up key path request r w = (resp, w')"
  shows "relays X hv up key path request r w resp w'"
proof -
  have doc: "(case response_value X s of Inr j \<Rightarrow> j | Inl _ \<Rightarrow> d)
      = (case json_from_slice X (as_bytes s) of Inr j \<Rightarrow> j | Inl _ \<Rightarrow> d)" for s d
    by (cases "json_from_slice X (as_bytes s)")
      (simp_all add: response_value_def response_json_def from_slice_def from_value_def)
  show ?thesis
    using assms
    by (auto simp: forward_def relays_def doc FIRECRAWL_BASE_def is_success_status_def Let_def
        with_receipt_carries split: prod.splits http_result.splits if_splits)
qed

text \<open>What a paid request is answered, and the world after it: \<open>request_of\<close> is the document sent for a URL.\<close>

definition paid_answer ::
  "crates \<Rightarrow> (string \<Rightarrow> bool) \<Rightarrow> (string \<Rightarrow> string + parsed_url) \<Rightarrow> 'w caller \<Rightarrow> instant \<Rightarrow> json app_request \<Rightarrow> json
   \<Rightarrow> firecrawl_state \<Rightarrow> string \<Rightarrow> (string \<Rightarrow> json) \<Rightarrow> receipt \<Rightarrow> 'w \<Rightarrow> http_response \<Rightarrow> 'w \<Rightarrow> bool" where
  "paid_answer X hv parse up t req body st path request_of r w resp w' \<longleftrightarrow>
     (let input = (case json_get ''url'' body of Some (JStr s) \<Rightarrow> s | _ \<Rightarrow> ''https://example.com'') in
      if over_limit (fc_rate_limiter st) t (get_client_ip req)
      then resp = json_response X 429 (error_json ''Rate limit exceeded. Try again in a minute.'') \<and> w' = w
      else (\<forall>url. public_url parse input url \<longrightarrow>
             relays X hv up (fc_api_key st) path (request_of url) r w resp w')
         \<and> ((\<nexists>url. public_url parse input url) \<longrightarrow>
             hr_status resp = 400 \<and> \<not> has_receipt resp \<and> w' = w))"

definition asked_pages :: "json \<Rightarrow> int" where
  "asked_pages body =
     (case json_get ''limit'' body of
        Some (JInt n) \<Rightarrow> if 0 \<le> n \<and> n < 2 ^ 64 then min n 20 else 5
      | _ \<Rightarrow> 5)"

lemma crawl_limit_asked: "uint (crawl_limit body) = asked_pages body"
proof (cases "json_get ''limit'' body")
  case (Some j)
  have "uint (min (word_of_int n) 20 :: u64) = min n 20" if "0 \<le> n" "n < 2 ^ 64" for n
    using that by (simp add: min_def word_le_def uint_word_of_int take_bit_int_eq_self)
  then show ?thesis using Some by (cases j) (simp_all add: crawl_limit_def asked_pages_def)
qed (simp add: crawl_limit_def asked_pages_def)

lemma raw_url_input:
  "raw_url body = (case json_get ''url'' body of Some (JStr s) \<Rightarrow> s | _ \<Rightarrow> ''https://example.com'')"
  by (cases "json_get ''url'' body"; simp add: raw_url_def get_str_def)
    (cases "the (json_get ''url'' body)"; simp)

lemma admit_url_cases:
  assumes "admit_url X parse t req body st = (outcome, st')"
  shows "fc_api_key st' = fc_api_key st"
    and "over_limit (fc_rate_limiter st) t (get_client_ip req) \<Longrightarrow>
      outcome = Inl (json_response X 429 (error_json ''Rate limit exceeded. Try again in a minute.''))"
    and "\<not> over_limit (fc_rate_limiter st) t (get_client_ip req) \<Longrightarrow>
      outcome = map_err (\<lambda>e. json_response X 400 (error_json e)) (validate_scrape_url parse (raw_url body))"
  using assms limiter_check_iff [of "fc_rate_limiter st" t "get_client_ip req"]
  by (auto simp: admit_url_def split: prod.splits)

lemma admitted_answer:
  assumes "admit_url X parse t req body st = (outcome, st')"
    and "\<And>resp'. outcome = Inl resp' \<Longrightarrow> resp = resp' \<and> w' = w"
    and "\<And>url. outcome = Inr url \<Longrightarrow>
      forward X hv up (fc_api_key st') path (request_of url) r w = (resp, w')"
  shows "paid_answer X hv parse up t req body st path request_of r w resp w'"
proof (cases "over_limit (fc_rate_limiter st) t (get_client_ip req)")
  case True
  with admit_url_cases(2) [OF assms(1)] assms(2) show ?thesis by (simp add: paid_answer_def)
next
  case False
  note out = admit_url_cases(3) [OF assms(1) False]
  show ?thesis
  proof (cases "validate_scrape_url parse (raw_url body)")
    case (Inl e)
    then have "\<not> public_url parse (raw_url body) url" for url
      using validate_scrape_url_iff [of parse "raw_url body" url] by simp
    then show ?thesis
      using False out Inl assms(2) by (simp add: paid_answer_def raw_url_input [symmetric])
  next
    case (Inr url)
    then have "public_url parse (raw_url body) u \<longleftrightarrow> u = url" for u
      using validate_scrape_url_iff [of parse "raw_url body" u] by auto
    moreover have "relays X hv up (fc_api_key st) path (request_of url) r w resp w'"
      using forward_relays assms(3) out Inr admit_url_cases(1) [OF assms(1)] by fastforce
    ultimately show ?thesis
      using False by (simp add: paid_answer_def raw_url_input [symmetric])
  qed
qed

text \<open>
  C30: the answer to a paid request of the Firecrawl proxy, for both routes. With the limiter's
  window full it is a 429, and with a URL that does not parse, is not http or https, has no host or
  an internal one, a 400 without a receipt; in both cases Firecrawl is not called. Otherwise
  Firecrawl is called once, with the key and the URL as parsed, and a 2xx answer is passed on as
  200 with the receipt, any other as 502. A crawl asks for the pages the client asked for, 5
  by default and never more than 20. The payment was verified before all of these, so where there
  is no receipt it is spent and leaves no trace.
\<close>

theorem paid_firecrawl_outcome:
  assumes "extract_charge C now amount description (aq_authorization req) = Inr r"
    and "aq_body req = Inr body"
  shows "(charged_route hv C now amount description (scrape X hv parse up t req) req (st, w) = (resp, st', w')
      \<longrightarrow> paid_answer X hv parse up t req body st ''/v1/scrape''
        (\<lambda>url. JObj [(''url'', JStr url), (''formats'', JArr [JStr ''markdown''])]) r w resp w')
    \<and> (charged_route hv C now amount description (crawl X hv parse up t req) req (st, w) = (resp, st', w')
      \<longrightarrow> paid_answer X hv parse up t req body st ''/v1/crawl''
        (\<lambda>url. JObj [(''url'', JStr url), (''limit'', JInt (asked_pages body))]) r w resp w')"
proof -
  obtain outcome st1 where a: "admit_url X parse t req body st = (outcome, st1)" by fastforce
  show ?thesis
    unfolding charged_route_def assms sum.case scrape_def crawl_def fst_conv snd_conv a prod.case
      crawl_limit_asked
    by (intro conjI impI; rule admitted_answer [OF a]) (auto split: sum.splits prod.splits)
qed

definition sample_firecrawl_request :: "json app_request" where
  "sample_firecrawl_request = \<lparr>aq_forwarded_for = None, aq_peer_ip = ''1.2.3.4'',
     aq_authorization = Some ''Payment x'', aq_body = Inr JNull\<rparr>"

definition sample_challenger :: challenger where
  "sample_challenger = \<lparr>cc_challenge = \<lambda>_ _ _. Inl ''no challenge'',
     cc_verify_payment = \<lambda>_ s. Inr (receipt_success sample_crates 0 ''movement'' s)\<rparr>"

text \<open>A URL crate that knows one public URL, and a service that counts its calls.\<close>

definition sample_urls :: "string \<Rightarrow> string + parsed_url" where
  "sample_urls input = Inr \<lparr>url_scheme = ''https'', url_host = Some ''example.com'',
     url_string = ''https://example.com/''\<rparr>"

definition counting_service :: "nat caller" where
  "counting_service url headers body calls = (Response 200 ''x'', Suc calls)"

lemma sample_public: "public_url sample_urls input ''https://example.com/''"
  by (simp add: public_url_def sample_urls_def internal_host_def to_ascii_lowercase_def to_lower_def
      is_ascii_uppercase_def Cons_eq_append_conv append_eq_Cons_conv)

theorem paid_firecrawl_outcome_witness:
  "\<exists>resp st'. charged_route (\<lambda>_. True) sample_challenger 0 ''0.01'' None
       (scrape sample_crates (\<lambda>_. True) sample_urls counting_service 0 sample_firecrawl_request)
       sample_firecrawl_request (\<lparr>fc_api_key = [], fc_rate_limiter = rate_limiter_new 1 60\<rparr>, 0)
     = (resp, st', 1)
     \<and> hr_status resp = 200
     \<and> carries sample_crates (\<lambda>_. True) (receipt_success sample_crates 0 ''movement'' ''Payment x'') resp"
proof -
  let ?st = "\<lparr>fc_api_key = [], fc_rate_limiter = rate_limiter_new 1 60\<rparr>"
  have paid: "extract_charge sample_challenger 0 ''0.01'' None (aq_authorization sample_firecrawl_request)
      = Inr (receipt_success sample_crates 0 ''movement'' ''Payment x'')"
    by (simp add: extract_charge_def sample_firecrawl_request_def sample_challenger_def
        extract_payment_scheme_def str_trim_def trim_start_def trim_end_def is_whitespace_def get_to_def
        is_some_and_def eq_ignore_ascii_case_def to_ascii_lowercase_def to_lower_def is_ascii_uppercase_def char_eval)
  have body: "aq_body sample_firecrawl_request = Inr JNull"
    by (simp add: sample_firecrawl_request_def)
  have free: "\<not> over_limit (fc_rate_limiter ?st) t ip" for t ip
    by (simp add: over_limit_def rate_limiter_new_def)
  obtain resp st' w' where route: "charged_route (\<lambda>_. True) sample_challenger 0 ''0.01'' None
       (scrape sample_crates (\<lambda>_. True) sample_urls counting_service 0 sample_firecrawl_request)
       sample_firecrawl_request (?st, 0) = (resp, st', w')"
    using prod_cases3 by metis
  from paid_firecrawl_outcome [OF paid body, THEN conjunct1, THEN mp, OF route]
  have "paid_answer sample_crates (\<lambda>_. True) sample_urls counting_service 0 sample_firecrawl_request JNull ?st
      ''/v1/scrape'' (\<lambda>url. JObj [(''url'', JStr url), (''formats'', JArr [JStr ''markdown''])])
      (receipt_success sample_crates 0 ''movement'' ''Payment x'') 0 resp w'" .
  then have "relays sample_crates (\<lambda>_. True) counting_service [] ''/v1/scrape''
      (JObj [(''url'', JStr ''https://example.com/''), (''formats'', JArr [JStr ''markdown''])])
      (receipt_success sample_crates 0 ''movement'' ''Payment x'') 0 resp w'"
    using free sample_public by (simp add: paid_answer_def Let_def)
  then have "w' = 1 \<and> hr_status resp = 200
      \<and> carries sample_crates (\<lambda>_. True) (receipt_success sample_crates 0 ''movement'' ''Payment x'') resp"
    by (simp add: relays_def counting_service_def Let_def)
  with route show ?thesis by blast
qed

section \<open>Retries\<close>

lemma retry_from_spec:
  assumes "attempt \<le> Suc n"
  shows "retry_from f n attempt e =
    ((case find (\<lambda>k. is_ok (f k)) [attempt..<Suc n] of
        Some k \<Rightarrow> f k | None \<Rightarrow> if attempt = Suc n then Inl e else f n),
     map (\<lambda>k. 500 * k) (takeWhile (\<lambda>k. \<not> is_ok (f k)) [attempt..<n]))"
  using assms
proof (induction "Suc n - attempt" arbitrary: attempt e)
  case 0
  then show ?case by (simp add: retry_from.simps)
next
  case (Suc d)
  then have le: "attempt \<le> n" by simp
  then have up: "[attempt..<Suc n] = attempt # [Suc attempt..<Suc n]" by (simp add: upt_rec)
  show ?case
  proof (cases "f attempt")
    case (Inr v)
    with le show ?thesis
      by (subst retry_from.simps) (simp add: up upt_rec [of attempt n] del: upt_Suc)
  next
    case (Inl e')
    from Suc have "retry_from f n (Suc attempt) e' =
      ((case find (\<lambda>k. is_ok (f k)) [Suc attempt..<Suc n] of
          Some k \<Rightarrow> f k | None \<Rightarrow> if Suc attempt = Suc n then Inl e' else f n),
       map (\<lambda>k. 500 * k) (takeWhile (\<lambda>k. \<not> is_ok (f k)) [Suc attempt..<n]))"
      by (intro Suc.hyps(1)) auto
    with le Inl show ?thesis
      by (subst retry_from.simps) (cases "attempt = n"; simp add: up upt_rec [of attempt n] upt_rec [of n "Suc n"] del: upt_Suc)
  qed
qed

text \<open>
  A retried call returns the first success among its attempts, or the error of the last
  one; an empty budget is the empty error. It pauses after every failed attempt but the last,
  half a second longer each time.
\<close>

theorem retry_first_success:
  "retry_pauses f n =
   ((case find (\<lambda>k. is_ok (f k)) [1..<n + 1] of
       Some k \<Rightarrow> f k | None \<Rightarrow> if n = 0 then Inl [] else f n),
    map (\<lambda>k. 500 * k) (takeWhile (\<lambda>k. \<not> is_ok (f k)) [1..<n]))"
  using retry_from_spec [of 1 n f "[]"] by (simp add: retry_pauses_def del: upt_Suc)

section \<open>Escaping\<close>

text \<open>A reader of the four entities.\<close>

fun html_unescape :: "string \<Rightarrow> string" where
  "html_unescape [] = []"
| "html_unescape (c # s) =
     (if starts_with ''amp;'' s \<and> c = CHR ''&'' then CHR ''&'' # html_unescape (drop 4 s)
      else if starts_with ''lt;'' s \<and> c = CHR ''&'' then CHR ''<'' # html_unescape (drop 3 s)
      else if starts_with ''gt;'' s \<and> c = CHR ''&'' then CHR ''>'' # html_unescape (drop 3 s)
      else if starts_with ''quot;'' s \<and> c = CHR ''&'' then CHR 0x22 # html_unescape (drop 5 s)
      else c # html_unescape s)"

lemma html_escape_Cons:
  "html_escape (c # s) =
   (if c = CHR ''&'' then ''&amp;'' else if c = CHR ''<'' then ''&lt;'' else if c = CHR ''>'' then ''&gt;''
    else if c = CHR 0x22 then ''&quot;'' else [c]) @ html_escape s"
  "html_escape [] = []"
  by (simp_all add: html_escape_def)

text \<open>
  Escaped text is inert and nothing is lost: it has no angle bracket and no double quote,
  so it can't open a tag or leave an attribute, and reading the entities gives the text back.
\<close>

theorem html_escape_inert:
  "html_unescape (html_escape s) = s
   \<and> CHR ''<'' \<notin> set (html_escape s) \<and> CHR ''>'' \<notin> set (html_escape s) \<and> CHR 0x22 \<notin> set (html_escape s)"
  by (induction s) (auto simp: html_escape_Cons starts_with_def)

section \<open>What the pipeline reports\<close>


definition empty_upstream :: upstream where
  "empty_upstream url headers body = Response 200 ''x''"

definition empty_world :: crates where
  "empty_world = sample_crates\<lparr>json_from_slice := \<lambda>_. Inr (JObj [])\<rparr>"

definition sample_pipeline_request :: pipeline_request where
  "sample_pipeline_request = \<lparr>pq_query = ''tea'', pq_email = ''a@b'', pq_num_results = None\<rparr>"

lemma empty_calls:
  "exa_search empty_world empty_upstream cfg q n = Inr []"
  "fal_generate_image empty_world empty_upstream cfg prompt = Inl ''No image URL in fal.ai response''"
  "resend_send empty_world empty_upstream cfg a s h = Inr ''unknown''"
  by (simp_all add: exa_search_def fal_generate_image_def resend_send_def upstream_answer_def
      empty_upstream_def is_success_status_def response_value_def response_json_def from_slice_def
      from_value_def empty_world_def json_at_def str_at_def)

lemma retry_const: "retry (\<lambda>_. r) 2 = r" "retry (\<lambda>_. r) 3 = r"
  by (cases r; simp add: retry_def retry_pauses_def retry_from.simps)+

definition sample_pipeline_config :: pipeline_config where
  "sample_pipeline_config = \<lparr>pl_exa_api_key = [], pl_fal_api_key = [], pl_resend_api_key = [],
     pl_from_email = []\<rparr>"

definition sample_peer :: "pipeline_request app_request" where
  "sample_peer = \<lparr>aq_forwarded_for = None, aq_peer_ip = ''1.2.3.4'', aq_authorization = None,
     aq_body = Inr sample_pipeline_request\<rparr>"


end
