(* ===== verification/Multifetch_Server.thy ===== *)
theory Multifetch_Server
  imports App_Http Client_Movement
begin

text \<open>
  The multi-fetch session server (examples/rust/src/multifetch_server.rs): a page for every
  voucher the session method accepts, and a close of the channel with the best voucher in the
  in-memory store. A panic (\<open>expect\<close>) is \<open>None\<close>. The state is the channel store.
\<close>

definition MULTIFETCH_MODULE :: string where
  "MULTIFETCH_MODULE = ''0x74f1060add0c641a0c10bb5bab2bf5fd05f94d7c25055f2419fa82d7bbf2b1e8''"

definition AMOUNT_PER_REQUEST :: string where "AMOUNT_PER_REQUEST = ''100000''"
definition SUGGESTED_DEPOSIT :: string where "SUGGESTED_DEPOSIT = ''1000000''"

definition parse_credential :: "crates \<Rightarrow> string option \<Rightarrow> payment_credential option" where
  "parse_credential X authorization =
     Option.bind authorization (\<lambda>s. ok_opt (parse_authorization X s))"

definition scrape_page :: "string \<Rightarrow> string" where
  "scrape_page url = ''<h1>'' @ url @ ''</h1><p>Scraped content from '' @ url
     @ ''. This is mock data returned by the Movement MPP multi-fetch example.</p>''"

definition page_options :: movement_session_options where
  "page_options = no_session_options\<lparr>mo_unit_type := Some ''request'',
     mo_suggested_deposit := Some SUGGESTED_DEPOSIT, mo_module_address := Some MULTIFETCH_MODULE\<rparr>"

definition multifetch_challenge ::
  "crates \<Rightarrow> (string \<Rightarrow> bool) \<Rightarrow> int \<Rightarrow> 's mpp \<Rightarrow> http_response option" where
  "multifetch_challenge X hv now m =
     Option.bind (ok_opt (movement_session_challenge X now m AMOUNT_PER_REQUEST page_options)) (\<lambda>challenge.
     Option.bind (ok_opt (format_www_authenticate challenge)) (\<lambda>www_auth.
     Some (with_header hv ''www-authenticate'' www_auth (json_response X 402 (JObj
       [(''error'', JStr ''Payment Required''), (''amount_per_request'', JStr AMOUNT_PER_REQUEST),
        (''suggested_deposit'', JStr SUGGESTED_DEPOSIT), (''currency'', JStr ''0xa'')])))))"

definition receipt_or_empty :: "crates \<Rightarrow> receipt \<Rightarrow> string" where
  "receipt_or_empty X r = (case format_receipt X r of Inr h \<Rightarrow> h | Inl _ \<Rightarrow> [])"

definition page_json :: "string \<Rightarrow> json" where
  "page_json page_url = JObj [(''content'', JStr (scrape_page page_url)), (''url'', JStr page_url)]"

definition multifetch_scrape ::
  "crates \<Rightarrow> (string \<Rightarrow> bool) \<Rightarrow> int \<Rightarrow> 's mpp \<Rightarrow> string option \<Rightarrow> string option \<Rightarrow> 's
   \<Rightarrow> http_response option \<times> 's" where
  "multifetch_scrape X hv now m authorization url st =
     (let page_url = unwrap_or ''https://example.com'' url in
      case parse_credential X authorization of
        None \<Rightarrow> (multifetch_challenge X hv now m, st)
      | Some credential \<Rightarrow>
          (case mpp_verify_session X now m credential st of
             (Inr result, st') \<Rightarrow>
               (Some (with_header hv ''payment-receipt'' (receipt_or_empty X (sv_receipt result))
                 (json_response X 200
                   (case sv_management_response result of
                      Some mgmt \<Rightarrow> mgmt | None \<Rightarrow> page_json page_url))), st')
           | (Inl e, st') \<Rightarrow> (multifetch_challenge X hv now m, st')))"

definition multifetch_close ::
  "crates \<Rightarrow> network \<Rightarrow> int \<Rightarrow> movement_provider \<Rightarrow> string \<Rightarrow> mem_store \<Rightarrow> json" where
  "multifetch_close X net now provider channel_id_hex store =
     (case hex_decode X (strip_0x channel_id_hex) of
        Inl _ \<Rightarrow> error_json ''invalid channel_id hex''
      | Inr channel_id_bytes \<Rightarrow>
          (case get_channel_sync store channel_id_hex of
             None \<Rightarrow> error_json ''channel not found in store''
           | Some channel \<Rightarrow>
               if cs_finalized channel then error_json ''channel already finalized''
               else
                 let cumulative_amount = cs_highest_voucher_amount channel;
                     signature = unwrap_or [] (cs_highest_voucher_signature channel);
                     pubkey = cs_authorized_signer_pubkey channel in
                 if cumulative_amount = 0 then error_json ''no vouchers to settle''
                 else case close_channel X net now provider MULTIFETCH_MODULE MULTIFETCH_MODULE
                        channel_id_bytes cumulative_amount signature pubkey of
                   Inr tx \<Rightarrow> JObj
                     [(''status'', JStr ''closed''), (''close_tx'', JStr tx),
                      (''settled'', JStr (show_u64 cumulative_amount)),
                      (''deposit'', JStr (show_u64 (cs_deposit channel))),
                      (''refund'', JStr (show_u64 (saturating_sub (cs_deposit channel) cumulative_amount)))]
                 | Inl e \<Rightarrow> error_json (''close failed: '' @ mpp_error_display e)))"

text \<open>The server of the program: the builder's handler with a session method over the in-memory
  store.\<close>

definition multifetch_config :: session_method_config where
  "multifetch_config = \<lparr>cfg_module_address = MULTIFETCH_MODULE, cfg_registry_address = MULTIFETCH_MODULE,
     cfg_rest_url = DEFAULT_REST_URL_TESTNET, cfg_token_metadata = MOVE_TOKEN_METADATA,
     cfg_min_voucher_delta = 0\<rparr>"

definition multifetch_mpp ::
  "crates \<Rightarrow> network \<Rightarrow> (string \<Rightarrow> string option) \<Rightarrow> string \<Rightarrow> mpp_error + mem_store mpp" where
  "multifetch_mpp X net env server_address =
     and_then (create_movement X net env
       (builder_decimals 8 (builder_secret_key
         (unwrap_or ''multifetch-example-secret'' (env ''MPP_SECRET_KEY''))
         (builder_rest_url DEFAULT_REST_URL_TESTNET (movement_builder_new env server_address)))))
       (\<lambda>base. Inr (with_session_method (movement_session_method X net multifetch_config mem_channels) base))"

end
