(* ===== verification/Multifetch_Claims.thy ===== *)
theory Multifetch_Claims
  imports Session_Claims Multifetch_Server
begin

text \<open>
  The multi-fetch server against the session method it uses: what a voucher buys there.
\<close>

lemma handle_voucher_again:
  assumes "handle_voucher X now cfg mem_channels d cid amt sig st = (Inr r, st')"
  shows "\<exists>c. st' cid = Some c \<and> handle_voucher X later cfg mem_channels d cid amt sig st'
    = (Inr (receipt_success X later METHOD_NAME (cs_channel_id c)), st')"
proof -
  obtain c n sb where c: "st cid = Some c" "parse_u64 amt = Some n" "hex_decode X (strip_0x sig) = Inr sb"
    "voucher_acceptable X (resolve_min_delta cfg d) cid c n sb"
    and st': "st' = (if cs_highest_voucher_amount c < n then st(cid \<mapsto> raise_voucher c n sb) else st)"
    using assms unfolding handle_voucher_iff by blast
  show ?thesis
  proof (cases "cs_highest_voucher_amount c < n")
    case True
    let ?c = "raise_voucher c n sb"
    have "voucher_acceptable X (resolve_min_delta cfg d) cid ?c n sb"
      using c(4) by (simp add: voucher_acceptable_def raise_voucher_def)
    with c True st' show ?thesis
      by (intro exI [of _ ?c] conjI)
        (simp, subst handle_voucher_iff, auto simp: raise_voucher_def)
  next
    case False
    with c st' show ?thesis
      by (intro exI [of _ c] conjI) (simp, subst handle_voucher_iff, auto)
  qed
qed

lemma verify_voucher_again:
  assumes "mpp_session_method m = Some (movement_session_method X net cfg mem_channels)"
    and "session_payload_of X credential = Inr (Voucher cid amt sig)"
    and "mpp_verify_session X now m credential st = (Inr result, st')"
    and "verify_hmac_and_expiry X later m credential = Inr ()"
  shows "sv_management_response result = None
    \<and> (\<exists>r. mpp_verify_session X later m credential st'
         = (Inr \<lparr>sv_receipt = r, sv_management_response = None\<rparr>, st'))"
proof -
  obtain req where req: "decode_session_request X credential = Inr req"
    using assms(1,3) by (auto simp: mpp_verify_session_def res_simps split: sum.splits)
  have payload: "session_credential_check X credential = Inr (Voucher cid amt sig)"
    using assms(1,2,3) req
    by (auto simp: mpp_verify_session_def movement_session_method_def method_verify_session_def
        session_credential_check_def Let_def split: sum.splits prod.splits if_splits)
  have none: "session_respond X credential r = None" for r
    by (simp add: session_respond_def assms(2))
  have run: "mpp_verify_session X t m credential s =
      (case handle_voucher X t cfg mem_channels (resolve_details X cfg req) cid amt sig s of
         (Inl e, s') \<Rightarrow> (Inl e, s')
       | (Inr r, s') \<Rightarrow> (Inr \<lparr>sv_receipt = r, sv_management_response = None\<rparr>, s'))"
    if "verify_hmac_and_expiry X t m credential = Inr ()" for t s
    using that
    by (simp add: mpp_verify_session_def assms(1) movement_session_method_def method_verify_session_def
        req payload session_action_def none split: prod.splits sum.splits)
  have "verify_hmac_and_expiry X now m credential = Inr ()"
    using assms(1,3) by (auto simp: mpp_verify_session_def split: sum.splits
        elim: and_then.elims)
  from run [OF this] assms(3) obtain r where
    v: "handle_voucher X now cfg mem_channels (resolve_details X cfg req) cid amt sig st = (Inr r, st')"
    and "sv_management_response result = None"
    by (auto split: prod.splits sum.splits)
  moreover from handle_voucher_again [OF v, of later] run [OF assms(4)]
  have "\<exists>r. mpp_verify_session X later m credential st'
      = (Inr \<lparr>sv_receipt = r, sv_management_response = None\<rparr>, st')" by auto
  ultimately show ?thesis by blast
qed

text \<open>
  One voucher, any number of pages. Once the multi-fetch server has accepted a voucher, the
  same header is answered with 200 and the content of any page, again and again until its
  challenge expires, and the channel stays as it is: the session method acknowledges a voucher
  it has stored without asking for more, and the server never deducts the price of a page.
\<close>

theorem voucher_buys_every_page:
  assumes "mpp_session_method m = Some (movement_session_method X net cfg mem_channels)"
    and "parse_authorization X s = Inr credential"
    and "session_payload_of X credential = Inr (Voucher cid amt sig)"
    and "mpp_verify_session X now m credential st = (Inr result, st')"
    and "verify_hmac_and_expiry X later m credential = Inr ()" and "hv = (\<lambda>_. True)"
  shows "\<exists>resp. multifetch_scrape X hv later m (Some s) (Some url) st' = (Some resp, st')
    \<and> hr_status resp = 200 \<and> has_receipt resp \<and> hr_body resp = json_text X (page_json url)"
proof -
  obtain r where "mpp_verify_session X later m credential st'
      = (Inr \<lparr>sv_receipt = r, sv_management_response = None\<rparr>, st')"
    using verify_voucher_again [OF assms(1,3-5)] by blast
  with assms(2,6) show ?thesis
    by (simp add: multifetch_scrape_def parse_credential_def with_header_def has_receipt_def)
qed

text \<open>A server whose crates know two documents: the credential of a voucher for 90, and the
  session request inside it.\<close>

definition page_request :: session_request where
  "page_request = session_challenge_request AMOUNT_PER_REQUEST ''0xa'' ''0xb'' no_session_options"

definition page_credential :: payment_credential where
  "page_credential = credential_new
     \<lparr>echo_id = compute_challenge_id sample_crates ''key'' ''realm'' METHOD_NAME INTENT_SESSION [] None None None,
      echo_realm = ''realm'', echo_method = method_name_new METHOD_NAME,
      echo_intent = intent_name_new INTENT_SESSION, echo_request = from_raw [],
      echo_expires = None, echo_digest = None, echo_opaque = None\<rparr>
     (session_payload_to_json (Voucher sample_cid (show_u64 90) (sample_sig 90)))"

definition page_world :: crates where
  "page_world = sample_crates\<lparr>json_from_slice := \<lambda>bs.
     Inr (if bs = [] then session_request_to_json page_request
          else payment_credential_to_json page_credential)\<rparr>"

definition page_mpp :: "mem_store mpp" where
  "page_mpp = with_session_method (movement_session_method page_world sample_net config_default mem_channels)
     (mpp_new (\<lambda>_ _ _. Inl (verification_error_new [])) ''realm'' ''key'')"

definition page_store :: mem_store where
  "page_store = [sample_cid \<mapsto> sample_opened sample_cid]"

lemma page_authorization: "parse_authorization page_world ''Payment 00'' = Inr page_credential"
proof -
  have "extract_payment_scheme ''Payment 00'' = Some ''Payment 00''"
    by (simp add: extract_payment_scheme_def str_trim_def trim_start_def trim_end_def is_whitespace_def
        get_to_def is_some_and_def eq_ignore_ascii_case_def to_ascii_lowercase_def to_lower_def
        is_ascii_uppercase_def char_eval)
  moreover have "base64url_decode page_world ''00'' = Inr [0]"
    by (simp add: base64url_decode_def page_world_def sample_crates_def is_hex_digit_def
        is_ascii_digit_def hex_digit_val_def)
  moreover have "from_slice page_world ty payment_credential_of_json [0] = Inr page_credential" for ty
    by (simp add: from_slice_def from_value_def page_world_def payment_credential_json_roundtrip)
  moreover have "echo_digest (cred_challenge page_credential) = None"
    by (simp add: page_credential_def credential_new_def)
  ultimately show ?thesis
    by (simp add: parse_authorization_def str_trim_def trim_start_def trim_end_def is_whitespace_def
        ensure_def max_token_len_def digest_check_def)
qed

lemma page_same: "hex_decode page_world = hex_decode sample_world"
  "ed_key_valid page_world = ed_key_valid sample_world" "ed_verify page_world = ed_verify sample_world"
  by (simp_all add: page_world_def sample_world_def)

lemma page_verify: "verify_voucher page_world = verify_voucher sample_world"
  by (intro ext) (simp add: verify_voucher_def page_same)

lemma page_voucher_valid:
  "valid_for page_world sample_cid (sample_opened sample_cid) 90 (sign_voucher sample_world [3] [1, 2] 90)"
  by (simp add: valid_for_def sample_opened_def opened_channel_def page_same page_verify sample_cid_decodes
      length_sign_voucher length_ed_public sign_then_verify)

lemma page_payload:
  "session_payload_of page_world page_credential = Inr (Voucher sample_cid (show_u64 90) (sample_sig 90))"
  by (simp add: session_payload_of_def payload_as_def page_credential_def credential_new_def from_value_def
      session_payload_roundtrip del: session_payload_to_json.simps)

lemma page_hmac: "verify_hmac_and_expiry page_world t page_mpp page_credential = Inr ()"
  by (simp add: verify_hmac_and_expiry_def page_credential_def credential_new_def page_mpp_def
      with_session_method_def mpp_new_def compute_challenge_id_def base64url_encode_def page_world_def
      from_raw_def names_normal Let_def)

lemma page_decodes: "decode_session_request page_world page_credential = Inr page_request"
proof -
  have "sr_method_details page_request \<noteq> Some JNull" "page_request\<lparr>sr_decimals := None\<rparr> = page_request"
    by (simp_all add: page_request_def session_challenge_request_def session_options_details_def Let_def)
  then have "session_request_of_json (session_request_to_json page_request) = Some page_request"
    using session_request_json_roundtrip by metis
  then show ?thesis
    by (simp add: decode_session_request_def page_credential_def credential_new_def from_raw_def
        b64json_decode_def base64url_decode_def from_slice_def from_value_def page_world_def sample_crates_def)
qed

lemma page_session: "mpp_session_method page_mpp
    = Some (movement_session_method page_world sample_net config_default mem_channels)"
  by (simp add: page_mpp_def with_session_method_def)

lemma page_accepted:
  "\<exists>result st. mpp_verify_session page_world 0 page_mpp page_credential page_store = (Inr result, st)"
proof -
  have "hex_decode page_world (strip_0x (sample_sig 90)) = Inr (sign_voucher sample_world [3] [1, 2] 90)"
    unfolding page_same sample_sig_def by (rule hex_text_decodes) (rule sample_world_laws)
  moreover have "voucher_acceptable page_world 0 sample_cid (sample_opened sample_cid) 90
      (sign_voucher sample_world [3] [1, 2] 90)"
    using page_voucher_valid by (simp add: voucher_acceptable_def word_le_nat_alt)
  moreover have "resolve_min_delta config_default (resolve_details page_world config_default page_request) = 0"
    by (simp add: resolve_min_delta_def resolve_details_def movement_session_details_def page_request_def
        session_challenge_request_def session_options_details_def from_value_def
        session_method_details_of_json_def field_opt_def no_session_options_def opt_field_def
        config_default_def Let_def)
  ultimately obtain r st where "handle_voucher page_world 0 config_default mem_channels
      (resolve_details page_world config_default page_request) sample_cid (show_u64 90) (sample_sig 90) page_store
      = (Inr r, st)"
    using handle_voucher_iff [of page_world 0 config_default] by (fastforce simp: page_store_def)
  moreover have "session_credential_check page_world page_credential
      = Inr (Voucher sample_cid (show_u64 90) (sample_sig 90))"
    using page_payload
    by (simp add: session_credential_check_def page_credential_def credential_new_def names_normal)
  ultimately show ?thesis
    by (simp add: mpp_verify_session_def page_hmac page_decodes page_session
        movement_session_method_def method_verify_session_def session_action_def)
qed

theorem voucher_buys_every_page_witness:
  "\<exists>st resp. multifetch_scrape page_world (\<lambda>_. True) 7 page_mpp (Some ''Payment 00'') (Some ''http://a'') st
       = (Some resp, st) \<and> hr_status resp = 200"
proof -
  obtain result st where v: "mpp_verify_session page_world 0 page_mpp page_credential page_store = (Inr result, st)"
    using page_accepted by blast
  from voucher_buys_every_page [OF page_session page_authorization page_payload v page_hmac refl] show ?thesis
    by blast
qed

end
