(* ===== verification/Multifetch_Round.thy ===== *)
theory Multifetch_Round
  imports Session_Round Fetch_Claims Multifetch_Server
begin

text \<open>
  A page over HTTP: the session provider behind \<open>send_with_payment\<close>, against the server of
  examples/rust/src/multifetch_server.rs with its session method. The world of the request is
  the provider and the channel store of the server. \<open>url_of\<close> reads the page out of the target of a
  request, as the framework's query extractor does.
\<close>

section \<open>Client and server\<close>

type_synonym page_state = "session_provider \<times> mem_store"

definition page_client ::
  "crates \<Rightarrow> mem_store mpp \<Rightarrow> (string \<Rightarrow> bool) \<Rightarrow> (string \<Rightarrow> bool) \<Rightarrow> int \<Rightarrow> (string \<Rightarrow> string) \<Rightarrow> page_state http_client" where
  "page_client X m is_value is_text now url_of =
     \<lparr>hc_send = \<lambda>req (p, st).
        (case multifetch_scrape X is_value now m
            (Option.bind (header_get ''authorization'' (rq_headers req))
              (\<lambda>v. if is_text v then Some v else None)) (Some (url_of (rq_target req))) st of
           (None, st') \<Rightarrow> (Inl ''connection closed'', p, st')
         | (Some resp, st') \<Rightarrow> (Inr resp, p, st')),
      hc_is_value = is_value, hc_is_text = is_text,
      hc_value_error = ''builder error'', hc_text_error = ''failed to convert header to a str''\<rparr>"

definition page_provider ::
  "crates \<Rightarrow> network \<Rightarrow> int \<Rightarrow> bytes \<Rightarrow> page_state payment_provider" where
  "page_provider X net now salt =
     \<lparr>pp_supports = session_provider_supports,
      pp_pay = \<lambda>challenge (p, st). (case session_pay X net now salt challenge p of (r, p') \<Rightarrow> (r, p', st))\<rparr>"

lemma append_header_target [simp]: "rq_target (append_header name v req) = rq_target req"
  by (simp add: append_header_def)

lemma page_client_sel [simp]:
  "hc_is_value (page_client X m hv tx now url_of) = hv" "hc_is_text (page_client X m hv tx now url_of) = tx"
  by (simp_all add: page_client_def)

text \<open>What the server asks for.\<close>

definition page_terms :: "string \<Rightarrow> session_request" where
  "page_terms recipient = session_challenge_request AMOUNT_PER_REQUEST MOVE_TOKEN_METADATA recipient page_options"

text \<open>The configured server: currency, recipient and session method.\<close>

lemma multifetch_mpp_parts:
  assumes "multifetch_mpp X net env server_address = Inr m"
  shows "mpp_currency m = Some MOVE_TOKEN_METADATA" and "mpp_recipient m = Some server_address"
    and "mpp_session_method m = Some (movement_session_method X net multifetch_config mem_channels)"
  using assms
  by (auto simp: multifetch_mpp_def create_movement_def res_simps with_session_method_def
      builder_decimals_def builder_secret_key_def builder_rest_url_def movement_builder_new_def Let_def)

lemma session_challenge_on_wire:
  assumes "movement_session_challenge X now m unit_amount options = Inr c" and "ch_id c \<noteq> []"
    and "mpp_currency m = Some currency" and "mpp_recipient m = Some recipient" and "b64url_ok X"
    and "reads_back X session_request_of_json (session_request_to_json
      (session_challenge_request unit_amount currency recipient options))"
  shows "wire_challenge c" and "decodes_to_json X (ch_request c)" and "ch_digest c = None"
    and "method_as_str (ch_method c) = METHOD_NAME" and "intent_as_str (ch_intent c) = INTENT_SESSION"
    and "b64json_decode X ty session_request_of_json (ch_request c)
      = Inr (session_challenge_request unit_amount currency recipient options)"
proof -
  let ?req = "session_challenge_request unit_amount currency recipient options"
  note parts = issued_session_parts [OF assms(1,3,4)]
  then obtain doc where "json_canonical X (session_request_to_json ?req) = Inr doc"
    and "ch_request c = Base64UrlJson (b64url_encode X (as_bytes doc))"
    by (auto simp: b64json_from_typed_def base64url_encode_def res_simps)
  with assms(5,6) show "decodes_to_json X (ch_request c)"
    by (auto simp: decodes_to_json_def decode_value_def base64url_decode_def reads_back_def
        res_simps b64url_ok_decode split: sum.splits)
  have names: "ch_method c = method_name_new METHOD_NAME" "ch_intent c = intent_name_new INTENT_SESSION"
    and dig: "ch_digest c = None"
    using assms(1) by (auto simp: movement_session_challenge_def session_challenge_for_def res_simps)
  then show "method_as_str (ch_method c) = METHOD_NAME" "intent_as_str (ch_intent c) = INTENT_SESSION"
    by (simp_all add: names_normal)
  show "wire_challenge c" using names dig assms(2)
    by (simp add: wire_challenge_def method_is_valid_def method_name_new_def intent_name_new_def
        METHOD_NAME_def INTENT_SESSION_def to_ascii_lowercase_def to_lower_def is_ascii_uppercase_def
        is_ascii_lowercase_def)
  show "ch_digest c = None" by (rule dig)
  have "session_request_of_json (session_request_to_json ?req) = Some ?req"
    using session_request_json_roundtrip [of ?req] session_details_not_null
    by (simp add: session_challenge_request_def)
  then show "b64json_decode X ty session_request_of_json (ch_request c) = Inr ?req"
    using b64json_from_typed_decode [OF parts(1) assms(5,6)] by simp
qed

section \<open>One request\<close>

text \<open>The request, the challenge on its way and the time it is good for.\<close>

definition page_asked ::
  "crates \<Rightarrow> mem_store mpp \<Rightarrow> string \<Rightarrow> (string \<Rightarrow> bool) \<Rightarrow> (string \<Rightarrow> bool) \<Rightarrow> int \<Rightarrow> payment_challenge
   \<Rightarrow> http_request \<Rightarrow> bool" where
  "page_asked X m recipient is_value is_text now c req \<longleftrightarrow>
     movement_session_challenge X now m AMOUNT_PER_REQUEST page_options = Inr c \<and> ch_id c \<noteq> []
     \<and> reads_back X session_request_of_json (session_request_to_json (page_terms recipient))
     \<and> (case Option.bind (ch_expires c) (rfc3339_parse X) of Some t \<Rightarrow> now < t | None \<Rightarrow> False)
     \<and> (case format_www_authenticate c of Inr h \<Rightarrow> is_value h \<and> is_text h | Inl _ \<Rightarrow> False)
     \<and> rq_replayable req \<and> header_get ''authorization'' (rq_headers req) = None"

lemma page_round:
  assumes "multifetch_mpp X net' env recipient = Inr m" and "b64url_ok X"
    and "page_asked X m recipient hv tx now c req"
    and "session_pay X net now salt c p = (Inr (credential_new (to_echo c) payload), p')"
    and "sendable X hv tx (credential_new (to_echo c) payload) auth"
    and "method_verify_session X net' now multifetch_config mem_channels
      (credential_new (to_echo c) payload) (page_terms recipient) st = (Inr rc, st')"
  shows "send_with_payment X (page_client X m hv tx now url_of) (page_provider X net now salt) req (p, st)
    = (Inr (with_header hv ''payment-receipt'' (receipt_or_empty X rc) (json_response X 200
        (case session_respond X (credential_new (to_echo c) payload) rc of
           Some mgmt \<Rightarrow> mgmt | None \<Rightarrow> page_json (url_of (rq_target req))))), p', st')"
proof -
  let ?cred = "credential_new (to_echo c) payload" and ?H = "page_client X m hv tx now url_of"
  note parts = multifetch_mpp_parts [OF assms(1)]
  have issued: "movement_session_challenge X now m AMOUNT_PER_REQUEST page_options = Inr c"
    and ident: "ch_id c \<noteq> []"
    and reads: "reads_back X session_request_of_json (session_request_to_json
      (session_challenge_request AMOUNT_PER_REQUEST MOVE_TOKEN_METADATA recipient page_options))"
    and req: "rq_replayable req" "header_get ''authorization'' (rq_headers req) = None"
    using assms(3) by (simp_all add: page_asked_def page_terms_def)
  obtain e t where expires: "ch_expires c = Some e" "rfc3339_parse X e = Some t" "now < t"
    using assms(3) by (cases "ch_expires c") (auto simp: page_asked_def split: option.splits)
  obtain h where h: "format_www_authenticate c = Inr h" "hv h" "tx h"
    using assms(3) by (auto simp: page_asked_def split: sum.splits)
  note wire = session_challenge_on_wire [OF issued ident parts(1,2) assms(2) reads]
  obtain body where demand: "hc_send ?H req (p, st) =
      (Inr \<lparr>hr_status = 402, hr_headers = [(''www-authenticate'', h), (''content-type'', ''application/json'')],
         hr_body = body\<rparr>, p, st)"
    using req h issued
    by (auto simp: page_client_def multifetch_scrape_def parse_credential_def multifetch_challenge_def
        with_header_def json_response_def)
  have read: "response_challenge X ?H \<lparr>hr_status = 402,
      hr_headers = [(''www-authenticate'', h), (''content-type'', ''application/json'')], hr_body = body\<rparr> = Inr c"
    using formatted_challenge_parses [OF h(1) wire(1,2)] h(3) by (simp add: challenge_reading header_get_def)
  have auth: "format_authorization X ?cred = Inr auth" "hv auth" "tx auth"
    using assms(5) by (simp_all add: sendable_def)
  have parsed: "parse_authorization X auth = Inr ?cred"
    using assms(2,5) wire(3)
    by (intro formatted_credential_parses)
      (auto simp: sendable_def digest_check_def credential_new_def to_echo_def)
  have "mpp_verify_session X now m ?cred st = (Inr \<lparr>sv_receipt = rc,
      sv_management_response = session_respond X ?cred rc\<rparr>, st')"
    using issued_session_is_honoured [OF issued parts assms(2) reads expires] assms(6)
    by (simp add: movement_session_method_def page_terms_def)
  then have "hc_send ?H (append_header ''authorization'' auth req) (p', st) =
      (Inr (with_header hv ''payment-receipt'' (receipt_or_empty X rc) (json_response X 200
        (case session_respond X ?cred rc of Some mgmt \<Rightarrow> mgmt | None \<Rightarrow> page_json (url_of (rq_target req))))), p', st')"
    using req(2) auth(3) parsed
    by (simp add: page_client_def multifetch_scrape_def header_get_append parse_credential_def
        cong: option.case_cong)
  with demand read assms(4) req(1) auth show ?thesis
    by (simp add: send_with_payment_def page_provider_def)
qed

lemma page_asks:
  assumes "multifetch_mpp X net' env recipient = Inr m" and "b64url_ok X"
    and "page_asked X m recipient hv tx now c req"
  shows "session_terms X c = Inr (page_terms recipient, 100000, recipient, MULTIFETCH_MODULE)"
    and "asks_for X (channel_key recipient MOVE_TOKEN_METADATA MULTIFETCH_MODULE) c 100000"
proof -
  note parts = multifetch_mpp_parts [OF assms(1)]
  have asked: "movement_session_challenge X now m AMOUNT_PER_REQUEST page_options = Inr c" "ch_id c \<noteq> []"
    "reads_back X session_request_of_json (session_request_to_json
      (session_challenge_request AMOUNT_PER_REQUEST MOVE_TOKEN_METADATA recipient page_options))"
    using assms(3) by (simp_all add: page_asked_def page_terms_def)
  note wire = session_challenge_on_wire [OF asked(1,2) parts(1,2) assms(2) asked(3)]
  have "parse_u64 AMOUNT_PER_REQUEST = Some 100000"
    by (simp add: AMOUNT_PER_REQUEST_def parse_u64_def parse_uint_def dec_val_def is_ascii_digit_def digit_val_def)
  moreover have "module_address (page_terms recipient) = Inr MULTIFETCH_MODULE"
    by (simp add: module_address_def session_detail_def page_terms_def session_challenge_request_def
        session_options_details_def page_options_def no_session_options_def get_str_def)
  ultimately show terms: "session_terms X c = Inr (page_terms recipient, 100000, recipient, MULTIFETCH_MODULE)"
    using wire(6) by (simp add: session_terms_def page_terms_def session_challenge_request_def)
  show "asks_for X (channel_key recipient MOVE_TOKEN_METADATA MULTIFETCH_MODULE) c 100000"
    using wire(4,5) terms by (simp add: asks_for_def page_terms_def session_challenge_request_def)
qed

section \<open>What a payment brings\<close>

text \<open>The provider's credential travels, and so do the receipts of the server.\<close>

definition credential_travels ::
  "crates \<Rightarrow> (string \<Rightarrow> bool) \<Rightarrow> (string \<Rightarrow> bool) \<Rightarrow> mpp_error + payment_credential \<Rightarrow> bool" where
  "credential_travels X is_value is_text made \<longleftrightarrow>
     (case made of
        Inl _ \<Rightarrow> False
      | Inr credential \<Rightarrow>
          (case format_authorization X credential of
             Inl _ \<Rightarrow> False
           | Inr auth \<Rightarrow> sendable X is_value is_text credential auth))"

definition receipts_travel :: "crates \<Rightarrow> (string \<Rightarrow> bool) \<Rightarrow> bool" where
  "receipts_travel X is_value \<longleftrightarrow> (\<forall>r. is_value (receipt_or_empty X r))"

lemma page_delta:
  "resolve_min_delta multifetch_config (resolve_details X multifetch_config (page_terms recipient)) = 0"
  by (simp add: resolve_details_def movement_session_details_def page_terms_def session_challenge_request_def
      session_options_details_def page_options_def no_session_options_def from_value_def
      session_method_details_of_json_def field_opt_def resolve_min_delta_def multifetch_config_def)

lemma answered_page:
  assumes "multifetch_mpp X net' env recipient = Inr m" and "b64url_ok X"
    and "page_asked X m recipient hv tx now c req" and "receipts_travel X hv"
    and "session_pay X net now salt c p = (Inr (credential_new (to_echo c) doc), p')"
    and "credential_travels X hv tx (fst (session_pay X net now salt c p))"
    and "session_payload_of_json doc = Some payload"
    and "pay_round X net net' now salt multifetch_config (page_terms recipient) c (p, st) = (True, s')"
  shows "\<exists>resp. send_with_payment X (page_client X m hv tx now url_of) (page_provider X net now salt) req (p, st)
      = (Inr resp, s') \<and> hr_status resp = 200 \<and> has_receipt resp
    \<and> hr_body resp = json_text X (case payload of
        Voucher cid n sig \<Rightarrow> page_json (url_of (rq_target req)) | _ \<Rightarrow> JObj [(''status'', JStr ''ok'')])"
proof -
  obtain auth where send: "sendable X hv tx (credential_new (to_echo c) doc) auth"
    using assms(5,6) by (auto simp: credential_travels_def split: sum.splits)
  obtain rc st' where ver: "method_verify_session X net' now multifetch_config mem_channels
      (credential_new (to_echo c) doc) (page_terms recipient) st = (Inr rc, st')" and s': "s' = (p', st')"
    using assms(5,8) by (auto simp: pay_round_def is_ok_iff split: prod.splits)
  have "session_payload_of X (credential_new (to_echo c) doc) = Inr payload"
    using assms(7) by (simp add: session_payload_of_def payload_as_def from_value_def credential_new_def)
  then have "session_respond X (credential_new (to_echo c) doc) rc = (case payload of
      Voucher cid n sig \<Rightarrow> None | _ \<Rightarrow> Some (JObj [(''status'', JStr ''ok'')]))"
    by (simp add: session_respond_def split: session_credential_payload.splits)
  with page_round [OF assms(1-3,5) send ver] assms(4) s' show ?thesis
    by (auto simp: with_header_def has_receipt_def receipts_travel_def split: session_credential_payload.splits)
qed

text \<open>The first page is paid for and never sent: the opening carries a voucher for the price, and its
  answer is the management response.\<close>

lemma first_page_not_served:
  assumes "multifetch_mpp X net' env recipient = Inr m"
    and "b64url_ok X" and "hex_ok X" and "ed25519_ok X"
    and "page_asked X m recipient hv tx now c req" and "receipts_travel X hv"
    and "credential_travels X hv tx (fst (session_pay X net now salt c p))"
    and "opens_with X net now salt p c hash cid"
    and "chain_shows X net' multifetch_config (page_terms recipient) hash cid deposit"
    and "100000 \<le> deposit"
  shows "\<exists>resp s'. send_with_payment X (page_client X m hv tx now url_of) (page_provider X net now salt) req (p, st)
      = (Inr resp, s') \<and> hr_status resp = 200 \<and> has_receipt resp
    \<and> hr_body resp = json_text X (JObj [(''status'', JStr ''ok'')])
    \<and> shares_channel X (channel_key recipient MOVE_TOKEN_METADATA MULTIFETCH_MODULE) 100000 deposit s'"
proof -
  note asks = page_asks [OF assms(1,2,5)]
  obtain s' where round: "pay_round X net net' now salt multifetch_config (page_terms recipient) c (p, st)
      = (True, s')"
    and sh: "shares_channel X (channel_key recipient MOVE_TOKEN_METADATA MULTIFETCH_MODULE) 100000 deposit s'"
    using opening_accepted [OF assms(3,4) asks(2) assms(8-10)] by auto
  from answered_page [OF assms(1,2,5,6) session_pay_opening [OF asks(1) assms(8)] assms(7)
      open_json_reads round] sh show ?thesis
    by (simp only: session_credential_payload.case) blast
qed

text \<open>
  C12: a voucher brings its page. When client and server share a channel with room for one more
  price, a request for a page through \<open>send_with_payment\<close> is answered with 200, a receipt and the
  page: challenge and credential survive the headers, the session method accepts the voucher,
  and afterwards both sides agree that the price has been paid on top.
\<close>

theorem paid_page_is_served:
  assumes "multifetch_mpp X net' env recipient = Inr m"
    and "b64url_ok X" and "hex_ok X" and "ed25519_ok X"
    and "page_asked X m recipient hv tx now c req" and "receipts_travel X hv"
    and "credential_travels X hv tx (fst (session_pay X net now salt c p))"
    and "shares_channel X (channel_key recipient MOVE_TOKEN_METADATA MULTIFETCH_MODULE) paid deposit (p, st)"
    and "paid + 100000 \<le> unat deposit"
  shows "\<exists>resp s'. send_with_payment X (page_client X m hv tx now url_of) (page_provider X net now salt) req (p, st)
      = (Inr resp, s') \<and> hr_status resp = 200 \<and> has_receipt resp \<and> hr_body resp = json_text X (page_json (url_of (rq_target req)))
    \<and> shares_channel X (channel_key recipient MOVE_TOKEN_METADATA MULTIFETCH_MODULE) (paid + 100000) deposit s'"
proof -
  let ?key = "channel_key recipient MOVE_TOKEN_METADATA MULTIFETCH_MODULE"
  note asks = page_asks [OF assms(1,2,5)]
  obtain s' where round: "pay_round X net net' now salt multifetch_config (page_terms recipient) c (p, st)
      = (True, s')" and sh: "shares_channel X ?key (paid + 100000) deposit s'"
    by (rule round_accepted [OF assms(3,4) asks(2) assms(8), where cfg = multifetch_config
        and sreq = "page_terms recipient"]) (use assms(9) in \<open>simp_all add: page_delta\<close>)
  obtain e where e: "sp_channels p ?key = Some e" "ce_opened e"
    using assms(8) by (auto simp: shares_channel_def in_step_def split: option.splits)
  have "?key = channel_key recipient (sr_currency (page_terms recipient)) MULTIFETCH_MODULE"
    by (simp add: page_terms_def session_challenge_request_def)
  note pay = session_pay_voucher [OF asks(1) e [unfolded this]]
  from answered_page [OF assms(1,2,5,6) pay assms(7) voucher_json_reads(1) round] sh show ?thesis
    by (simp only: session_credential_payload.case) blast
qed

section \<open>One concrete page\<close>

definition visit_challenge :: payment_challenge where
  "visit_challenge = \<lparr>ch_id = compute_challenge_id sample_crates ''multifetch-example-secret'' ''MPP Payment''
       METHOD_NAME INTENT_SESSION (sample_hex_encode (as_bytes ''doc'')) (Some (show_nat 300000000000)) None None,
     ch_realm = ''MPP Payment'', ch_method = method_name_new METHOD_NAME,
     ch_intent = intent_name_new INTENT_SESSION,
     ch_request = Base64UrlJson (sample_hex_encode (as_bytes ''doc'')),
     ch_expires = Some (show_nat 300000000000), ch_description = None, ch_digest = None,
     ch_opaque = None\<rparr>"

definition visit_credential :: "u64 \<Rightarrow> payment_credential" where
  "visit_credential n = credential_new (to_echo visit_challenge)
     (voucher_json sample_crates ''voucher'' [1, 2] n (sign_voucher sample_crates [3] [1, 2] n))"

definition visit_world :: crates where
  "visit_world = sample_crates\<lparr>json_canonical := \<lambda>_. Inr ''doc'',
     json_to_string := \<lambda>j. Inr (if j = page_json ''u'' then ''page''
       else if j = payment_credential_to_json (visit_credential 200010) then ''creds'' else ''cred''),
     json_from_slice := \<lambda>bs. Inr (if length bs = 3 then session_request_to_json (page_terms ''0xb'')
       else payment_credential_to_json (visit_credential (if length bs = 5 then 200010 else 100010)))\<rparr>"

definition visit_entry :: channel_entry where
  "visit_entry = \<lparr>ce_channel_id = [1, 2], ce_salt = [], ce_cumulative_amount = 10,
     ce_module_address = MULTIFETCH_MODULE, ce_opened = True,
     ce_authorized_pubkey = ed_public visit_world [3], ce_highest_signature = []\<rparr>"

definition visit_state :: page_state where
  "visit_state = ((session_provider_new visit_world [3] [])\<lparr>sp_channels :=
      [channel_key ''0xb'' MOVE_TOKEN_METADATA MULTIFETCH_MODULE \<mapsto> visit_entry]\<rparr>,
    [prefixed_hex visit_world [1, 2] \<mapsto> sample_channel\<lparr>cs_authorized_signer_pubkey := ed_public visit_world [3],
      cs_deposit := 300000, cs_highest_voucher_amount := 10\<rparr>])"

lemma visit_laws: "hex_ok visit_world" "b64url_ok visit_world" "ed25519_ok visit_world"
  using sample_crates_hex_ok sample_crates_b64url_ok sample_crates_ed25519_ok
  by (simp_all add: visit_world_def hex_ok_def b64url_ok_def ed25519_ok_def)

lemma visit_mpp:
  obtains m where "multifetch_mpp visit_world sample_net (\<lambda>_. None) ''0xb'' = Inr m"
    and "movement_session_challenge visit_world 0 m AMOUNT_PER_REQUEST page_options = Inr visit_challenge"
proof -
  obtain m where m: "multifetch_mpp visit_world sample_net (\<lambda>_. None) ''0xb'' = Inr m"
    and key: "mpp_secret_key m = ''multifetch-example-secret''" "mpp_realm m = ''MPP Payment''"
    by (simp add: multifetch_mpp_def create_movement_def with_session_method_def builder_decimals_def
        builder_secret_key_def builder_rest_url_def movement_builder_new_def detect_realm_def
        realm_env_vars_def Let_def str_trim_def trim_start_def trim_end_def is_whitespace_def char_eval)
  have "movement_session_challenge visit_world 0 m AMOUNT_PER_REQUEST page_options = Inr visit_challenge"
    by (simp add: movement_session_challenge_def require_movement_config_def multifetch_mpp_parts [OF m]
        session_challenge_for_def b64json_from_typed_def base64url_encode_def visit_world_def key
        resolve_expires_def page_options_def no_session_options_def visit_challenge_def
        compute_challenge_id_def default_expires_def DEFAULT_EXPIRES_MINUTES_def)
      (simp add: sample_crates_def)
  with m show thesis by (rule that)
qed

lemma visit_asked:
  assumes "movement_session_challenge visit_world 0 m AMOUNT_PER_REQUEST page_options = Inr visit_challenge"
  shows "page_asked visit_world m ''0xb'' (\<lambda>_. True) (\<lambda>_. True) 0 visit_challenge round_request"
proof -
  have "\<exists>h. format_www_authenticate visit_challenge = Inr h"
    by (simp add: format_www_authenticate_def res_simps challenge_params_def visit_challenge_def
        names_normal compute_challenge_id_def base64url_encode_def hex_no_break digits_no_break)
      (simp add: sample_crates_def hex_no_break METHOD_NAME_def INTENT_SESSION_def)
  moreover have "ch_id visit_challenge \<noteq> []"
    by (simp add: visit_challenge_def compute_challenge_id_def base64url_encode_def sample_crates_def as_bytes_def)
  moreover have "rfc3339_parse visit_world (show_nat 300000000000) = Some 300000000000"
    using round_laws(3) by (simp add: visit_world_def round_world_def)
  ultimately show ?thesis using assms
    by (auto simp: page_asked_def round_request_def header_get_def reads_back_def)
      (simp_all add: visit_world_def as_bytes_def visit_challenge_def)
qed

lemma visit_shared:
  "shares_channel visit_world (channel_key ''0xb'' MOVE_TOKEN_METADATA MULTIFETCH_MODULE) 10 300000 visit_state"
  by (simp add: shares_channel_def visit_state_def in_step_def visit_entry_def sample_channel_def
      session_provider_new_def)

lemma credentials_differ: "payment_credential_to_json (visit_credential 100010)
    \<noteq> payment_credential_to_json (visit_credential 200010)"
proof -
  have "show_u64 100010 \<noteq> show_u64 200010"
  proof
    assume "show_u64 100010 = show_u64 200010"
    then have "Some (100010 :: u64) = Some 200010"
      using parse_u64_show_u64 [of 100010] parse_u64_show_u64 [of 200010] by (simp del: option.inject)
    then show False by simp
  qed
  then show ?thesis
    by (simp add: payment_credential_to_json_def visit_credential_def credential_new_def voucher_json_def)
qed

lemma visit_credential_travels:
  "credential_travels visit_world (\<lambda>_. True) (\<lambda>_. True) (Inr (visit_credential 100010))"
  "credential_travels visit_world (\<lambda>_. True) (\<lambda>_. True) (Inr (visit_credential 200010))"
proof -
  have printed: "json_to_string visit_world (payment_credential_to_json (visit_credential 100010)) = Inr ''cred''"
    "json_to_string visit_world (payment_credential_to_json (visit_credential 200010)) = Inr ''creds''"
    using credentials_differ by (simp_all add: visit_world_def page_json_def payment_credential_to_json_def)
  moreover have "json_from_slice visit_world (as_bytes ''cred'')
      = Inr (payment_credential_to_json (visit_credential 100010))"
    "json_from_slice visit_world (as_bytes ''creds'')
      = Inr (payment_credential_to_json (visit_credential 200010))"
    by (simp_all add: visit_world_def as_bytes_def)
  ultimately show "credential_travels visit_world (\<lambda>_. True) (\<lambda>_. True) (Inr (visit_credential 100010))"
    "credential_travels visit_world (\<lambda>_. True) (\<lambda>_. True) (Inr (visit_credential 200010))"
    by (simp_all add: credential_travels_def sendable_def format_authorization_def base64url_encode_def
        json_text_ok_def max_token_len_def)
      (simp_all add: visit_world_def sample_crates_def as_bytes_def)
qed

lemma visit_travels:
  assumes "multifetch_mpp visit_world sample_net (\<lambda>_. None) ''0xb'' = Inr m"
    and "movement_session_challenge visit_world 0 m AMOUNT_PER_REQUEST page_options = Inr visit_challenge"
  shows "credential_travels visit_world (\<lambda>_. True) (\<lambda>_. True)
    (fst (session_pay visit_world net 0 salt visit_challenge (fst visit_state)))"
proof -
  note asks = page_asks [OF assms(1) visit_laws(2) visit_asked [OF assms(2)]]
  have entry: "sp_channels (fst visit_state)
      (channel_key ''0xb'' (sr_currency (page_terms ''0xb'')) MULTIFETCH_MODULE) = Some visit_entry"
    by (simp add: visit_state_def page_terms_def session_challenge_request_def)
  have signed: "sign_voucher visit_world = sign_voucher sample_crates"
    "prefixed_hex visit_world = prefixed_hex sample_crates"
    by (simp_all add: fun_eq_iff sign_voucher_def prefixed_hex_def visit_world_def)
  have "sp_signing_key (fst visit_state) = [3]"
    by (simp add: visit_state_def session_provider_new_def)
  then have "fst (session_pay visit_world net 0 salt visit_challenge (fst visit_state)) = Inr (visit_credential 100010)"
    using session_pay_voucher [OF asks(1) entry]
    by (simp add: visit_entry_def visit_credential_def raise_entry_def voucher_json_def signed)
  then show ?thesis using visit_credential_travels(1) by simp
qed

theorem paid_page_is_served_witness:
  "\<exists>m resp s'. multifetch_mpp visit_world sample_net (\<lambda>_. None) ''0xb'' = Inr m
    \<and> send_with_payment visit_world (page_client visit_world m (\<lambda>_. True) (\<lambda>_. True) 0 (\<lambda>_. ''u''))
        (page_provider visit_world sample_net 0 []) round_request visit_state = (Inr resp, s')
    \<and> hr_body resp = ''page''
    \<and> shares_channel visit_world (channel_key ''0xb'' MOVE_TOKEN_METADATA MULTIFETCH_MODULE) 100010 300000 s'"
proof -
  obtain m where m: "multifetch_mpp visit_world sample_net (\<lambda>_. None) ''0xb'' = Inr m"
    and c: "movement_session_challenge visit_world 0 m AMOUNT_PER_REQUEST page_options = Inr visit_challenge"
    by (rule visit_mpp)
  have "json_text visit_world (page_json ''u'') = ''page''"
    by (simp add: json_text_def visit_world_def)
  moreover have "receipts_travel visit_world (\<lambda>_. True)" by (simp add: receipts_travel_def)
  moreover have "shares_channel visit_world (channel_key ''0xb'' MOVE_TOKEN_METADATA MULTIFETCH_MODULE) 10 300000
      (fst visit_state, snd visit_state)" using visit_shared by simp
  ultimately show ?thesis
    using paid_page_is_served [OF m visit_laws(2,1,3) visit_asked [OF c] _ visit_travels [OF m c],
        where paid = 10 and deposit = 300000 and st = "snd visit_state" and net = sample_net and salt = "[]"
          and url_of = "\<lambda>_. ''u''"] m
    by auto
qed

end
