(* ===== verification/Token_Server.thy ===== *)
theory Token_Server
  imports App_Http Client_Movement
begin

text \<open>
  The pay-per-token server (examples/rust/src/sse_server.rs). A request for tokens checks and
  accepts a voucher under one lock, and then streams what the voucher bought; settling on chain
  and the correction after the stream are tasks of their own that come back to the table of
  channels later, so they are separate steps here, with the jobs waiting for them in the state.
  \<open>usize\<close> has 64 bits. A panic is \<open>None\<close>.
\<close>

section \<open>State\<close>

definition TOKEN_MODULE :: string where
  "TOKEN_MODULE = ''0x74f1060add0c641a0c10bb5bab2bf5fd05f94d7c25055f2419fa82d7bbf2b1e8''"

definition SETTLE_EVERY :: u32 where "SETTLE_EVERY = 5"

record token_config =
  tk_server_address :: string
  tk_token_metadata :: string
  tk_price_per_token :: u64
  tk_suggested_deposit :: u64
  tk_provider :: movement_provider

record channel_session =
  ss_authorized_pubkey :: bytes
  ss_highest_cumulative :: u64
  ss_highest_signature :: bytes
  ss_tokens_delivered :: u64
  ss_voucher_count :: u32
  ss_settled_cumulative :: u64
  ss_settle_tx_hashes :: "string list"

record chat_query =
  cq_prompt :: "string option"
  cq_channel_id :: "string option"
  cq_cumulative_amount :: "string option"
  cq_signature :: "string option"
  cq_pubkey :: "string option"

type_synonym sessions = "string \<rightharpoonup> channel_session"

text \<open>What the two tasks carry.\<close>

record stream_job =
  sj_channel_id :: string
  sj_tokens :: "string list"
  sj_bought :: u64
  sj_cumulative :: u64
  sj_voucher :: u32

record settle_job =
  sl_channel_id :: string
  sl_channel_bytes :: bytes
  sl_cumulative :: u64
  sl_signature :: bytes
  sl_pubkey :: bytes

datatype chat_answer = Refused http_response | Streaming stream_job "settle_job option"

section \<open>The tokens\<close>

definition all_words :: "string \<Rightarrow> string list" where
  "all_words prompt = (''Regarding '' @ dquote @ prompt @ dquote @ '': '') # [
    ''the'', '' answer'', '' depends'', '' on'', '' context.'', '' Let'', '' me'', '' explain'',
     '' with'', '' a'', '' few'', '' key'', '' points:'', [CHR 0x0A, CHR 0x0A], ''First,'',
     '' consider'', '' the'', '' underlying'', '' assumptions.'', '' Then,'', '' evaluate'',
     '' the'', '' available'', '' evidence.'', [CHR 0x0A, CHR 0x0A], ''Second,'', '' think'',
     '' about'', '' the'', '' broader'', '' implications.'', '' Every'', '' decision'', '' has'',
     '' ripple'', '' effects'', '' that'', '' extend'', '' far'', '' beyond'', '' the'',
     '' immediate'', '' situation.'', [CHR 0x0A, CHR 0x0A], ''Third,'', '' examine'', '' the'',
     '' problem'', '' from'', '' multiple'', '' angles.'', '' What'', '' looks'', '' like'',
     '' a'', '' dead'', '' end'', '' from'', '' one'', '' perspective'', '' might'', '' be'',
     '' an'', '' opportunity'', '' from'', '' another.'', [CHR 0x0A, CHR 0x0A], ''Finally,'',
     '' draw'', '' your'', '' own'', '' conclusions'', '' based'', '' on'', '' what'', '' you'',
     '' find.'', [CHR 0x0A, CHR 0x0A], ''The'', '' key'', '' insight'', '' is'', '' that'',
     '' every'', '' question'', '' contains'', '' the'', '' seed'', '' of'', '' its'', '' own'',
     '' answer.'', '' The'', '' act'', '' of'', '' asking'', '' is'', '' itself'', '' a'',
     '' step'', '' toward'', '' understanding.'', [CHR 0x0A, CHR 0x0A], ''In'', '' summary:'',
     '' stay'', '' curious,'', '' keep'', '' exploring,'', '' and'', '' never'', '' stop'',
     '' learning.'', '' The'', '' universe'', '' rewards'', '' those'', '' who'', '' ask'',
     '' good'', '' questions.'', [CHR 0x0A, CHR 0x0A], ''Remember'', '' that'', '' knowledge'',
     '' builds'', '' on'', '' itself.'', '' Each'', '' thing'', '' you'', '' learn'', '' opens'',
     '' doors'', '' to'', '' new'', '' possibilities'', '' you'', '' never'', '' knew'',
     '' existed.'', [CHR 0x0A, CHR 0x0A], ''Hope'', '' that'', '' helps!'', '' Feel'', '' free'',
     '' to'', '' ask'', '' follow-up'', '' questions.'', '' [end]'']"

text \<open>The delays between tokens are left out.\<close>

definition generate_tokens :: "string \<Rightarrow> u64 \<Rightarrow> u64 \<Rightarrow> string list" where
  "generate_tokens prompt offset count = take (unat count) (drop (unat offset) (all_words prompt))"

section \<open>Chat\<close>

definition chat_challenge ::
  "crates \<Rightarrow> (string \<Rightarrow> bool) \<Rightarrow> int \<Rightarrow> 's mpp \<Rightarrow> token_config \<Rightarrow> http_response option" where
  "chat_challenge X hv now m cfg =
     (let price = show_u64 (tk_price_per_token cfg);
          deposit = show_u64 (tk_suggested_deposit cfg) in
      Option.bind (ok_opt (movement_session_challenge X now m price
        (no_session_options\<lparr>mo_unit_type := Some ''token'', mo_suggested_deposit := Some deposit,
           mo_module_address := Some TOKEN_MODULE,
           mo_min_voucher_delta := Some (show_u64 (tk_price_per_token cfg * 10))\<rparr>))) (\<lambda>challenge.
      Option.bind (ok_opt (format_www_authenticate challenge)) (\<lambda>www_auth.
      Some (with_header hv ''www-authenticate'' www_auth (json_response X 402 (JObj
        [(''error'', JStr ''Payment Required''), (''price_per_token'', JStr price),
         (''suggested_deposit'', JStr deposit), (''recipient'', JStr (tk_server_address cfg)),
         (''token'', JStr (tk_token_metadata cfg))]))))))"

definition bad_request :: "crates \<Rightarrow> string \<Rightarrow> http_response" where
  "bad_request X message = json_response X 400 (error_json message)"

text \<open>The voucher of a query: the amount, the signature and the bytes of the channel.\<close>

definition chat_voucher ::
  "crates \<Rightarrow> chat_query \<Rightarrow> string \<Rightarrow> http_response + u64 \<times> bytes \<times> bytes" where
  "chat_voucher X query channel_id =
     and_then (ok_or (bad_request X ''missing or invalid cumulative_amount'')
       (Option.bind (cq_cumulative_amount query) parse_u64)) (\<lambda>cumulative.
     and_then (ok_or (bad_request X ''missing signature'') (cq_signature query)) (\<lambda>sig_hex.
     and_then (case hex_decode X (strip_0x sig_hex) of
         Inr b \<Rightarrow> if length b = 64 then Inr b else Inl (bad_request X ''signature must be 64 bytes hex'')
       | Inl _ \<Rightarrow> Inl (bad_request X ''signature must be 64 bytes hex'')) (\<lambda>sig_bytes.
     and_then (map_err (\<lambda>_. bad_request X ''invalid channel_id hex'')
       (hex_decode X (strip_0x channel_id))) (\<lambda>channel_id_bytes.
     Inr (cumulative, sig_bytes, channel_id_bytes)))))"

definition new_session :: "crates \<Rightarrow> chat_query \<Rightarrow> channel_session" where
  "new_session X query =
     (let pubkey_hex = unwrap_or [] (cq_pubkey query) in
      \<lparr>ss_authorized_pubkey = (case hex_decode X (strip_0x pubkey_hex) of Inr b \<Rightarrow> b | Inl _ \<Rightarrow> []),
       ss_highest_cumulative = 0, ss_highest_signature = [], ss_tokens_delivered = 0,
       ss_voucher_count = 0, ss_settled_cumulative = 0, ss_settle_tx_hashes = []\<rparr>)"

text \<open>The checks of a voucher against its session.\<close>

definition check_session ::
  "crates \<Rightarrow> channel_session \<Rightarrow> u64 \<Rightarrow> bytes \<Rightarrow> bytes \<Rightarrow> http_response + unit" where
  "check_session X session cumulative sig_bytes channel_id_bytes =
     (if cumulative \<le> ss_highest_cumulative session
      then Inl (json_response X 400 (JObj
        [(''error'', JStr ''cumulative_amount must increase''),
         (''highest'', JStr (show_u64 (ss_highest_cumulative session)))]))
      else if length (ss_authorized_pubkey session) \<noteq> 32
      then Inl (bad_request X ''pubkey must be 32 bytes; send pubkey= on first request'')
      else if \<not> verify_voucher X channel_id_bytes cumulative sig_bytes (ss_authorized_pubkey session)
                (ss_authorized_pubkey session)
      then Inl (json_response X 402 (error_json ''invalid voucher signature''))
      else Inr ())"

definition tokens_bought :: "token_config \<Rightarrow> channel_session \<Rightarrow> u64 \<Rightarrow> u64" where
  "tokens_bought cfg session cumulative =
     (cumulative - ss_highest_cumulative session) div tk_price_per_token cfg"

definition accept_session_voucher ::
  "token_config \<Rightarrow> channel_session \<Rightarrow> u64 \<Rightarrow> bytes \<Rightarrow> channel_session" where
  "accept_session_voucher cfg session cumulative sig_bytes =
     session\<lparr>ss_highest_cumulative := cumulative, ss_highest_signature := sig_bytes,
       ss_voucher_count := ss_voucher_count session + 1,
       ss_tokens_delivered := ss_tokens_delivered session + tokens_bought cfg session cumulative\<rparr>"

definition settle_due :: "string \<Rightarrow> bytes \<Rightarrow> u64 \<Rightarrow> bytes \<Rightarrow> channel_session \<Rightarrow> settle_job option" where
  "settle_due channel_id channel_id_bytes cumulative sig_bytes accepted =
     (if ss_voucher_count accepted mod SETTLE_EVERY = 0 \<and> ss_settled_cumulative accepted < cumulative
      then Some \<lparr>sl_channel_id = channel_id, sl_channel_bytes = channel_id_bytes,
        sl_cumulative = cumulative, sl_signature = sig_bytes, sl_pubkey = ss_authorized_pubkey accepted\<rparr>
      else None)"

definition chat ::
  "crates \<Rightarrow> (string \<Rightarrow> bool) \<Rightarrow> int \<Rightarrow> 's mpp \<Rightarrow> token_config \<Rightarrow> chat_query \<Rightarrow> sessions
   \<Rightarrow> (chat_answer \<times> sessions) option" where
  "chat X hv now m cfg query channels =
     (let prompt = unwrap_or ''Hello!'' (cq_prompt query) in
      case cq_channel_id query of
        None \<Rightarrow> map_option (\<lambda>resp. (Refused resp, channels)) (chat_challenge X hv now m cfg)
      | Some channel_id \<Rightarrow>
          (case chat_voucher X query channel_id of
             Inl resp \<Rightarrow> Some (Refused resp, channels)
           | Inr (cumulative, sig_bytes, channel_id_bytes) \<Rightarrow>
               let session = (case channels channel_id of Some s \<Rightarrow> s | None \<Rightarrow> new_session X query);
                   entered = channels(channel_id \<mapsto> session) in
               (case check_session X session cumulative sig_bytes channel_id_bytes of
                  Inl resp \<Rightarrow> Some (Refused resp, entered)
                | Inr _ \<Rightarrow>
                    if tk_price_per_token cfg = 0 then None
                    else
                      let accepted = accept_session_voucher cfg session cumulative sig_bytes;
                          bought = tokens_bought cfg session cumulative in
                      Some (if bought = 0
                          then Refused (json_response X 400 (JObj
                            [(''error'', JStr ''voucher delta too small''),
                             (''price_per_token'', JStr (show_u64 (tk_price_per_token cfg)))]))
                          else Streaming
                            \<lparr>sj_channel_id = channel_id,
                             sj_tokens = generate_tokens prompt (ss_tokens_delivered session) bought,
                             sj_bought = bought, sj_cumulative = cumulative,
                             sj_voucher = ss_voucher_count accepted\<rparr>
                            (settle_due channel_id channel_id_bytes cumulative sig_bytes accepted),
                        channels(channel_id \<mapsto> accepted)))))"

section \<open>The tasks\<close>

text \<open>The settle task prints the first 16 bytes of the identifier first, which panics on a
  shorter one. \<open>settle_done\<close> is what it does to the table once the transaction is through.\<close>

definition settle_result ::
  "crates \<Rightarrow> network \<Rightarrow> int \<Rightarrow> token_config \<Rightarrow> settle_job \<Rightarrow> (mpp_error + string) option" where
  "settle_result X net now cfg job =
     (if length (sl_channel_id job) < 16 then None
      else Some (settle_channel X net now (tk_provider cfg) TOKEN_MODULE TOKEN_MODULE
        (sl_channel_bytes job) (sl_cumulative job) (sl_signature job) (sl_pubkey job)))"

definition settle_done :: "settle_job \<Rightarrow> string \<Rightarrow> sessions \<Rightarrow> sessions" where
  "settle_done job tx channels =
     (case channels (sl_channel_id job) of
        None \<Rightarrow> channels
      | Some session \<Rightarrow> channels(sl_channel_id job \<mapsto>
          session\<lparr>ss_settled_cumulative := sl_cumulative job,
            ss_settle_tx_hashes := ss_settle_tx_hashes session @ [tx]\<rparr>))"

text \<open>The events of a stream that is read to its end, and the correction after it.\<close>

definition token_json :: "nat \<Rightarrow> string \<Rightarrow> json" where
  "token_json index token = JObj [(''token'', JStr token), (''index'', JInt (int index))]"

definition receipt_json :: "stream_job \<Rightarrow> json" where
  "receipt_json job = JObj
     [(''tokens_streamed'', JInt (int (length (sj_tokens job)))),
      (''cumulative_paid'', JStr (show_u64 (sj_cumulative job))),
      (''channel_id'', JStr (sj_channel_id job)),
      (''voucher_number'', JInt (uint (sj_voucher job)))]"

definition token_event :: "crates \<Rightarrow> nat \<Rightarrow> string \<Rightarrow> string" where
  "token_event X index token =
     ''data: '' @ json_text X (token_json index token) @ [CHR 0x0A, CHR 0x0A]"

definition stream_events :: "crates \<Rightarrow> stream_job \<Rightarrow> string list" where
  "stream_events X job =
     map (\<lambda>(i, token). token_event X i token) (enumerate 1 (sj_tokens job))
     @ [''event: receipt'' @ [CHR 0x0A] @ ''data: '' @ json_text X (receipt_json job)
         @ [CHR 0x0A, CHR 0x0A]]"

definition stream_done :: "stream_job \<Rightarrow> sessions \<Rightarrow> sessions" where
  "stream_done job channels =
     (case channels (sj_channel_id job) of
        None \<Rightarrow> channels
      | Some session \<Rightarrow>
          let overshoot = sj_bought job - of_nat (length (sj_tokens job)) in
          if 0 < overshoot
          then channels(sj_channel_id job \<mapsto>
            session\<lparr>ss_tokens_delivered := saturating_sub (ss_tokens_delivered session) overshoot\<rparr>)
          else channels)"

section \<open>Close\<close>

definition settle_amount :: "token_config \<Rightarrow> channel_session \<Rightarrow> u64" where
  "settle_amount cfg session =
     min (ss_tokens_delivered session * tk_price_per_token cfg) (ss_highest_cumulative session)"

definition token_close ::
  "crates \<Rightarrow> network \<Rightarrow> int \<Rightarrow> token_config \<Rightarrow> string \<Rightarrow> sessions \<Rightarrow> json option" where
  "token_close X net now cfg channel_id channels =
     (case channels channel_id of
        None \<Rightarrow> Some (error_json ''channel not found'')
      | Some session \<Rightarrow>
          if ss_highest_cumulative session = 0 then Some (error_json ''no vouchers to settle'')
          else
            let channel_id_bytes = (case hex_decode X (strip_0x channel_id) of Inr b \<Rightarrow> b | Inl _ \<Rightarrow> []);
                amount = settle_amount cfg session;
                deposit = ss_highest_cumulative session in
            if length channel_id < 16 then None
            else Some (case close_channel X net now (tk_provider cfg) TOKEN_MODULE TOKEN_MODULE
                  channel_id_bytes amount (ss_highest_signature session) (ss_authorized_pubkey session) of
                Inr tx \<Rightarrow> JObj
                  [(''status'', JStr ''closed''), (''close_tx'', JStr tx),
                   (''settled'', JStr (show_u64 amount)), (''deposit'', JStr (show_u64 deposit)),
                   (''tokens_delivered'', JInt (uint (ss_tokens_delivered session))),
                   (''refund'', JStr (show_u64 (deposit - amount))),
                   (''settle_txns'', JArr (map JStr (ss_settle_tx_hashes session))),
                   (''vouchers_received'', JInt (uint (ss_voucher_count session)))]
              | Inl e \<Rightarrow> error_json (''close failed: '' @ mpp_error_display e)))"

section \<open>The server as a state machine\<close>

record token_world =
  tw_sessions :: sessions
  tw_streams :: "stream_job list"
  tw_settles :: "settle_job list"

definition token_start :: token_world where
  "token_start = \<lparr>tw_sessions = Map.empty, tw_streams = [], tw_settles = []\<rparr>"

text \<open>A stream ends, or its reader goes away; a settlement goes through, or does not.\<close>

inductive token_step ::
  "crates \<Rightarrow> (string \<Rightarrow> bool) \<Rightarrow> 's mpp \<Rightarrow> token_config \<Rightarrow> token_world \<Rightarrow> token_world \<Rightarrow> bool"
  for X hv m cfg where
  Refuse: "chat X hv now m cfg query (tw_sessions w) = Some (Refused resp, channels) \<Longrightarrow>
    token_step X hv m cfg w (w\<lparr>tw_sessions := channels\<rparr>)"
| Sell: "chat X hv now m cfg query (tw_sessions w) = Some (Streaming job due, channels) \<Longrightarrow>
    token_step X hv m cfg w (w\<lparr>tw_sessions := channels, tw_streams := job # tw_streams w,
      tw_settles := (case due of Some s \<Rightarrow> [s] | None \<Rightarrow> []) @ tw_settles w\<rparr>)"
| Stream_Ends: "job \<in> set (tw_streams w) \<Longrightarrow>
    token_step X hv m cfg w (w\<lparr>tw_sessions := stream_done job (tw_sessions w),
      tw_streams := remove1 job (tw_streams w)\<rparr>)"
| Stream_Dropped: "job \<in> set (tw_streams w) \<Longrightarrow>
    token_step X hv m cfg w (w\<lparr>tw_streams := remove1 job (tw_streams w)\<rparr>)"
| Settled: "job \<in> set (tw_settles w) \<Longrightarrow> settle_result X net now cfg job = Some (Inr tx) \<Longrightarrow>
    token_step X hv m cfg w (w\<lparr>tw_sessions := settle_done job tx (tw_sessions w),
      tw_settles := remove1 job (tw_settles w)\<rparr>)"
| Settle_Failed: "job \<in> set (tw_settles w) \<Longrightarrow>
    token_step X hv m cfg w (w\<lparr>tw_settles := remove1 job (tw_settles w)\<rparr>)"

inductive token_reachable ::
  "crates \<Rightarrow> (string \<Rightarrow> bool) \<Rightarrow> 's mpp \<Rightarrow> token_config \<Rightarrow> token_world \<Rightarrow> bool"
  for X hv m cfg where
  Start: "token_reachable X hv m cfg token_start"
| Step: "token_reachable X hv m cfg w \<Longrightarrow> token_step X hv m cfg w w' \<Longrightarrow> token_reachable X hv m cfg w'"

end
