(* ===== verification/Example_Scripts.thy ===== *)
theory Example_Scripts
  imports App_Http Token_Server Client_Http Utf8
begin

text \<open>
  The fortune server (examples/rust/src/payment_server.rs) and what the token client
  (examples/rust/src/sse_client.rs) computes: the deposit it reads from the challenge, the
  vouchers of its loop, and the tokens it reads from a stream; and the page loop of the
  multi-fetch client (examples/rust/src/multifetch_client.rs). The voucher
  loop itself is in Token_Client.
\<close>

section \<open>The fortune server\<close>

definition FORTUNES :: "string list" where
  "FORTUNES =
     [''A beautiful, smart, and loving person will come into your life.'',
      ''A dubious friend may be an enemy in camouflage.'',
      ''A faithful friend is a strong defense.'',
      ''A fresh start will put you on your way.'',
      ''A golden egg of opportunity falls into your lap this month.'',
      ''A good time to finish up old tasks.'',
      ''A hunch is creativity trying to tell you something.'',
      ''A lifetime of happiness lies ahead of you.'',
      ''A light heart carries you through all the hard times.'',
      ''A new perspective will come with the new year.'']"

definition fortune_fee :: "string \<times> string option" where
  "fortune_fee = (''0.001'', Some ''Fortune telling'')"

text \<open>\<open>choice\<close> is the random index, below the length of the list.\<close>

definition fortune :: "crates \<Rightarrow> (string \<Rightarrow> bool) \<Rightarrow> nat \<Rightarrow> receipt \<Rightarrow> http_response" where
  "fortune X hv choice r =
     with_receipt X hv r (json_response X 200 (JObj
       [(''fortune'', JStr (if choice < length FORTUNES then FORTUNES ! choice else ''No fortune today.'')),
        (''paid'', JBool True)]))"

section \<open>The token client\<close>

text \<open>What every program that has funds from the faucet submits first.\<close>

definition migrate_payload :: entry_function_payload where
  "migrate_payload = with_type_arguments [''0x1::aptos_coin::AptosCoin'']
     (efp_new ''0x1::coin::migrate_to_fungible_store'' [])"

definition PRICE_PER_TOKEN :: u64 where "PRICE_PER_TOKEN = 1000"
definition TOKENS_PER_VOUCHER :: u64 where "TOKENS_PER_VOUCHER = 10"

definition voucher_step :: u64 where
  "voucher_step = PRICE_PER_TOKEN * TOKENS_PER_VOUCHER"

text \<open>The challenge read as a charge request; its amount is taken for the deposit.\<close>

definition client_deposit :: "crates \<Rightarrow> payment_challenge \<Rightarrow> u64 option" where
  "client_deposit X challenge =
     Option.bind (ok_opt (b64json_decode X ''ChargeRequest'' charge_request_of_json (ch_request challenge)))
       (\<lambda>req. parse_u64 (cr_amount req))"

definition stream_query ::
  "crates \<Rightarrow> movement_provider \<Rightarrow> string \<Rightarrow> bytes \<Rightarrow> u64 \<Rightarrow> chat_query" where
  "stream_query X p prompt channel_id paid =
     \<lparr>cq_prompt = Some prompt, cq_channel_id = Some (''0x'' @ hex_encode X channel_id),
      cq_cumulative_amount = Some (show_u64 paid),
      cq_signature = Some (''0x'' @ hex_encode X (provider_sign_voucher X p channel_id paid)),
      cq_pubkey = Some (''0x'' @ hex_encode X (ed_public X (mv_signing_key p)))\<rparr>"

text \<open>\<open>str::lines\<close>: a line that ends in a line feed loses a carriage return before it, and what
  follows the last line feed is a line if it is not empty.\<close>

definition str_lines :: "string \<Rightarrow> string list" where
  "str_lines s =
     (let pieces = split_on CHR 0x0A s in
      map (\<lambda>l. if l \<noteq> [] \<and> last l = CHR 0x0D then butlast l else l) (butlast pieces)
      @ (if last pieces = [] then [] else [last pieces]))"

text \<open>The tokens in the data lines of an event.\<close>

definition line_tokens :: "crates \<Rightarrow> string \<Rightarrow> string list" where
  "line_tokens X line =
     (case Option.bind (strip_prefix ''data: '' line) (\<lambda>data. Option.bind
            (ok_opt (json_from_slice X (as_bytes data))) (get_str ''token'')) of
       Some token \<Rightarrow> [token] | None \<Rightarrow> [])"

definition event_tokens :: "crates \<Rightarrow> string \<Rightarrow> string list" where
  "event_tokens X event = concat (map (line_tokens X) (str_lines event))"

text \<open>The buffer up to its first blank line, and the rest after it.\<close>

fun cut_event :: "string \<Rightarrow> (string \<times> string) option" where
  "cut_event (a # b # s) =
     (if a = CHR 0x0A \<and> b = CHR 0x0A then Some ([], s)
      else map_option (\<lambda>(event, rest). (a # event, rest)) (cut_event (b # s)))"
| "cut_event s = None"

lemma cut_event_shorter: "cut_event s = Some (event, rest) \<Longrightarrow> length rest < length s"
  by (induction s arbitrary: event rest rule: cut_event.induct) (auto split: if_splits)

text \<open>The events that are complete in the buffer, and what stays in it.\<close>

function drain_events :: "string \<Rightarrow> string list \<times> string" where
  "drain_events buffer =
     (case cut_event buffer of
        None \<Rightarrow> ([], buffer)
      | Some (event, rest) \<Rightarrow>
          (case drain_events rest of (events, left) \<Rightarrow> (event # events, left)))"
  by pat_completeness auto
termination by (relation "measure length") (auto simp: cut_event_shorter)

declare drain_events.simps [simp del]

text \<open>The loop over the chunks of the body, which a transport error ends. Each chunk is decoded on its
  own.\<close>

fun read_events :: "string \<Rightarrow> string list \<Rightarrow> string list" where
  "read_events buffer [] = []"
| "read_events buffer (chunk # chunks) =
     (case drain_events (buffer @ from_utf8_lossy chunk) of
        (events, left) \<Rightarrow> events @ read_events left chunks)"

definition read_tokens :: "crates \<Rightarrow> string list \<Rightarrow> string list" where
  "read_tokens X chunks = concat (map (event_tokens X) (read_events [] chunks))"

text \<open>The transactions the client counts for the server in the answer to its close.\<close>

definition settle_txns :: "json \<Rightarrow> json list" where
  "settle_txns close_body = unwrap_or [] (Option.bind (json_get ''settle_txns'' close_body) as_array)"

definition server_on_chain :: "json \<Rightarrow> nat" where
  "server_on_chain close_body =
     length (settle_txns close_body) + (if json_get ''close_tx'' close_body \<noteq> None then 1 else 0)"

section \<open>The multi-fetch client\<close>

definition PAGE_COUNT :: nat where "PAGE_COUNT = 9"

text \<open>The pages in order, until one is not answered with success; an error panics. The answer says
  whether every page came. \<open>request_of\<close> builds the request of a page.\<close>

fun scrape_pages ::
  "crates \<Rightarrow> 'w http_client \<Rightarrow> 'w payment_provider \<Rightarrow> (string \<Rightarrow> http_request) \<Rightarrow> string list \<Rightarrow> 'w
   \<Rightarrow> bool option \<times> 'w" where
  "scrape_pages X H P request_of [] w = (Some True, w)"
| "scrape_pages X H P request_of (page # pages) w =
     (case send_with_payment X H P (request_of page) w of
        (Inl e, w') \<Rightarrow> (None, w')
      | (Inr resp, w') \<Rightarrow>
          if is_success_status (hr_status resp) then scrape_pages X H P request_of pages w'
          else (Some False, w'))"

definition page_urls :: "string list" where
  "page_urls = map (\<lambda>i. ''https://example.com/page/'' @ show_nat i) [1..<PAGE_COUNT + 1]"

end
