(* ===== verification/Multifetch_Pages.thy ===== *)
theory Multifetch_Pages
  imports Multifetch_Round Example_Scripts
begin

text \<open>
  All pages of the multi-fetch client (examples/rust/src/multifetch_client.rs), through
  \<open>send_with_payment\<close>, the session provider and the server: as long as the deposit lasts, every
  page comes, and both sides agree on what was paid.
\<close>

text \<open>The channel a provider pays with, and its voucher for a total.\<close>

definition holds_channel :: "string \<Rightarrow> bytes \<Rightarrow> bytes \<Rightarrow> page_state \<Rightarrow> bool" where
  "holds_channel key cid sk s \<longleftrightarrow> sp_signing_key (fst s) = sk
     \<and> (case sp_channels (fst s) key of None \<Rightarrow> False | Some e \<Rightarrow> ce_channel_id e = cid)"

definition page_voucher ::
  "crates \<Rightarrow> payment_challenge \<Rightarrow> bytes \<Rightarrow> bytes \<Rightarrow> nat \<Rightarrow> payment_credential" where
  "page_voucher X c cid sk amount = credential_new (to_echo c)
     (voucher_json X ''voucher'' cid (of_nat amount) (sign_voucher X sk cid (of_nat amount)))"

lemma of_nat_unat_add: "unat (w :: u64) = n \<Longrightarrow> of_nat (n + unat a) = w + a"
  by (metis of_nat_add of_nat_unat ucast_id)

lemma pays_page_voucher:
  assumes "session_terms X c = Inr (req, amount, payee, module_addr)"
    and "key = channel_key payee (sr_currency req) module_addr"
    and "shares_channel X key paid deposit s" and "holds_channel key cid sk s"
  obtains p' where "session_pay X net now salt c (fst s) = (Inr (page_voucher X c cid sk (paid + unat amount)), p')"
    and "\<And>st. holds_channel key cid sk (p', st)"
proof -
  obtain p st where s: "s = (p, st)" by fastforce
  obtain e where e: "sp_channels p key = Some e" "ce_opened e" "unat (ce_cumulative_amount e) = paid"
    and cid: "ce_channel_id e = cid" and sk: "sp_signing_key p = sk"
    using assms(3,4) by (auto simp: shares_channel_def in_step_def holds_channel_def s split: option.splits)
  note pay = session_pay_voucher [OF assms(1) e(1) [unfolded assms(2)] e(2), of net now salt]
  have "fst (session_pay X net now salt c p) = Inr (page_voucher X c cid sk (paid + unat amount))"
    using of_nat_unat_add [OF e(3), of amount]
    by (simp add: pay page_voucher_def raise_entry_def cid sk Let_def)
  moreover have "holds_channel key cid sk (snd (session_pay X net now salt c p), st)" for st
    by (simp add: pay holds_channel_def assms(2) raise_entry_def cid sk Let_def)
  ultimately show thesis
    by (intro that [of "snd (session_pay X net now salt c p)"]) (simp_all add: s prod_eq_iff)
qed

lemma round_keeps_provider:
  "pay_round X net net' now salt cfg sreq c s = (ok, s') \<Longrightarrow>
   fst s' = snd (session_pay X net now salt c (fst s))"
  by (auto simp: pay_round_def split: prod.splits sum.splits)

abbreviation page_key :: "string \<Rightarrow> string" where
  "page_key recipient \<equiv> channel_key recipient MOVE_TOKEN_METADATA MULTIFETCH_MODULE"

text \<open>One page, with what the next one needs.\<close>

lemma page_comes:
  assumes m: "multifetch_mpp X net' env recipient = Inr m"
    and X: "b64url_ok X" "hex_ok X" "ed25519_ok X"
    and asked: "page_asked X m recipient hv tx now c req" and receipts: "receipts_travel X hv"
    and shared: "shares_channel X (page_key recipient) paid deposit s"
    and held: "holds_channel (page_key recipient) cid sk s"
    and travels: "credential_travels X hv tx (Inr (page_voucher X c cid sk (paid + 100000)))"
    and room: "paid + 100000 \<le> unat deposit"
  shows "\<exists>resp s'. send_with_payment X (page_client X m hv tx now url_of) (page_provider X net now salt) req s
      = (Inr resp, s') \<and> hr_status resp = 200
    \<and> shares_channel X (page_key recipient) (paid + 100000) deposit s'
    \<and> holds_channel (page_key recipient) cid sk s'"
proof -
  note asks = page_asks [OF m X(1) asked]
  have key: "page_key recipient = channel_key recipient (sr_currency (page_terms recipient)) MULTIFETCH_MODULE"
    by (simp add: page_terms_def session_challenge_request_def)
  obtain p' where pay: "session_pay X net now salt c (fst s) = (Inr (page_voucher X c cid sk (paid + 100000)), p')"
    and held': "\<And>st. holds_channel (page_key recipient) cid sk (p', st)"
    by (rule pays_page_voucher [OF asks(1) key shared held, of net now salt]) simp
  obtain s' where round: "pay_round X net net' now salt multifetch_config (page_terms recipient) c s = (True, s')"
    and sh: "shares_channel X (page_key recipient) (paid + 100000) deposit s'"
    by (rule round_accepted [OF X(2,3) asks(2) shared, where cfg = multifetch_config
        and sreq = "page_terms recipient"]) (use room in \<open>simp_all add: page_delta\<close>)
  have "fst s' = p'" using round_keeps_provider [OF round] pay by simp
  then have held_after: "holds_channel (page_key recipient) cid sk s'" using held' [of "snd s'"] by (metis prod.collapse)
  have whole: "pay_round X net net' now salt multifetch_config (page_terms recipient) c (fst s, snd s)
      = (True, s')"
    using round by simp
  have "credential_travels X hv tx (fst (session_pay X net now salt c (fst s)))"
    using travels by (simp add: pay)
  from answered_page [OF m X(1) asked receipts pay [unfolded page_voucher_def] this voucher_json_reads(1)
      whole, of url_of]
  have "\<exists>resp. send_with_payment X (page_client X m hv tx now url_of) (page_provider X net now salt) req s
      = (Inr resp, s') \<and> hr_status resp = 200" by auto
  with sh held_after show ?thesis by blast
qed

lemma pages_come:
  assumes m: "multifetch_mpp X net' env recipient = Inr m"
    and X: "b64url_ok X" "hex_ok X" "ed25519_ok X" and receipts: "receipts_travel X hv"
    and asked: "\<And>url. page_asked X m recipient hv tx now c (request_of url)"
    and "shares_channel X (page_key recipient) paid deposit s"
    and "holds_channel (page_key recipient) cid sk s"
    and "\<And>k. k < length urls \<Longrightarrow>
      credential_travels X hv tx (Inr (page_voucher X c cid sk (paid + (k + 1) * 100000)))"
    and "paid + length urls * 100000 \<le> unat deposit"
  shows "\<exists>s'. scrape_pages X (page_client X m hv tx now url_of) (page_provider X net now salt) request_of urls s
      = (Some True, s')
    \<and> shares_channel X (page_key recipient) (paid + length urls * 100000) deposit s'"
  using assms(7-10)
proof (induction urls arbitrary: paid s)
  case (Cons url urls)
  have "credential_travels X hv tx (Inr (page_voucher X c cid sk (paid + 100000)))"
    using Cons.prems(3) [of 0] by simp
  moreover have "paid + 100000 \<le> unat deposit" using Cons.prems(4) by simp
  ultimately obtain resp s1 where sent: "send_with_payment X (page_client X m hv tx now url_of)
      (page_provider X net now salt) (request_of url) s = (Inr resp, s1)" "hr_status resp = 200"
    and s1: "shares_channel X (page_key recipient) (paid + 100000) deposit s1"
      "holds_channel (page_key recipient) cid sk s1"
    using page_comes [OF m X asked receipts Cons.prems(1,2)] by blast
  have travel: "credential_travels X hv tx (Inr (page_voucher X c cid sk (paid + 100000 + (k + 1) * 100000)))"
    if "k < length urls" for k
    using Cons.prems(3) [of "Suc k"] that by (simp add: algebra_simps)
  have "paid + 100000 + length urls * 100000 \<le> unat deposit" using Cons.prems(4) by simp
  from Cons.IH [OF s1 travel this] sent show ?case
    by (simp add: is_success_status_def algebra_simps)
qed simp

text \<open>
  C13: every page comes, as long as the deposit lasts. Once client and server share a channel, the
  client's loop over any list of pages ends with every page answered with success, each paid
  with one more voucher over HTTP and none refused, and both sides agree that the price has been
  paid once per page. Challenge and credential of each page survive the headers.
\<close>

theorem all_pages_come:
  assumes "multifetch_mpp X net' env recipient = Inr m"
    and "b64url_ok X" and "hex_ok X" and "ed25519_ok X" and "receipts_travel X hv"
    and "\<And>url. page_asked X m recipient hv tx now c (request_of url)"
    and "shares_channel X (page_key recipient) paid deposit s"
    and "holds_channel (page_key recipient) cid sk s"
    and "\<And>k. k < length urls \<Longrightarrow>
      credential_travels X hv tx (Inr (page_voucher X c cid sk (paid + (k + 1) * 100000)))"
    and "paid + length urls * 100000 \<le> unat deposit"
  shows "\<exists>s'. scrape_pages X (page_client X m hv tx now url_of) (page_provider X net now salt) request_of urls s
      = (Some True, s')
    \<and> shares_channel X (page_key recipient) (paid + length urls * 100000) deposit s'"
  by (rule pages_come [OF assms])

section \<open>Two concrete pages\<close>

lemma visit_holds:
  "holds_channel (page_key ''0xb'') [1, 2] [3] visit_state"
  by (simp add: holds_channel_def visit_state_def visit_entry_def session_provider_new_def)

lemma visit_vouchers:
  "page_voucher visit_world visit_challenge [1, 2] [3] n = visit_credential (of_nat n)"
proof -
  have "sign_voucher visit_world = sign_voucher sample_crates"
    "prefixed_hex visit_world = prefixed_hex sample_crates"
    by (simp_all add: fun_eq_iff sign_voucher_def prefixed_hex_def visit_world_def)
  then show ?thesis by (simp add: page_voucher_def visit_credential_def voucher_json_def)
qed

theorem all_pages_come_witness:
  "\<exists>m s'. multifetch_mpp visit_world sample_net (\<lambda>_. None) ''0xb'' = Inr m
    \<and> scrape_pages visit_world (page_client visit_world m (\<lambda>_. True) (\<lambda>_. True) 0 (\<lambda>_. ''u''))
        (page_provider visit_world sample_net 0 []) (\<lambda>_. round_request) [''u'', ''u''] visit_state = (Some True, s')
    \<and> shares_channel visit_world (page_key ''0xb'') 200010 300000 s'"
proof -
  obtain m where m: "multifetch_mpp visit_world sample_net (\<lambda>_. None) ''0xb'' = Inr m"
    and c: "movement_session_challenge visit_world 0 m AMOUNT_PER_REQUEST page_options = Inr visit_challenge"
    by (rule visit_mpp)
  have receipts: "receipts_travel visit_world (\<lambda>_. True)" by (simp add: receipts_travel_def)
  have travel: "credential_travels visit_world (\<lambda>_. True) (\<lambda>_. True)
      (Inr (page_voucher visit_world visit_challenge [1, 2] [3] (10 + (k + 1) * 100000)))"
    if "k < length [''u'', ''u'']" for k
  proof -
    have "k = 0 \<or> k = 1" using that by auto
    then show ?thesis using visit_credential_travels by (auto simp: visit_vouchers)
  qed
  have "10 + length [''u'', ''u''] * 100000 \<le> unat (300000 :: u64)" by simp
  from all_pages_come [OF m visit_laws(2,1,3) receipts visit_asked [OF c] visit_shared visit_holds travel this,
      of "\<lambda>_. ''u''" sample_net "[]"] m
  show ?thesis by auto
qed

end
