(* ===== verification/Token_Claims.thy ===== *)
theory Token_Claims
  imports Token_Server Sample_Crates
begin

text \<open>
  The properties of the pay-per-token server: the invariant of its table of channels under every
  interleaving of requests, streams and settlements, what a close asks the chain for, and what
  the server trusts without looking at the chain.
\<close>

section \<open>What each step does to a session\<close>

inductive_cases token_stepE: "token_step X hv m cfg w w'"

text \<open>A session is sound if the tokens delivered are paid for at the price, what was settled was
  paid, and the best voucher, if there is one, carries a valid signature.\<close>

definition sound_session :: "crates \<Rightarrow> token_config \<Rightarrow> string \<Rightarrow> channel_session \<Rightarrow> bool" where
  "sound_session X cfg cid s \<longleftrightarrow>
     unat (ss_tokens_delivered s) * unat (tk_price_per_token cfg) \<le> unat (ss_highest_cumulative s)
     \<and> ss_settled_cumulative s \<le> ss_highest_cumulative s
     \<and> (ss_highest_cumulative s = 0 \<or> (\<exists>bytes. hex_decode X (strip_0x cid) = Inr bytes
          \<and> verify_voucher X bytes (ss_highest_cumulative s) (ss_highest_signature s)
              (ss_authorized_pubkey s) (ss_authorized_pubkey s)))"

lemma bought_within:
  assumes "ss_highest_cumulative s \<le> cumulative"
    and "unat (ss_tokens_delivered s) * unat (tk_price_per_token cfg) \<le> unat (ss_highest_cumulative s)"
  shows "unat (ss_tokens_delivered s + tokens_bought cfg s cumulative) * unat (tk_price_per_token cfg)
    \<le> unat cumulative"
proof -
  let ?p = "unat (tk_price_per_token cfg)" and ?t = "unat (ss_tokens_delivered s)"
  let ?d = "unat cumulative - unat (ss_highest_cumulative s)"
  have le: "unat (ss_highest_cumulative s) \<le> unat cumulative"
    using assms(1) by (simp add: word_le_nat_alt)
  have b: "unat (tokens_bought cfg s cumulative) = ?d div ?p"
    using assms(1) by (simp add: tokens_bought_def unat_div_distrib unat_sub)
  have "unat (ss_tokens_delivered s + tokens_bought cfg s cumulative) * ?p \<le> (?t + ?d div ?p) * ?p"
    by (intro mult_le_mono1) (simp add: unat_word_ariths b)
  also have "\<dots> \<le> ?t * ?p + ?d" by (simp add: add_mult_distrib div_times_less_eq_dividend)
  also have "\<dots> \<le> unat cumulative" using assms(2) le by linarith
  finally show ?thesis .
qed

lemma sound_new: "sound_session X cfg cid (new_session X query)"
  by (simp add: sound_session_def new_session_def Let_def)

lemma check_session_Inr:
  "check_session X s cumulative sig bytes = Inr () \<longleftrightarrow>
   ss_highest_cumulative s < cumulative \<and> length (ss_authorized_pubkey s) = 32
   \<and> verify_voucher X bytes cumulative sig (ss_authorized_pubkey s) (ss_authorized_pubkey s)"
  by (auto simp: check_session_def linorder_not_less)

lemma accepted_sound:
  assumes "sound_session X cfg cid s" and "check_session X s cumulative sig bytes = Inr ()"
    and "hex_decode X (strip_0x cid) = Inr bytes"
  shows "sound_session X cfg cid (accept_session_voucher cfg s cumulative sig)"
proof -
  have lt: "ss_highest_cumulative s \<le> cumulative" "ss_settled_cumulative s \<le> ss_highest_cumulative s"
    using assms by (simp_all add: check_session_Inr sound_session_def less_imp_le)
  then have "ss_settled_cumulative s \<le> cumulative" by (rule order_trans [rotated])
  with bought_within [OF lt(1)] assms show ?thesis
    by (auto simp: sound_session_def accept_session_voucher_def check_session_Inr)
qed

text \<open>What a request does to the table: nothing, or one entry, entered or advanced.\<close>

definition entered :: "crates \<Rightarrow> chat_query \<Rightarrow> sessions \<Rightarrow> string \<Rightarrow> channel_session" where
  "entered X query channels cid = (case channels cid of Some s \<Rightarrow> s | None \<Rightarrow> new_session X query)"

lemma chat_cases:
  assumes "chat X hv now m cfg query channels = Some (answer, channels')"
  obtains (same) "channels' = channels" and "\<exists>resp. answer = Refused resp"
  | (enter) cid where "channels' = channels(cid \<mapsto> entered X query channels cid)"
      and "\<exists>resp. answer = Refused resp"
  | (accept) cid cumulative sig bytes where "cq_channel_id query = Some cid"
      and "hex_decode X (strip_0x cid) = Inr bytes"
      and "check_session X (entered X query channels cid) cumulative sig bytes = Inr ()"
      and "channels' = channels(cid \<mapsto> accept_session_voucher cfg (entered X query channels cid) cumulative sig)"
      and "\<And>job due. answer = Streaming job due \<Longrightarrow> sj_channel_id job = cid \<and>
        due = settle_due cid bytes cumulative sig
          (accept_session_voucher cfg (entered X query channels cid) cumulative sig)"
proof (cases "cq_channel_id query")
  case None
  with assms show thesis by (auto simp: chat_def Let_def intro: same)
next
  case (Some cid)
  show thesis
  proof (cases "chat_voucher X query cid")
    case (Inl resp)
    with Some assms show thesis by (auto simp: chat_def Let_def intro: same)
  next
    case (Inr v)
    obtain cumulative sig bytes where v: "v = (cumulative, sig, bytes)" by (cases v) auto
    have b: "hex_decode X (strip_0x cid) = Inr bytes"
      using Inr v by (auto simp: chat_voucher_def res_simps)
    show thesis
    proof (cases "check_session X (entered X query channels cid) cumulative sig bytes")
      case (Inl resp)
      with Some Inr v assms show thesis
        by (intro enter [of cid]) (auto simp: chat_def Let_def entered_def)
    next
      case c: (Inr u)
      with Some Inr v assms b show thesis
        by (intro accept [of cid bytes cumulative sig])
          (auto simp: chat_def Let_def entered_def split: if_splits)
    qed
  qed
qed

section \<open>The invariant\<close>

definition token_inv :: "crates \<Rightarrow> token_config \<Rightarrow> token_world \<Rightarrow> bool" where
  "token_inv X cfg w \<longleftrightarrow>
     (\<forall>cid s. tw_sessions w cid = Some s \<longrightarrow> sound_session X cfg cid s)
     \<and> (\<forall>job \<in> set (tw_settles w). \<exists>s. tw_sessions w (sl_channel_id job) = Some s
          \<and> sl_cumulative job \<le> ss_highest_cumulative s)"

text \<open>A session only grows: the key stays, the voucher and the count of the settled rise or stay.\<close>

definition session_grows :: "channel_session \<Rightarrow> channel_session \<Rightarrow> bool" where
  "session_grows s s' \<longleftrightarrow> ss_authorized_pubkey s' = ss_authorized_pubkey s
     \<and> ss_highest_cumulative s \<le> ss_highest_cumulative s'"

definition table_grows :: "sessions \<Rightarrow> sessions \<Rightarrow> bool" where
  "table_grows t t' \<longleftrightarrow> (\<forall>cid s. t cid = Some s \<longrightarrow> (\<exists>s'. t' cid = Some s' \<and> session_grows s s'))"

lemma session_grows_refl [simp]: "session_grows s s"
  by (simp add: session_grows_def)

lemma table_grows_refl [simp]: "table_grows t t"
  by (simp add: table_grows_def)

lemma table_grows_update:
  "(\<And>s. t cid = Some s \<Longrightarrow> session_grows s s') \<Longrightarrow> table_grows t (t(cid \<mapsto> s'))"
  by (auto simp: table_grows_def)

lemma accept_grows:
  "check_session X s cumulative sig bytes = Inr () \<Longrightarrow>
   session_grows s (accept_session_voucher cfg s cumulative sig)"
  by (simp add: session_grows_def accept_session_voucher_def check_session_Inr less_imp_le)

lemma entered_eq: "channels cid = Some s \<Longrightarrow> entered X query channels cid = s"
  by (simp add: entered_def)

lemma chat_grows:
  assumes "chat X hv now m cfg query channels = Some (answer, channels')"
  shows "table_grows channels channels'"
  using assms
  by (cases rule: chat_cases) (auto intro!: table_grows_update accept_grows simp: entered_eq)

lemma stream_done_grows: "table_grows channels (stream_done job channels)"
  by (auto simp: stream_done_def Let_def session_grows_def intro!: table_grows_update split: option.splits)

lemma settle_done_grows: "table_grows channels (settle_done job tx channels)"
  by (auto simp: settle_done_def session_grows_def intro!: table_grows_update split: option.splits)

lemma step_grows: "token_step X hv m cfg w w' \<Longrightarrow> table_grows (tw_sessions w) (tw_sessions w')"
  by (erule token_stepE) (auto intro: chat_grows stream_done_grows settle_done_grows)

lemma grown_above:
  assumes "table_grows t t'" and "\<exists>s. t cid = Some s \<and> n \<le> ss_highest_cumulative s"
  shows "\<exists>s. t' cid = Some s \<and> n \<le> ss_highest_cumulative s"
  using assms unfolding table_grows_def session_grows_def by (meson order_trans)

lemma chat_sound:
  assumes "chat X hv now m cfg query channels = Some (answer, channels')"
    and all: "\<forall>cid s. channels cid = Some s \<longrightarrow> sound_session X cfg cid s"
  shows "\<forall>cid s. channels' cid = Some s \<longrightarrow> sound_session X cfg cid s"
proof -
  have e: "sound_session X cfg cid (entered X query channels cid)" for cid
    using all sound_new by (auto simp: entered_def split: option.splits)
  from assms(1) show ?thesis
    by (cases rule: chat_cases) (use all e accepted_sound in auto)
qed

lemma stream_done_sound:
  assumes "\<forall>cid s. channels cid = Some s \<longrightarrow> sound_session X cfg cid s"
  shows "\<forall>cid s. stream_done job channels cid = Some s \<longrightarrow> sound_session X cfg cid s"
proof -
  have "sound_session X cfg cid (s\<lparr>ss_tokens_delivered := saturating_sub (ss_tokens_delivered s) n\<rparr>)"
    if "sound_session X cfg cid s" for cid s n
  proof -
    have "unat (saturating_sub (ss_tokens_delivered s) n) * unat (tk_price_per_token cfg)
        \<le> unat (ss_tokens_delivered s) * unat (tk_price_per_token cfg)"
      by (intro mult_le_mono1) (simp add: unat_saturating_sub)
    also have "\<dots> \<le> unat (ss_highest_cumulative s)" using that by (simp add: sound_session_def)
    finally show ?thesis using that by (simp add: sound_session_def)
  qed
  with assms show ?thesis
    by (auto simp: stream_done_def Let_def split: option.splits if_splits)
qed

lemma settle_done_sound:
  assumes "\<forall>cid s. channels cid = Some s \<longrightarrow> sound_session X cfg cid s"
    and "\<exists>s. channels (sl_channel_id job) = Some s \<and> sl_cumulative job \<le> ss_highest_cumulative s"
  shows "\<forall>cid s. settle_done job tx channels cid = Some s \<longrightarrow> sound_session X cfg cid s"
  using assms by (auto simp: settle_done_def sound_session_def split: option.splits if_splits)

lemma token_step_inv:
  assumes "token_step X hv m cfg w w'" and inv: "token_inv X cfg w"
  shows "token_inv X cfg w'"
proof -
  have jobs: "\<exists>s. tw_sessions w' (sl_channel_id job) = Some s \<and> sl_cumulative job \<le> ss_highest_cumulative s"
    if "job \<in> set (tw_settles w)" for job
    using grown_above [OF step_grows [OF assms(1)]] inv that by (simp add: token_inv_def)
  from assms(1) show ?thesis
  proof cases
    case (Sell now query job due channels)
    have "\<exists>s. channels (sl_channel_id d) = Some s \<and> sl_cumulative d \<le> ss_highest_cumulative s"
      if "due = Some d" for d
      using Sell(2)
    proof (cases rule: chat_cases)
      case (accept cid cumulative sig bytes)
      with that show ?thesis
        by (auto simp: settle_due_def accept_session_voucher_def split: if_splits)
    qed auto
    with Sell jobs inv chat_sound [OF Sell(2)] show ?thesis
      by (auto simp: token_inv_def split: option.splits)
  next
    case (Refuse now query resp channels)
    with jobs inv chat_sound [OF Refuse(2)] show ?thesis by (simp add: token_inv_def)
  next
    case Stream_Ends
    with jobs inv stream_done_sound [of "tw_sessions w" X cfg] show ?thesis by (simp add: token_inv_def)
  next
    case (Settled job now net tx)
    with jobs inv settle_done_sound [of "tw_sessions w" X cfg job] show ?thesis
      by (auto simp: token_inv_def dest: notin_set_remove1)
  qed (use jobs inv in \<open>auto simp: token_inv_def dest: notin_set_remove1\<close>)
qed

lemma token_reachable_inv: "token_reachable X hv m cfg w \<Longrightarrow> token_inv X cfg w"
proof (induction rule: token_reachable.induct)
  case Start
  show ?case by (simp add: token_start_def token_inv_def)
next
  case (Step w w')
  then show ?case by (blast intro: token_step_inv)
qed

text \<open>
  C17: no token is given away, and none is charged twice. In every reachable state, whatever the
  order of requests, streams and settlements, the tokens delivered on a channel at the price of
  the server cost no more than its best voucher, which is validly signed by the key of the
  session; what was settled is within that voucher; and a close asks the chain for exactly the
  delivered tokens at the price, with no wrap-around, and reports the rest as the refund.
\<close>

theorem token_sessions_paid:
  assumes "token_reachable X hv m cfg w" and "tw_sessions w cid = Some s"
  shows "sound_session X cfg cid s
    \<and> unat (settle_amount cfg s) = unat (ss_tokens_delivered s) * unat (tk_price_per_token cfg)
    \<and> settle_amount cfg s \<le> ss_highest_cumulative s"
proof -
  have s: "sound_session X cfg cid s"
    using token_reachable_inv [OF assms(1)] assms(2) by (simp add: token_inv_def)
  let ?fair = "ss_tokens_delivered s * tk_price_per_token cfg"
  have "unat ?fair = unat (ss_tokens_delivered s) * unat (tk_price_per_token cfg)"
    using s unat_u64_lt [of "ss_highest_cumulative s"]
    by (simp add: sound_session_def unat_word_ariths)
  moreover from this have "?fair \<le> ss_highest_cumulative s"
    using s by (simp add: sound_session_def word_le_nat_alt)
  ultimately show ?thesis using s by (simp add: settle_amount_def)
qed

section \<open>What the server does not ask the chain\<close>

definition self_made_query :: "crates \<Rightarrow> bytes \<Rightarrow> bytes \<Rightarrow> u64 \<Rightarrow> chat_query" where
  "self_made_query X signing_key channel_id n =
     \<lparr>cq_prompt = None, cq_channel_id = Some (''0x'' @ hex_encode X channel_id),
      cq_cumulative_amount = Some (show_u64 n),
      cq_signature = Some (hex_encode X (sign_voucher X signing_key channel_id n)),
      cq_pubkey = Some (hex_encode X (ed_public X signing_key))\<rparr>"

lemma chat_sells:
  assumes "cq_channel_id q = Some cid" and "channels cid = None"
    and "chat_voucher X q cid = Inr (n, sig, bytes)"
    and "check_session X (new_session X q) n sig bytes = Inr ()"
    and "tk_price_per_token cfg \<noteq> 0" and "tokens_bought cfg (new_session X q) n = bought" and "bought \<noteq> 0"
  shows "\<exists>job due. chat X hv now m cfg q channels = Some (Streaming job due,
      channels(cid \<mapsto> accept_session_voucher cfg (new_session X q) n sig))
    \<and> sj_tokens job = generate_tokens (unwrap_or ''Hello!'' (cq_prompt q))
        (ss_tokens_delivered (new_session X q)) bought"
  using assms by (simp add: chat_def Let_def)

lemma self_made_accepted:
  assumes "hex_ok X" and "ed25519_ok X" and "channels (''0x'' @ hex_encode X channel_id) = None"
    and "tk_price_per_token cfg \<noteq> 0" and "tk_price_per_token cfg \<le> n"
  shows "\<exists>job due. chat X hv now m cfg (self_made_query X sk channel_id n) channels
      = Some (Streaming job due, channels(''0x'' @ hex_encode X channel_id \<mapsto>
          accept_session_voucher cfg (new_session X (self_made_query X sk channel_id n)) n
            (sign_voucher X sk channel_id n)))
    \<and> sj_tokens job = take (unat (n div tk_price_per_token cfg)) (all_words ''Hello!'')"
proof -
  let ?q = "self_made_query X sk channel_id n" and ?cid = "''0x'' @ hex_encode X channel_id"
  let ?s = "new_session X ?q"
  have bought: "tokens_bought cfg ?s n = n div tk_price_per_token cfg"
    by (simp add: tokens_bought_def new_session_def Let_def)
  have "0 < unat n div unat (tk_price_per_token cfg)"
    using assms(4,5) by (simp add: div_greater_zero_iff word_le_nat_alt unat_gt_0)
  then have "unat (n div tk_price_per_token cfg) \<noteq> 0" by (simp only: unat_div_distrib)
  then have pos: "n div tk_price_per_token cfg \<noteq> 0" by (metis unat_0)
  have "n \<noteq> 0" using assms(4,5) by (auto simp: word_le_nat_alt unat_eq_0)
  then have check: "check_session X ?s n (sign_voucher X sk channel_id n) channel_id = Inr ()"
    using assms(1,2)
    by (simp add: check_session_Inr new_session_def self_made_query_def Let_def hex_text_decodes
        length_ed_public sign_then_verify word_gt_0)
  have voucher: "chat_voucher X ?q ?cid = Inr (n, sign_voucher X sk channel_id n, channel_id)"
    using assms(1,2)
    by (simp add: chat_voucher_def self_made_query_def hex_text_decodes hex_ok_decode length_sign_voucher)
  have cid: "cq_channel_id ?q = Some ?cid" "cq_prompt ?q = None" by (simp_all add: self_made_query_def)
  have "ss_tokens_delivered ?s = 0" by (simp add: new_session_def Let_def)
  then show ?thesis
    using chat_sells [where channels = channels, OF cid(1) assms(3) voucher check assms(4) bought pos, of hv now m] cid(2)
    by (auto simp: generate_tokens_def)
qed

text \<open>
  Tokens without a channel. A client that makes up a channel identifier and a key, and signs
  a voucher for itself, is streamed the tokens the voucher names: the first request for an
  identifier chooses the key its vouchers are checked with, and the chain is never asked whether
  the channel exists or what it holds.
\<close>

theorem tokens_without_channel:
  assumes "hex_ok X" and "ed25519_ok X" and "channels (''0x'' @ hex_encode X channel_id) = None"
    and "tk_price_per_token cfg \<noteq> 0" and "tk_price_per_token cfg \<le> n"
  shows "\<exists>job due channels'. chat X hv now m cfg (self_made_query X sk channel_id n) channels
      = Some (Streaming job due, channels')
    \<and> sj_tokens job = take (unat (n div tk_price_per_token cfg)) (all_words ''Hello!'')"
  using self_made_accepted [where channels = channels, OF assms] by blast

definition sample_token_config :: token_config where
  "sample_token_config = \<lparr>tk_server_address = ''0x5'', tk_token_metadata = ''0xa'',
     tk_price_per_token = 1000, tk_suggested_deposit = 100000,
     tk_provider = movement_provider_with_address [] [] ''0x5''\<rparr>"

definition sample_token_mpp :: "unit mpp" where
  "sample_token_mpp = mpp_new (\<lambda>_ _ _. Inl (verification_error_new [])) ''realm'' ''key''"

definition tea_channel :: bytes where "tea_channel = [1, 2, 3, 4, 5, 6, 7, 8]"

theorem tokens_without_channel_witness:
  "\<exists>job due channels'. chat sample_crates (\<lambda>_. True) 0 sample_token_mpp sample_token_config
      (self_made_query sample_crates [7] tea_channel 3000) Map.empty
      = Some (Streaming job due, channels')
    \<and> sj_tokens job = take 3 (all_words ''Hello!'')"
proof -
  have "unat ((3000 :: u64) div tk_price_per_token sample_token_config) = 3"
    by (simp add: sample_token_config_def unat_div_distrib)
  with tokens_without_channel [of sample_crates Map.empty tea_channel sample_token_config 3000]
  show ?thesis
    by (simp add: sample_token_config_def word_le_nat_alt)
qed

definition sample_sold :: channel_session where
  "sample_sold = accept_session_voucher sample_token_config
     (new_session sample_crates (self_made_query sample_crates [7] tea_channel 3000)) 3000
     (sign_voucher sample_crates [7] tea_channel 3000)"

lemma sample_token_sold:
  obtains w where "token_reachable sample_crates (\<lambda>_. True) sample_token_mpp sample_token_config w"
    and "tw_sessions w (''0x'' @ hex_encode sample_crates tea_channel) = Some sample_sold"
proof -
  have p: "tk_price_per_token sample_token_config \<noteq> 0" "tk_price_per_token sample_token_config \<le> 3000"
    by (simp_all add: sample_token_config_def word_le_nat_alt)
  obtain job due where "chat sample_crates (\<lambda>_. True) 0 sample_token_mpp sample_token_config
      (self_made_query sample_crates [7] tea_channel 3000) (tw_sessions token_start)
    = Some (Streaming job due, (tw_sessions token_start)
        (''0x'' @ hex_encode sample_crates tea_channel \<mapsto> sample_sold))"
    using self_made_accepted [where channels = "tw_sessions token_start" and sk = "[7]" and hv = "\<lambda>_. True"
        and now = 0 and m = sample_token_mpp and channel_id = tea_channel, OF sample_crates_hex_ok
        sample_crates_ed25519_ok _ p]
    unfolding sample_sold_def [symmetric] by (auto simp: token_start_def)
  from token_reachable.Step [OF token_reachable.Start token_step.Sell [OF this]] that
  show thesis by simp
qed

theorem token_sessions_paid_witness:
  "unat (settle_amount sample_token_config sample_sold) = 3 * 1000"
proof -
  obtain w where "token_reachable sample_crates (\<lambda>_. True) sample_token_mpp sample_token_config w"
    "tw_sessions w (''0x'' @ hex_encode sample_crates tea_channel) = Some sample_sold"
    by (rule sample_token_sold)
  from token_sessions_paid [OF this] show ?thesis
    by (simp add: sample_sold_def accept_session_voucher_def new_session_def tokens_bought_def
        sample_token_config_def unat_div_distrib Let_def)
qed

section \<open>The first request owns the channel\<close>

lemma steps_grow:
  "(token_step X hv m cfg)\<^sup>*\<^sup>* w w' \<Longrightarrow> tw_sessions w cid = Some s \<Longrightarrow>
   \<exists>s'. tw_sessions w' cid = Some s' \<and> session_grows s s'"
proof (induction rule: rtranclp_induct)
  case base
  then show ?case by simp
next
  case (step v w')
  then obtain s' where "tw_sessions v cid = Some s'" "session_grows s s'" by blast
  with step_grows [OF step.hyps(2)] show ?case
    unfolding table_grows_def session_grows_def by (metis order_trans)
qed

text \<open>
  The first request owns a channel identifier for good, whether or not its voucher was
  accepted. The key of a session never changes and its best voucher never falls; so once a
  request has entered an identifier with a key that is not 32 bytes long, say with no key at
  all, no later request for it is ever served.
\<close>

theorem first_request_owns_channel:
  assumes "(token_step X hv m cfg)\<^sup>*\<^sup>* w w'" and "tw_sessions w cid = Some s"
  shows "\<exists>s'. tw_sessions w' cid = Some s' \<and> ss_authorized_pubkey s' = ss_authorized_pubkey s
    \<and> ss_highest_cumulative s \<le> ss_highest_cumulative s'
    \<and> (length (ss_authorized_pubkey s) = 32
       \<or> (\<forall>now query job due channels. cq_channel_id query = Some cid \<longrightarrow>
            chat X hv now m cfg query (tw_sessions w') \<noteq> Some (Streaming job due, channels)))"
proof -
  obtain s' where s': "tw_sessions w' cid = Some s'" "session_grows s s'"
    using steps_grow [OF assms] by blast
  have "length (ss_authorized_pubkey s) = 32"
    if "cq_channel_id query = Some cid"
      "chat X hv now m cfg query (tw_sessions w') = Some (Streaming job due, channels)"
    for now query job due channels
    using that(2)
  proof (cases rule: chat_cases)
    case (accept c cumulative sig bytes)
    with that(1) s' show ?thesis
      by (simp add: entered_eq check_session_Inr session_grows_def)
  qed auto
  with s' show ?thesis unfolding session_grows_def by blast
qed

text \<open>A request with no key at all, for an identifier nobody has used.\<close>

definition squatting_query :: chat_query where
  "squatting_query = (self_made_query sample_crates [7] tea_channel 3000)\<lparr>cq_pubkey := None\<rparr>"

definition squatted :: token_world where
  "squatted = token_start\<lparr>tw_sessions :=
     [''0x'' @ hex_encode sample_crates tea_channel \<mapsto> new_session sample_crates squatting_query]\<rparr>"

lemma chat_enters:
  assumes "cq_channel_id q = Some cid" and "channels cid = None"
    and "chat_voucher X q cid = Inr (n, sig, bytes)"
    and "check_session X (new_session X q) n sig bytes = Inl resp"
  shows "chat X hv now m cfg q channels = Some (Refused resp, channels(cid \<mapsto> new_session X q))"
  using assms by (simp add: chat_def Let_def)

theorem first_request_owns_channel_witness:
  "token_step sample_crates (\<lambda>_. True) sample_token_mpp sample_token_config token_start squatted
   \<and> \<not> (case chat sample_crates (\<lambda>_. True) 0 sample_token_mpp sample_token_config
          (self_made_query sample_crates [7] tea_channel 3000) (tw_sessions squatted) of
        Some (Streaming job due, channels) \<Rightarrow> True | _ \<Rightarrow> False)"
proof -
  let ?cid = "''0x'' @ hex_encode sample_crates tea_channel"
  let ?s = "new_session sample_crates squatting_query"
  have sq: "tw_sessions squatted ?cid = Some ?s" by (simp add: squatted_def)
  have len: "length (ss_authorized_pubkey ?s) = 0"
    by (simp add: new_session_def squatting_query_def Let_def strip_0x_def strip_prefix_def starts_with_def
        sample_crates_def)
  have voucher: "chat_voucher sample_crates squatting_query ?cid
      = Inr (3000, sign_voucher sample_crates [7] tea_channel 3000, tea_channel)"
    using sample_crates_hex_ok sample_crates_ed25519_ok
    by (simp add: chat_voucher_def squatting_query_def self_made_query_def hex_text_decodes hex_ok_decode
        length_sign_voucher del: sample_crates_hex_ok sample_crates_ed25519_ok)
  have "check_session sample_crates ?s 3000 sig bytes
      = Inl (bad_request sample_crates ''pubkey must be 32 bytes; send pubkey= on first request'')" for sig bytes
    using len by (simp add: check_session_def) (simp add: new_session_def Let_def)
  note chat_enters [where channels = "tw_sessions token_start", OF _ _ voucher this]
  moreover have "cq_channel_id squatting_query = Some ?cid" "tw_sessions token_start ?cid = None"
    "(tw_sessions token_start)(?cid \<mapsto> ?s) = tw_sessions squatted"
    by (simp_all add: squatting_query_def self_made_query_def token_start_def squatted_def)
  ultimately have "chat sample_crates (\<lambda>_. True) 0 sample_token_mpp sample_token_config squatting_query
      (tw_sessions token_start) = Some (Refused (bad_request sample_crates
        ''pubkey must be 32 bytes; send pubkey= on first request''), tw_sessions squatted)"
    by metis
  from token_step.Refuse [OF this]
  have step: "token_step sample_crates (\<lambda>_. True) sample_token_mpp sample_token_config token_start squatted"
    by (simp add: squatted_def token_start_def)
  have q: "cq_channel_id (self_made_query sample_crates [7] tea_channel 3000) = Some ?cid"
    by (simp add: self_made_query_def)
  from first_request_owns_channel [OF rtranclp.rtrancl_refl sq, where X = sample_crates and hv = "\<lambda>_. True"
      and m = sample_token_mpp and cfg = sample_token_config] len q sq step
  show ?thesis by (auto split: option.splits prod.splits chat_answer.splits)
qed

end
