(* ===== verification/Token_Client.thy ===== *)
theory Token_Client
  imports Example_Scripts
begin

text \<open>
  The pay-per-token client as a whole (examples/rust/src/sse_client.rs): it asks for a
  challenge, opens a channel on chain, presents the opening, sends vouchers as long as the
  deposit lasts, reads the streamed tokens, and asks the server to close. The server is a record
  of the two requests the client sends it, over the state of the server; a request that does not
  get through makes the client panic, which is \<open>None\<close> as the outcome. The loop need not end, so
  it is a partial function, with \<open>None\<close> as a whole for a run that does not return. Funding the
  wallet and printing are left out.
\<close>

text \<open>An answer is a response and the chunks its body arrives in. A closing answers the JSON of
  its body, \<open>JNull\<close> if it is none.\<close>

record 's chat_api =
  api_chat :: "chat_query \<Rightarrow> string option \<Rightarrow> 's \<Rightarrow> (http_response \<times> string list) option \<times> 's"
  api_close :: "string \<Rightarrow> 's \<Rightarrow> json option \<times> 's"

definition plain_query :: "string \<Rightarrow> chat_query" where
  "plain_query prompt = \<lparr>cq_prompt = Some prompt, cq_channel_id = None, cq_cumulative_amount = None,
     cq_signature = None, cq_pubkey = None\<rparr>"

text \<open>The challenge of a 402, the request in it, the deposit and the recipient; \<open>is_text\<close> is
  whether \<open>to_str\<close> takes a header value for text.\<close>

definition token_offer ::
  "crates \<Rightarrow> (string \<Rightarrow> bool) \<Rightarrow> http_response \<Rightarrow> (payment_challenge \<times> charge_request \<times> u64 \<times> string) option" where
  "token_offer X is_text resp =
     Option.bind (header_get ''www-authenticate'' (hr_headers resp)) (\<lambda>www_auth.
     if \<not> is_text www_auth then None else Option.bind (ok_opt (parse_www_authenticate X www_auth)) (\<lambda>challenge.
     Option.bind (ok_opt (b64json_decode X ''ChargeRequest'' charge_request_of_json
       (ch_request challenge))) (\<lambda>req.
     Option.bind (client_deposit X challenge) (\<lambda>deposit.
     Option.bind (cr_recipient req) (\<lambda>recipient. Some (challenge, req, deposit, recipient))))))"

partial_function (option) token_loop ::
  "(u64 \<Rightarrow> 's \<Rightarrow> (http_response \<times> string list) option \<times> 's) \<Rightarrow> crates \<Rightarrow> u64 \<Rightarrow> u64 \<Rightarrow> u32 \<Rightarrow> string list
   \<Rightarrow> 's \<Rightarrow> ((u64 \<times> u32 \<times> string list) option \<times> 's) option" where
  "token_loop ask X deposit paid sent printed s =
     (if deposit < paid + voucher_step then Some (Some (paid, sent, printed), s)
      else case fst (ask (paid + voucher_step) s) of
        None \<Rightarrow> Some (None, snd (ask (paid + voucher_step) s))
      | Some answer \<Rightarrow>
          if \<not> is_success_status (hr_status (fst answer))
          then Some (Some (paid + voucher_step, sent + 1, printed), snd (ask (paid + voucher_step) s))
          else token_loop ask X deposit (paid + voucher_step) (sent + 1)
            (printed @ read_tokens X (snd answer)) (snd (ask (paid + voucher_step) s)))"

record token_summary =
  tm_printed :: "string list"
  tm_vouchers :: u32
  tm_paid :: u64
  tm_deposit :: u64
  tm_refund :: u64
  tm_server_on_chain :: nat
  tm_channel :: string

datatype token_outcome = Unexpected_Answer string | Finished token_summary

definition token_summary_of ::
  "u64 \<Rightarrow> string \<Rightarrow> u64 \<times> u32 \<times> string list \<Rightarrow> json \<Rightarrow> token_summary" where
  "token_summary_of deposit channel run close_body =
     (case run of (paid, sent, printed) \<Rightarrow>
       \<lparr>tm_printed = printed, tm_vouchers = sent, tm_paid = paid, tm_deposit = deposit,
        tm_refund = deposit - paid, tm_server_on_chain = server_on_chain close_body,
        tm_channel = channel\<rparr>)"

text \<open>The steps after the channel is open.\<close>

definition token_session ::
  "crates \<Rightarrow> movement_provider \<Rightarrow> string \<Rightarrow> 's chat_api \<Rightarrow> u64 \<Rightarrow> bytes \<Rightarrow> string \<Rightarrow> 's
   \<Rightarrow> (token_outcome option \<times> 's) option" where
  "token_session X p prompt A deposit channel_id auth s =
     (case api_chat A (plain_query prompt) (Some auth) s of
        (None, s') \<Rightarrow> Some (None, s')
      | (Some _, s') \<Rightarrow>
          let channel = ''0x'' @ hex_encode X channel_id;
              ask = (\<lambda>paid. api_chat A (stream_query X p prompt channel_id paid) None) in
          Option.bind (token_loop ask X deposit 0 0 [] s') (\<lambda>(outcome, s'').
            Some (case outcome of
                None \<Rightarrow> (None, s'')
              | Some run \<Rightarrow>
                  (case api_close A channel s'' of
                     (None, s3) \<Rightarrow> (None, s3)
                   | (Some body, s3) \<Rightarrow>
                       (Some (Finished (token_summary_of deposit channel run body)), s3)))))"

definition token_client ::
  "crates \<Rightarrow> (string \<Rightarrow> bool) \<Rightarrow> network \<Rightarrow> int \<Rightarrow> movement_provider \<Rightarrow> string \<Rightarrow> bytes \<Rightarrow> 's chat_api \<Rightarrow> 's
   \<Rightarrow> (token_outcome option \<times> 's) option" where
  "token_client X is_text net now p prompt salt A s =
     (case api_chat A (plain_query prompt) None s of
        (None, s') \<Rightarrow> Some (None, s')
      | (Some (resp, chunks), s') \<Rightarrow>
          if hr_status resp \<noteq> 402 then Some (Some (Unexpected_Answer (hr_body resp)), s')
          else
            (case token_offer X is_text resp of
               None \<Rightarrow> Some (None, s')
             | Some (challenge, req, deposit, recipient) \<Rightarrow>
                 (case open_channel X net now p TOKEN_MODULE TOKEN_MODULE recipient (cr_currency req)
                      deposit salt of
                    Inl e \<Rightarrow> Some (None, s')
                  | Inr (open_tx, channel_id) \<Rightarrow>
                      (case format_authorization X (credential_new (to_echo challenge)
                           (payment_payload_to_json (payload_hash open_tx))) of
                         Inl e \<Rightarrow> Some (None, s')
                       | Inr auth \<Rightarrow> token_session X p prompt A deposit channel_id auth s'))))"

section \<open>The token server as the client meets it\<close>

text \<open>
  The server of \<open>Token_Server\<close>, with one client at a time: a stream is read to its end before
  the next request. \<open>pieces\<close> is how a streamed body is cut into chunks on the way. The handlers do
  not read the \<open>Authorization\<close> header. A handler that panics drops the connection.
\<close>

definition stream_response :: "crates \<Rightarrow> stream_job \<Rightarrow> http_response" where
  "stream_response X job =
     \<lparr>hr_status = 200,
      hr_headers = [(''content-type'', ''text/event-stream''), (''cache-control'', ''no-cache'')],
      hr_body = concat (stream_events X job)\<rparr>"

definition token_api ::
  "crates \<Rightarrow> (string \<Rightarrow> bool) \<Rightarrow> network \<Rightarrow> int \<Rightarrow> 's mpp \<Rightarrow> token_config \<Rightarrow> (stream_job \<Rightarrow> string list)
   \<Rightarrow> sessions chat_api" where
  "token_api X hv net now m cfg pieces =
     \<lparr>api_chat = \<lambda>query auth channels.
        (case chat X hv now m cfg query channels of
           None \<Rightarrow> (None, channels)
         | Some (Refused resp, channels') \<Rightarrow> (Some (resp, [hr_body resp]), channels')
         | Some (Streaming job due, channels') \<Rightarrow>
             (Some (stream_response X job, pieces job), stream_done job channels')),
      api_close = \<lambda>channel_id channels.
        (case token_close X net now cfg channel_id channels of
           None \<Rightarrow> (None, channels)
         | Some j \<Rightarrow> (Some (unwrap_or JNull (ok_opt (json_from_slice X (as_bytes (json_text X j))))),
             channels))\<rparr>"

end
