(* ===== verification/Sample_Json.thy ===== *)
theory Sample_Json
  imports Json Sample_Crates
begin

text \<open>
  A printer and parser of JSON values that agree, for the closed instances of the theorems that
  assume it of serde_json: a prefix code in printable characters, with numbers in unary. The
  parser takes as many steps as the text is long.
\<close>

fun code_nat :: "nat \<Rightarrow> string" where
  "code_nat 0 = ''.''"
| "code_nat (Suc n) = CHR ''i'' # code_nat n"

fun read_nat :: "string \<Rightarrow> (nat \<times> string) option" where
  "read_nat [] = None"
| "read_nat (c # s) =
     (if c = CHR ''i'' then map_option (\<lambda>(n, rest). (Suc n, rest)) (read_nat s) else Some (0, s))"

definition code_str :: "string \<Rightarrow> string" where
  "code_str s = code_nat (length s) @ concat (map (\<lambda>c. code_nat (of_char c)) s)"

fun read_chars :: "nat \<Rightarrow> string \<Rightarrow> (string \<times> string) option" where
  "read_chars 0 s = Some ([], s)"
| "read_chars (Suc n) s = Option.bind (read_nat s) (\<lambda>(c, rest).
     map_option (\<lambda>(cs, rest'). (char_of c # cs, rest')) (read_chars n rest))"

definition read_str :: "string \<Rightarrow> (string \<times> string) option" where
  "read_str s = Option.bind (read_nat s) (\<lambda>(n, rest). read_chars n rest)"

fun code_json :: "json \<Rightarrow> string"
  and code_entry :: "string \<times> json \<Rightarrow> string" where
  "code_json JNull = ''n''"
| "code_json (JBool b) = (if b then ''t'' else ''f'')"
| "code_json (JInt n) = (if 0 \<le> n then ''p'' else ''m'') @ code_nat (nat \<bar>n\<bar>)"
| "code_json (JFloat s) = ''d'' @ code_str s"
| "code_json (JStr s) = ''s'' @ code_str s"
| "code_json (JArr vs) = ''a'' @ code_nat (length vs) @ concat (map code_json vs)"
| "code_json (JObj kvs) = ''o'' @ code_nat (length kvs) @ concat (map code_entry kvs)"
| "code_entry (k, v) = code_str k @ code_json v"

fun read_json :: "nat \<Rightarrow> string \<Rightarrow> (json \<times> string) option"
  and read_values :: "nat \<Rightarrow> nat \<Rightarrow> string \<Rightarrow> (json list \<times> string) option"
  and read_entries :: "nat \<Rightarrow> nat \<Rightarrow> string \<Rightarrow> ((string \<times> json) list \<times> string) option" where
  "read_json 0 s = None"
| "read_json (Suc fuel) [] = None"
| "read_json (Suc fuel) (c # s) =
     (if c = CHR ''n'' then Some (JNull, s)
      else if c = CHR ''t'' then Some (JBool True, s)
      else if c = CHR ''f'' then Some (JBool False, s)
      else if c = CHR ''p'' then map_option (\<lambda>(n, rest). (JInt (int n), rest)) (read_nat s)
      else if c = CHR ''m'' then map_option (\<lambda>(n, rest). (JInt (- int n), rest)) (read_nat s)
      else if c = CHR ''d'' then map_option (\<lambda>(t, rest). (JFloat t, rest)) (read_str s)
      else if c = CHR ''s'' then map_option (\<lambda>(t, rest). (JStr t, rest)) (read_str s)
      else if c = CHR ''a'' then Option.bind (read_nat s) (\<lambda>(n, rest).
        map_option (\<lambda>(vs, rest'). (JArr vs, rest')) (read_values fuel n rest))
      else Option.bind (read_nat s) (\<lambda>(n, rest).
        map_option (\<lambda>(kvs, rest'). (JObj kvs, rest')) (read_entries fuel n rest)))"
| "read_values fuel 0 s = Some ([], s)"
| "read_values 0 (Suc n) s = None"
| "read_values (Suc fuel) (Suc n) s = Option.bind (read_json fuel s) (\<lambda>(v, rest).
     map_option (\<lambda>(vs, rest'). (v # vs, rest')) (read_values fuel n rest))"
| "read_entries fuel 0 s = Some ([], s)"
| "read_entries 0 (Suc n) s = None"
| "read_entries (Suc fuel) (Suc n) s = Option.bind (read_str s) (\<lambda>(k, rest).
     Option.bind (read_json fuel rest) (\<lambda>(v, rest').
     map_option (\<lambda>(kvs, rest''). ((k, v) # kvs, rest'')) (read_entries fuel n rest')))"

lemma read_code_nat [simp]: "read_nat (code_nat n @ s) = Some (n, s)"
  by (induction n) simp_all

lemma read_code_chars: "read_chars (length t) (concat (map (\<lambda>c. code_nat (of_char c)) t) @ s) = Some (t, s)"
  by (induction t) simp_all

lemma read_code_str [simp]: "read_str (code_str t @ s) = Some (t, s)"
  by (simp add: read_str_def code_str_def read_code_chars)

text \<open>The steps a value takes: one per value and one per element of a list.\<close>

fun json_steps :: "json \<Rightarrow> nat"
  and entry_steps :: "string \<times> json \<Rightarrow> nat" where
  "json_steps (JArr vs) = Suc (length vs + sum_list (map json_steps vs))"
| "json_steps (JObj kvs) = Suc (length kvs + sum_list (map entry_steps kvs))"
| "json_steps j = 1"
| "entry_steps (k, v) = json_steps v"

lemma read_values_coded:
  assumes "\<And>v fuel s. v \<in> set vs \<Longrightarrow> json_steps v \<le> fuel \<Longrightarrow> read_json fuel (code_json v @ s) = Some (v, s)"
    and "length vs + sum_list (map json_steps vs) \<le> fuel"
  shows "read_values fuel (length vs) (concat (map code_json vs) @ s) = Some (vs, s)"
  using assms
proof (induction vs arbitrary: fuel)
  case (Cons v vs)
  then obtain m where "fuel = Suc m" by (cases fuel) auto
  with Cons show ?case by simp
qed simp

lemma read_entries_coded:
  assumes "\<And>k v fuel s. (k, v) \<in> set kvs \<Longrightarrow> json_steps v \<le> fuel \<Longrightarrow>
      read_json fuel (code_json v @ s) = Some (v, s)"
    and "length kvs + sum_list (map entry_steps kvs) \<le> fuel"
  shows "read_entries fuel (length kvs) (concat (map code_entry kvs) @ s) = Some (kvs, s)"
  using assms
proof (induction kvs arbitrary: fuel)
  case (Cons kv kvs)
  obtain k v where kv: "kv = (k, v)" by (cases kv)
  obtain m where m: "fuel = Suc m" using Cons.prems(2) by (cases fuel) auto
  have "read_json m (code_json v @ t) = Some (v, t)" for t
    using Cons.prems(1) [of k v m t] Cons.prems(2) kv m by simp
  moreover have "read_entries m (length kvs) (concat (map code_entry kvs) @ s) = Some (kvs, s)"
    by (rule Cons.IH) (use Cons.prems kv m in auto)
  ultimately show ?case by (simp add: kv m)
qed simp

lemma read_code_json:
  "json_steps j \<le> fuel \<Longrightarrow> read_json fuel (code_json j @ s) = Some (j, s)"
  "json_steps (snd (e :: string \<times> json)) \<le> fuel \<Longrightarrow>
     read_json fuel (code_json (snd e) @ s) = Some (snd e, s)"
proof (induction j and e arbitrary: fuel s and fuel s rule: code_json_code_entry.induct)
  case (6 vs)
  then obtain m where "fuel = Suc m" by (cases fuel) auto
  with 6 show ?case by (simp add: read_values_coded)
next
  case (7 kvs)
  then obtain m where m: "fuel = Suc m" by (cases fuel) auto
  have "read_json f (code_json v @ t) = Some (v, t)" if "(k, v) \<in> set kvs" "json_steps v \<le> f" for k v f t
    using 7(1) [OF that(1)] that(2) by simp
  with 7(2) m show ?case by (simp add: read_entries_coded)
next
  case (3 n)
  then obtain m where "fuel = Suc m" by (cases fuel) auto
  then show ?case by simp
qed (auto simp: Suc_le_eq gr0_conv_Suc)

lemma code_json_long: "json_steps j \<le> length (code_json j)" "entry_steps e \<le> length (code_entry e)"
proof (induction j and e rule: code_json_code_entry.induct)
  case (6 vs)
  have "length vs \<le> length (code_nat (length vs))" by (induction vs) simp_all
  moreover have "sum_list (map json_steps vs) \<le> sum_list (map (length \<circ> code_json) vs)"
    using 6 by (intro sum_list_mono) simp
  ultimately show ?case by (simp add: length_concat)
next
  case (7 kvs)
  have "length kvs \<le> length (code_nat (length kvs))" by (induction kvs) simp_all
  moreover have "sum_list (map entry_steps kvs) \<le> sum_list (map (length \<circ> code_entry) kvs)"
    using 7 by (intro sum_list_mono) simp
  ultimately show ?case by (simp add: length_concat)
qed simp_all

definition parse_json_text :: "string \<Rightarrow> string + json" where
  "parse_json_text s = (case read_json (length s) s of Some (j, []) \<Rightarrow> Inr j | _ \<Rightarrow> Inl ''expected value'')"

lemma parse_code_json [simp]: "parse_json_text (code_json j) = Inr j"
  using read_code_json(1) [OF code_json_long(1) [of j], of "[]"] by (simp add: parse_json_text_def)

lemma code_nat_one_line: "set (code_nat n) \<subseteq> {CHR ''i'', CHR ''.''}"
  by (induction n) auto

lemma code_str_one_line: "set (code_str s) \<subseteq> {CHR ''i'', CHR ''.''}"
  using code_nat_one_line by (fastforce simp: code_str_def)

lemma code_json_one_line: "CHR 0x0A \<notin> set (code_json j)" "CHR 0x0A \<notin> set (code_entry e)"
proof (induction j and e rule: code_json_code_entry.induct)
qed (use code_nat_one_line code_str_one_line in \<open>auto simp: subset_iff\<close>)

lemma code_nat_ascii: "\<forall>c \<in> set (code_nat n). code c < 0x80"
  by (induction n) simp_all

lemma code_str_ascii: "\<forall>c \<in> set (code_str s). code c < 0x80"
  using code_nat_ascii by (auto simp: code_str_def)

lemma code_json_ascii: "\<forall>c \<in> set (code_json j). code c < 0x80" "\<forall>c \<in> set (code_entry e). code c < 0x80"
  by (induction j and e rule: code_json_code_entry.induct)
    (simp_all add: ball_Un code_nat_ascii code_str_ascii)

text \<open>The sample crates with this printer and parser.\<close>

definition text_of_bytes :: "bytes \<Rightarrow> string" where
  "text_of_bytes bs = map (\<lambda>b. char_of (unat b)) bs"

definition json_crates :: crates where
  "json_crates = sample_crates\<lparr>
     json_from_slice := \<lambda>bs. parse_json_text (text_of_bytes bs),
     json_to_string := \<lambda>j. Inr (code_json j), json_to_string_pretty := \<lambda>j. Inr (code_json j),
     json_canonical := \<lambda>j. Inr (code_json j)\<rparr>"

lemma text_of_as_bytes [simp]: "text_of_bytes (as_bytes s) = s"
proof -
  have "unat (of_char c :: u8) = of_char c" for c
  proof -
    have "unat (of_char c :: u8) = unat (of_nat (code c) :: u8)" by (simp add: of_nat_of_char)
    also have "\<dots> = of_char c" using code_lt [of c] by (simp add: unat_of_nat)
    finally show ?thesis .
  qed
  then show ?thesis by (simp add: text_of_bytes_def as_bytes_def map_idI)
qed

lemma json_crates_json [simp]:
  "json_to_string json_crates j = Inr (code_json j)"
  "json_from_slice json_crates (as_bytes (code_json j)) = Inr j"
  by (simp_all add: json_crates_def)

lemma json_crates_laws [simp]:
  "hex_ok json_crates" "b64url_ok json_crates" "ed25519_ok json_crates"
  using sample_crates_hex_ok sample_crates_b64url_ok sample_crates_ed25519_ok
  by (simp_all add: json_crates_def hex_ok_def b64url_ok_def ed25519_ok_def)

end
