(* ===== verification/Example_Claims.thy ===== *)
theory Example_Claims
  imports Example_Scripts Server_Claims Token_Claims Sample_Json
begin

text \<open>The token client of examples/rust/src/sse_client.rs reads what the token server streams.\<close>

lemma voucher_step_val: "unat voucher_step = 10000"
  by (simp add: voucher_step_def PRICE_PER_TOKEN_def TOKENS_PER_VOUCHER_def)

section \<open>The stream\<close>

lemma cut_event_append: "cut_event s = Some (event, rest) \<Longrightarrow> cut_event (s @ behind) = Some (event, rest @ behind)"
  by (induction s arbitrary: event rest rule: cut_event.induct) (auto split: if_splits)

lemma cut_event_at_blank_line:
  "cut_event (event @ [CHR 0x0A]) = None \<Longrightarrow>
   cut_event (event @ CHR 0x0A # CHR 0x0A # rest) = Some (event, rest)"
proof (induction event)
  case (Cons c event)
  then show ?case by (cases event) (auto split: if_splits)
qed simp

lemma drain_events_append:
  "drain_events (s @ behind) =
     (case drain_events s of (events, left) \<Rightarrow>
        case drain_events (left @ behind) of (events', left') \<Rightarrow> (events @ events', left'))"
proof (induction s rule: drain_events.induct)
  case (1 s)
  show ?case
  proof (cases "cut_event s")
    case None
    then show ?thesis by (simp add: drain_events.simps [of s] split: prod.splits)
  next
    case (Some cut)
    obtain event rest where cut: "cut = (event, rest)" by (cases cut)
    with 1 [OF Some cut [symmetric]] show ?thesis
      by (simp add: drain_events.simps [of s] drain_events.simps [of "s @ behind"] Some
          cut_event_append split: prod.splits)
  qed
qed

lemma drain_events_left: "drain_events s = (events, left) \<Longrightarrow> cut_event left = None"
proof (induction s arbitrary: events rule: drain_events.induct)
  case (1 s)
  then show ?case
    by (subst (asm) (2) drain_events.simps) (auto split: option.splits prod.splits)
qed

lemma read_events_drain:
  "cut_event buffer = None \<Longrightarrow>
   read_events buffer chunks = fst (drain_events (buffer @ concat (map from_utf8_lossy chunks)))"
proof (induction chunks arbitrary: buffer)
  case Nil
  then show ?case by (simp add: drain_events.simps [of buffer])
next
  case (Cons chunk chunks)
  let ?chunk = "from_utf8_lossy chunk" and ?behind = "concat (map from_utf8_lossy chunks)"
  obtain events left where d: "drain_events (buffer @ ?chunk) = (events, left)"
    by (cases "drain_events (buffer @ ?chunk)")
  have "read_events left chunks = fst (drain_events (left @ ?behind))"
    by (rule Cons.IH) (rule drain_events_left [OF d])
  with drain_events_append [of "buffer @ ?chunk" ?behind] d show ?case
    by (simp split: prod.splits)
qed

lemma cut_event_skip [simp]: "c \<noteq> CHR 0x0A \<Longrightarrow> cut_event (c # s) = None \<longleftrightarrow> cut_event s = None"
  by (cases s) auto

lemma cut_event_one_line: "CHR 0x0A \<notin> set line \<Longrightarrow> cut_event (line @ [CHR 0x0A]) = None"
  by (induction line) auto

lemma drain_events_whole:
  "(\<And>event. event \<in> set events \<Longrightarrow> cut_event (event @ [CHR 0x0A]) = None) \<Longrightarrow>
   drain_events (concat (map (\<lambda>event. event @ [CHR 0x0A, CHR 0x0A]) events)) = (events, [])"
proof (induction events)
  case (Cons event events)
  then show ?case
    by (subst drain_events.simps) (simp add: cut_event_at_blank_line)
qed (simp add: drain_events.simps)

text \<open>A printed document is one line and reads back.\<close>

definition one_line :: "crates \<Rightarrow> json \<Rightarrow> bool" where
  "one_line X j \<longleftrightarrow> CHR 0x0A \<notin> set (json_text X j)
     \<and> json_from_slice X (as_bytes (json_text X j)) = Inr j"

definition streamed_values :: "stream_job \<Rightarrow> json list" where
  "streamed_values job =
     map (\<lambda>(i, token). token_json i token) (enumerate 1 (sj_tokens job)) @ [receipt_json job]"

definition token_line :: "crates \<Rightarrow> nat \<times> string \<Rightarrow> string" where
  "token_line X entry = ''data: '' @ json_text X (token_json (fst entry) (snd entry))"

definition receipt_lines :: "crates \<Rightarrow> stream_job \<Rightarrow> string" where
  "receipt_lines X job =
     ''event: receipt'' @ [CHR 0x0A] @ ''data: '' @ json_text X (receipt_json job)"

lemma stream_events_lines:
  "stream_events X job = map (\<lambda>event. event @ [CHR 0x0A, CHR 0x0A])
     (map (token_line X) (enumerate 1 (sj_tokens job)) @ [receipt_lines X job])"
  by (simp add: stream_events_def token_event_def token_line_def receipt_lines_def split_beta)

lemma line_tokens_data:
  "line_tokens X (''data: '' @ text) =
     (case Option.bind (ok_opt (json_from_slice X (as_bytes text))) (get_str ''token'') of
       Some token \<Rightarrow> [token] | None \<Rightarrow> [])"
  by (simp add: line_tokens_def strip_prefix_def starts_with_def)

lemma event_tokens_of_token:
  assumes "one_line X (token_json i token)"
  shows "event_tokens X (token_line X (i, token)) = [token]"
proof -
  have "str_lines (token_line X (i, token)) = [''data: '' @ json_text X (token_json i token)]"
    using assms by (simp add: str_lines_def token_line_def one_line_def split_on_no_sep)
  then show ?thesis
    using assms by (simp add: event_tokens_def line_tokens_data one_line_def token_json_def get_str_def
        del: append_Cons)
qed

lemma event_tokens_of_receipt:
  assumes "one_line X (receipt_json job)"
  shows "event_tokens X (receipt_lines X job) = []"
proof -
  have "str_lines (receipt_lines X job)
      = [''event: receipt'', ''data: '' @ json_text X (receipt_json job)]"
    using assms by (simp add: str_lines_def receipt_lines_def one_line_def split_on_no_sep)
  moreover have "line_tokens X ''event: receipt'' = []"
    by (simp add: line_tokens_def strip_prefix_def starts_with_def)
  ultimately show ?thesis
    using assms by (simp add: event_tokens_def line_tokens_data one_line_def receipt_json_def get_str_def
        del: append_Cons)
qed

lemma stream_is_read:
  assumes "concat chunks = concat (stream_events X job)" and "list_all is_utf8 chunks"
    and "list_all (one_line X) (streamed_values job)"
  shows "read_tokens X chunks = sj_tokens job"
proof -
  let ?tokens = "enumerate 1 (sj_tokens job)"
  have token: "one_line X (token_json i token)" if "(i, token) \<in> set ?tokens" for i token
    using assms(3) that by (auto simp: streamed_values_def list_all_iff)
  have receipt: "one_line X (receipt_json job)"
    using assms(3) by (simp add: streamed_values_def)
  let ?events = "map (token_line X) ?tokens @ [receipt_lines X job]"
  have "cut_event (event @ [CHR 0x0A]) = None" if "event \<in> set ?events" for event
    using that token receipt
    by (auto simp: token_line_def receipt_lines_def one_line_def cut_event_one_line)
  then have "drain_events (concat (stream_events X job)) = (?events, [])"
    unfolding stream_events_lines by (rule drain_events_whole)
  then have "read_events [] chunks = ?events"
    using read_events_drain [of "[]" chunks] assms(1) decoded_pieces [OF assms(2)] by simp
  moreover have "concat (map (event_tokens X \<circ> token_line X) entries) = map snd entries"
    if "set entries \<subseteq> set ?tokens" for entries
    using that token by (induction entries) (auto simp: event_tokens_of_token)
  ultimately show ?thesis
    using event_tokens_of_receipt [OF receipt] by (simp add: read_tokens_def del: One_nat_def)
qed


definition streamed_job :: stream_job where
  "streamed_job = \<lparr>sj_channel_id = ''0xc'', sj_tokens = [''Hi''], sj_bought = 1, sj_cumulative = 7,
     sj_voucher = 1\<rparr>"

definition stream_world :: crates where
  "stream_world = sample_crates\<lparr>
     json_to_string := \<lambda>j. Inr (if get_str ''token'' j = None then ''r'' else ''t''),
     json_from_slice := \<lambda>bs. Inr (if bs = as_bytes ''t'' then token_json 1 ''Hi'' else receipt_json streamed_job)\<rparr>"


text \<open>A body of ASCII may be cut anywhere.\<close>

lemma ascii_pieces: "\<forall>c \<in> set (concat chunks). code c < 0x80 \<Longrightarrow> list_all is_utf8 chunks"
  by (auto simp: list_all_iff intro!: utf8_ascii)

text \<open>
  A chunk that ends inside a character spoils the token. A token of one character, e with acute
  accent, is printed as two replacement characters if the body is cut between its two bytes.
\<close>

definition accent_world :: crates where
  "accent_world = sample_crates\<lparr>json_to_string := \<lambda>j. Inr (unwrap_or [] (get_str ''token'' j)),
     json_from_slice := \<lambda>bs. Inr (token_json 1 (text_of_bytes bs))\<rparr>"

theorem cut_character_spoils_token:
  \<open>token_event accent_world 1 [CHR 0xC3, CHR 0xA9] = ''data: '' @ [CHR 0xC3, CHR 0xA9, CHR 0x0A, CHR 0x0A]
   \<and> read_tokens accent_world [''data: '' @ [CHR 0xC3, CHR 0xA9, CHR 0x0A, CHR 0x0A]] = [[CHR 0xC3, CHR 0xA9]]
   \<and> read_tokens accent_world [''data: '' @ [CHR 0xC3], [CHR 0xA9, CHR 0x0A, CHR 0x0A]]
     = [replacement_char @ replacement_char]\<close>
  by (simp add: token_event_def token_json_def json_text_def accent_world_def get_str_def read_tokens_def
      drain_events.simps utf8_extra_def utf8_width_def utf8_second_def utf8_continues_def Let_def
      event_tokens_def str_lines_def split_on_no_sep line_tokens_def strip_prefix_def starts_with_def
      replacement_char_def del: One_nat_def)

end
