(* ===== verification/Token_Round.thy ===== *)
theory Token_Round
  imports Token_Client Example_Claims Multifetch_Round Sample_Json
begin

text \<open>
  The pay-per-token client against the pay-per-token server: what a run of the client reads and
  leaves on the server, whatever it holds for the deposit, and what comes of the deposit it
  takes from the server's challenge.
\<close>

section \<open>One voucher\<close>

text \<open>The server's books on the channel: nothing yet, or a session under the client's key.\<close>

definition books_at :: "crates \<Rightarrow> movement_provider \<Rightarrow> string \<Rightarrow> nat \<Rightarrow> nat \<Rightarrow> sessions \<Rightarrow> bool" where
  "books_at X p cid paid delivered channels \<longleftrightarrow>
     (case channels cid of
        None \<Rightarrow> paid = 0 \<and> delivered = 0
      | Some s \<Rightarrow> ss_authorized_pubkey s = ed_public X (mv_signing_key p)
          \<and> unat (ss_highest_cumulative s) = paid \<and> unat (ss_tokens_delivered s) = delivered)"

text \<open>The streams of a channel: tokens of the answer to the prompt. Their documents hold texts of the
  prompt and the server, indices below 1000 and machine integers, which serde_json prints on one
  line and reads back; a network hands over their bodies in pieces.\<close>

definition prompt_job :: "string \<Rightarrow> string \<Rightarrow> stream_job \<Rightarrow> bool" where
  "prompt_job prompt cid job \<longleftrightarrow> sj_channel_id job = cid
     \<and> set (sj_tokens job) \<subseteq> set (all_words prompt) \<and> length (sj_tokens job) < 1000"

definition stream_json_ok :: "crates \<Rightarrow> string \<Rightarrow> string \<Rightarrow> bool" where
  "stream_json_ok X prompt cid \<longleftrightarrow>
     (\<forall>job. prompt_job prompt cid job \<longrightarrow> list_all (one_line X) (streamed_values job))"

definition cut_between_chars :: "crates \<Rightarrow> string \<Rightarrow> string \<Rightarrow> (stream_job \<Rightarrow> string list) \<Rightarrow> bool" where
  "cut_between_chars X prompt cid pieces \<longleftrightarrow>
     (\<forall>job. prompt_job prompt cid job \<longrightarrow>
       concat (pieces job) = concat (stream_events X job) \<and> list_all is_utf8 (pieces job))"

definition session_at :: "crates \<Rightarrow> chat_query \<Rightarrow> string \<Rightarrow> sessions \<Rightarrow> channel_session" where
  "session_at X query cid channels = (case channels cid of Some s \<Rightarrow> s | None \<Rightarrow> new_session X query)"

lemma session_at_books:
  assumes "hex_ok X" and "books_at X p cid paid delivered channels"
  shows "ss_authorized_pubkey (session_at X (stream_query X p prompt channel_id n) cid channels)
      = ed_public X (mv_signing_key p)"
    and "unat (ss_highest_cumulative (session_at X (stream_query X p prompt channel_id n) cid channels)) = paid"
    and "unat (ss_tokens_delivered (session_at X (stream_query X p prompt channel_id n) cid channels)) = delivered"
proof -
  have "hex_decode X (strip_0x (''0x'' @ hex_encode X bs)) = Inr bs" for bs
    using assms(1) by (simp add: hex_text_decodes del: append_Cons)
  then show "ss_authorized_pubkey (session_at X (stream_query X p prompt channel_id n) cid channels)
      = ed_public X (mv_signing_key p)"
    and "unat (ss_highest_cumulative (session_at X (stream_query X p prompt channel_id n) cid channels)) = paid"
    and "unat (ss_tokens_delivered (session_at X (stream_query X p prompt channel_id n) cid channels)) = delivered"
    using assms(2)
    by (auto simp: session_at_def books_at_def new_session_def stream_query_def Let_def split: option.splits
        simp del: append_Cons)
qed

lemma stream_query_reads:
  assumes "hex_ok X" and "ed25519_ok X"
  shows "chat_voucher X (stream_query X p prompt channel_id n) (''0x'' @ hex_encode X channel_id)
      = Inr (n, sign_voucher X (mv_signing_key p) channel_id n, channel_id)"
    and "cq_channel_id (stream_query X p prompt channel_id n) = Some (''0x'' @ hex_encode X channel_id)"
    and "cq_prompt (stream_query X p prompt channel_id n) = Some prompt"
proof -
  have "hex_decode X (strip_0x (''0x'' @ hex_encode X bs)) = Inr bs" for bs
    using assms(1) by (simp add: hex_text_decodes del: append_Cons)
  then show "chat_voucher X (stream_query X p prompt channel_id n) (''0x'' @ hex_encode X channel_id)
      = Inr (n, sign_voucher X (mv_signing_key p) channel_id n, channel_id)"
    using assms(2)
    by (simp add: chat_voucher_def stream_query_def provider_sign_voucher_def length_sign_voucher
        del: append_Cons)
qed (simp_all add: stream_query_def)

text \<open>What a voucher \<open>n\<close> that the server takes buys from session \<open>s\<close>.\<close>

lemma chat_takes_voucher:
  assumes "hex_ok X" and "ed25519_ok X" and "tk_price_per_token cfg \<noteq> 0"
    and "s = session_at X (stream_query X p prompt channel_id n) (''0x'' @ hex_encode X channel_id) channels"
    and "ss_authorized_pubkey s = ed_public X (mv_signing_key p)" and "ss_highest_cumulative s < n"
    and "tokens_bought cfg s n \<noteq> 0"
  shows "\<exists>job due. chat X hv now m cfg (stream_query X p prompt channel_id n) channels
      = Some (Streaming job due, channels(''0x'' @ hex_encode X channel_id \<mapsto>
          accept_session_voucher cfg s n (sign_voucher X (mv_signing_key p) channel_id n)))
    \<and> sj_channel_id job = ''0x'' @ hex_encode X channel_id \<and> sj_bought job = tokens_bought cfg s n
    \<and> sj_tokens job = generate_tokens prompt (ss_tokens_delivered s) (tokens_bought cfg s n)"
proof -
  let ?q = "stream_query X p prompt channel_id n" and ?cid = "''0x'' @ hex_encode X channel_id"
  let ?sig = "sign_voucher X (mv_signing_key p) channel_id n"
  note reads = stream_query_reads [OF assms(1,2), of p prompt channel_id n]
  moreover have "check_session X s n ?sig channel_id = Inr ()"
    using assms(2,5,6) by (simp add: check_session_Inr length_ed_public sign_then_verify)
  ultimately show ?thesis
    using assms(3,4,7) by (simp add: chat_def session_at_def Let_def del: append_Cons)
qed

text \<open>
  A price of zero, which the environment can set, makes the first valid voucher panic the server,
  with the lock on its table held.
\<close>

theorem free_tokens_panic:
  assumes "hex_ok X" and "ed25519_ok X" and "tk_price_per_token cfg = 0"
    and "channels (''0x'' @ hex_encode X channel_id) = None" and "n \<noteq> 0"
  shows "chat X hv now m cfg (stream_query X p prompt channel_id n) channels = None"
proof -
  let ?q = "stream_query X p prompt channel_id n" and ?cid = "''0x'' @ hex_encode X channel_id"
  have "books_at X p ?cid 0 0 channels" using assms(4) by (simp add: books_at_def)
  note at = session_at_books [OF assms(1) this, of prompt channel_id n]
  have "ss_highest_cumulative (session_at X ?q ?cid channels) < n"
    using at(2) assms(5) by (metis unat_eq_0 word_gt_0)
  then have "check_session X (session_at X ?q ?cid channels) n
      (sign_voucher X (mv_signing_key p) channel_id n) channel_id = Inr ()"
    using at(1) assms(2) by (simp add: check_session_Inr length_ed_public sign_then_verify)
  then show ?thesis
    using stream_query_reads [OF assms(1,2), of p prompt channel_id n] assms(3)
    by (simp add: chat_def session_at_def Let_def del: append_Cons)
qed

lemma all_words_short: "length (all_words prompt) < 1000"
  by (simp add: all_words_def)

text \<open>After the stream, the session counts what was really streamed.\<close>

lemma stream_done_counts:
  assumes "channels cid = Some s" and "unat (ss_tokens_delivered s) = d + unat (sj_bought job)"
    and "sj_channel_id job = cid" and "length (sj_tokens job) \<le> unat (sj_bought job)"
  shows "\<exists>s'. stream_done job channels cid = Some s' \<and> unat (ss_tokens_delivered s') = d + length (sj_tokens job)
    \<and> ss_authorized_pubkey s' = ss_authorized_pubkey s \<and> ss_highest_cumulative s' = ss_highest_cumulative s"
proof -
  let ?over = "sj_bought job - of_nat (length (sj_tokens job))"
  have len: "unat (of_nat (length (sj_tokens job)) :: u64) = length (sj_tokens job)"
    using assms(4) unat_u64_lt [of "sj_bought job"] by (simp add: unat_of_nat)
  then have over: "unat ?over = unat (sj_bought job) - length (sj_tokens job)"
    using assms(4) by (simp add: unat_sub word_le_nat_alt)
  show ?thesis
  proof (cases "0 < ?over")
    case True
    then show ?thesis
      using assms over
      by (simp add: stream_done_def Let_def unat_saturating_sub word_less_nat_alt)
  next
    case False
    then have "unat (sj_bought job) = length (sj_tokens job)"
      using over assms(4) by (simp add: word_less_nat_alt)
    with False assms show ?thesis by (simp add: stream_done_def Let_def)
  qed
qed

lemma add_min_sub: "a \<le> l \<Longrightarrow> a + min q (l - a) = min (a + q) (l :: nat)"
  by linarith

lemma ask_step:
  assumes X: "hex_ok X" "ed25519_ok X" "stream_json_ok X prompt (''0x'' @ hex_encode X channel_id)"
    and price: "0 < unat (tk_price_per_token cfg)" "unat (tk_price_per_token cfg) \<le> 10000"
    and cut: "cut_between_chars X prompt (''0x'' @ hex_encode X channel_id) pieces"
    and books: "books_at X p (''0x'' @ hex_encode X channel_id) paid delivered channels"
    and d: "delivered \<le> length (all_words prompt)" and n: "unat n = paid + 10000"
  obtains job channels' where
    "api_chat (token_api X hv net now m cfg pieces) (stream_query X p prompt channel_id n) None channels
      = (Some (stream_response X job, pieces job), channels')"
    and "read_tokens X (pieces job)
      = take (10000 div unat (tk_price_per_token cfg)) (drop delivered (all_words prompt))"
    and "books_at X p (''0x'' @ hex_encode X channel_id) (paid + 10000)
      (min (delivered + 10000 div unat (tk_price_per_token cfg)) (length (all_words prompt))) channels'"
proof -
  let ?cid = "''0x'' @ hex_encode X channel_id" and ?q = "10000 div unat (tk_price_per_token cfg)"
  let ?sig = "sign_voucher X (mv_signing_key p) channel_id n"
  define s where s: "s = session_at X (stream_query X p prompt channel_id n) ?cid channels"
  have at: "ss_authorized_pubkey s = ed_public X (mv_signing_key p)"
      "unat (ss_highest_cumulative s) = paid" "unat (ss_tokens_delivered s) = delivered"
    unfolding s by (rule session_at_books [OF X(1) books])+
  have above: "ss_highest_cumulative s < n" using at(2) n by (simp add: word_less_nat_alt)
  then have bought: "unat (tokens_bought cfg s n) = ?q"
    using at(2) n by (simp add: tokens_bought_def unat_div_distrib unat_sub less_imp_le)
  have "0 < ?q" using price by (simp add: div_greater_zero_iff)
  with bought have some: "tokens_bought cfg s n \<noteq> 0" by (auto simp del: div_greater_zero_iff)
  have "tk_price_per_token cfg \<noteq> 0" using price(1) by auto
  from chat_takes_voucher [OF X(1,2) this s at(1) above some, of hv now m]
  obtain job due where sold: "chat X hv now m cfg (stream_query X p prompt channel_id n) channels
      = Some (Streaming job due, channels(?cid \<mapsto> accept_session_voucher cfg s n ?sig))"
    and job: "sj_channel_id job = ?cid" "sj_bought job = tokens_bought cfg s n"
      "sj_tokens job = take ?q (drop delivered (all_words prompt))"
    by (auto simp: generate_tokens_def at(3) bought)
  have "delivered + ?q \<le> 1000 + 10000"
    using d all_words_short [of prompt] by (intro add_mono) simp_all
  then have "delivered + ?q < 2 ^ 64" by (rule le_less_trans) simp
  then have "unat (ss_tokens_delivered (accept_session_voucher cfg s n ?sig)) = delivered + ?q"
    by (simp add: accept_session_voucher_def unat_word_ariths at(3) bought)
  then obtain s' where s': "stream_done job (channels(?cid \<mapsto> accept_session_voucher cfg s n ?sig)) ?cid = Some s'"
    "unat (ss_tokens_delivered s') = delivered + length (sj_tokens job)"
    "ss_authorized_pubkey s' = ss_authorized_pubkey s" "ss_highest_cumulative s' = n"
    using stream_done_counts [of "channels(?cid \<mapsto> accept_session_voucher cfg s n ?sig)" ?cid
        "accept_session_voucher cfg s n ?sig" delivered job] job bought
    by (auto simp: accept_session_voucher_def)
  have len: "delivered + length (sj_tokens job) = min (delivered + ?q) (length (all_words prompt))"
    unfolding add_min_sub [OF d, symmetric] by (simp add: job(3) min.commute)
  have ours: "prompt_job prompt ?cid job"
    unfolding prompt_job_def job(1,3)
    by (intro conjI refl order_trans [OF set_take_subset set_drop_subset]
        le_less_trans [OF _ all_words_short [of prompt]]) simp
  show thesis
  proof (rule that [of job])
    show "read_tokens X (pieces job) = take ?q (drop delivered (all_words prompt))"
      using ours X(3) cut job(3) stream_is_read [of "pieces job" X job]
      by (simp add: stream_json_ok_def cut_between_chars_def del: append_Cons)
    show "books_at X p ?cid (paid + 10000) (min (delivered + ?q) (length (all_words prompt)))
        (stream_done job (channels(?cid \<mapsto> accept_session_voucher cfg s n ?sig)))"
      using s' at(1) n len by (simp add: books_at_def)
  qed (simp add: token_api_def sold)
qed

section \<open>The loop\<close>

lemma take_step: "take n xs @ take q (drop n xs) = take (n + q) xs"
  by (simp add: take_add)

lemma take_min: "take (min n (length xs)) xs = take n xs" "drop (min n (length xs)) xs = drop n xs"
  by (simp_all add: min_def)

lemma token_loop_buys:
  assumes "\<not> deposit < paid + voucher_step" and "ask (paid + voucher_step) s = (Some (resp, chunks), s')"
    and "is_success_status (hr_status resp)"
  shows "token_loop ask X deposit paid sent printed s
    = token_loop ask X deposit (paid + voucher_step) (sent + 1) (printed @ read_tokens X chunks) s'"
  using assms by (subst token_loop.simps) simp

lemma token_loop_from:
  assumes X: "hex_ok X" "ed25519_ok X" "stream_json_ok X prompt (''0x'' @ hex_encode X channel_id)"
    and price: "0 < unat (tk_price_per_token cfg)" "unat (tk_price_per_token cfg) \<le> 10000"
    and cut: "cut_between_chars X prompt (''0x'' @ hex_encode X channel_id) pieces"
    and deposit: "unat deposit + 10000 < 2 ^ 64"
    and words_def: "words = all_words prompt" and q_def: "q = 10000 div unat (tk_price_per_token cfg)"
    and cid_def: "cid = ''0x'' @ hex_encode X channel_id"
    and ask_def: "ask = (\<lambda>paid. api_chat (token_api X hv net now m cfg pieces) (stream_query X p prompt channel_id paid) None)"
    and "unat paid = k * 10000" and "k * 10000 \<le> unat deposit"
    and "books_at X p cid (k * 10000) (min (k * q) (length words)) channels"
  shows "\<exists>channels'. token_loop ask X deposit paid (of_nat k) (take (k * q) words) channels
      = Some (Some (of_nat (unat deposit div 10000 * 10000), of_nat (unat deposit div 10000),
          take (unat deposit div 10000 * q) words), channels')
    \<and> books_at X p cid (unat deposit div 10000 * 10000)
        (min (unat deposit div 10000 * q) (length words)) channels'"
  using assms(12-14)
proof (induction "unat deposit - k * 10000" arbitrary: k paid channels rule: less_induct)
  case less
  have next_val: "unat (paid + voucher_step) = k * 10000 + 10000"
    using less.prems(1,2) deposit by (simp add: unat_word_ariths voucher_step_val)
  show ?case
  proof (cases "unat deposit < k * 10000 + 10000")
    case True
    then have k: "unat deposit div 10000 = k"
      using less.prems(2) by (intro div_nat_eqI) simp_all
    have "paid = of_nat (k * 10000)" using less.prems(1) by (metis of_nat_unat ucast_id)
    moreover have "deposit < paid + voucher_step" using True by (simp add: word_less_nat_alt next_val)
    then have "token_loop ask X deposit paid (of_nat k) (take (k * q) words) channels
        = Some (Some (paid, of_nat k, take (k * q) words), channels)"
      by (subst token_loop.simps) simp
    ultimately show ?thesis using less.prems(3) unfolding k by blast
  next
    case False
    obtain job channels' where
      asked: "ask (paid + voucher_step) channels = (Some (stream_response X job, pieces job), channels')"
      and got: "read_tokens X (pieces job) = take q (drop (min (k * q) (length words)) words)"
      and books: "books_at X p cid (k * 10000 + 10000) (min (min (k * q) (length words) + q) (length words)) channels'"
      unfolding ask_def words_def q_def cid_def
      by (rule ask_step [OF X price cut less.prems(3) [unfolded words_def q_def cid_def] _ next_val]) auto
    have "min (min (k * q) (length words) + q) (length words) = min (Suc k * q) (length words)" by simp
    moreover have "k * 10000 + 10000 = Suc k * 10000" by simp
    ultimately have IH: "\<exists>channels''. token_loop ask X deposit (paid + voucher_step) (of_nat (Suc k))
          (take (Suc k * q) words) channels'
      = Some (Some (of_nat (unat deposit div 10000 * 10000), of_nat (unat deposit div 10000),
          take (unat deposit div 10000 * q) words), channels'')
      \<and> books_at X p cid (unat deposit div 10000 * 10000)
          (min (unat deposit div 10000 * q) (length words)) channels''"
      using False next_val books by (intro less.hyps) (simp_all add: add.commute)
    have "take (k * q) words @ take q (drop (min (k * q) (length words)) words) = take (Suc k * q) words"
      by (simp add: take_min take_step add.commute)
    moreover have "\<not> deposit < paid + voucher_step" using False by (simp add: word_less_nat_alt next_val)
    moreover have "is_success_status (hr_status (stream_response X job))"
      by (simp add: stream_response_def is_success_status_def)
    moreover have "(of_nat k :: u32) + 1 = of_nat (Suc k)" by (simp add: add.commute)
    ultimately show ?thesis
      using IH token_loop_buys [where ask = ask and X = X and sent = "of_nat k" and printed = "take (k * q) words",
          OF _ asked] unfolding got by metis
  qed
qed

lemma token_loop_broke:
  "deposit < paid + voucher_step \<Longrightarrow>
   token_loop ask X deposit paid sent printed s = Some (Some (paid, sent, printed), s)"
  by (subst token_loop.simps) simp

definition whole_vouchers :: "u64 \<Rightarrow> u64 \<Rightarrow> u32 \<Rightarrow> bool" where
  "whole_vouchers deposit paid sent \<longleftrightarrow>
     (\<exists>k \<le> unat deposit div 10000. unat paid = k * 10000 \<and> sent = of_nat k)"

lemma token_loop_ends:
  assumes "unat deposit + 10000 < 2 ^ 64" and "whole_vouchers deposit paid sent"
  shows "\<exists>outcome s'. token_loop ask X deposit paid sent printed s = Some (outcome, s')
    \<and> (\<forall>r \<in> set_option outcome. whole_vouchers deposit (fst r) (fst (snd r)))"
  using assms(2)
proof (induction "unat deposit - unat paid" arbitrary: paid sent printed s rule: less_induct)
  case less
  then obtain k where k: "k \<le> unat deposit div 10000" "unat paid = k * 10000" "sent = of_nat k"
    by (auto simp: whole_vouchers_def)
  then have le: "unat paid \<le> unat deposit" by simp
  then have next_val: "unat (paid + voucher_step) = unat paid + 10000"
    using assms(1) by (simp add: unat_word_ariths voucher_step_val)
  show ?case
  proof (cases "deposit < paid + voucher_step")
    case True
    then show ?thesis using less.prems by (simp add: token_loop_broke)
  next
    case False
    then have "unat paid + 10000 \<le> unat deposit" by (simp add: word_less_nat_alt next_val)
    then have "Suc k \<le> unat deposit div 10000" "unat (paid + voucher_step) = Suc k * 10000"
      using k(2) next_val by (simp_all add: less_eq_div_iff_mult_less_eq)
    moreover have "sent + 1 = of_nat (Suc k)" by (simp add: k(3) add.commute)
    ultimately have whole: "whole_vouchers deposit (paid + voucher_step) (sent + 1)"
      unfolding whole_vouchers_def by blast
    obtain answer s' where asked: "ask (paid + voucher_step) s = (answer, s')" by fastforce
    show ?thesis
    proof (cases "\<exists>a. answer = Some a \<and> is_success_status (hr_status (fst a))")
      case True
      then obtain resp chunks where "ask (paid + voucher_step) s = (Some (resp, chunks), s')"
        "is_success_status (hr_status resp)" using asked by auto
      moreover have "unat deposit - unat (paid + voucher_step) < unat deposit - unat paid"
        using \<open>unat paid + 10000 \<le> unat deposit\<close> by (simp add: next_val)
      ultimately show ?thesis using False less.hyps [OF _ whole] by (simp add: token_loop_buys)
    next
      case False': False
      then show ?thesis using False whole asked
        by (subst token_loop.simps) (auto split: option.splits)
    qed
  qed
qed

text \<open>
  C34: the client's loop ends, whatever the server does. If the deposit is not within one voucher
  of the largest \<open>u64\<close>, the loop returns for every behaviour of the server, and unless a request
  failed it has sent vouchers of 10000 base units each that stay within the deposit, and counted
  them.
\<close>

theorem client_loop_ends:
  assumes "unat deposit + 10000 < 2 ^ 64"
  shows "\<exists>outcome s'. token_loop ask X deposit 0 0 [] s = Some (outcome, s')
    \<and> (case outcome of None \<Rightarrow> True | Some (paid, sent, printed) \<Rightarrow> whole_vouchers deposit paid sent)"
proof -
  have "whole_vouchers deposit 0 0" by (auto simp: whole_vouchers_def intro!: exI [of _ 0])
  from token_loop_ends [OF assms this, of ask X "[]" s] obtain outcome s' where
    ended: "token_loop ask X deposit 0 0 [] s = Some (outcome, s')"
    and whole: "\<forall>r \<in> set_option outcome. whole_vouchers deposit (fst r) (fst (snd r))" by blast
  from whole have "case outcome of None \<Rightarrow> True | Some (paid, sent, printed) \<Rightarrow> whole_vouchers deposit paid sent"
    by (cases outcome) auto
  with ended show ?thesis by blast
qed

theorem client_loop_ends_witness:
  "\<exists>outcome s'. token_loop (\<lambda>paid s. (Some (stream_response json_crates streamed_job, []), Suc s))
      json_crates 25000 0 0 [] (0 :: nat) = Some (outcome, s')
    \<and> (case outcome of None \<Rightarrow> True | Some (paid, sent, printed) \<Rightarrow> whole_vouchers 25000 paid sent)"
  by (rule client_loop_ends) simp

text \<open>
  C15: a deposit buys the answer, in whole vouchers. If the price of a token is at most ten thousand
  and the channel is new to the server, the client's loop returns for any deposit: it
  has sent one voucher for each full 10000 base units, all of them accepted, and has printed that
  many vouchers' worth of tokens of the server's answer, from the start, none skipped and none
  twice, up to its end. The server has counted exactly the tokens it streamed. The bodies may
  be cut into chunks anywhere between two characters on the way.
\<close>

theorem deposit_buys_words:
  assumes "hex_ok X" and "ed25519_ok X" and "stream_json_ok X prompt (''0x'' @ hex_encode X channel_id)"
    and "0 < unat (tk_price_per_token cfg)" and "unat (tk_price_per_token cfg) \<le> 10000"
    and "cut_between_chars X prompt (''0x'' @ hex_encode X channel_id) pieces"
    and "unat deposit + 10000 < 2 ^ 64"
    and "channels (''0x'' @ hex_encode X channel_id) = None"
    and "q = 10000 div unat (tk_price_per_token cfg)" and "k = unat deposit div 10000"
  shows "\<exists>channels'. token_loop (\<lambda>paid. api_chat (token_api X hv net now m cfg pieces)
        (stream_query X p prompt channel_id paid) None) X deposit 0 0 [] channels
      = Some (Some (of_nat (k * 10000), of_nat k, take (k * q) (all_words prompt)), channels')
    \<and> books_at X p (''0x'' @ hex_encode X channel_id) (k * 10000)
        (min (k * q) (length (all_words prompt))) channels'"
  unfolding assms(9,10)
  using token_loop_from [where k = 0 and paid = 0 and channels = channels, OF assms(1-7) refl refl refl refl,
      of p hv net now m] assms(8)
  by (simp add: books_at_def del: append_Cons)

section \<open>The whole client\<close>

definition chat_options :: "token_config \<Rightarrow> movement_session_options" where
  "chat_options cfg = no_session_options\<lparr>mo_unit_type := Some ''token'',
     mo_suggested_deposit := Some (show_u64 (tk_suggested_deposit cfg)),
     mo_module_address := Some TOKEN_MODULE,
     mo_min_voucher_delta := Some (show_u64 (tk_price_per_token cfg * 10))\<rparr>"

text \<open>The server issues challenge \<open>c\<close>, and it survives the way to the client.\<close>

definition token_asked ::
  "crates \<Rightarrow> (string \<Rightarrow> bool) \<Rightarrow> (string \<Rightarrow> bool) \<Rightarrow> 's mpp \<Rightarrow> token_config \<Rightarrow> string \<Rightarrow> string \<Rightarrow> int \<Rightarrow> payment_challenge \<Rightarrow> bool" where
  "token_asked X hv tx m cfg currency recipient now c \<longleftrightarrow>
     mpp_currency m = Some currency \<and> mpp_recipient m = Some recipient
     \<and> movement_session_challenge X now m (show_u64 (tk_price_per_token cfg)) (chat_options cfg) = Inr c
     \<and> ch_id c \<noteq> []
     \<and> reads_back X session_request_of_json (session_request_to_json (session_challenge_request
          (show_u64 (tk_price_per_token cfg)) currency recipient (chat_options cfg)))
     \<and> reads_back X charge_request_of_json (session_request_to_json (session_challenge_request
          (show_u64 (tk_price_per_token cfg)) currency recipient (chat_options cfg)))
     \<and> (case format_www_authenticate c of Inr h \<Rightarrow> hv h \<and> tx h | Inl _ \<Rightarrow> False)"

lemma asked_answer:
  assumes "token_asked X hv tx m cfg currency recipient now c"
  obtains h body where "format_www_authenticate c = Inr h"
    and "chat_challenge X hv now m cfg
      = Some \<lparr>hr_status = 402, hr_headers = [(''www-authenticate'', h), (''content-type'', ''application/json'')],
          hr_body = body\<rparr>"
  using assms
  by (auto simp: token_asked_def chat_challenge_def chat_options_def [symmetric] with_header_def
      json_response_def Let_def split: sum.splits)

lemma asked_offer:
  assumes "token_asked X hv tx m cfg currency recipient now c" and "b64url_ok X"
    and "format_www_authenticate c = Inr h" and "map_of (hr_headers resp) ''www-authenticate'' = Some h"
  obtains req where "token_offer X tx resp = Some (c, req, tk_price_per_token cfg, recipient)"
    and "cr_currency req = currency"
proof -
  let ?price = "show_u64 (tk_price_per_token cfg)"
  let ?req = "session_challenge_request ?price currency recipient (chat_options cfg)"
  note asked = assms(1) [unfolded token_asked_def]
  have issued: "movement_session_challenge X now m ?price (chat_options cfg) = Inr c"
    "mpp_currency m = Some currency" "mpp_recipient m = Some recipient" using asked by simp_all
  have "wire_challenge c" "decodes_to_json X (ch_request c)"
    using session_challenge_on_wire [OF issued(1) _ issued(2,3) assms(2)] asked by blast+
  with assms(3) have parsed: "parse_www_authenticate X h = Inr c" by (rule formatted_challenge_parses)
  obtain r where r: "charge_request_of_json (session_request_to_json ?req) = Some r"
    and parts: "cr_amount r = ?price" "cr_currency r = currency" "cr_recipient r = Some recipient"
    by (subst (asm) session_request_as_charge)
      (simp add: session_challenge_request_def session_details_not_null)
  have reads: "reads_back X charge_request_of_json (session_request_to_json ?req)" using asked by simp
  have "b64json_decode X ty charge_request_of_json (ch_request c) = Inr r" for ty
    by (rule b64json_from_typed_decode [OF issued_session_parts(1) [OF issued] assms(2) reads r])
  then have "token_offer X tx resp = Some (c, r, tk_price_per_token cfg, recipient)"
    using parsed assms(3,4) asked by (simp add: token_offer_def client_deposit_def header_get_def parts)
  with parts(2) show thesis by (rule that [rotated])
qed

text \<open>
  C35: the token client never pays its server. The client reads the server's session challenge as
  a charge request and takes its amount, which is the price of one token, for the deposit: it
  opens a channel of that size on chain. With a price below ten thousand, the price of the first
  voucher is above it: the client presents the opening, sends no voucher, prints no token, asks
  the server to close a channel the server has never heard of, and ends with a summary that
  reports the deposit as refunded with no closing transaction. The suggested deposit of the
  challenge is not read.
\<close>

theorem token_client_buys_nothing:
  assumes "token_asked X hv tx m cfg currency recipient now c" and "b64url_ok X"
    and "tk_price_per_token cfg < voucher_step"
    and "open_channel X net now p TOKEN_MODULE TOKEN_MODULE recipient currency (tk_price_per_token cfg) salt
      = Inr (open_tx, channel_id)"
    and "format_authorization X (credential_new (to_echo c)
      (payment_payload_to_json (payload_hash open_tx))) = Inr auth"
    and "one_line X (error_json ''channel not found'')"
    and "channels (''0x'' @ hex_encode X channel_id) = None"
  shows "token_client X tx net now p prompt salt (token_api X hv server_net now m cfg pieces) channels
    = Some (Some (Finished \<lparr>tm_printed = [], tm_vouchers = 0, tm_paid = 0,
        tm_deposit = tk_price_per_token cfg, tm_refund = tk_price_per_token cfg,
        tm_server_on_chain = 0, tm_channel = ''0x'' @ hex_encode X channel_id\<rparr>), channels)"
proof -
  obtain h body where h: "format_www_authenticate c = Inr h"
    and answer: "chat_challenge X hv now m cfg = Some \<lparr>hr_status = 402,
      hr_headers = [(''www-authenticate'', h), (''content-type'', ''application/json'')], hr_body = body\<rparr>"
      (is "_ = Some ?resp")
    using asked_answer [OF assms(1)] by metis
  obtain req where offer: "token_offer X tx ?resp = Some (c, req, tk_price_per_token cfg, recipient)"
    and cur: "cr_currency req = currency"
    by (rule asked_offer [OF assms(1,2) h, of ?resp]) simp_all
  let ?A = "token_api X hv server_net now m cfg pieces"
  have plain: "api_chat ?A (plain_query prompt) auth' channels = (Some (?resp, [body]), channels)" for auth'
    by (simp add: token_api_def chat_def plain_query_def answer)
  have close: "api_close ?A (''0x'' @ hex_encode X channel_id) channels
      = (Some (error_json ''channel not found''), channels)"
    using assms(6,7) by (simp add: token_api_def token_close_def one_line_def del: append_Cons)
  have "token_session X p prompt ?A (tk_price_per_token cfg) channel_id auth channels
    = Some (Some (Finished \<lparr>tm_printed = [], tm_vouchers = 0, tm_paid = 0,
        tm_deposit = tk_price_per_token cfg, tm_refund = tk_price_per_token cfg,
        tm_server_on_chain = 0, tm_channel = ''0x'' @ hex_encode X channel_id\<rparr>), channels)"
    using assms(3)
    by (simp add: token_session_def plain Let_def token_loop_broke close token_summary_of_def
        server_on_chain_def settle_txns_def error_json_def del: append_Cons)
  then show ?thesis
    by (simp add: token_client_def plain offer cur assms(4,5))
qed

section \<open>One concrete client\<close>

lemma json_crates_line: "one_line json_crates j"
  by (simp add: one_line_def json_text_def code_json_one_line)

lemma json_crates_stream:
  "stream_json_ok json_crates prompt cid" "cut_between_chars json_crates prompt cid (stream_events json_crates)"
  by (auto simp: stream_json_ok_def cut_between_chars_def list_all_iff json_crates_line stream_events_def
      token_event_def json_text_def code_json_ascii intro!: utf8_ascii)

definition tea_net :: network where
  "tea_net =
     (let answer = JObj [(''sequence_number'', JStr ''1''), (''authentication_key'', JStr ''0x''),
            (''hash'', JStr ''0x1''), (''success'', JBool True), (''type'', JStr ''user_transaction'')] in
      \<lparr>http_get = \<lambda>_. Response 200 (code_json answer),
       http_post = \<lambda>url _. Response 200
         (code_json (if url = ''/transactions'' then answer else JStr ''00''))\<rparr>)"

lemma tea_submit: "build_sign_submit json_crates tea_net 0 [] k sender payload = Inr ''0x1''"
proof -
  have "hex_decode json_crates (strip_0x ''00'') = Inr [0]"
    by (simp add: json_crates_def sample_crates_def strip_0x_def strip_prefix_def starts_with_def
        is_hex_digit_def is_ascii_digit_def hex_digit_val_def)
  then show ?thesis
    by (simp add: build_sign_submit_def build_sign_submit_with_gas_def get_account_def
        encode_submission_def submit_transaction_def wait_for_transaction_def rest_answer_def
        tea_net_def is_success_status_def response_json_def from_slice_def from_value_def
        account_info_of_json_def pending_hash_of_json_def transaction_info_of_json_def Let_def
        del: code_json.simps)
qed

definition tea_client :: movement_provider where
  "tea_client = movement_provider_new json_crates [3] []"

lemma json_crates_addresses: "parse_address_bytes json_crates = parse_address_bytes life_world"
  by (simp add: fun_eq_iff parse_address_bytes_def json_crates_def life_world_def)

lemma tea_opens:
  "\<exists>cid. open_channel json_crates tea_net 0 tea_client TOKEN_MODULE TOKEN_MODULE ''0xb'' ''0xa'' n salt
    = Inr (''0x1'', cid)"
proof -
  have parts: "mv_rest_url tea_client = []" "mv_sender_address tea_client
      = derive_address json_crates (ed_public json_crates [3])"
    by (simp_all add: tea_client_def movement_provider_new_def rest_client_new_def trim_end_matches_def)
  let ?hash = "sha3_256 json_crates (ed_public json_crates [3] @ [0])"
  have text_of: "strip_0x (derive_address json_crates (ed_public json_crates [3])) = sample_hex_encode ?hash"
    by (simp add: derive_address_def) (simp add: json_crates_def sample_crates_def)
  have "length (sample_hex_encode bs) = 2 * length bs" for bs by (induction bs) auto
  then have "length (sample_hex_encode ?hash) \<le> 64"
    by (simp add: json_crates_def sample_crates_def)
  then obtain payer where "parse_address_bytes life_world (derive_address json_crates (ed_public json_crates [3]))
      = Inr payer"
    using life_address text_of sample_hex_roundtrip(2) by metis
  moreover have hx: "list_all is_hex_digit (strip_0x ''0xb'')" "list_all is_hex_digit (strip_0x ''0xa'')"
    by (simp_all add: is_hex_digit_def is_ascii_digit_def)
  have "length (strip_0x ''0xb'') \<le> 64" "length (strip_0x ''0xa'') \<le> 64" by simp_all
  then obtain payee token where "parse_address_bytes life_world ''0xb'' = Inr payee"
    "parse_address_bytes life_world ''0xa'' = Inr token"
    using life_address hx by meson
  ultimately show ?thesis
    by (simp add: open_channel_def provider_submit_def parts tea_submit json_crates_addresses Let_def)
qed

lemma json_crates_sel:
  "b64url_encode json_crates = sample_hex_encode" "hmac_sha256 json_crates k msg = k @ msg"
  "rfc3339_format json_crates n = Inr (show_nat (nat n))"
  by (simp_all add: json_crates_def sample_crates_def)

abbreviation tea_mpp :: "unit mpp" where
  "tea_mpp \<equiv> with_session_method sample_session_ops sample_mpp"

abbreviation tea_terms :: session_request where
  "tea_terms \<equiv> session_challenge_request (show_u64 (tk_price_per_token sample_token_config)) ''0xa'' ''0xb''
     (chat_options sample_token_config)"

definition tea_challenge :: payment_challenge where
  "tea_challenge =
     (let encoded = sample_hex_encode (as_bytes (code_json (session_request_to_json tea_terms)));
          expires = Some (show_nat 300000000000) in
      \<lparr>ch_id = compute_challenge_id json_crates ''key'' ''realm'' METHOD_NAME INTENT_SESSION encoded expires
           None None,
       ch_realm = ''realm'', ch_method = method_name_new METHOD_NAME,
       ch_intent = intent_name_new INTENT_SESSION, ch_request = Base64UrlJson encoded,
       ch_expires = expires, ch_description = None, ch_digest = None, ch_opaque = None\<rparr>)"

lemma tea_asked: "token_asked json_crates (\<lambda>_. True) (\<lambda>_. True) tea_mpp sample_token_config ''0xa'' ''0xb'' 0 tea_challenge"
proof -
  have canonical: "json_canonical json_crates j = Inr (code_json j)" for j
    by (simp add: json_crates_def)
  have expires: "default_expires json_crates 0 = Inr (show_nat 300000000000)"
    by (simp add: default_expires_def DEFAULT_EXPIRES_MINUTES_def json_crates_sel)
  have options: "mo_expires (chat_options cfg) = None" "mo_description (chat_options cfg) = None" for cfg
    by (simp_all add: chat_options_def no_session_options_def)
  have "movement_session_challenge json_crates 0 tea_mpp (show_u64 (tk_price_per_token sample_token_config))
      (chat_options sample_token_config) = Inr tea_challenge"
    by (simp add: movement_session_challenge_def require_movement_config_def sample_mpp_def mpp_new_def
        with_session_method_def session_challenge_for_def b64json_from_typed_def base64url_encode_def
        resolve_expires_def expires options canonical json_crates_sel tea_challenge_def Let_def
        del: code_json.simps)
  moreover have "\<exists>h. format_www_authenticate tea_challenge = Inr h"
    by (simp add: format_www_authenticate_def res_simps challenge_params_def tea_challenge_def Let_def
        names_normal compute_challenge_id_def base64url_encode_def hex_no_break digits_no_break
        json_crates_sel del: code_json.simps)
      (simp add: METHOD_NAME_def INTENT_SESSION_def)
  moreover have "ch_id tea_challenge \<noteq> []"
    by (simp add: tea_challenge_def compute_challenge_id_def base64url_encode_def json_crates_sel as_bytes_def Let_def)
  moreover have "reads_back json_crates d j" for d :: "json \<Rightarrow> 'a option" and j
    by (simp add: reads_back_def canonical)
  ultimately show ?thesis
    by (auto simp: token_asked_def with_session_method_def sample_mpp_def mpp_new_def reads_back_def canonical)
qed

theorem token_client_buys_nothing_witness:
  "\<exists>channel_id channels. token_client json_crates (\<lambda>_. True) tea_net 0 tea_client ''tea?'' []
      (token_api json_crates (\<lambda>_. True) tea_net 0 tea_mpp sample_token_config (stream_events json_crates)) Map.empty
    = Some (Some (Finished \<lparr>tm_printed = [], tm_vouchers = 0, tm_paid = 0, tm_deposit = 1000,
        tm_refund = 1000, tm_server_on_chain = 0, tm_channel = ''0x'' @ hex_encode json_crates channel_id\<rparr>), channels)"
proof -
  obtain channel_id where opens: "open_channel json_crates tea_net 0 tea_client TOKEN_MODULE TOKEN_MODULE
      ''0xb'' ''0xa'' (tk_price_per_token sample_token_config) [] = Inr (''0x1'', channel_id)"
    using tea_opens by blast
  obtain auth where "format_authorization json_crates (credential_new (to_echo tea_challenge)
      (payment_payload_to_json (payload_hash ''0x1''))) = Inr auth"
    by (simp add: format_authorization_def del: code_json.simps)
  from token_client_buys_nothing [where hv = "\<lambda>_. True" and server_net = tea_net and prompt = "''tea?''"
      and pieces = "stream_events json_crates" and channels = Map.empty, OF tea_asked _ _ opens this]
  show ?thesis
    by (simp add: json_crates_line sample_token_config_def word_less_nat_alt voucher_step_val
        del: append_Cons) blast
qed

text \<open>The same server, with a client that holds a deposit of its own.\<close>

theorem deposit_buys_words_witness:
  "\<exists>channels'. token_loop (\<lambda>paid. api_chat (token_api json_crates (\<lambda>_. True) tea_net 0 tea_mpp
        sample_token_config (stream_events json_crates))
        (stream_query json_crates tea_client ''tea?'' tea_channel paid) None) json_crates 25000 0 0 [] Map.empty
      = Some (Some (20000, 2, take 20 (all_words ''tea?'')), channels')"
proof -
  have "\<exists>channels'. token_loop (\<lambda>paid. api_chat (token_api json_crates (\<lambda>_. True) tea_net 0 tea_mpp
        sample_token_config (stream_events json_crates))
        (stream_query json_crates tea_client ''tea?'' tea_channel paid) None) json_crates 25000 0 0 [] Map.empty
      = Some (Some (of_nat (2 * 10000), of_nat 2, take (2 * 10) (all_words ''tea?'')), channels')
    \<and> books_at json_crates tea_client (''0x'' @ hex_encode json_crates tea_channel) (2 * 10000)
        (min (2 * 10) (length (all_words ''tea?''))) channels'"
    by (rule deposit_buys_words [OF json_crates_laws(1,3) json_crates_stream(1) _ _ json_crates_stream(2)])
      (simp_all add: sample_token_config_def)
  then obtain channels' where "token_loop (\<lambda>paid. api_chat (token_api json_crates (\<lambda>_. True) tea_net 0 tea_mpp
        sample_token_config (stream_events json_crates))
        (stream_query json_crates tea_client ''tea?'' tea_channel paid) None) json_crates 25000 0 0 [] Map.empty
      = Some (Some (of_nat (2 * 10000), of_nat 2, take (2 * 10) (all_words ''tea?'')), channels')"
    by blast
  moreover have "(of_nat (2 * 10000) :: u64) = 20000" "(of_nat 2 :: u32) = 2" "2 * 10 = (20 :: nat)" by simp_all
  ultimately show ?thesis by (intro exI [of _ channels']) (simp only:)
qed

end
