(* ===== verification/Voice_Server.thy ===== *)
theory Voice_Server
  imports App_Http Charge_Method
begin

text \<open>
  The voice-call server (examples/voice-call/server/src/main.rs): hosts that go live, calls that
  callers start against a payment-channel challenge, the tokens of the signalling sockets, and
  the sweeps. The state is the two tables and the limiter; the number of receivers of a call's
  broadcast channel stands for the channel. Reading a host, marking it busy and entering the call
  are separate accesses of \<open>start_call\<close>, and separate operations here. The iteration over the
  call table takes the keys in the order the argument gives. An \<open>Instant\<close> is a number of
  nanoseconds, the wall clock a number of milliseconds, and a panic is \<open>None\<close>.
\<close>

section \<open>State\<close>

record host_info =
  hi_address :: string
  hi_rate_per_second :: string
  hi_currency :: string
  hi_online :: bool
  hi_busy :: bool
  hi_name :: "string option"
  hi_last_seen :: "instant option"

record active_call =
  ac_host_addr :: string
  ac_caller_addr :: string
  ac_started_at :: instant
  ac_receivers :: nat

record voice_config =
  vc_module_address :: string
  vc_secret_key :: string

record voice_state =
  vs_hosts :: "string \<rightharpoonup> host_info"
  vs_calls :: "string \<rightharpoonup> active_call"
  vs_rate_limits :: limits

definition voice_start :: voice_state where
  "voice_start = \<lparr>vs_hosts = Map.empty, vs_calls = Map.empty, vs_rate_limits = (\<lambda>_. None)\<rparr>"

definition seconds :: "nat \<Rightarrow> nat" where
  "seconds n = n * 10 ^ 9"

definition HOST_STALE_TIMEOUT :: nat where "HOST_STALE_TIMEOUT = seconds 30"

record signed_request =
  sg_address :: string
  sg_signature :: string
  sg_full_message :: string
  sg_nonce :: string
  sg_pubkey :: string

record go_live_request = signed_request +
  gl_rate_per_second :: string
  gl_currency :: string
  gl_name :: "string option"

record start_call_body =
  sc_address :: string
  sc_channel_id :: "string option"

record hangup_request =
  hu_call_id :: string
  hu_address :: string
  hu_token :: string

definition host_info_to_json :: "host_info \<Rightarrow> json" where
  "host_info_to_json h = JObj
     [(''address'', JStr (hi_address h)), (''ratePerSecond'', JStr (hi_rate_per_second h)),
      (''currency'', JStr (hi_currency h)), (''online'', JBool (hi_online h)),
      (''busy'', JBool (hi_busy h)),
      (''name'', case hi_name h of Some n \<Rightarrow> JStr n | None \<Rightarrow> JNull)]"

section \<open>The wallet signature\<close>

text \<open>What the code takes from the curve library beyond the record of crates: the text of its error
  for a bad key, and the strict form of verification.\<close>

record curve =
  cv_key_error :: "bytes \<Rightarrow> string"
  cv_verify_strict :: "bytes \<Rightarrow> bytes \<Rightarrow> bytes \<Rightarrow> bool"

definition nonce_check :: "u64 \<Rightarrow> string \<Rightarrow> string + unit" where
  "nonce_check now_ms nonce =
     and_then (ok_or ''Invalid nonce (expected timestamp)'' (parse_u64 nonce)) (\<lambda>nonce_ts.
     if 5 * 60 * 1000 < max now_ms nonce_ts - min now_ms nonce_ts
     then Inl ''Nonce expired (must be within 5 minutes)'' else Inr ())"

definition raw_pubkey_of :: "bytes \<Rightarrow> string + bytes" where
  "raw_pubkey_of bs =
     (if length bs = 32 then Inr bs
      else if length bs = 33 \<and> bs ! 0 = 0 then Inr (drop 1 bs)
      else Inl (''Unexpected public key length: '' @ show_nat (length bs)
        @ '' bytes (expected 32 or 33)''))"

definition raw_signature_of :: "bytes \<Rightarrow> string + bytes" where
  "raw_signature_of bs =
     (if length bs = 64 then Inr bs
      else if length bs = 65 \<and> bs ! 0 = 0 then Inr (drop 1 bs)
      else Inl (''Unexpected signature length: '' @ show_nat (length bs)
        @ '' bytes (expected 64 or 65)''))"

definition normalize_addr :: "string \<Rightarrow> string" where
  "normalize_addr a = ''0x'' @ pad_left_64 (to_ascii_lowercase (strip_0x a))"

definition single_key_address :: "crates \<Rightarrow> bytes \<Rightarrow> string" where
  "single_key_address X pk = ''0x'' @ hex_encode X (sha3_256 X ([0x00] @ pk @ [0x02]))"

definition legacy_address :: "crates \<Rightarrow> bytes \<Rightarrow> string" where
  "legacy_address X pk = ''0x'' @ hex_encode X (sha3_256 X (pk @ [0x00]))"

definition verify_go_live_signature ::
  "crates \<Rightarrow> curve \<Rightarrow> u64 \<Rightarrow> string \<Rightarrow> string \<Rightarrow> string \<Rightarrow> string \<Rightarrow> string \<Rightarrow> string + unit" where
  "verify_go_live_signature X K now_ms address full_message nonce signature_hex pubkey_hex =
     and_then (nonce_check now_ms nonce) (\<lambda>_.
     if \<not> str_contains (to_ascii_lowercase address) (to_ascii_lowercase full_message)
     then Inl ''Full message does not contain the claimed address''
     else if \<not> str_contains nonce full_message
     then Inl ''Full message does not contain the nonce''
     else
       and_then (map_err (\<lambda>e. ''Invalid pubkey hex: '' @ e) (hex_decode X (strip_0x pubkey_hex)))
         (\<lambda>pubkey_bytes.
       and_then (raw_pubkey_of pubkey_bytes) (\<lambda>pk.
       if \<not> ed_key_valid X pk then Inl (''Invalid public key: '' @ cv_key_error K pk)
       else if normalize_addr (single_key_address X pk) \<noteq> normalize_addr address
             \<and> normalize_addr (legacy_address X pk) \<noteq> normalize_addr address
       then Inl ''Public key does not match the claimed address''
       else
         and_then (map_err (\<lambda>e. ''Invalid signature hex: '' @ e) (hex_decode X (strip_0x signature_hex)))
           (\<lambda>sig_bytes.
         and_then (raw_signature_of sig_bytes) (\<lambda>raw_sig.
         if cv_verify_strict K pk (as_bytes full_message) raw_sig then Inr ()
         else Inl ''Signature verification failed'')))))"

definition check_signed ::
  "crates \<Rightarrow> curve \<Rightarrow> u64 \<Rightarrow> 'a signed_request_scheme \<Rightarrow> string + unit" where
  "check_signed X K now_ms body =
     verify_go_live_signature X K now_ms (sg_address body) (sg_full_message body)
       (sg_nonce body) (sg_signature body) (sg_pubkey body)"

section \<open>Socket tokens\<close>

definition ws_mac :: "crates \<Rightarrow> string \<Rightarrow> string \<Rightarrow> string \<Rightarrow> bytes" where
  "ws_mac X secret call_id address =
     hmac_sha256 X (as_bytes secret) (as_bytes (''ws:'' @ call_id @ '':'' @ address))"

definition generate_ws_token :: "crates \<Rightarrow> string \<Rightarrow> string \<Rightarrow> string \<Rightarrow> string" where
  "generate_ws_token X secret call_id address = hex_encode X (ws_mac X secret call_id address)"

definition verify_ws_token :: "crates \<Rightarrow> string \<Rightarrow> string \<Rightarrow> string \<Rightarrow> string \<Rightarrow> bool" where
  "verify_ws_token X secret call_id address token =
     (case hex_decode X token of
        Inl _ \<Rightarrow> False
      | Inr token_bytes \<Rightarrow> token_bytes = ws_mac X secret call_id address)"

section \<open>Hosts\<close>

text \<open>The limiter in front of a handler.\<close>

definition limited :: "instant \<Rightarrow> string \<Rightarrow> voice_state \<Rightarrow> bool \<times> voice_state" where
  "limited t ip st =
     (case check_rate_limit (vs_rate_limits st) t ip of
        (limits, allowed) \<Rightarrow> (allowed, st\<lparr>vs_rate_limits := limits\<rparr>))"

definition rate_limited_response :: "crates \<Rightarrow> http_response" where
  "rate_limited_response X = json_response X 429 (error_json ''Rate limit exceeded'')"

definition bad_address :: "string \<Rightarrow> bool" where
  "bad_address a \<longleftrightarrow> \<not> starts_with ''0x'' a \<or> length a < 4 \<or> 68 < length a"

definition live_host :: "go_live_request \<Rightarrow> instant \<Rightarrow> host_info" where
  "live_host body t =
     \<lparr>hi_address = sg_address body, hi_rate_per_second = gl_rate_per_second body,
      hi_currency = gl_currency body, hi_online = True, hi_busy = False, hi_name = gl_name body,
      hi_last_seen = Some t\<rparr>"

definition go_live_checks :: "crates \<Rightarrow> curve \<Rightarrow> u64 \<Rightarrow> go_live_request \<Rightarrow> http_response + unit" where
  "go_live_checks X K now_ms body =
     (if bad_address (sg_address body)
      then Inl (json_response X 400 (error_json ''Invalid address format''))
      else if parse_u64 (gl_rate_per_second body) = None
      then Inl (json_response X 400 (error_json ''ratePerSecond must be a valid integer''))
      else if (case gl_name body of Some n \<Rightarrow> 100 < length n | None \<Rightarrow> False)
      then Inl (json_response X 400 (error_json ''Name must be 100 characters or less''))
      else map_err (\<lambda>e. json_response X 401 (error_json e)) (check_signed X K now_ms body))"

definition go_live ::
  "crates \<Rightarrow> curve \<Rightarrow> u64 \<Rightarrow> instant \<Rightarrow> string \<Rightarrow> go_live_request \<Rightarrow> voice_state
   \<Rightarrow> http_response \<times> voice_state" where
  "go_live X K now_ms t ip body st =
     (case limited t ip st of
        (False, st') \<Rightarrow> (rate_limited_response X, st')
      | (True, st') \<Rightarrow>
          (case go_live_checks X K now_ms body of
             Inl resp \<Rightarrow> (resp, st')
           | Inr _ \<Rightarrow>
               (json_response X 200 (host_info_to_json (live_host body t)),
                st'\<lparr>vs_hosts := (vs_hosts st')(sg_address body \<mapsto> live_host body t)\<rparr>)))"

text \<open>\<open>get_mut\<close>: the entry is changed if there is one.\<close>

definition update_host :: "string \<Rightarrow> (host_info \<Rightarrow> host_info) \<Rightarrow> voice_state \<Rightarrow> voice_state" where
  "update_host a f st = st\<lparr>vs_hosts := (case vs_hosts st a of
     None \<Rightarrow> vs_hosts st | Some h \<Rightarrow> (vs_hosts st)(a \<mapsto> f h))\<rparr>"

definition go_offline ::
  "crates \<Rightarrow> curve \<Rightarrow> u64 \<Rightarrow> signed_request \<Rightarrow> voice_state \<Rightarrow> http_response \<times> voice_state" where
  "go_offline X K now_ms body st =
     (case check_signed X K now_ms body of
        Inl e \<Rightarrow> (json_response X 401 (error_json e), st)
      | Inr _ \<Rightarrow> (\<lparr>hr_status = 200, hr_headers = [], hr_body = []\<rparr>,
                  update_host (sg_address body) (\<lambda>h. h\<lparr>hi_online := False\<rparr>) st))"

definition is_listed :: "instant \<Rightarrow> host_info \<Rightarrow> bool" where
  "is_listed t h \<longleftrightarrow> hi_online h
     \<and> (case hi_last_seen h of Some seen \<Rightarrow> t - seen < HOST_STALE_TIMEOUT | None \<Rightarrow> False)"

text \<open>The keys of the table in the order of the iteration.\<close>

definition list_hosts ::
  "crates \<Rightarrow> instant \<Rightarrow> string \<Rightarrow> string list \<Rightarrow> voice_state \<Rightarrow> http_response \<times> voice_state" where
  "list_hosts X t ip keys st =
     (case limited t ip st of
        (False, st') \<Rightarrow> (rate_limited_response X, st')
      | (True, st') \<Rightarrow>
          (json_response X 200 (JArr (map host_info_to_json
             (filter (is_listed t) (List.map_filter (vs_hosts st') keys)))), st'))"

section \<open>Starting a call\<close>

definition suggested_deposit :: "host_info \<Rightarrow> string" where
  "suggested_deposit host =
     show_u64 ((case parse_u64 (hi_rate_per_second host) of Some n \<Rightarrow> n | None \<Rightarrow> 1000) * 300)"

definition call_challenge ::
  "crates \<Rightarrow> (string \<Rightarrow> bool) \<Rightarrow> int \<Rightarrow> 's mpp \<Rightarrow> voice_config \<Rightarrow> string \<Rightarrow> host_info
   \<Rightarrow> http_response option" where
  "call_challenge X hv now m cfg host_addr host =
     Option.bind (ok_opt (movement_session_challenge_with_recipient X now m (hi_rate_per_second host)
       host_addr (no_session_options\<lparr>mo_unit_type := Some ''second'',
         mo_suggested_deposit := Some (suggested_deposit host),
         mo_module_address := Some (vc_module_address cfg),
         mo_description := Some ''Pay-per-second voice call''\<rparr>))) (\<lambda>challenge.
     Option.bind (ok_opt (format_www_authenticate challenge)) (\<lambda>www_auth.
     Some (with_header hv ''www-authenticate'' www_auth (json_response X 402 (JObj
       [(''error'', JStr ''Payment Required''), (''ratePerSecond'', JStr (hi_rate_per_second host)),
        (''currency'', JStr (hi_currency host)), (''recipient'', JStr host_addr),
        (''suggestedDeposit'', JStr (suggested_deposit host))])))))"

text \<open>The part before the tables are written: an answer, or go on.\<close>

definition start_call_check ::
  "crates \<Rightarrow> (string \<Rightarrow> bool) \<Rightarrow> int \<Rightarrow> 's mpp \<Rightarrow> voice_config \<Rightarrow> string \<Rightarrow> start_call_body
   \<Rightarrow> (string \<rightharpoonup> host_info) \<Rightarrow> http_response option + unit" where
  "start_call_check X hv now m cfg host_addr body hosts =
     (if bad_address host_addr
      then Inl (Some (json_response X 400 (error_json ''Invalid host address format'')))
      else case hosts host_addr of
        None \<Rightarrow> Inl (Some (json_response X 404 (error_json ''Host not found'')))
      | Some host \<Rightarrow>
          if \<not> hi_online host then Inl (Some (json_response X 404 (error_json ''Host is offline'')))
          else if hi_busy host then Inl (Some (json_response X 409 (error_json ''Host is busy'')))
          else case sc_channel_id body of
            Some cid \<Rightarrow> if cid \<noteq> [] then Inr () else Inl (call_challenge X hv now m cfg host_addr host)
          | None \<Rightarrow> Inl (call_challenge X hv now m cfg host_addr host))"

definition mark_busy :: "string \<Rightarrow> voice_state \<Rightarrow> voice_state" where
  "mark_busy host_addr = update_host host_addr (\<lambda>h. h\<lparr>hi_busy := True\<rparr>)"

definition insert_call ::
  "string \<Rightarrow> string \<Rightarrow> string \<Rightarrow> instant \<Rightarrow> voice_state \<Rightarrow> voice_state" where
  "insert_call call_id host_addr caller t st =
     st\<lparr>vs_calls := (vs_calls st)(call_id \<mapsto>
       \<lparr>ac_host_addr = host_addr, ac_caller_addr = caller, ac_started_at = t, ac_receivers = 0\<rparr>)\<rparr>"

definition call_started :: "crates \<Rightarrow> voice_config \<Rightarrow> string \<Rightarrow> string \<Rightarrow> string \<Rightarrow> json" where
  "call_started X cfg call_id host_addr caller = JObj
     [(''callId'', JStr call_id), (''wsUrl'', JStr (''/ws/signal/'' @ call_id)),
      (''callerToken'', JStr (generate_ws_token X (vc_secret_key cfg) call_id caller)),
      (''hostToken'', JStr (generate_ws_token X (vc_secret_key cfg) call_id host_addr))]"

text \<open>The handler with nothing in between; \<open>call_id\<close> is the fresh identifier.\<close>

definition start_call ::
  "crates \<Rightarrow> (string \<Rightarrow> bool) \<Rightarrow> int \<Rightarrow> 's mpp \<Rightarrow> voice_config \<Rightarrow> instant \<Rightarrow> string \<Rightarrow> string \<Rightarrow> string
   \<Rightarrow> start_call_body \<Rightarrow> voice_state \<Rightarrow> http_response option \<times> voice_state" where
  "start_call X hv now m cfg t ip call_id host_addr body st =
     (case limited t ip st of
        (False, st') \<Rightarrow> (Some (rate_limited_response X), st')
      | (True, st') \<Rightarrow>
          (case start_call_check X hv now m cfg host_addr body (vs_hosts st') of
             Inl answer \<Rightarrow> (answer, st')
           | Inr _ \<Rightarrow>
               (Some (json_response X 200 (call_started X cfg call_id host_addr (sc_address body))),
                insert_call call_id host_addr (sc_address body) t (mark_busy host_addr st'))))"

section \<open>Ending calls\<close>

text \<open>The call is removed and its host is no longer busy.\<close>

definition end_call :: "string \<Rightarrow> voice_state \<Rightarrow> voice_state" where
  "end_call call_id st =
     (case vs_calls st call_id of
        None \<Rightarrow> st
      | Some call \<Rightarrow> update_host (ac_host_addr call) (\<lambda>h. h\<lparr>hi_busy := False\<rparr>)
          (st\<lparr>vs_calls := (vs_calls st)(call_id := None)\<rparr>))"

definition hangup ::
  "crates \<Rightarrow> voice_config \<Rightarrow> instant \<Rightarrow> hangup_request \<Rightarrow> voice_state \<Rightarrow> http_response \<times> voice_state" where
  "hangup X cfg t body st =
     (if \<not> verify_ws_token X (vc_secret_key cfg) (hu_call_id body) (hu_address body) (hu_token body)
      then (json_response X 403 (error_json ''Invalid hangup token''), st)
      else case vs_calls st (hu_call_id body) of
        None \<Rightarrow> (json_response X 404 (error_json ''Call not found''), st)
      | Some call \<Rightarrow>
          (json_response X 200 (JObj
             [(''duration'', JInt (int ((t - ac_started_at call) div 10 ^ 9)))]),
           end_call (hu_call_id body) st))"

text \<open>The loop of \<open>host_poll\<close>: the calls it finds stale before the first other one of the host,
  and that one.\<close>

fun poll_calls ::
  "instant \<Rightarrow> string \<Rightarrow> (string \<rightharpoonup> active_call) \<Rightarrow> string list \<Rightarrow> string list \<times> (string \<times> active_call) option" where
  "poll_calls t address calls [] = ([], None)"
| "poll_calls t address calls (call_id # keys) =
     (case calls call_id of
        None \<Rightarrow> poll_calls t address calls keys
      | Some call \<Rightarrow>
          if ac_host_addr call \<noteq> address then poll_calls t address calls keys
          else if 30 < (t - ac_started_at call) div 10 ^ 9 \<and> ac_receivers call = 0
          then (case poll_calls t address calls keys of (stale, found) \<Rightarrow> (call_id # stale, found))
          else ([], Some (call_id, call)))"

definition host_poll ::
  "crates \<Rightarrow> voice_config \<Rightarrow> instant \<Rightarrow> string \<Rightarrow> string list \<Rightarrow> string option \<Rightarrow> voice_state
   \<Rightarrow> http_response \<times> voice_state" where
  "host_poll X cfg t ip keys address_param st =
     (case limited t ip st of
        (False, st') \<Rightarrow> (rate_limited_response X, st')
      | (True, st') \<Rightarrow>
          (case address_param of
             None \<Rightarrow> (json_response X 400 (error_json ''Missing address param''), st')
           | Some address \<Rightarrow>
               let seen = update_host address (\<lambda>h. h\<lparr>hi_last_seen := Some t\<rparr>) st' in
               (case poll_calls t address (vs_calls seen) keys of
                  (stale, Some (call_id, call)) \<Rightarrow>
                    (json_response X 200 (JObj
                       [(''callId'', JStr call_id), (''callerAddress'', JStr (ac_caller_addr call)),
                        (''wsToken'', JStr (generate_ws_token X (vc_secret_key cfg) call_id address))]),
                     seen)
                | (stale, None) \<Rightarrow> (json_response X 200 (JObj []), fold end_call stale seen))))"

section \<open>Sweeps and shutdown\<close>

definition is_stale_call :: "instant \<Rightarrow> active_call \<Rightarrow> bool" where
  "is_stale_call t call \<longleftrightarrow> seconds 300 < t - ac_started_at call \<and> ac_receivers call = 0"

definition sweep_host :: "instant \<Rightarrow> host_info \<Rightarrow> host_info" where
  "sweep_host t h =
     (if hi_online h \<and> (case hi_last_seen h of Some seen \<Rightarrow> seconds 120 < t - seen | None \<Rightarrow> False)
      then h\<lparr>hi_online := False, hi_busy := False\<rparr> else h)"

definition sweep_stale :: "instant \<Rightarrow> string list \<Rightarrow> voice_state \<Rightarrow> voice_state" where
  "sweep_stale t keys st =
     (let stale = filter (\<lambda>k. case vs_calls st k of Some c \<Rightarrow> is_stale_call t c | None \<Rightarrow> False) keys;
          st' = fold end_call stale st in
      st'\<lparr>vs_rate_limits := sweep_rate_limits (vs_rate_limits st') t,
          vs_hosts := map_option (sweep_host t) \<circ> vs_hosts st'\<rparr>)"

definition shutdown :: "voice_state \<Rightarrow> voice_state" where
  "shutdown st = st\<lparr>vs_calls := Map.empty,
     vs_hosts := map_option (\<lambda>h. h\<lparr>hi_online := False, hi_busy := False\<rparr>) \<circ> vs_hosts st\<rparr>"

section \<open>Signalling\<close>

datatype ws_answer = Ws_Refused http_response | Ws_Upgrade string string

definition ws_role :: "active_call \<Rightarrow> string \<Rightarrow> string" where
  "ws_role call addr =
     (if addr = ac_host_addr call then ''host''
      else if addr = ac_caller_addr call then ''caller'' else ''unknown'')"

text \<open>The answer to the upgrade request, with the address and the role of the socket.\<close>

definition ws_signal ::
  "crates \<Rightarrow> voice_config \<Rightarrow> string \<Rightarrow> string option \<Rightarrow> string option \<Rightarrow> voice_state \<Rightarrow> ws_answer" where
  "ws_signal X cfg call_id address_param token_param st =
     (let addr = unwrap_or [] address_param; token = unwrap_or [] token_param in
      if \<not> verify_ws_token X (vc_secret_key cfg) call_id addr token
      then Ws_Refused (json_response X 403 (error_json ''Invalid WebSocket token''))
      else case vs_calls st call_id of
        None \<Rightarrow> Ws_Refused (json_response X 404 (error_json ''Call not found''))
      | Some call \<Rightarrow> Ws_Upgrade addr (ws_role call addr))"

text \<open>A socket subscribes when it opens and unsubscribes when it closes.\<close>

definition count_receivers :: "(nat \<Rightarrow> nat) \<Rightarrow> string \<Rightarrow> voice_state \<Rightarrow> voice_state" where
  "count_receivers f call_id st = st\<lparr>vs_calls := (case vs_calls st call_id of
     None \<Rightarrow> vs_calls st
   | Some c \<Rightarrow> (vs_calls st)(call_id \<mapsto> c\<lparr>ac_receivers := f (ac_receivers c)\<rparr>))\<rparr>"

record signal_message =
  sm_from :: string
  sm_type :: string
  sm_data :: json

text \<open>A text frame becomes a broadcast message if it is JSON; a message is relayed to every socket
  whose address is not the sender's, as the data alone.\<close>

definition receive_frame :: "crates \<Rightarrow> string \<Rightarrow> string \<Rightarrow> signal_message option" where
  "receive_frame X addr frame =
     map_option (\<lambda>parsed. \<lparr>sm_from = addr, sm_type = unwrap_or ''unknown'' (get_str ''type'' parsed),
       sm_data = parsed\<rparr>) (ok_opt (json_from_slice X (as_bytes frame)))"

definition relay_frame :: "crates \<Rightarrow> string \<Rightarrow> signal_message \<Rightarrow> string option" where
  "relay_frame X addr msg =
     (if sm_from msg = addr then None
      else Some (case json_to_string X (sm_data msg) of Inr s \<Rightarrow> s | Inl _ \<Rightarrow> []))"

end
