(* ===== verification/Voice_Claims.thy ===== *)
theory Voice_Claims
  imports Voice_Server Sample_Crates
begin

text \<open>
  The properties of the voice-call server: one call per host as long as a host in a call does not
  register again and starts do not overlap, and what happens otherwise; what starts a call; and
  who can get at the tokens of a call.
\<close>

section \<open>What the operations change\<close>

lemma limited_sel [simp]:
  "vs_hosts (snd (limited t ip st)) = vs_hosts st" "vs_calls (snd (limited t ip st)) = vs_calls st"
  by (simp_all add: limited_def split: prod.splits)

lemma limitedE:
  obtains st' where "limited t ip st = (fst (limited t ip st), st')" and "vs_hosts st' = vs_hosts st"
    and "vs_calls st' = vs_calls st"
  by (metis limited_sel prod.collapse)

lemma update_host_sel [simp]:
  "vs_calls (update_host a f st) = vs_calls st"
  "vs_hosts (update_host a f st) b = (if b = a then map_option f (vs_hosts st a) else vs_hosts st b)"
  by (auto simp: update_host_def split: option.splits)

lemma mark_busy_sel [simp]:
  "vs_calls (mark_busy a st) = vs_calls st"
  "vs_hosts (mark_busy a st) b
   = (if b = a then map_option (\<lambda>h. h\<lparr>hi_busy := True\<rparr>) (vs_hosts st a) else vs_hosts st b)"
  by (simp_all add: mark_busy_def)

lemma insert_call_sel [simp]:
  "vs_hosts (insert_call cid a caller t st) = vs_hosts st"
  "vs_calls (insert_call cid a caller t st) = (vs_calls st)(cid \<mapsto>
     \<lparr>ac_host_addr = a, ac_caller_addr = caller, ac_started_at = t, ac_receivers = 0\<rparr>)"
  by (simp_all add: insert_call_def)

lemma end_call_sel:
  "vs_calls (end_call cid st) = (vs_calls st)(cid := None)"
  "vs_hosts (end_call cid st) a =
     (case vs_calls st cid of
        Some c \<Rightarrow> if a = ac_host_addr c then map_option (\<lambda>h. h\<lparr>hi_busy := False\<rparr>) (vs_hosts st a)
          else vs_hosts st a
      | None \<Rightarrow> vs_hosts st a)"
  by (auto simp: end_call_def fun_upd_idem split: option.splits)

section \<open>One call per host\<close>

text \<open>A host of a call is registered, and busy if it is online; and it has no other call.\<close>

definition exclusive :: "voice_state \<Rightarrow> bool" where
  "exclusive st \<longleftrightarrow>
     (\<forall>cid c. vs_calls st cid = Some c \<longrightarrow>
        (\<exists>h. vs_hosts st (ac_host_addr c) = Some h \<and> (hi_online h \<longrightarrow> hi_busy h))
        \<and> (\<forall>cid' c'. vs_calls st cid' = Some c' \<longrightarrow> ac_host_addr c' = ac_host_addr c \<longrightarrow> cid' = cid))"

definition in_call :: "voice_state \<Rightarrow> string \<Rightarrow> bool" where
  "in_call st a \<longleftrightarrow> (\<exists>cid c. vs_calls st cid = Some c \<and> ac_host_addr c = a)"

lemma exclusive_cong:
  "vs_calls st' = vs_calls st \<Longrightarrow> vs_hosts st' = vs_hosts st \<Longrightarrow> exclusive st' = exclusive st"
  by (simp add: exclusive_def)

lemma exclusive_update_host:
  assumes "exclusive st"
    and "\<And>h. vs_hosts st a = Some h \<Longrightarrow> (hi_online h \<longrightarrow> hi_busy h) \<Longrightarrow> hi_online (f h) \<longrightarrow> hi_busy (f h)"
  shows "exclusive (update_host a f st)"
  using assms unfolding exclusive_def by simp metis

lemma exclusive_end_call: "exclusive st \<Longrightarrow> exclusive (end_call cid st)"
proof (cases "vs_calls st cid")
  case None
  then show "exclusive st \<Longrightarrow> ?thesis" by (simp add: end_call_def)
next
  case (Some c)
  assume ex: "exclusive st"
  show ?thesis
    unfolding exclusive_def
  proof (intro allI impI conjI)
    fix i d
    assume "vs_calls (end_call cid st) i = Some d"
    then have d: "vs_calls st i = Some d" "i \<noteq> cid" by (auto simp: end_call_sel split: if_splits)
    then have other: "ac_host_addr d \<noteq> ac_host_addr c" using ex Some unfolding exclusive_def by metis
    with ex d Some show "\<exists>h. vs_hosts (end_call cid st) (ac_host_addr d) = Some h \<and> (hi_online h \<longrightarrow> hi_busy h)"
      by (simp add: end_call_sel) (simp add: exclusive_def)
    fix j e
    assume "vs_calls (end_call cid st) j = Some e" "ac_host_addr e = ac_host_addr d"
    with ex d show "j = i" unfolding exclusive_def end_call_sel by (metis fun_upd_apply option.distinct(1))
  qed
qed

lemma exclusive_fold_end: "exclusive st \<Longrightarrow> exclusive (fold end_call cids st)"
  by (induction cids arbitrary: st) (simp_all add: exclusive_end_call)

lemma exclusive_start:
  assumes ex: "exclusive st" and "vs_hosts st a = Some h" and "hi_online h" and "\<not> hi_busy h"
  shows "exclusive (insert_call cid a caller t (mark_busy a st))"
proof -
  have "ac_host_addr c \<noteq> a" if "vs_calls st i = Some c" for i c
    using ex that assms(2-4) unfolding exclusive_def by force
  with ex assms(2) show ?thesis unfolding exclusive_def by auto
qed

lemma start_call_check_Inr:
  "start_call_check X hv now m cfg a body hosts = Inr u \<longleftrightarrow>
   \<not> bad_address a \<and> (\<exists>h. hosts a = Some h \<and> hi_online h \<and> \<not> hi_busy h)
   \<and> (\<exists>cid. sc_channel_id body = Some cid \<and> cid \<noteq> [])"
  by (auto simp: start_call_check_def split: option.splits)

text \<open>The handlers, one after the other. A host in a call does not register again.\<close>

inductive voice_step ::
  "crates \<Rightarrow> (string \<Rightarrow> bool) \<Rightarrow> curve \<Rightarrow> 's mpp \<Rightarrow> voice_config \<Rightarrow> voice_state \<Rightarrow> voice_state \<Rightarrow> bool"
  for X hv K m cfg where
  Go_Live: "\<not> in_call st (sg_address body) \<Longrightarrow>
    voice_step X hv K m cfg st (snd (go_live X K now_ms t ip body st))"
| Go_Offline: "voice_step X hv K m cfg st (snd (go_offline X K now_ms request st))"
| List_Hosts: "voice_step X hv K m cfg st (snd (list_hosts X t ip keys st))"
| Start: "vs_calls st cid = None \<Longrightarrow>
    voice_step X hv K m cfg st (snd (start_call X hv now m cfg t ip cid a caller st))"
| Poll: "voice_step X hv K m cfg st (snd (host_poll X cfg t ip keys address st))"
| Hang_Up: "voice_step X hv K m cfg st (snd (hangup X cfg t bye st))"
| Sweep: "voice_step X hv K m cfg st (sweep_stale t keys st)"
| Socket: "voice_step X hv K m cfg st (count_receivers f cid st)"
| Shutdown: "voice_step X hv K m cfg st (shutdown st)"

inductive voice_reachable ::
  "crates \<Rightarrow> (string \<Rightarrow> bool) \<Rightarrow> curve \<Rightarrow> 's mpp \<Rightarrow> voice_config \<Rightarrow> voice_state \<Rightarrow> bool"
  for X hv K m cfg where
  Initial: "voice_reachable X hv K m cfg voice_start"
| Next: "voice_reachable X hv K m cfg st \<Longrightarrow> voice_step X hv K m cfg st st' \<Longrightarrow>
    voice_reachable X hv K m cfg st'"

lemma exclusive_limited [simp]: "exclusive (snd (limited t ip st)) \<longleftrightarrow> exclusive st"
  by (rule exclusive_cong) simp_all

lemma exclusive_go_live:
  assumes "exclusive st" and "\<not> in_call st (sg_address body)"
  shows "exclusive (snd (go_live X K now_ms t ip body st))"
proof -
  obtain st' where l: "limited t ip st = (fst (limited t ip st), st')" "vs_hosts st' = vs_hosts st"
    "vs_calls st' = vs_calls st" by (rule limitedE)
  have "exclusive st'" using assms(1) l exclusive_cong by blast
  moreover have "exclusive (st'\<lparr>vs_hosts := (vs_hosts st')(sg_address body \<mapsto> live_host body t)\<rparr>)"
    using assms l unfolding exclusive_def in_call_def by auto
  ultimately show ?thesis
    unfolding go_live_def by (subst l(1)) (auto split: bool.splits sum.splits)
qed

lemma exclusive_go_offline: "exclusive st \<Longrightarrow> exclusive (snd (go_offline X K now_ms request st))"
  by (auto simp: go_offline_def intro!: exclusive_update_host split: sum.splits)

lemma list_hosts_state: "snd (list_hosts X t ip keys st) = snd (limited t ip st)"
  by (cases "limited t ip st") (simp add: list_hosts_def split: bool.splits)

lemma exclusive_list: "exclusive st \<Longrightarrow> exclusive (snd (list_hosts X t ip keys st))"
  by (simp add: list_hosts_state)

lemma exclusive_start_call:
  assumes "exclusive st" and "vs_calls st cid = None"
  shows "exclusive (snd (start_call X hv now m cfg t ip cid a body st))"
proof -
  obtain st' where l: "limited t ip st = (fst (limited t ip st), st')" "vs_hosts st' = vs_hosts st"
    "vs_calls st' = vs_calls st" by (rule limitedE)
  have ex: "exclusive st'" using assms(1) l exclusive_cong by blast
  have "exclusive (insert_call cid a (sc_address body) t (mark_busy a st'))"
    if "start_call_check X hv now m cfg a body (vs_hosts st') = Inr u" for u
    using that exclusive_start [OF ex] unfolding start_call_check_Inr by blast
  with ex show ?thesis
    unfolding start_call_def by (subst l(1)) (auto split: bool.splits sum.splits)
qed

lemma exclusive_poll: "exclusive st \<Longrightarrow> exclusive (snd (host_poll X cfg t ip keys address st))"
proof -
  assume ex: "exclusive st"
  obtain st' where l: "limited t ip st = (fst (limited t ip st), st')" "vs_hosts st' = vs_hosts st"
    "vs_calls st' = vs_calls st" by (rule limitedE)
  have "exclusive st'" using ex l exclusive_cong by blast
  moreover from this have "exclusive (update_host a (\<lambda>h. h\<lparr>hi_last_seen := Some t\<rparr>) st')" for a
    by (rule exclusive_update_host) simp
  ultimately show ?thesis
    unfolding host_poll_def
    by (subst l(1)) (auto simp: Let_def exclusive_fold_end split: bool.splits option.splits prod.splits)
qed

lemma exclusive_sweep: "exclusive st \<Longrightarrow> exclusive (sweep_stale t keys st)"
proof -
  assume "exclusive st"
  let ?st = "fold end_call (filter (\<lambda>k. case vs_calls st k of Some c \<Rightarrow> is_stale_call t c | None \<Rightarrow> False) keys) st"
  have "exclusive ?st" by (rule exclusive_fold_end) fact
  moreover have "hi_online (sweep_host t h) \<longrightarrow> hi_busy (sweep_host t h)" if "hi_online h \<longrightarrow> hi_busy h" for h
    using that by (simp add: sweep_host_def)
  ultimately show ?thesis
    unfolding sweep_stale_def Let_def exclusive_def by simp metis
qed

lemma exclusive_socket: "exclusive st \<Longrightarrow> exclusive (count_receivers f cid st)"
  by (auto simp: count_receivers_def exclusive_def split: option.splits if_splits)

lemma voice_step_exclusive: "voice_step X hv K m cfg st st' \<Longrightarrow> exclusive st \<Longrightarrow> exclusive st'"
proof (induction rule: voice_step.induct)
  case (Hang_Up t bye st)
  then show ?case by (auto simp: hangup_def exclusive_end_call split: option.splits)
next
  case (Shutdown st)
  show ?case by (simp add: exclusive_def shutdown_def)
qed (simp_all add: exclusive_go_live exclusive_go_offline exclusive_list exclusive_start_call exclusive_poll
    exclusive_sweep exclusive_socket)

lemma voice_reachable_exclusive: "voice_reachable X hv K m cfg st \<Longrightarrow> exclusive st"
proof (induction rule: voice_reachable.induct)
  case Initial
  show ?case by (simp add: exclusive_def voice_start_def)
next
  case (Next st st')
  then show ?case by (blast intro: voice_step_exclusive)
qed

lemma no_second_call:
  assumes "vs_hosts st a = Some h" and "hi_online h \<longrightarrow> hi_busy h"
  shows "vs_calls (snd (start_call X hv now m cfg t ip cid a body st)) = vs_calls st"
proof -
  obtain b st' where l: "limited t ip st = (b, st')" by fastforce
  then have same: "vs_hosts st' = vs_hosts st" "vs_calls st' = vs_calls st"
    by (auto simp: limited_def Let_def split: prod.splits)
  have "start_call_check X hv now m cfg a body (vs_hosts st) \<noteq> Inr u" for u
    using assms by (auto simp: start_call_check_def)
  then show ?thesis
    by (cases b; cases "start_call_check X hv now m cfg a body (vs_hosts st)")
      (simp_all add: start_call_def l same)
qed


text \<open>A host, a caller and a call.\<close>

definition sample_curve :: curve where
  "sample_curve = \<lparr>cv_key_error = \<lambda>_. [], cv_verify_strict = \<lambda>_ _ _. True\<rparr>"

definition sample_live :: go_live_request where
  "sample_live = \<lparr>sg_address = ''0x00'', sg_signature = hex_encode sample_crates (replicate 64 0),
     sg_full_message = ''0x00 5'', sg_nonce = ''5'', sg_pubkey = hex_encode sample_crates (replicate 32 0),
     gl_rate_per_second = ''7'', gl_currency = ''0xa'', gl_name = None\<rparr>"

definition sample_voice :: voice_config where
  "sample_voice = \<lparr>vc_module_address = ''0x1'', vc_secret_key = ''key''\<rparr>"

definition sample_voice_mpp :: "unit mpp" where
  "sample_voice_mpp = mpp_new (\<lambda>_ _ _. Inl (verification_error_new [])) ''realm'' ''key''"

definition sample_caller :: start_call_body where
  "sample_caller = \<lparr>sc_address = ''0xca11'', sc_channel_id = Some ''x''\<rparr>"

lemma sample_zeros: "sample_hex_encode (replicate n 0) = replicate (2 * n) CHR ''0''"
  by (induction n) (simp_all add: hex_digit_of_def char_eval)

lemma sample_legacy: "normalize_addr (legacy_address sample_crates (replicate 32 0)) = normalize_addr ''0x00''"
proof -
  have "sha3_256 sample_crates (replicate 32 0 @ [0x00]) = replicate 32 0"
    by (simp add: sample_crates_def)
  then have "legacy_address sample_crates (replicate 32 0) = ''0x'' @ replicate 64 CHR ''0''"
    using sample_zeros [of 32] by (simp add: legacy_address_def) (simp add: sample_crates_def)
  moreover have "replicate 64 CHR ''0'' = replicate 62 CHR ''0'' @ ''00''"
    by (simp add: eval_nat_numeral)
  ultimately show ?thesis
    by (simp add: normalize_addr_def strip_0x_prefixed to_ascii_lowercase_def to_lower_def
        is_ascii_uppercase_def pad_left_64_def strip_0x_def strip_prefix_def starts_with_def)
qed

lemma sample_live_ok: "go_live_checks sample_crates sample_curve 0 sample_live = Inr ()"
proof -
  have nonce: "parse_u64 ''5'' = Some 5" "parse_u64 ''7'' = Some 7"
    by (simp_all add: parse_u64_def parse_uint_def dec_val_def digit_val_def is_ascii_digit_def del: One_nat_def)
  have "verify_go_live_signature sample_crates sample_curve 0 ''0x00'' ''0x00 5'' ''5''
      (hex_encode sample_crates (replicate 64 0)) (hex_encode sample_crates (replicate 32 0)) = Inr ()"
    using sample_legacy
    by (simp add: verify_go_live_signature_def nonce_check_def nonce hex_text_decodes raw_pubkey_of_def
        raw_signature_of_def to_ascii_lowercase_def to_lower_def is_ascii_uppercase_def starts_with_def)
      (simp add: sample_curve_def sample_crates_def word_less_nat_alt)
  then show ?thesis
    by (simp add: go_live_checks_def check_signed_def sample_live_def bad_address_def starts_with_def nonce)
qed

lemma limited_first: "limited t ip (st\<lparr>vs_rate_limits := (\<lambda>_. None)\<rparr>) =
   (True, st\<lparr>vs_rate_limits := [ip \<mapsto> (1, t)]\<rparr>)"
  by (simp add: limited_def check_rate_limit_def RATE_LIMIT_MAX_def word_le_nat_alt)

definition sample_online :: voice_state where
  "sample_online = snd (go_live sample_crates sample_curve 0 0 ''1.1.1.1'' sample_live voice_start)"

definition sample_calling :: voice_state where
  "sample_calling = snd (start_call sample_crates (\<lambda>_. True) 0 sample_voice_mpp sample_voice 0 ''2.2.2.2''
     ''id'' ''0x00'' sample_caller sample_online)"

lemma sample_online_eq: "sample_online = \<lparr>vs_hosts = [''0x00'' \<mapsto> live_host sample_live 0],
   vs_calls = Map.empty, vs_rate_limits = [''1.1.1.1'' \<mapsto> (1, 0)]\<rparr>"
proof -
  have "limited 0 ip voice_start = (True, voice_start\<lparr>vs_rate_limits := [ip \<mapsto> (1, 0)]\<rparr>)" for ip
    using limited_first [of 0 ip voice_start] by (simp add: voice_start_def)
  then show ?thesis
    by (simp add: sample_online_def go_live_def sample_live_ok) (simp add: voice_start_def sample_live_def)
qed

lemma sample_calling_eq: "sample_calling = \<lparr>
   vs_hosts = [''0x00'' \<mapsto> (live_host sample_live 0)\<lparr>hi_busy := True\<rparr>],
   vs_calls = [''id'' \<mapsto> \<lparr>ac_host_addr = ''0x00'', ac_caller_addr = ''0xca11'', ac_started_at = 0,
     ac_receivers = 0\<rparr>],
   vs_rate_limits = [''1.1.1.1'' \<mapsto> (1, 0), ''2.2.2.2'' \<mapsto> (1, 0)]\<rparr>"
  by (simp add: sample_calling_def sample_online_eq start_call_def limited_def check_rate_limit_def
      RATE_LIMIT_MAX_def word_le_nat_alt start_call_check_def bad_address_def starts_with_def
      live_host_def sample_caller_def mark_busy_def update_host_def insert_call_def)

lemma sample_calling_call: "vs_calls sample_calling ''id'' = Some \<lparr>ac_host_addr = ''0x00'',
   ac_caller_addr = ''0xca11'', ac_started_at = 0, ac_receivers = 0\<rparr>"
  by (simp add: sample_calling_eq)


section \<open>Two calls for one host\<close>

lemma checked_live_address: "go_live_checks X K now_ms body = Inr () \<Longrightarrow> \<not> bad_address (sg_address body)"
  by (auto simp: go_live_checks_def split: if_splits)

lemma go_live_state:
  assumes "fst (limited t ip st)" and "go_live_checks X K now_ms body = Inr ()"
  shows "vs_calls (snd (go_live X K now_ms t ip body st)) = vs_calls st"
    and "vs_hosts (snd (go_live X K now_ms t ip body st))
      = (vs_hosts st)(sg_address body \<mapsto> live_host body t)"
  using assms limited_sel [of t ip st]
  by (cases "limited t ip st"; simp add: go_live_def)+

lemma start_call_accepted:
  assumes "fst (limited t ip st)" and "start_call_check X hv now m cfg a body (vs_hosts st) = Inr ()"
  shows "fst (start_call X hv now m cfg t ip cid a body st)
      = Some (json_response X 200 (call_started X cfg cid a (sc_address body)))"
    and "vs_calls (snd (start_call X hv now m cfg t ip cid a body st)) = (vs_calls st)(cid \<mapsto>
      \<lparr>ac_host_addr = a, ac_caller_addr = sc_address body, ac_started_at = t, ac_receivers = 0\<rparr>)"
  using assms limited_sel [of t ip st]
  by (cases "limited t ip st"; simp add: start_call_def)+

text \<open>Two starts that both read the host before either writes.\<close>

lemma overlapping_starts:
  assumes "i \<noteq> j"
  shows "{k. \<exists>d. vs_calls (insert_call j a c' t' (mark_busy a (insert_call i a c t (mark_busy a st)))) k
    = Some d \<and> ac_host_addr d = a} \<supseteq> {i, j}"
  using assms by auto

text \<open>
  Registering again frees a host in a call. When a host in a call goes live once more, say
  after a reload of its page, its entry is replaced by one that is not busy; the next caller with
  any non-empty channel identifier gets a second call with the same host while the first goes on.
\<close>

theorem go_live_double_books:
  assumes "vs_calls st cid = Some c" and "ac_host_addr c = sg_address body" and "cid' \<noteq> cid"
    and "fst (limited t ip st)" and "go_live_checks X K now_ms body = Inr ()"
    and "fst (limited t' ip' (snd (go_live X K now_ms t ip body st)))"
    and "sc_channel_id caller = Some channel" and "channel \<noteq> []"
  shows "{cid, cid'} \<subseteq> {i. \<exists>d. vs_calls (snd (start_call X hv now m cfg t' ip' cid' (sg_address body) caller
      (snd (go_live X K now_ms t ip body st)))) i = Some d \<and> ac_host_addr d = ac_host_addr c}"
proof -
  have "start_call_check X hv now m cfg (sg_address body) caller
      (vs_hosts (snd (go_live X K now_ms t ip body st))) = Inr ()"
    unfolding go_live_state(2) [OF assms(4,5)] start_call_check_Inr
    using checked_live_address [OF assms(5)] assms(7,8) by (simp add: live_host_def)
  from start_call_accepted(2) [OF assms(6) this] show ?thesis
    using assms(1-3) by (simp add: go_live_state(1) [OF assms(4,5)])
qed

lemma limited_new: "vs_rate_limits st ip = None \<Longrightarrow> fst (limited t ip st)"
  by (simp add: limited_def check_rate_limit_def RATE_LIMIT_MAX_def word_le_nat_alt)

lemma go_live_limits:
  "client \<noteq> ip \<Longrightarrow> vs_rate_limits (snd (go_live X K now_ms t ip body st)) client = vs_rate_limits st client"
  by (auto simp: go_live_def limited_def check_rate_limit_def Let_def split: prod.splits bool.splits sum.splits)

theorem go_live_double_books_witness:
  "{''id'', ''id2''} \<subseteq> {i. \<exists>d. vs_calls (snd (start_call sample_crates (\<lambda>_. True) 0 sample_voice_mpp sample_voice
      9 ''3.3.3.3'' ''id2'' ''0x00'' sample_caller
      (snd (go_live sample_crates sample_curve 0 8 ''4.4.4.4'' sample_live sample_calling)))) i = Some d
      \<and> ac_host_addr d = ''0x00''}"
proof -
  let ?st = "snd (go_live sample_crates sample_curve 0 8 ''4.4.4.4'' sample_live sample_calling)"
  have limits: "fst (limited 8 ''4.4.4.4'' sample_calling)"
    by (rule limited_new) (simp add: sample_calling_eq)
  have limits': "fst (limited 9 ''3.3.3.3'' ?st)"
    by (rule limited_new) (simp add: go_live_limits sample_calling_eq)
  have a: "sg_address sample_live = ''0x00''" by (simp add: sample_live_def)
  show ?thesis
    using go_live_double_books [where cid' = "''id2''" and body = sample_live and caller = sample_caller
        and channel = "''x''" and X = sample_crates and hv = "\<lambda>_. True" and now = 0 and m = sample_voice_mpp
        and cfg = sample_voice, OF sample_calling_call _ _ limits sample_live_ok limits']
    by (simp add: a) (simp add: sample_caller_def)
qed

section \<open>What starts a call\<close>

text \<open>
  What starts a call. With room in the caller's limit and a fresh identifier, a request
  starts a call exactly when the host address is well formed, its host is online and not busy,
  and the body has a channel identifier that is not empty. Nothing about the channel is looked
  up and no voucher is asked for: any text does. The call is then entered under the identifier
  for the host and the address the caller claims.
\<close>

theorem start_call_iff:
  assumes "fst (limited t ip st)" and "vs_calls st cid = None"
  shows "vs_calls (snd (start_call X hv now m cfg t ip cid a body st)) cid \<noteq> None \<longleftrightarrow>
    \<not> bad_address a \<and> (\<exists>h. vs_hosts st a = Some h \<and> hi_online h \<and> \<not> hi_busy h)
    \<and> (\<exists>channel. sc_channel_id body = Some channel \<and> channel \<noteq> [])"
proof (cases "start_call_check X hv now m cfg a body (vs_hosts st)")
  case (Inl answer)
  then have "snd (start_call X hv now m cfg t ip cid a body st) = snd (limited t ip st)"
    using assms(1) limited_sel(1) [of t ip st] by (cases "limited t ip st") (simp add: start_call_def)
  with Inl assms(2) start_call_check_Inr [of X hv now m cfg a body "vs_hosts st"] show ?thesis by simp
next
  case (Inr u)
  with start_call_accepted(2) [OF assms(1), where X = X and hv = hv and now = now and m = m and cfg = cfg
      and a = a and body = body and cid = cid] start_call_check_Inr [of X hv now m cfg a body "vs_hosts st"]
  show ?thesis by simp
qed

theorem start_call_iff_witness:
  "vs_calls sample_calling ''id'' \<noteq> None"
proof -
  have l: "fst (limited 0 ''2.2.2.2'' sample_online)"
    by (rule limited_new) (simp add: sample_online_eq)
  have fresh: "vs_calls sample_online ''id'' = None" by (simp add: sample_online_eq)
  have "\<not> bad_address ''0x00'' \<and> (\<exists>h. vs_hosts sample_online ''0x00'' = Some h \<and> hi_online h \<and> \<not> hi_busy h)
    \<and> (\<exists>channel. sc_channel_id sample_caller = Some channel \<and> channel \<noteq> [])"
    by (simp add: sample_online_eq bad_address_def starts_with_def live_host_def sample_caller_def)
  then show ?thesis
    unfolding sample_calling_def by (rule start_call_iff [OF l fresh, THEN iffD2])
qed

section \<open>Who gets at a call\<close>

lemma ws_token_verifies:
  "hex_ok X \<Longrightarrow> verify_ws_token X secret cid a (generate_ws_token X secret cid a)"
  by (simp add: verify_ws_token_def generate_ws_token_def hex_ok_decode)

lemma poll_calls_found:
  "poll_calls t a calls keys = (stale, Some (cid, c)) \<Longrightarrow> calls cid = Some c \<and> ac_host_addr c = a"
proof (induction keys arbitrary: stale)
  case (Cons k keys)
  obtain s f where r: "poll_calls t a calls keys = (s, f)" by (cases "poll_calls t a calls keys") auto
  show ?case
  proof (cases "calls k")
    case (Some d)
    with Cons r show ?thesis by (simp split: if_splits)
  qed (use Cons in simp)
qed simp

lemma host_poll_found:
  assumes "fst (limited t ip st)" and "poll_calls t a (vs_calls st) keys = (stale, Some (cid, c))"
  shows "fst (host_poll X cfg t ip keys (Some a) st) = json_response X 200 (JObj
      [(''callId'', JStr cid), (''callerAddress'', JStr (ac_caller_addr c)),
       (''wsToken'', JStr (generate_ws_token X (vc_secret_key cfg) cid a))])"
    and "vs_calls (snd (host_poll X cfg t ip keys (Some a) st)) = vs_calls st"
  using assms limited_sel(2) [of t ip st]
  by (cases "limited t ip st"; simp add: host_poll_def Let_def)+

text \<open>
  Anyone can take the host's place in a call, or end it. A poll asks for no proof: whoever
  names a host's address while a call waits for it is told the identifier of the call and the
  host's token. With these the socket of the call opens in the role of the host, and a hang-up is
  accepted and removes the call.
\<close>

theorem anyone_ends_call:
  assumes "hex_ok X" and "fst (limited t ip st)"
    and "poll_calls t a (vs_calls st) keys = (stale, Some (cid, c))"
  shows "\<exists>token. fst (host_poll X cfg t ip keys (Some a) st) = json_response X 200 (JObj
        [(''callId'', JStr cid), (''callerAddress'', JStr (ac_caller_addr c)), (''wsToken'', JStr token)])
    \<and> ws_signal X cfg cid (Some a) (Some token) (snd (host_poll X cfg t ip keys (Some a) st))
        = Ws_Upgrade a ''host''
    \<and> hr_status (fst (hangup X cfg t \<lparr>hu_call_id = cid, hu_address = a, hu_token = token\<rparr>
        (snd (host_poll X cfg t ip keys (Some a) st)))) = 200
    \<and> vs_calls (snd (hangup X cfg t \<lparr>hu_call_id = cid, hu_address = a, hu_token = token\<rparr>
        (snd (host_poll X cfg t ip keys (Some a) st)))) cid = None"
proof -
  let ?token = "generate_ws_token X (vc_secret_key cfg) cid a"
  note poll = host_poll_found [OF assms(2,3), of X cfg]
  have "vs_calls st cid = Some c" "ac_host_addr c = a" using poll_calls_found [OF assms(3)] by auto
  then show ?thesis
    by (intro exI [of _ ?token])
      (simp add: poll ws_signal_def hangup_def ws_token_verifies [OF assms(1)] ws_role_def end_call_sel)
qed

theorem anyone_ends_call_witness:
  "\<exists>token. vs_calls (snd (hangup sample_crates sample_voice 1
     \<lparr>hu_call_id = ''id'', hu_address = ''0x00'', hu_token = token\<rparr>
     (snd (host_poll sample_crates sample_voice 1 ''6.6.6.6'' [''id''] (Some ''0x00'') sample_calling)))) ''id'' = None"
proof -
  have l: "fst (limited 1 ''6.6.6.6'' sample_calling)" by (rule limited_new) (simp add: sample_calling_eq)
  have p: "poll_calls 1 ''0x00'' (vs_calls sample_calling) [''id''] = ([], Some (''id'',
      \<lparr>ac_host_addr = ''0x00'', ac_caller_addr = ''0xca11'', ac_started_at = 0, ac_receivers = 0\<rparr>))"
    by (simp add: sample_calling_eq)
  from anyone_ends_call [OF sample_crates_hex_ok l p, of sample_voice] show ?thesis by blast
qed

section \<open>What a host signs\<close>

text \<open>
  A host's signature covers neither what it is for nor the terms. With the signature of an
  accepted go-live request, within the same five minutes, the host can be announced at any other
  rate, currency and name, and it can be taken offline: the signed text only has to contain the
  address and the nonce.
\<close>

theorem go_live_signature_reused:
  assumes "go_live_checks X K now_ms body = Inr ()" and "parse_u64 rate \<noteq> None"
    and "fst (limited t ip st)" and "vs_hosts st (sg_address body) = Some h"
  shows "vs_hosts (snd (go_live X K now_ms t ip (body\<lparr>gl_rate_per_second := rate, gl_currency := currency,
        gl_name := None\<rparr>) st)) (sg_address body)
      = Some ((live_host body t)\<lparr>hi_rate_per_second := rate, hi_currency := currency, hi_name := None\<rparr>)
    \<and> vs_hosts (snd (go_offline X K now_ms (signed_request.truncate body) st)) (sg_address body)
      = Some (h\<lparr>hi_online := False\<rparr>)"
proof -
  have signed: "check_signed X K now_ms body = Inr ()"
    using assms(1) by (auto simp: go_live_checks_def split: if_splits elim: map_err.elims)
  then have "go_live_checks X K now_ms (body\<lparr>gl_rate_per_second := rate, gl_currency := currency,
      gl_name := None\<rparr>) = Inr ()"
    using assms(2) checked_live_address [OF assms(1)]
    by (simp add: go_live_checks_def check_signed_def)
  from go_live_state(2) [OF assms(3) this] signed assms(4) show ?thesis
    by (simp add: live_host_def go_offline_def check_signed_def signed_request.truncate_def)
qed

theorem go_live_signature_reused_witness:
  "vs_hosts (snd (go_offline sample_crates sample_curve 0 (signed_request.truncate sample_live) sample_calling))
     ''0x00'' = Some ((live_host sample_live 0)\<lparr>hi_busy := True, hi_online := False\<rparr>)"
proof -
  have l: "fst (limited 1 ''6.6.6.6'' sample_calling)" by (rule limited_new) (simp add: sample_calling_eq)
  have a: "sg_address sample_live = ''0x00''" by (simp add: sample_live_def)
  have r: "parse_u64 (show_u64 9) \<noteq> None" by simp
  have h: "vs_hosts sample_calling (sg_address sample_live) = Some ((live_host sample_live 0)\<lparr>hi_busy := True\<rparr>)"
    by (simp add: sample_calling_eq a)
  from go_live_signature_reused [OF sample_live_ok r l h] show ?thesis by (simp add: a)
qed

end
