(* ===== verification/Trace_Refinement.thy ===== *)
theory Trace_Refinement
  imports Prelude
begin

text \<open>
  Refinement of an abstract machine by a concrete one, on the events both show. A machine is a
  step relation labelled with the events of the step; \<open>runs\<close> collects them into a trace. The
  locale \<open>simulation\<close> states what a concrete machine owes an abstract one: an invariant of its
  own, and that each of its steps from a state of the invariant is a step of the abstract
  machine with the same events under the observation \<open>obs\<close>. Its clients get that every trace
  of the concrete machine is one of the abstract machine, and that what the abstract machine
  keeps true of state and trace holds of the concrete one.
\<close>

inductive runs :: "('s \<Rightarrow> 'e list \<Rightarrow> 's \<Rightarrow> bool) \<Rightarrow> 's \<Rightarrow> 'e list \<Rightarrow> 's \<Rightarrow> bool"
  for step s0 where
  runs_start: "runs step s0 [] s0"
| runs_next: "runs step s0 tr s \<Longrightarrow> step s es s' \<Longrightarrow> runs step s0 (tr @ es) s'"

text \<open>An invariant of state and trace.\<close>

lemma runs_invariant:
  assumes "runs step s0 tr s" and "P [] s0"
    and "\<And>tr s es s'. P tr s \<Longrightarrow> step s es s' \<Longrightarrow> P (tr @ es) s'"
  shows "P tr s"
  using assms(1) by induction (auto intro: assms(2,3))

locale simulation =
  fixes cstep :: "'c \<Rightarrow> 'e list \<Rightarrow> 'c \<Rightarrow> bool" and c0 :: 'c
    and astep :: "'a \<Rightarrow> 'e list \<Rightarrow> 'a \<Rightarrow> bool" and a0 :: 'a
    and obs :: "'c \<Rightarrow> 'a" and inv :: "'c \<Rightarrow> bool"
  assumes starts: "inv c0" "obs c0 = a0"
    and keeps: "inv c \<Longrightarrow> cstep c es c' \<Longrightarrow> inv c'"
    and simulates: "inv c \<Longrightarrow> cstep c es c' \<Longrightarrow> astep (obs c) es (obs c')"
begin

lemma run_on_invariant: "inv c \<Longrightarrow> runs cstep c tr c' \<Longrightarrow> inv c'"
  by (erule runs_invariant [where P = "\<lambda>_. inv"]) (auto intro: keeps)

lemma run_on_refines:
  assumes "inv c" and "runs cstep c tr c'"
  shows "runs astep (obs c) tr (obs c')"
  using assms(2)
proof (induction rule: runs.induct)
  case runs_start
  show ?case by (rule runs.runs_start)
next
  case (runs_next tr c' es c'')
  from runs_next.IH simulates [OF run_on_invariant [OF assms(1) runs_next.hyps(1)] runs_next.hyps(2)]
  show ?case by (rule runs.runs_next)
qed

lemmas run_invariant = run_on_invariant [OF starts(1)]

lemma run_refines: "runs cstep c0 tr c \<Longrightarrow> runs astep a0 tr (obs c)"
  using run_on_refines [OF starts(1)] by (simp add: starts(2))

lemma run_on_keeps:
  assumes "inv c" and "runs cstep c tr c'" and "P [] (obs c)"
    and "\<And>tr a es a'. P tr a \<Longrightarrow> astep a es a' \<Longrightarrow> P (tr @ es) a'"
  shows "P tr (obs c')"
  using run_on_refines [OF assms(1,2)] assms(3,4) by (rule runs_invariant)

lemma run_keeps:
  assumes "runs cstep c0 tr c" and "P [] a0"
    and "\<And>tr a es a'. P tr a \<Longrightarrow> astep a es a' \<Longrightarrow> P (tr @ es) a'"
  shows "P tr (obs c)"
  using run_refines [OF assms(1)] assms(2,3) by (rule runs_invariant)

end

end
