(* ===== verification/Session_Ledger.thy ===== *)
theory Session_Ledger
  imports Session_Claims Trace_Refinement
begin

text \<open>
  What the session method promises, as a ledger. An account holds a deposit, what the client has
  signed for, what the server has handed out, and whether it is closed, as plain numbers; a step
  of the ledger opens, tops up, charges, closes or serves one account, and shows what it
  collected or served. \<open>session_serve\<close> is the server: one request of
  src/protocol/methods/movement/session_method.rs or one deduction, with the same events read
  off the store. The server refines the ledger, on any channel store, so what holds of the
  traces of the ledger holds of those of the server.
\<close>

section \<open>The ledger\<close>

record account =
  ac_deposit :: nat
  ac_paid :: nat
  ac_spent :: nat
  ac_closed :: bool

type_synonym ledger = "string \<rightharpoonup> account"

datatype ledger_event = Opened string nat | Collected string nat | Served string nat

inductive ledger_step :: "ledger \<Rightarrow> ledger_event list \<Rightarrow> ledger \<Rightarrow> bool" where
  idle: "ledger_step L [] L"
| opens: "n \<le> d \<Longrightarrow> ledger_step L [Opened k n]
    (L(k \<mapsto> \<lparr>ac_deposit = d, ac_paid = n, ac_spent = 0, ac_closed = False\<rparr>))"
| tops_up: "L k = Some a \<Longrightarrow> ac_deposit a < d \<Longrightarrow> ledger_step L [] (L(k \<mapsto> a\<lparr>ac_deposit := d\<rparr>))"
| pays: "L k = Some a \<Longrightarrow> \<not> ac_closed a \<Longrightarrow> ac_paid a + n \<le> ac_deposit a \<Longrightarrow>
    ledger_step L [Collected k n] (L(k \<mapsto> a\<lparr>ac_paid := ac_paid a + n\<rparr>))"
| closes: "L k = Some a \<Longrightarrow> \<not> ac_closed a \<Longrightarrow>
    ledger_step L [Collected k n] (L(k \<mapsto> a\<lparr>ac_paid := ac_paid a + n, ac_closed := True\<rparr>))"
| serves: "L k = Some a \<Longrightarrow> ac_spent a + n \<le> ac_paid a \<Longrightarrow>
    ledger_step L [Served k n] (L(k \<mapsto> a\<lparr>ac_spent := ac_spent a + n\<rparr>))"

inductive_cases ledger_stepE: "ledger_step L es L'"

text \<open>What a trace collects and serves on one account, how often it opens it, and what is left
  on it. An opening collects its first amount.\<close>

fun collected :: "string \<Rightarrow> ledger_event list \<Rightarrow> nat" where
  "collected k [] = 0"
| "collected k (Opened j n # es) = (if j = k then n else 0) + collected k es"
| "collected k (Collected j n # es) = (if j = k then n else 0) + collected k es"
| "collected k (Served j n # es) = collected k es"

fun served :: "string \<Rightarrow> ledger_event list \<Rightarrow> nat" where
  "served k [] = 0"
| "served k (Opened j n # es) = served k es"
| "served k (Served j n # es) = (if j = k then n else 0) + served k es"
| "served k (Collected j n # es) = served k es"

fun openings :: "string \<Rightarrow> ledger_event list \<Rightarrow> nat" where
  "openings k [] = 0"
| "openings k (Opened j n # es) = (if j = k then 1 else 0) + openings k es"
| "openings k (e # es) = openings k es"

lemma totals_append [simp]:
  "collected k (es @ fs) = collected k es + collected k fs"
  "served k (es @ fs) = served k es + served k fs"
  "openings k (es @ fs) = openings k es + openings k fs"
  by (induction es rule: collected.induct) simp_all

definition balance :: "ledger \<Rightarrow> string \<Rightarrow> nat" where
  "balance L k = (case L k of None \<Rightarrow> 0 | Some a \<Rightarrow> ac_paid a - ac_spent a)"

definition account_sound :: "account \<Rightarrow> bool" where
  "account_sound a \<longleftrightarrow> ac_spent a \<le> ac_paid a \<and> (ac_closed a \<or> ac_paid a \<le> ac_deposit a)"

definition ledger_sound :: "ledger \<Rightarrow> bool" where
  "ledger_sound L \<longleftrightarrow> (\<forall>k a. L k = Some a \<longrightarrow> account_sound a)"

definition books_balance :: "ledger_event list \<Rightarrow> ledger \<Rightarrow> bool" where
  "books_balance tr L \<longleftrightarrow> ledger_sound L \<and> (\<forall>k. served k tr + balance L k \<le> collected k tr)"

lemma ledger_sound_update:
  "ledger_sound L \<Longrightarrow> account_sound b \<Longrightarrow> ledger_sound (L(k \<mapsto> b))"
  by (simp add: ledger_sound_def)

lemma ledger_soundD: "L k = Some a \<Longrightarrow> ledger_sound L \<Longrightarrow> account_sound a"
  by (simp add: ledger_sound_def)

lemma ledger_step_sound: "ledger_step L es L' \<Longrightarrow> ledger_sound L \<Longrightarrow> ledger_sound L'"
  by (erule ledger_stepE; simp; (rule ledger_sound_update)?; (drule (1) ledger_soundD)?)
    (simp_all add: account_sound_def, linarith+)

lemma ledger_step_balance:
  "ledger_step L es L' \<Longrightarrow> served k es + balance L' k \<le> balance L k + collected k es"
  by (erule ledger_stepE) (auto simp: balance_def)

lemma books_balance_step:
  assumes "books_balance tr L" and "ledger_step L es L'"
  shows "books_balance (tr @ es) L'"
proof -
  have "served k (tr @ es) + balance L' k \<le> collected k (tr @ es)" for k
  proof -
    have "served k tr + balance L k \<le> collected k tr" using assms(1) by (simp add: books_balance_def)
    with ledger_step_balance [OF assms(2), of k] show ?thesis by simp
  qed
  with ledger_step_sound [OF assms(2)] assms(1) show ?thesis by (simp add: books_balance_def)
qed

lemma books_balance_start: "books_balance [] Map.empty"
  by (simp add: books_balance_def balance_def ledger_sound_def)

text \<open>As long as an account is opened once, it holds exactly what was collected and served.\<close>

definition paid_on :: "ledger \<Rightarrow> string \<Rightarrow> nat" where
  "paid_on L k = (case L k of None \<Rightarrow> 0 | Some a \<Rightarrow> ac_paid a)"

definition spent_on :: "ledger \<Rightarrow> string \<Rightarrow> nat" where
  "spent_on L k = (case L k of None \<Rightarrow> 0 | Some a \<Rightarrow> ac_spent a)"

definition books_exact :: "string \<Rightarrow> ledger_event list \<Rightarrow> ledger \<Rightarrow> bool" where
  "books_exact k tr L \<longleftrightarrow> 1 < openings k tr
     \<or> collected k tr = paid_on L k \<and> served k tr = spent_on L k \<and> (L k = None \<longleftrightarrow> openings k tr = 0)"

lemma books_exact_start: "books_exact k [] Map.empty"
  by (simp add: books_exact_def paid_on_def spent_on_def)

lemma books_exact_step: "books_exact k tr L \<Longrightarrow> ledger_step L es L' \<Longrightarrow> books_exact k (tr @ es) L'"
  by (erule ledger_stepE)
    (auto simp: books_exact_def paid_on_def spent_on_def split: option.splits if_splits)

section \<open>The server\<close>

text \<open>One request with the answers of the network and the clock it met, or one deduction.\<close>

datatype session_input =
    Client_Request network int session_method_details session_credential_payload
  | Sale string u64

definition voucher_of :: "'s channel_store_ops \<Rightarrow> 's \<Rightarrow> string \<Rightarrow> nat" where
  "voucher_of S st k =
     (case get_channel S st k of Inr (Some c) \<Rightarrow> unat (cs_highest_voucher_amount c) | _ \<Rightarrow> 0)"

fun request_events ::
  "'s channel_store_ops \<Rightarrow> session_credential_payload \<Rightarrow> 's \<Rightarrow> 's \<Rightarrow> ledger_event list" where
  "request_events S (Open tx k signer amt sig) st st' = [Opened k (voucher_of S st' k)]"
| "request_events S (TopUp tx k dep) st st' = []"
| "request_events S (Voucher k amt sig) st st' = [Collected k (voucher_of S st' k - voucher_of S st k)]"
| "request_events S (Close k amt sig) st st' = [Collected k (voucher_of S st' k - voucher_of S st k)]"

fun session_serve ::
  "crates \<Rightarrow> session_method_config \<Rightarrow> 's channel_store_ops \<Rightarrow> session_input \<Rightarrow> 's \<Rightarrow> ledger_event list \<times> 's" where
  "session_serve X cfg S (Client_Request net now d payload) st =
     (case session_action X net now cfg S d payload st of
        (Inl e, st') \<Rightarrow> ([], st')
      | (Inr r, st') \<Rightarrow> (request_events S payload st st', st'))"
| "session_serve X cfg S (Sale k n) st =
     (case deduct_from_channel S k n st of
        (Inl e, st') \<Rightarrow> ([], st')
      | (Inr c, st') \<Rightarrow> ([Served k (unat n)], st'))"

fun session_run ::
  "crates \<Rightarrow> session_method_config \<Rightarrow> 's channel_store_ops \<Rightarrow> session_input list \<Rightarrow> 's \<Rightarrow> ledger_event list \<times> 's" where
  "session_run X cfg S [] st = ([], st)"
| "session_run X cfg S (i # is) st =
     (case session_serve X cfg S i st of (es, st') \<Rightarrow>
       (case session_run X cfg S is st' of (fs, st'') \<Rightarrow> (es @ fs, st'')))"

definition session_serves ::
  "crates \<Rightarrow> session_method_config \<Rightarrow> 's channel_store_ops \<Rightarrow> 's \<Rightarrow> ledger_event list \<Rightarrow> 's \<Rightarrow> bool" where
  "session_serves X cfg S st es st' \<longleftrightarrow> (\<exists>i. session_serve X cfg S i st = (es, st'))"

lemma run_is_runs:
  "runs (session_serves X cfg S) st0 tr st \<Longrightarrow> session_run X cfg S is st = (es, st')
   \<Longrightarrow> runs (session_serves X cfg S) st0 (tr @ es) st'"
proof (induction "is" arbitrary: tr st es)
  case (Cons i "is")
  obtain fs st1 gs where i: "session_serve X cfg S i st = (fs, st1)"
    and r: "session_run X cfg S is st1 = (gs, st')" and es: "es = fs @ gs"
    using Cons.prems(2) by (auto split: prod.splits)
  have "session_serves X cfg S st fs st1" using i by (auto simp: session_serves_def)
  with Cons.prems(1) have "runs (session_serves X cfg S) st0 (tr @ fs) st1" by (rule runs_next)
  from Cons.IH [OF this r] es show ?case by simp
qed simp

section \<open>The server refines the ledger\<close>

definition account_of :: "channel_state \<Rightarrow> account" where
  "account_of c =
     \<lparr>ac_deposit = unat (cs_deposit c), ac_paid = unat (cs_highest_voucher_amount c),
      ac_spent = unat (cs_spent c), ac_closed = cs_finalized c\<rparr>"

definition observe :: "(string \<Rightarrow> channel_state option) \<Rightarrow> ledger" where
  "observe channels k = map_option account_of (channels k)"

lemma observe_update [simp]: "observe (channels(k := r)) = (observe channels)(k := map_option account_of r)"
  by (simp add: observe_def fun_eq_iff)

lemma observe_empty [simp]: "observe Map.empty = Map.empty"
  by (simp add: observe_def fun_eq_iff)

lemma observe_same: "channels k = Some c \<Longrightarrow> (observe channels)(k \<mapsto> account_of c) = observe channels"
  by (simp add: observe_def fun_eq_iff)

lemma ledger_opens:
  assumes "channel_ok X k c" and "cs_spent c = 0" and "\<not> cs_finalized c"
  shows "ledger_step L [Opened k (unat (cs_highest_voucher_amount c))] (L(k \<mapsto> account_of c))"
  using ledger_step.opens [of "unat (cs_highest_voucher_amount c)" "unat (cs_deposit c)" L k] assms
  by (simp add: account_of_def channel_ok_def word_le_nat_alt)

lemma ledger_tops_up:
  assumes "channels k = Some c" and "cs_deposit c < dep"
  shows "ledger_step (observe channels) [] ((observe channels)(k \<mapsto> account_of (c\<lparr>cs_deposit := dep\<rparr>)))"
  using ledger_step.tops_up [of "observe channels" k "account_of c" "unat dep"] assms
  by (simp add: account_of_def observe_def word_less_nat_alt)

lemma ledger_pays:
  assumes "channels k = Some c" and "\<not> cs_finalized c" and "cs_highest_voucher_amount c \<le> n"
    and "n \<le> cs_deposit c"
  shows "ledger_step (observe channels) [Collected k (unat n - unat (cs_highest_voucher_amount c))]
    ((observe channels)(k \<mapsto> account_of (raise_voucher c n sb)))"
  using ledger_step.pays [of "observe channels" k "account_of c" "unat n - unat (cs_highest_voucher_amount c)"] assms
  by (simp add: account_of_def observe_def word_le_nat_alt raise_voucher_def)

lemma ledger_closes:
  assumes "channels k = Some c" and "\<not> cs_finalized c" and "cs_highest_voucher_amount c \<le> n"
  shows "ledger_step (observe channels) [Collected k (unat n - unat (cs_highest_voucher_amount c))]
    ((observe channels)(k \<mapsto> account_of ((raise_voucher c n sb)\<lparr>cs_finalized := True\<rparr>)))"
  using ledger_step.closes [of "observe channels" k "account_of c" "unat n - unat (cs_highest_voucher_amount c)"] assms
  by (simp add: account_of_def observe_def word_le_nat_alt raise_voucher_def)

lemma ledger_serves:
  assumes "channels k = Some c" and "channel_ok X k c"
    and "n \<le> saturating_sub (cs_highest_voucher_amount c) (cs_spent c)"
  shows "ledger_step (observe channels) [Served k (unat n)]
    ((observe channels)(k \<mapsto> account_of (c\<lparr>cs_spent := cs_spent c + n, cs_units := cs_units c + 1\<rparr>)))"
proof -
  have "cs_spent c \<le> cs_highest_voucher_amount c" using assms(2) by (simp add: channel_ok_def)
  note add = add_within_saturating_sub [OF assms(3) this]
  then show ?thesis
    using ledger_step.serves [of "observe channels" k "account_of c" "unat n"] assms(1)
    by (simp add: account_of_def observe_def word_le_nat_alt)
qed

lemma voucher_reply:
  assumes "voucher_plan X now cfg d cid amt sig stored = Inr (Reply rc)"
  obtains c where "stored = Inr (Some c)" and "\<not> cs_finalized c"
  using assms by (auto simp: voucher_plan_def res_simps split: if_splits)

lemma no_reply:
  "open_plan X net now cfg d tx cid signer amt sig \<noteq> Inr (Reply rc)"
  "top_up_plan X net now cfg d tx cid stored \<noteq> Inr (Reply rc)"
  "close_plan X now cid amt sig stored \<noteq> Inr (Reply rc)"
  by (auto elim: open_commit top_up_commit close_commit)

context channel_store begin

lemma voucher_of_lookup:
  "voucher_of S st k = (case lookup st k of Some c \<Rightarrow> unat (cs_highest_voucher_amount c) | None \<Rightarrow> 0)"
  by (simp add: voucher_of_def get split: option.splits)

lemma committed:
  assumes "run_plan S (Inr (Commit k u ans)) st = (Inr rc, st')"
  obtains r where "u (lookup st k) = Inr r" and "lookup st' = (lookup st)(k := r)"
proof (cases "u (lookup st k)")
  case (Inl e)
  with assms show ?thesis by (simp add: update_err)
next
  case (Inr r)
  then obtain st1 where "update_channel S st k u = (Inr r, st1)" and "lookup st1 = (lookup st)(k := r)"
    by (rule update_okE)
  with assms Inr show ?thesis by (intro that [of r]) auto
qed

lemma open_refines:
  assumes "session_action X net now cfg S d (Open tx k signer amt sig) st = (Inr rc, st')"
  shows "ledger_step (observe (lookup st)) (request_events S (Open tx k signer amt sig) st st')
    (observe (lookup st'))"
proof -
  obtain p where p: "open_plan X net now cfg d tx k signer amt sig = Inr p"
    using assms by (cases "open_plan X net now cfg d tx k signer amt sig")
      (auto simp: session_action_def handle_open_def)
  then obtain c where c: "channel_ok X k c" "cs_spent c = 0" "\<not> cs_finalized c"
    and commit: "p = Commit k (open_updater c) (\<lambda>_. Inr (receipt_success X now METHOD_NAME tx))"
    by (rule open_commit)
  have "run_plan S (Inr p) st = (Inr rc, st')"
    using assms p by (simp add: session_action_def handle_open_def)
  then have "lookup st' = (lookup st)(k \<mapsto> c)"
    unfolding commit by (rule committed) (simp add: open_updater_def)
  with ledger_opens [OF c] show ?thesis by (simp add: voucher_of_lookup)
qed

lemma top_up_refines:
  assumes "session_action X net now cfg S d (TopUp tx k dep) st = (Inr rc, st')"
  shows "ledger_step (observe (lookup st)) [] (observe (lookup st'))"
proof -
  obtain p where p: "top_up_plan X net now cfg d tx k (Inr (lookup st k)) = Inr p"
    using assms by (cases "top_up_plan X net now cfg d tx k (Inr (lookup st k))")
      (auto simp: session_action_def handle_top_up_def get)
  then obtain c new where c: "lookup st k = Some c" "cs_deposit c < new"
    and commit: "p = Commit k (top_up_updater new) (\<lambda>_. Inr (receipt_success X now METHOD_NAME tx))"
    by (rule top_up_commit) simp
  have "run_plan S (Inr p) st = (Inr rc, st')"
    using assms p by (simp add: session_action_def handle_top_up_def get)
  then have "lookup st' = (lookup st)(k \<mapsto> c\<lparr>cs_deposit := new\<rparr>)"
    unfolding commit by (rule committed) (use c in \<open>simp add: top_up_updater_def channel_or_not_found_def\<close>)
  with ledger_tops_up [where channels = "lookup st", OF c] show ?thesis by simp
qed

lemma voucher_refines:
  assumes "store_ok X (lookup st)"
    and "session_action X net now cfg S d (Voucher k amt sig) st = (Inr rc, st')"
  shows "ledger_step (observe (lookup st)) (request_events S (Voucher k amt sig) st st')
    (observe (lookup st'))"
proof -
  obtain p where p: "voucher_plan X now cfg d k amt sig (Inr (lookup st k)) = Inr p"
    using assms(2) by (cases "voucher_plan X now cfg d k amt sig (Inr (lookup st k))")
      (auto simp: session_action_def handle_voucher_def get)
  have run: "run_plan S (Inr p) st = (Inr rc, st')"
    using assms(2) p by (simp add: session_action_def handle_voucher_def get)
  show ?thesis
  proof (cases p)
    case (Reply r)
    with p obtain c where c: "lookup st k = Some c" "\<not> cs_finalized c"
      by (auto elim: voucher_reply)
    with assms(1) have "cs_highest_voucher_amount c \<le> cs_deposit c"
      by (auto simp: store_ok_def channel_ok_def)
    then have "ac_paid (account_of c) + 0 \<le> ac_deposit (account_of c)"
      by (simp add: account_of_def word_le_nat_alt)
    from ledger_step.pays [of "observe (lookup st)" k, OF _ _ this]
    have "ledger_step (observe (lookup st)) [Collected k 0] (observe (lookup st))"
      using c observe_same [of "lookup st" k c] by (simp add: observe_def account_of_def)
    moreover have "st' = st" using run Reply by simp
    ultimately show ?thesis by simp
  next
    case (Commit j u ans)
    with p have "voucher_plan X now cfg d k amt sig (Inr (lookup st k)) = Inr (Commit j u ans)" by simp
    then obtain c n sb where c: "lookup st k = Some c" "\<not> cs_finalized c"
        "cs_highest_voucher_amount c < n" "n \<le> cs_deposit c"
      and ju: "j = k" "u = voucher_updater n sb"
      by (rule voucher_commit) simp
    have "lookup st' = (lookup st)(k \<mapsto> raise_voucher c n sb)"
      using run unfolding Commit ju
      by (rule committed)
        (use c in \<open>simp add: voucher_updater_def channel_or_not_found_def raise_voucher_def\<close>)
    with ledger_pays [where channels = "lookup st", OF c(1,2) less_imp_le [OF c(3)] c(4), of sb] c(1) show ?thesis
      by (simp add: voucher_of_lookup raise_voucher_def)
  qed
qed

lemma close_refines:
  assumes "session_action X net now cfg S d (Close k amt sig) st = (Inr rc, st')"
  shows "ledger_step (observe (lookup st)) (request_events S (Close k amt sig) st st')
    (observe (lookup st'))"
proof -
  obtain p where p: "close_plan X now k amt sig (Inr (lookup st k)) = Inr p"
    using assms by (cases "close_plan X now k amt sig (Inr (lookup st k))")
      (auto simp: session_action_def handle_close_def get)
  then obtain c n sb where c: "lookup st k = Some c" "\<not> cs_finalized c"
      "cs_highest_voucher_amount c \<le> n"
    and commit: "p = Commit k (close_updater n sb) (\<lambda>_. Inr (receipt_success X now METHOD_NAME k))"
    by (rule close_commit) simp
  have "run_plan S (Inr p) st = (Inr rc, st')"
    using assms p by (simp add: session_action_def handle_close_def get)
  then have "lookup st' = (lookup st)(k \<mapsto> (raise_voucher c n sb)\<lparr>cs_finalized := True\<rparr>)"
    unfolding commit by (rule committed) (use c in \<open>simp add: close_updater_def raise_voucher_def\<close>)
  with ledger_closes [where channels = "lookup st", OF c, of sb] c(1) show ?thesis
    by (simp add: voucher_of_lookup raise_voucher_def)
qed

lemma action_failed_keeps:
  assumes "session_action X net now cfg S d payload st = (Inl e, st')"
  shows "st' = st"
proof (cases "session_plan X net now cfg d payload (get_channel S st)")
  case (Inr p)
  show ?thesis
  proof (cases p)
    case (Commit k u ans)
    have run: "run_plan S (Inr (Commit k u ans)) st = (Inl e, st')"
      using assms Inr Commit by (simp add: session_action_plan)
    show ?thesis
    proof (cases "u (lookup st k)")
      case (Inl e')
      then show ?thesis using run by (simp add: update_err)
    next
      case Inr_u: (Inr r)
      then obtain st1 where "update_channel S st k u = (Inr r, st1)" by (rule update_okE)
      moreover have "is_ok (ans r)"
        using plan_answer_ok [OF Inr [unfolded Commit] Inr_u] .
      ultimately show ?thesis using run by (cases "ans r") auto
    qed
  qed (use assms Inr in \<open>simp add: session_action_plan\<close>)
qed (use assms in \<open>simp add: session_action_plan\<close>)

lemma request_refines:
  assumes "store_ok X (lookup st)" and "session_action X net now cfg S d payload st = (Inr rc, st')"
  shows "ledger_step (observe (lookup st)) (request_events S payload st st') (observe (lookup st'))"
  using assms open_refines top_up_refines voucher_refines close_refines
  by (cases payload) auto

lemma sale_refines:
  assumes "store_ok X (lookup st)" and "deduct_from_channel S k n st = (Inr c', st')"
  shows "ledger_step (observe (lookup st)) [Served k (unat n)] (observe (lookup st'))"
proof (cases "lookup st k")
  case None
  then show ?thesis using assms(2) by (simp add: deduct_missing)
next
  case (Some c)
  then have ok: "channel_ok X k c" using assms(1) by (simp add: store_ok_def)
  have le: "n \<le> saturating_sub (cs_highest_voucher_amount c) (cs_spent c)"
  proof (rule ccontr)
    assume "\<not> ?thesis"
    then obtain e where "deduct_from_channel S k n st = (Inl e, st)"
      using deduct_refused [OF Some] by (metis linorder_not_le)
    with assms(2) show False by simp
  qed
  obtain st1 where "lookup st1 = (lookup st)(k \<mapsto> c\<lparr>cs_spent := cs_spent c + n, cs_units := cs_units c + 1\<rparr>)"
    and "st1 = st'"
    using deduct_accepted [OF Some le] assms(2) by (metis prod.inject)
  with ledger_serves [where channels = "lookup st", OF Some ok le] show ?thesis by simp
qed

lemma sale_failed_keeps:
  assumes "deduct_from_channel S k n st = (Inl e, st')"
  shows "st' = st"
proof (cases "deduct_updater n (lookup st k)")
  case (Inl e')
  then show ?thesis using assms by (simp add: deduct_from_channel_def update_err)
next
  case (Inr r)
  then obtain st1 where "update_channel S st k (deduct_updater n) = (Inr r, st1)" by (rule update_okE)
  moreover obtain c where "r = Some c"
    using Inr by (auto simp: deduct_updater_def res_simps Let_def split: if_splits)
  ultimately show ?thesis using assms by (simp add: deduct_from_channel_def)
qed

lemma serve_refines:
  assumes "store_ok X (lookup st)" and "session_serves X cfg S st es st'"
  shows "ledger_step (observe (lookup st)) es (observe (lookup st'))"
proof -
  obtain i where i: "session_serve X cfg S i st = (es, st')" using assms(2) by (auto simp: session_serves_def)
  show ?thesis
  proof (cases i)
    case (Client_Request net now d payload)
    with i request_refines [OF assms(1)] show ?thesis
      by (auto split: prod.splits sum.splits intro: ledger_step.idle dest: action_failed_keeps)
  next
    case (Sale k n)
    with i sale_refines [OF assms(1)] show ?thesis
      by (auto split: prod.splits sum.splits intro: ledger_step.idle dest: sale_failed_keeps)
  qed
qed

lemma serve_keeps_ok:
  assumes "store_ok X (lookup st)" and "session_serves X cfg S st es st'"
  shows "store_ok X (lookup st')"
proof -
  obtain i where i: "session_serve X cfg S i st = (es, st')" using assms(2) by (auto simp: session_serves_def)
  show ?thesis
  proof (cases i)
    case (Client_Request net now d payload)
    with i session_action_ok [OF assms(1), of net now cfg d payload] show ?thesis
      by (auto split: prod.splits sum.splits)
  next
    case (Sale k n)
    with i deduct_ok [OF assms(1), of k n] show ?thesis
      by (auto split: prod.splits sum.splits)
  qed
qed

end

interpretation ledger: simulation
  "session_serves X cfg mem_channels" mem_store_new ledger_step Map.empty observe "store_ok X"
  for X cfg
  by unfold_locales
    (use mem.serve_refines [of X] mem.serve_keeps_ok [of X] in
      \<open>simp_all add: store_ok_def mem_store_new_def get_channel_sync_eq\<close>)

section \<open>What follows for the server\<close>

lemma session_runs:
  "session_run X cfg mem_channels is mem_store_new = (tr, st)
   \<Longrightarrow> runs (session_serves X cfg mem_channels) mem_store_new tr st"
  using run_is_runs [OF runs.runs_start] by fastforce

text \<open>
  C2: the session method implements the ledger. Whatever requests and deductions the server
  gets, with whatever payloads, clocks and answers of the chain, the events it shows are a trace
  of the ledger, which ends with the accounts read off the store: each accepted request is one
  allowed movement of one account, each refused one none.
\<close>

theorem session_refines_ledger:
  "runs ledger_step Map.empty (fst (session_run X cfg mem_channels is mem_store_new))
     (observe (snd (session_run X cfg mem_channels is mem_store_new)))"
  by (rule ledger.run_refines [OF session_runs]) simp

text \<open>
  C14: the server never hands out more than was signed for. In every run and for every channel, what
  was handed out and what is still to spend is at most what vouchers have been accepted for.
  (An opening that replaces a channel counts again: the same voucher can be collected twice.)
\<close>

theorem served_within_collected:
  "served k (fst (session_run X cfg mem_channels is mem_store_new))
     + balance (observe (snd (session_run X cfg mem_channels is mem_store_new))) k
   \<le> collected k (fst (session_run X cfg mem_channels is mem_store_new))"
  using ledger.run_keeps [where P = books_balance, OF session_runs books_balance_start books_balance_step,
      of X cfg "is" "fst (session_run X cfg mem_channels is mem_store_new)"
        "snd (session_run X cfg mem_channels is mem_store_new)"]
  by (simp add: books_balance_def)

text \<open>
  C6: the books are exact for a channel that is opened once: its highest voucher is what was
  collected, its spent amount what was handed out, to the unit and without wrap-around, however
  many vouchers, top-ups, deductions and other channels' requests there were in between.
\<close>

theorem opened_once_exact:
  assumes "session_run X cfg mem_channels is mem_store_new = (tr, st)" and "openings k tr \<le> 1"
    and "st k = Some c"
  shows "unat (cs_highest_voucher_amount c) = collected k tr \<and> unat (cs_spent c) = served k tr"
  using ledger.run_keeps [where P = "books_exact k", OF session_runs [OF assms(1)] books_exact_start
      books_exact_step] assms(2,3)
  by (auto simp: books_exact_def paid_on_def spent_on_def observe_def account_of_def)

definition sample_inputs :: "session_input list" where
  "sample_inputs =
     [Client_Request sample_net 0 sample_details
        (Open ''0x1'' sample_cid (Some sample_signer) (show_u64 50) (sample_sig 50)),
      Sale sample_cid 30, Sale sample_cid 30]"

lemma sample_opened_units [simp]: "cs_units (sample_opened cid) = 0"
  by (simp add: sample_opened_def opened_channel_def)

lemma sample_session_run:
  "session_run sample_world config_default mem_channels sample_inputs mem_store_new =
    ([Opened sample_cid 50, Served sample_cid 30],
     [sample_cid \<mapsto> (sample_opened sample_cid)\<lparr>cs_spent := 30, cs_units := 1\<rparr>])"
  by (simp add: sample_inputs_def session_action_def sample_handle_open sample_cid_decodes
      mem_store_new_def voucher_of_def mem_ops deduct_from_channel_def mem_update_channel_def
      deduct_updater_def saturating_sub_def)

theorem opened_once_exact_witness:
  "50 = collected sample_cid (fst (session_run sample_world config_default mem_channels sample_inputs
        mem_store_new))
   \<and> 30 = served sample_cid (fst (session_run sample_world config_default mem_channels sample_inputs
        mem_store_new))"
  using opened_once_exact [OF sample_session_run, of sample_cid] by (simp add: sample_session_run)

end
