(* ===== verification/Session_Growth.thy ===== *)
theory Session_Growth
  imports Session_Ledger "HOL-Library.Option_ord"
begin

text \<open>
  How an account moves. Accounts are ordered field by field, a closed account above an open one;
  \<open>None\<close>, no account, is below all. Between two openings an account only moves up in this order.
\<close>

instantiation account_ext :: (order) order
begin

definition less_eq_account_ext :: "'a account_scheme \<Rightarrow> 'a account_scheme \<Rightarrow> bool" where
  "a \<le> b \<longleftrightarrow> ac_deposit a \<le> ac_deposit b \<and> ac_paid a \<le> ac_paid b \<and> ac_spent a \<le> ac_spent b
     \<and> ac_closed a \<le> ac_closed b \<and> account.more a \<le> account.more b"

definition less_account_ext :: "'a account_scheme \<Rightarrow> 'a account_scheme \<Rightarrow> bool" where
  "a < b \<longleftrightarrow> a \<le> b \<and> \<not> b \<le> (a :: 'a account_scheme)"

instance
  by standard (auto simp: less_eq_account_ext_def less_account_ext_def intro: order_antisym)

end

lemma ledger_step_grows:
  "ledger_step L es L' \<Longrightarrow> openings k es = 0 \<Longrightarrow> L k \<le> L' k"
  by (erule ledger_stepE) (auto simp: less_eq_account_ext_def split: if_splits)

lemma ledger_grows_step:
  "openings k tr = 0 \<longrightarrow> a \<le> L k \<Longrightarrow> ledger_step L es L' \<Longrightarrow> openings k (tr @ es) = 0 \<longrightarrow> a \<le> L' k"
  using ledger_step_grows [of L es L' k] by (auto intro: order_trans)

text \<open>
  C7: an account only moves forward. Whatever requests and deductions follow in a run, unless one
  opens the channel again, its deposit, its highest voucher and its spent amount are never less
  than before, a closed channel stays closed, and none disappears.
\<close>

theorem accounts_only_grow:
  assumes "session_run X cfg mem_channels is mem_store_new = (tr, st)"
    and "session_run X cfg mem_channels js st = (tr', st')" and "openings k tr' = 0"
  shows "observe st k \<le> observe st' k"
proof -
  have "runs (session_serves X cfg mem_channels) st tr' st'"
    using run_is_runs [OF runs.runs_start assms(2)] by simp
  then have "openings k tr' = 0 \<longrightarrow> observe st k \<le> observe st' k"
    by (rule ledger.run_on_keeps [where P = "\<lambda>tr L. openings k tr = 0 \<longrightarrow> observe st k \<le> L k",
        OF ledger.run_invariant [OF session_runs [OF assms(1)]]]) (simp, erule (1) ledger_grows_step)
  with assms(3) show ?thesis by simp
qed

lemma sample_sale_again:
  "session_run sample_world config_default mem_channels [Sale sample_cid 20]
     [sample_cid \<mapsto> (sample_opened sample_cid)\<lparr>cs_spent := 30, cs_units := 1\<rparr>]
   = ([Served sample_cid 20], [sample_cid \<mapsto> (sample_opened sample_cid)\<lparr>cs_spent := 50, cs_units := 2\<rparr>])"
  by (simp add: mem_ops deduct_from_channel_def mem_update_channel_def deduct_updater_def saturating_sub_def)

theorem accounts_only_grow_witness:
  "\<lparr>ac_deposit = 100, ac_paid = 50, ac_spent = 30, ac_closed = False\<rparr>
   \<le> \<lparr>ac_deposit = 100, ac_paid = 50, ac_spent = 50, ac_closed = False\<rparr>"
  using accounts_only_grow [OF sample_session_run sample_sale_again, of sample_cid]
  by (simp add: observe_def account_of_def sample_opened_def opened_channel_def sample_on_chain_def)

end
