(* ===== verification/App_Setup.thy ===== *)
theory App_Setup
  imports Firecrawl_Proxy Pipeline Voice_Server Multifetch_Server Token_Client
begin

text \<open>
  How the example programs start (the \<open>main\<close> functions under examples/): what they read of the
  environment, the handler and the state they build of it, the routes they serve, how a wallet
  is funded, and the client programs around their payments. A missing variable that is
  required, and a builder that fails, are panics, \<open>None\<close>. The environment is a map, the random
  bytes are an argument. Sockets, CORS headers, timeouts and logging are left out.
\<close>

section \<open>The generated secret\<close>

definition secret_char :: "u8 \<Rightarrow> char" where
  "secret_char byte =
     (let idx = unat byte mod 62 in
      if idx \<le> 9 then char_of (48 + idx)
      else if idx \<le> 35 then char_of (97 + idx - 10)
      else char_of (65 + idx - 36))"

definition generated_secret :: "bytes \<Rightarrow> string" where
  "generated_secret random = map secret_char random"

section \<open>The two proxies\<close>

record proxy_env =
  px_recipient :: string
  px_secret_key :: string
  px_rest_url :: string
  px_bind_addr :: string
  px_cors_origin :: "string option"
  px_rate_limit :: u32

definition proxy_env_of ::
  "(string \<Rightarrow> string option) \<Rightarrow> bytes \<Rightarrow> string \<Rightarrow> u32 \<Rightarrow> proxy_env" where
  "proxy_env_of env random bind_addr rate_limit =
     \<lparr>px_recipient = unwrap_or ''0x74f1060add0c641a0c10bb5bab2bf5fd05f94d7c25055f2419fa82d7bbf2b1e8''
        (env ''RECIPIENT''),
      px_secret_key = unwrap_or (generated_secret random) (env ''MPP_SECRET_KEY''),
      px_rest_url = unwrap_or ''https://testnet.movementnetwork.xyz/v1'' (env ''MOVEMENT_REST_URL''),
      px_bind_addr = unwrap_or bind_addr (env ''BIND_ADDR''),
      px_cors_origin = env ''CORS_ORIGIN'',
      px_rate_limit = unwrap_or rate_limit
        (map_option of_nat (Option.bind (env ''RATE_LIMIT_PER_MINUTE'') parse_u32))\<rparr>"

definition proxy_mpp ::
  "crates \<Rightarrow> network \<Rightarrow> (string \<Rightarrow> string option) \<Rightarrow> proxy_env \<Rightarrow> unit mpp option" where
  "proxy_mpp X net env pe =
     ok_opt (create_movement X net env
       (builder_decimals 8 (builder_secret_key (px_secret_key pe)
         (builder_rest_url (px_rest_url pe) (movement_builder_new env (px_recipient pe))))))"

text \<open>An origin that is no header value (\<open>is_value\<close>) is a panic too.\<close>

definition cors_starts :: "(string \<Rightarrow> bool) \<Rightarrow> proxy_env \<Rightarrow> unit option" where
  "cors_starts is_value pe =
     (case px_cors_origin pe of None \<Rightarrow> Some () | Some origin \<Rightarrow> if is_value origin then Some () else None)"

definition firecrawl_main ::
  "crates \<Rightarrow> (string \<Rightarrow> bool) \<Rightarrow> network \<Rightarrow> (string \<Rightarrow> string option) \<Rightarrow> bytes \<Rightarrow> (unit mpp \<times> firecrawl_state) option" where
  "firecrawl_main X is_value net env random =
     Option.bind (env ''FIRECRAWL_API_KEY'') (\<lambda>api_key.
     let pe = proxy_env_of env random ''0.0.0.0:3010'' 30 in
     Option.bind (proxy_mpp X net env pe) (\<lambda>m.
     Option.bind (cors_starts is_value pe) (\<lambda>_.
     Some (m, \<lparr>fc_api_key = api_key, fc_rate_limiter = rate_limiter_new (px_rate_limit pe) 60\<rparr>))))"

definition firecrawl_router :: "(string \<times> string) list" where
  "firecrawl_router =
     [(''GET'', ''/api/services''), (''GET'', ''/api/llms.txt''), (''GET'', ''/api/health''),
      (''POST'', ''/api/scrape''), (''POST'', ''/api/crawl'')]"

definition pipeline_main ::
  "crates \<Rightarrow> (string \<Rightarrow> bool) \<Rightarrow> network \<Rightarrow> (string \<Rightarrow> string option) \<Rightarrow> bytes
   \<Rightarrow> (unit mpp \<times> pipeline_config \<times> rate_limiter) option" where
  "pipeline_main X is_value net env random =
     Option.bind (env ''EXA_API_KEY'') (\<lambda>exa.
     Option.bind (env ''FAL_API_KEY'') (\<lambda>fal.
     Option.bind (env ''RESEND_API_KEY'') (\<lambda>resend.
     let pe = proxy_env_of env random ''0.0.0.0:3020'' 20 in
     Option.bind (proxy_mpp X net env pe) (\<lambda>m.
     Option.bind (cors_starts is_value pe) (\<lambda>_.
     Some (m, \<lparr>pl_exa_api_key = exa, pl_fal_api_key = fal, pl_resend_api_key = resend,
         pl_from_email = unwrap_or ''MPP Search <onboarding@resend.dev>'' (env ''FROM_EMAIL'')\<rparr>,
       rate_limiter_new (px_rate_limit pe) 60))))))"

definition pipeline_router :: "(string \<times> string) list" where
  "pipeline_router =
     [(''GET'', ''/api/services''), (''GET'', ''/api/llms.txt''), (''GET'', ''/api/health''),
      (''POST'', ''/api/run'')]"

section \<open>The voice server\<close>

definition VOICE_MODULE :: string where
  "VOICE_MODULE = ''0x74f1060add0c641a0c10bb5bab2bf5fd05f94d7c25055f2419fa82d7bbf2b1e8''"

definition voice_main ::
  "crates \<Rightarrow> network \<Rightarrow> (string \<Rightarrow> string option) \<Rightarrow> (unit mpp \<times> voice_config \<times> voice_state) option" where
  "voice_main X net env =
     Option.bind (env ''SECRET_KEY'') (\<lambda>secret_key.
     let module_address = unwrap_or VOICE_MODULE (env ''MODULE_ADDRESS'');
         rest_url = unwrap_or DEFAULT_REST_URL_TESTNET (env ''REST_URL'') in
     Option.bind (ok_opt (create_movement X net env
       (builder_decimals 8 (builder_secret_key secret_key
         (builder_rest_url rest_url (movement_builder_new env ''0x0'')))))) (\<lambda>m.
     Some (m, \<lparr>vc_module_address = module_address, vc_secret_key = secret_key\<rparr>, voice_start)))"

text \<open>The origins of the list that are header values; no list allows any origin.\<close>

definition voice_origins :: "(string \<Rightarrow> bool) \<Rightarrow> (string \<Rightarrow> string option) \<Rightarrow> string list option" where
  "voice_origins is_value env =
     map_option (\<lambda>origins. filter is_value (map str_trim (split_on CHR '','' origins))) (env ''ALLOWED_ORIGINS'')"

definition voice_router :: "(string \<times> string) list" where
  "voice_router =
     [(''GET'', ''/health''), (''POST'', ''/api/host/go-live''), (''DELETE'', ''/api/host/go-live''),
      (''GET'', ''/api/host/poll''), (''GET'', ''/api/hosts''), (''POST'', ''/api/call/start''),
      (''GET'', ''/ws/signal/{call_id}''), (''POST'', ''/api/call/hangup'')]"

section \<open>The servers with a wallet\<close>

definition FAUCET_URL :: string where "FAUCET_URL = ''https://faucet.testnet.movementnetwork.xyz''"

text \<open>The faucet and the migration; the bodiless request is a post of \<open>JNull\<close>.\<close>

definition fund_wallet :: "crates \<Rightarrow> network \<Rightarrow> int \<Rightarrow> movement_provider \<Rightarrow> unit option" where
  "fund_wallet X net now p =
     (case http_post net (FAUCET_URL @ ''/mint?amount=100000000&address='' @ mv_sender_address p) JNull of
        Transport_Error e \<Rightarrow> None
      | Response status text \<Rightarrow>
          if is_success_status status
          then map_option (\<lambda>_. ()) (ok_opt (provider_submit X net now p migrate_payload))
          else None)"

definition token_main ::
  "crates \<Rightarrow> network \<Rightarrow> int \<Rightarrow> (string \<Rightarrow> string option) \<Rightarrow> bytes \<Rightarrow> (unit mpp \<times> token_config \<times> sessions) option" where
  "token_main X net now env key =
     (let p = movement_provider_new X key DEFAULT_REST_URL_TESTNET;
          token_metadata = unwrap_or MOVE_TOKEN_METADATA (env ''TOKEN_METADATA'');
          price_per_token = unwrap_or 1000 (Option.bind (env ''PRICE_PER_TOKEN'') parse_u64);
          suggested_deposit = unwrap_or 100000 (Option.bind (env ''SUGGESTED_DEPOSIT'') parse_u64) in
      Option.bind (fund_wallet X net now p) (\<lambda>_.
      Option.bind (ok_opt (create_movement X net env
        (builder_decimals 8 (builder_secret_key (unwrap_or ''sse-example-secret'' (env ''MPP_SECRET_KEY''))
          (builder_currency token_metadata
            (builder_rest_url DEFAULT_REST_URL_TESTNET (movement_builder_new env (mv_sender_address p)))))))) (\<lambda>m.
      Some (m, \<lparr>tk_server_address = mv_sender_address p, tk_token_metadata = token_metadata,
          tk_price_per_token = price_per_token, tk_suggested_deposit = suggested_deposit, tk_provider = p\<rparr>,
        Map.empty))))"

definition multifetch_main ::
  "crates \<Rightarrow> network \<Rightarrow> int \<Rightarrow> (string \<Rightarrow> string option) \<Rightarrow> bytes
   \<Rightarrow> (mem_store mpp \<times> movement_provider \<times> mem_store) option" where
  "multifetch_main X net now env key =
     (let p = movement_provider_new X key DEFAULT_REST_URL_TESTNET in
      Option.bind (fund_wallet X net now p) (\<lambda>_.
      Option.bind (ok_opt (multifetch_mpp X net env (mv_sender_address p))) (\<lambda>m.
      Some (m, p, mem_store_new))))"

definition fortune_main ::
  "crates \<Rightarrow> network \<Rightarrow> (string \<Rightarrow> string option) \<Rightarrow> unit mpp option" where
  "fortune_main X net env =
     ok_opt (create_movement X net env
       (builder_decimals 8 (builder_secret_key (unwrap_or ''movement-example-secret'' (env ''MPP_SECRET_KEY''))
         (builder_rest_url ''https://testnet.movementnetwork.xyz/v1'' (movement_builder_new env
           (unwrap_or ''0x74f1060add0c641a0c10bb5bab2bf5fd05f94d7c25055f2419fa82d7bbf2b1e8''
             (env ''RECIPIENT'')))))))"

section \<open>The clients\<close>

text \<open>What the payment client reports: the status, the receipt if the response carries one that is
  text and parses, as its status, method and reference, and the fortune, the JSON or the text of
  the body.\<close>

record client_report =
  pr_status :: nat
  pr_receipt :: "(bool \<times> string \<times> string) option"
  pr_text :: string

definition report_receipt :: "crates \<Rightarrow> (string \<Rightarrow> bool) \<Rightarrow> http_response \<Rightarrow> (bool \<times> string \<times> string) option" where
  "report_receipt X is_text resp =
     Option.bind (header_get ''payment-receipt'' (hr_headers resp)) (\<lambda>h.
     if \<not> is_text h then None
     else map_option (\<lambda>r. (receipt_is_success r, method_as_str (rc_method r), rc_reference r))
       (ok_opt (parse_receipt X h)))"

definition report_text :: "crates \<Rightarrow> string \<Rightarrow> string" where
  "report_text X body =
     (case json_from_slice X (as_bytes body) of
        Inr j \<Rightarrow>
          (case get_str ''fortune'' j of
             Some told \<Rightarrow> ''Fortune: '' @ told
           | None \<Rightarrow> ''Response: '' @ json_text X j)
      | Inl e \<Rightarrow> ''Response: '' @ body)"

definition payment_client ::
  "crates \<Rightarrow> 'w http_client \<Rightarrow> 'w payment_provider \<Rightarrow> http_request \<Rightarrow> 'w \<Rightarrow> client_report option \<times> 'w" where
  "payment_client X H P req w =
     (case send_with_payment X H P req w of
        (Inl e, w') \<Rightarrow> (None, w')
      | (Inr resp, w') \<Rightarrow>
          (Some \<lparr>pr_status = hr_status resp, pr_receipt = report_receipt X (hc_is_text H) resp,
             pr_text = report_text X (hr_body resp)\<rparr>, w'))"

text \<open>The multi-fetch client: the pages, and if all came, the close of the channel that the map of
  channels yields first. \<open>provider_of\<close> reads the provider out of the world and \<open>close\<close> asks the
  server; the outcome is the answer to the close, if there was a channel, and the amount paid.\<close>

definition multifetch_provider :: "crates \<Rightarrow> bytes \<Rightarrow> session_provider" where
  "multifetch_provider X key = with_max_deposit 1000000 (session_provider_new X key DEFAULT_REST_URL_TESTNET)"

definition multifetch_client ::
  "crates \<Rightarrow> 'w http_client \<Rightarrow> 'w payment_provider \<Rightarrow> ((string \<rightharpoonup> channel_entry) \<Rightarrow> channel_entry option)
   \<Rightarrow> ('w \<Rightarrow> session_provider) \<Rightarrow> (string \<Rightarrow> 'w \<Rightarrow> json option \<times> 'w) \<Rightarrow> (string \<Rightarrow> http_request) \<Rightarrow> 'w
   \<Rightarrow> (json option \<times> u64) option option \<times> 'w" where
  "multifetch_client X H P pick provider_of close request_of w =
     (case scrape_pages X H P request_of page_urls w of
        (None, w') \<Rightarrow> (None, w')
      | (Some False, w') \<Rightarrow> (Some None, w')
      | (Some True, w') \<Rightarrow>
          (case pick (sp_channels (provider_of w')) of
             None \<Rightarrow> (Some (Some (None, cumulative pick (provider_of w'))), w')
           | Some entry \<Rightarrow>
               (case close (''0x'' @ hex_encode X (ce_channel_id entry)) w' of
                  (None, w'') \<Rightarrow> (None, w'')
                | (Some body, w'') \<Rightarrow> (Some (Some (Some body, cumulative pick (provider_of w''))), w''))))"

section \<open>When a proxy starts\<close>

lemma secret_char_no_blank: "\<not> is_whitespace (secret_char b)"
proof -
  define idx where "idx = unat b mod 62"
  have "idx < 62" by (simp add: idx_def)
  then have "(of_char (secret_char b) :: nat) = (if idx \<le> 9 then 48 + idx else if idx \<le> 35 then 87 + idx else 29 + idx)"
    by (simp add: secret_char_def Let_def idx_def [symmetric])
  then have "32 < (of_char (secret_char b) :: nat) \<and> (of_char (secret_char b) :: nat) < 128"
    using \<open>idx < 62\<close> by simp
  then show ?thesis by (auto simp: is_whitespace_def)
qed

lemma generated_secret_trim: "str_trim (generated_secret random) = generated_secret random"
  by (rule str_trim_id) (simp add: generated_secret_def list_all_iff secret_char_no_blank)

lemma proxy_mpp_Some:
  "proxy_mpp X net env pe \<noteq> None \<longleftrightarrow> str_trim (px_secret_key pe) \<noteq> []"
  by (auto simp: proxy_mpp_def create_movement_def builder_decimals_def builder_secret_key_def
      builder_rest_url_def Let_def)

text \<open>
  The proxy gets as far as its sockets exactly when the key of the upstream service is set, the
  origin to allow is a header value if it is set, and the secret is not a blank text: a secret that is not set is replaced by a random one, which is usable; one that is
  set to the empty text is taken as it is, and the program panics.
\<close>

theorem firecrawl_starts_iff:
  "firecrawl_main X is_value net env random \<noteq> None \<longleftrightarrow>
   env ''FIRECRAWL_API_KEY'' \<noteq> None
   \<and> (case env ''CORS_ORIGIN'' of None \<Rightarrow> True | Some origin \<Rightarrow> is_value origin)
   \<and> (case env ''MPP_SECRET_KEY'' of None \<Rightarrow> random \<noteq> [] | Some key \<Rightarrow> str_trim key \<noteq> [])"
proof -
  let ?pe = "proxy_env_of env random ''0.0.0.0:3010'' 30"
  have started: "firecrawl_main X is_value net env random \<noteq> None
    \<longleftrightarrow> env ''FIRECRAWL_API_KEY'' \<noteq> None
      \<and> (case env ''CORS_ORIGIN'' of None \<Rightarrow> True | Some origin \<Rightarrow> is_value origin)
      \<and> proxy_mpp X net env ?pe \<noteq> None"
    by (auto simp: firecrawl_main_def Let_def cors_starts_def proxy_env_of_def
        split: Option.bind_splits option.splits if_splits)
  have key: "px_secret_key ?pe = unwrap_or (generated_secret random) (env ''MPP_SECRET_KEY'')"
    by (simp add: proxy_env_of_def)
  have "generated_secret random = [] \<longleftrightarrow> random = []" by (simp add: generated_secret_def)
  then show ?thesis
    unfolding started proxy_mpp_Some key
    by (cases "env ''MPP_SECRET_KEY''") (simp_all add: generated_secret_trim)
qed

text \<open>
  Nothing that discovery advertises is served. No route of the two proxies is one that the
  library's own matching finds in the configuration their discovery publishes.
\<close>

theorem advertised_not_served:
  "list_all (\<lambda>(method, path). proxy_match_route firecrawl_proxy_config method path = None) firecrawl_router"
  "list_all (\<lambda>(method, path). proxy_match_route pipeline_proxy_config method path = None) pipeline_router"
  by code_simp+

end
