(* ===== verification/Spec2Isabelle.thy ===== *)
theory Spec2Isabelle
  imports Header_Roundtrip Session_Races Charge_Claims Server_Claims Client_Claims Fetch_Claims Session_Close
    Proxy_Claims Sse_Claims Kv_Claims Mcp_Claims Expiry_Claims Convenience
    Apps_Claims Multifetch_Claims Multifetch_Pages Token_Claims Token_Round Voice_Claims Example_Claims
    Session_Growth App_Setup
begin

text \<open>
  A verification development for the Rust crate \<open>mpp\<close> (src/): the Machine Payment Protocol,
  HTTP 402 with payments on the Movement chain. A server answers a request with a challenge; the
  client pays on chain, or signs a voucher for a payment channel, and sends the request again
  with a credential that echoes the challenge; the server recognizes its challenge by an HMAC,
  asks the chain or its channel store, and answers with a receipt.

  \<^bold>\<open>Ground.\<close>
  \<^item> Prelude, Rust_Str, Json: results as sums, machine integers at their width, the character
    classes and string functions the code calls, \<open>serde_json::Value\<close> and derived
    deserialization.
  \<^item> Crates: the linked crates as one record of functions (hashes, ed25519, hex, base64, JSON text,
    times). The laws the theorems use are its predicates \<open>hex_ok\<close>, \<open>b64url_ok\<close> and
    \<open>ed25519_ok\<close>, and, per document, that its text reads back. Sample_Crates satisfies them, and
    Sample_Json has a text for every JSON value.
  \<^item> Http: what a REST node answers. A \<open>network\<close> is a function from requests to answers, so a theorem holds for every chain and every node, honest or not.

  \<^bold>\<open>Protocol core\<close> (src/src/protocol/core, error.rs, protocol/traits).
  \<^item> Errors: \<open>mpp_error\<close>, \<open>verification_error\<close>, problem documents.
  \<^item> Core_Types, Challenge, Envelope_Json: names, challenges, credentials, receipts, the HMAC
    identifier, expiry, validation and JSON forms. The identifier pins every field it covers.
  \<^item> Headers, Header_Roundtrip: the three payment headers; parsing inverts formatting, a parsed
    challenge is well formed, no header carries a line break. The parameter loop is a
    \<open>function\<close> whose measure is the length of the rest.
  \<^item> Amounts, Intents (server/amount.rs, protocol/intents): decimal amounts on \<open>u128\<close> with each
    overflow an error, charge and session requests. Convenience: error constructors, header
    methods, the generic request helpers (protocol/intents/payment_request.rs).

  \<^bold>\<open>Movement method, server side\<close> (src/src/protocol/methods/movement).
  \<^item> Voucher: BCS bytes, channel identifiers, signatures.
  \<^item> Channel_Store: the channel record, the store trait as the locale \<open>channel_store\<close>, its
    interpretation on the in-memory store, deductions.
  \<^item> Session_Method: open, top-up, voucher and close. Each handler is what it reads, then one
    atomic update of the store (a \<open>plan\<close>), as the code locks the store only for the update.
  \<^item> Session_Safety, Session_Claims: the invariant of reachable stores (spent within the voucher,
    voucher within the deposit and signed), what each request accepts, monotonicity; and the
    replays and spellings the code admits.
  \<^item> Session_Races: requests as pairs of a read and a commit, interleaved by an inductive step
    relation; the invariant that survives, and the lost voucher of a racing close.
  \<^item> Trace_Refinement, Session_Ledger, Session_Growth: the abstract contract of the session method, a ledger of
    accounts (deposit, paid, spent, closed) that moves by allowed steps; every run of requests
    and deductions is a run of the ledger, over any store that meets the locale
    \<open>channel_store\<close>, so per channel no more is handed out than was collected, and a channel
    opened once is booked exactly; between openings an account only moves up.
  \<^item> Charge_Method, Charge_Claims: which transactions, events and payloads count as a payment.

  \<^bold>\<open>Server\<close> (src/src/server).
  \<^item> Mpp_Server, Gate: issuing and verifying challenges, builder and realm detection, the axum
    extractor and the tower layer.
  \<^item> Server_Claims: a challenge that was issued is honoured; exactly which headers are admitted.
  \<^item> Sse, Sse_Claims: server-sent events, their round trip, and what line breaks do to it.

  \<^bold>\<open>Client\<close> (src/src/client).
  \<^item> Rest_Client, Client_Movement, Client_Session: building, signing, submitting and awaiting
    transactions; the charge provider; the session provider with its table of channels.
  \<^item> Client_Claims: what the client submits is what the server looks for; a paid voucher keeps
    client and server in step.
  \<^item> Session_Round: the whole life of a channel, client and server run against each other: after
    the opening, no payment is refused as long as the prices fit the deposit.
  \<^item> Session_Close: the client's close is accepted and settles the amount paid; afterwards the
    client keeps paying with the closed channel, and nothing it sends is accepted.
  \<^item> Client_Http, Fetch_Claims: providers over a world, the request extension and the middleware.
    A request is paid for at most once; both integrations do the same; a request through
    client, provider and gated server ends with the paid response.

  \<^bold>\<open>Beside the protocol.\<close>
  \<^item> Proxy, Proxy_Claims (proxy/): route patterns, routing and discovery of the API proxy.
  \<^item> Kv_Store, Kv_Claims (store.rs): the store interface as the locale \<open>kv_store\<close>, interpreted on
    the memory store and the file store; both are maps, up to the file names of keys.
  \<^item> Mcp, Mcp_Claims (mcp.rs): payments in JSON-RPC metadata, a panic being \<open>None\<close>.
  \<^item> Body_Expires, Expiry_Claims (body_digest.rs, expires.rs): digests, and expiry times at the
    width of \<open>i64\<close>.

  \<^bold>\<open>Applications\<close> (src/examples), which sell something for what the library verifies.
  \<^item> Rate_Limiter: the two request limiters, as instances of the locale \<open>window_limiter\<close>, which
    bounds what any sequence of requests and cleanups admits. App_Http: JSON answers, a route
    behind a charge, upstream calls.
  \<^item> Firecrawl_Proxy (firecrawl-proxy), Pipeline (search-image-email), Apps_Claims: the proxy
    with its URL filter, and the pipeline of three services with its retries, result parsing and
    e-mail; what a paid request gets, which addresses are blocked, what the answer reports.
  \<^item> Multifetch_Server, Multifetch_Claims, Multifetch_Round (rust/src/multifetch_server.rs): a page
    per accepted voucher, whatever its amount; and a page through the whole of client, headers,
    server and session method, where the opening request pays for a page it does not get.
    Multifetch_Pages: the whole loop of the client over a channel with room for its pages.
  \<^item> Token_Server, Token_Claims (rust/src/sse_server.rs): the pay-per-token server with the tasks
    it starts, as an inductive step relation; its sessions only ever hold amounts their key
    signed, and what it does not check.
  \<^item> Voice_Server, Voice_Claims (voice-call/server): hosts, calls, wallet signatures, socket
    tokens, sweeps; when a host has one call at most, and the requests that break it.
  \<^item> Example_Scripts, Example_Claims (rust/src): the fortune server, the page loop, and how a client
    reads the token stream.
  \<^item> Token_Client, Token_Round (rust/src/sse_client.rs): the token client from its first request
    to its summary, run against the token server: what a deposit would buy, and why it buys
    nothing.
  \<^item> App_Setup: the \<open>main\<close> functions of the servers and of the other two clients.

  \<^bold>\<open>Conventions and bounds.\<close> A result is \<open>Inl\<close> error or \<open>Inr\<close> value; \<open>?\<close> is \<open>and_then\<close>. Asynchronous
  calls are functions of the state they see; where the interleaving matters the steps are
  explicit (Session_Races). Text is ASCII: one \<open>char\<close> is one byte. Integer arithmetic that the
  code does not check wraps as in a release build. Every loop of the
  library is a structural recursion or a \<open>function\<close> with its measure, so there is no fuel; the
  voucher loop of the token client, which need not end, is a \<open>partial_function\<close>. Waiting for a
  transaction is one request to the node. A clock is an argument, in nanoseconds. The order in
  which a hash table is iterated is an argument too.

  \<^bold>\<open>Not modelled.\<close> The crates and the web frameworks (axum, tower, reqwest) beyond the calls the
  code makes of them; JSON texts that repeat a key in an object, and structs given as JSON
  arrays; builders' \<open>Debug\<close> forms and re-exports; sockets, CORS headers, body
  limits, timeouts, sleeps and log lines of the example programs, and the text their clients
  print; the fuzz targets and the integration test, which only call the
  library; the TypeScript client, which is another program.
\<close>

end
